(* ===== verification/Prelude.thy ===== *)
theory Prelude
  imports Main "HOL-Library.List_Lexorder" "HOL-Library.Char_ord"
begin

text \<open>
  What the components share: the exception-and-state computations every async method of
  the code is translated to, their loops, and a few facts about lists.

  A method body is a \<^typ>\<open>'s\<close>-computation: it takes the state, and returns either the
  raised exception (\<open>Inl\<close>) or the result (\<open>Inr\<close>) together with the state it leaves
  behind.  As in Python, the effects made before an exception stay.
\<close>

named_theorems monad_simps \<open>unfolding the computations\<close>
named_theorems result_iff \<open>when a computation returns normally\<close>

type_synonym ('e, 's, 'a) comp = "'s \<Rightarrow> ('e + 'a) \<times> 's"

definition returnM :: "'a \<Rightarrow> ('e, 's, 'a) comp" where
  "returnM x s = (Inr x, s)"

definition raiseM :: "'e \<Rightarrow> ('e, 's, 'a) comp" where
  "raiseM e s = (Inl e, s)"

definition bindM :: "('e, 's, 'a) comp \<Rightarrow> ('a \<Rightarrow> ('e, 's, 'b) comp) \<Rightarrow> ('e, 's, 'b) comp" where
  "bindM m f s = (case m s of (Inl e, s') \<Rightarrow> (Inl e, s') | (Inr x, s') \<Rightarrow> f x s')"

definition tryM :: "('e, 's, 'a) comp \<Rightarrow> ('e \<Rightarrow> ('e, 's, 'a) comp) \<Rightarrow> ('e, 's, 'a) comp" where
  \<comment> \<open>\<^verbatim>\<open>try: m except Exception as e: h e\<close>\<close>
  "tryM m h s = (case m s of (Inl e, s') \<Rightarrow> h e s' | (Inr x, s') \<Rightarrow> (Inr x, s'))"

definition getM :: "('s \<Rightarrow> 'a) \<Rightarrow> ('e, 's, 'a) comp" where
  "getM f s = (Inr (f s), s)"

definition modifyM :: "('s \<Rightarrow> 's) \<Rightarrow> ('e, 's, unit) comp" where
  "modifyM f s = (Inr (), f s)"

definition liftM :: "'e + 'a \<Rightarrow> ('e, 's, 'a) comp" where
  \<comment> \<open>a pure function that may raise\<close>
  "liftM r s = (r, s)"

text \<open>\<^verbatim>\<open>for x in xs: out.append(f(x))\<close>; the first exception leaves the loop.\<close>

fun forM :: "'a list \<Rightarrow> ('a \<Rightarrow> ('e, 's, 'b) comp) \<Rightarrow> ('e, 's, 'b list) comp" where
  "forM [] f s = (Inr [], s)"
| "forM (x # xs) f s = bindM (f x) (\<lambda>y. bindM (forM xs f) (\<lambda>ys. returnM (y # ys))) s"

fun mapE :: "('a \<Rightarrow> 'e + 'b) \<Rightarrow> 'a list \<Rightarrow> 'e + 'b list" where
  "mapE f [] = Inr []"
| "mapE f (x # xs) = (case f x of Inl e \<Rightarrow> Inl e
     | Inr y \<Rightarrow> (case mapE f xs of Inl e \<Rightarrow> Inl e | Inr ys \<Rightarrow> Inr (y # ys)))"

definition bindE :: "'e + 'a \<Rightarrow> ('a \<Rightarrow> 'e + 'b) \<Rightarrow> 'e + 'b" where
  "bindE r f = (case r of Inl e \<Rightarrow> Inl e | Inr x \<Rightarrow> f x)"

subsection \<open>Laws of the computations\<close>

declare returnM_def [monad_simps] raiseM_def [monad_simps] getM_def [monad_simps]
  modifyM_def [monad_simps] liftM_def [monad_simps]

lemma bindE_simps [simp]: "bindE (Inl e) f = Inl e" "bindE (Inr x) f = f x"
  by (simp_all add: bindE_def)

lemma bindE_Inr_iff [result_iff]: "bindE r f = Inr y \<longleftrightarrow> (\<exists>x. r = Inr x \<and> f x = Inr y)"
  by (cases r) auto

lemma bindM_ok: "m s = (Inr x, s') \<Longrightarrow> bindM m f s = f x s'"
  by (simp add: bindM_def)

lemma bindM_err: "m s = (Inl e, s') \<Longrightarrow> bindM m f s = (Inl e, s')"
  by (simp add: bindM_def)

lemma tryM_ok: "m s = (Inr x, s') \<Longrightarrow> tryM m h s = (Inr x, s')"
  by (simp add: tryM_def)

lemma tryM_err: "m s = (Inl e, s') \<Longrightarrow> tryM m h s = h e s'"
  by (simp add: tryM_def)

lemma bindM_simps [simp]:
  "bindM (returnM x) f s = f x s"
  "bindM (raiseM e) f s = (Inl e, s)"
  "bindM (getM g) f s = f (g s) s"
  "bindM (modifyM h) k s = k () (h s)"
  "bindM (liftM (Inl e)) f s = (Inl e, s)"
  "bindM (liftM (Inr x)) f s = f x s"
  by (simp_all add: bindM_def monad_simps)

lemma bindM_assoc: "bindM (bindM m f) g = bindM m (\<lambda>x. bindM (f x) g)"
  by (rule ext) (simp add: bindM_def split: prod.splits sum.splits)

lemma bindM_Inr_iff [result_iff]:
  "bindM m f s = (Inr y, t) \<longleftrightarrow> (\<exists>x s'. m s = (Inr x, s') \<and> f x s' = (Inr y, t))"
  by (auto simp: bindM_def split: prod.splits sum.splits)

lemma bindM_Inl_iff:
  "bindM m f s = (Inl e, t) \<longleftrightarrow>
     m s = (Inl e, t) \<or> (\<exists>x s'. m s = (Inr x, s') \<and> f x s' = (Inl e, t))"
  by (auto simp: bindM_def split: prod.splits sum.splits)

text \<open>
  A property of the state that a computation keeps whatever it returns; the loops and the
  sequencing keep what their bodies keep.
\<close>

definition keeps :: "('s \<Rightarrow> bool) \<Rightarrow> ('e, 's, 'a) comp \<Rightarrow> bool" where
  "keeps P m \<longleftrightarrow> (\<forall>s. P s \<longrightarrow> P (snd (m s)))"

named_theorems keeps_intro \<open>computations that keep a property of the state\<close>

lemma keepsI: "(\<And>s. P s \<Longrightarrow> P (snd (m s))) \<Longrightarrow> keeps P m"
  by (simp add: keeps_def)

lemma keepsD: "keeps P m \<Longrightarrow> P s \<Longrightarrow> P (snd (m s))"
  by (simp add: keeps_def)

lemma keepsD_eq: "keeps P m \<Longrightarrow> P s \<Longrightarrow> m s = (r, t) \<Longrightarrow> P t"
  using keepsD [of P m s] by simp

lemma keeps_pure [keeps_intro]:
  "keeps P (returnM x)" "keeps P (raiseM e)" "keeps P (getM f)" "keeps P (liftM r)"
  by (simp_all add: keeps_def monad_simps)

lemma keeps_bindM [keeps_intro]:
  "keeps P m \<Longrightarrow> (\<And>x. keeps P (f x)) \<Longrightarrow> keeps P (bindM m f)"
  unfolding keeps_def bindM_def by (fastforce split: prod.splits sum.splits)

lemma keeps_tryM [keeps_intro]:
  "keeps P m \<Longrightarrow> (\<And>e. keeps P (h e)) \<Longrightarrow> keeps P (tryM m h)"
  unfolding keeps_def tryM_def by (fastforce split: prod.splits sum.splits)

lemma keeps_modifyM: "(\<And>s. P s \<Longrightarrow> P (f s)) \<Longrightarrow> keeps P (modifyM f)"
  by (simp add: keeps_def modifyM_def)

lemma forM_Inr_Ball:
  assumes "forM xs f s = (Inr ys, s')" "\<And>x s y s'. f x s = (Inr y, s') \<Longrightarrow> P y"
  shows "\<forall>y \<in> set ys. P y"
  using assms(1)
proof (induction xs arbitrary: s ys)
  case (Cons x xs)
  then show ?case using assms(2) by (auto simp: result_iff monad_simps)
qed simp

lemma forM_length: "forM xs f s = (Inr ys, s') \<Longrightarrow> length ys = length xs"
  by (induction xs arbitrary: s ys) (auto simp: result_iff monad_simps)

lemma keeps_forM [keeps_intro]: "(\<And>x. x \<in> set xs \<Longrightarrow> keeps P (f x)) \<Longrightarrow> keeps P (forM xs f)"
proof (induction xs)
  case Nil
  show ?case by (simp add: keeps_def)
next
  case (Cons x xs)
  have "forM (x # xs) f = bindM (f x) (\<lambda>y. bindM (forM xs f) (\<lambda>ys. returnM (y # ys)))"
    by (rule ext) simp
  then show ?case
    using Cons by (auto intro!: keeps_intro)
qed

lemma keeps_if [keeps_intro]: "keeps P m \<Longrightarrow> keeps P n \<Longrightarrow> keeps P (if b then m else n)"
  by simp

lemma keeps_case_option [keeps_intro]:
  "keeps P m \<Longrightarrow> (\<And>x. keeps P (f x)) \<Longrightarrow> keeps P (case r of None \<Rightarrow> m | Some x \<Rightarrow> f x)"
  by (simp split: option.split)

lemma keeps_case_list [keeps_intro]:
  "keeps P m \<Longrightarrow> (\<And>x xs. keeps P (f x xs)) \<Longrightarrow> keeps P (case r of [] \<Rightarrow> m | x # xs \<Rightarrow> f x xs)"
  by (simp split: list.split)

text \<open>
  A computation that keeps an invariant and, where it holds, leaves a view of the state as it
  is, whatever it returns.
\<close>

named_theorems quiet_intro \<open>computations that leave a view of the state alone\<close>

definition undisturbed :: "('s \<Rightarrow> bool) \<Rightarrow> ('s \<Rightarrow> 'v) \<Rightarrow> ('e, 's, 'a) comp \<Rightarrow> bool" where
  "undisturbed P view m \<longleftrightarrow> (\<forall>s. P s \<longrightarrow> P (snd (m s)) \<and> view (snd (m s)) = view s)"

lemma undisturbedD:
  "undisturbed P view m \<Longrightarrow> m s = (x, s') \<Longrightarrow> P s \<Longrightarrow> P s' \<and> view s' = view s"
  unfolding undisturbed_def by (metis snd_conv)

lemma undisturbed_pure [simp, quiet_intro]:
  "undisturbed P view (returnM x)" "undisturbed P view (raiseM e)" "undisturbed P view (liftM r)"
  "undisturbed P view (getM f)"
  by (simp_all add: undisturbed_def monad_simps)

lemma undisturbed_bindM [quiet_intro]:
  "undisturbed P view m \<Longrightarrow> (\<And>x. undisturbed P view (f x)) \<Longrightarrow> undisturbed P view (bindM m f)"
  unfolding undisturbed_def bindM_def by (auto split: prod.splits sum.splits)

lemma undisturbed_tryM [quiet_intro]:
  "undisturbed P view m \<Longrightarrow> (\<And>e. undisturbed P view (h e)) \<Longrightarrow> undisturbed P view (tryM m h)"
  unfolding undisturbed_def tryM_def by (auto split: prod.splits sum.splits)

lemma undisturbed_forM [quiet_intro]:
  "(\<And>x. undisturbed P view (f x)) \<Longrightarrow> undisturbed P view (forM xs f)"
proof (induction xs)
  case Nil
  show ?case by (simp add: undisturbed_def)
next
  case (Cons x xs)
  have "forM (x # xs) f = bindM (f x) (\<lambda>y. bindM (forM xs f) (\<lambda>ys. returnM (y # ys)))"
    by (rule ext) simp
  then show ?case using Cons by (simp add: quiet_intro)
qed

lemma undisturbed_cases [quiet_intro]:
  "undisturbed P view m \<Longrightarrow> undisturbed P view n \<Longrightarrow> undisturbed P view (if b then m else n)"
  "undisturbed P view m \<Longrightarrow> (\<And>x. undisturbed P view (f x)) \<Longrightarrow>
    undisturbed P view (case r of None \<Rightarrow> m | Some x \<Rightarrow> f x)"
  "undisturbed P view m \<Longrightarrow> (\<And>x xs. undisturbed P view (g x xs)) \<Longrightarrow>
    undisturbed P view (case l of [] \<Rightarrow> m | x # xs \<Rightarrow> g x xs)"
  "(\<And>x. undisturbed P view (h x)) \<Longrightarrow> (\<And>y. undisturbed P view (k y)) \<Longrightarrow>
    undisturbed P view (case e of Inl x \<Rightarrow> h x | Inr y \<Rightarrow> k y)"
  by (simp_all split: option.split list.split sum.split)

subsection \<open>Lists\<close>

lemma mapE_Inr_iff [result_iff]:
  "mapE f xs = Inr ys \<longleftrightarrow> list_all2 (\<lambda>x y. f x = Inr y) xs ys"
proof (induction xs arbitrary: ys)
  case Nil
  show ?case by (cases ys) auto
next
  case (Cons x xs)
  have "mapE f (x # xs) = Inr ys \<longleftrightarrow>
      (\<exists>y zs. f x = Inr y \<and> mapE f xs = Inr zs \<and> ys = y # zs)"
    by (auto split: sum.splits)
  also have "\<dots> \<longleftrightarrow> list_all2 (\<lambda>x y. f x = Inr y) (x # xs) ys"
    by (auto simp: list_all2_Cons1 Cons.IH)
  finally show ?case .
qed

lemma list_all2_Inr_set:
  "list_all2 (\<lambda>x y. f x = Inr y) xs ys \<Longrightarrow> set ys = {y. \<exists>x \<in> set xs. f x = Inr y}"
  by (induction rule: list_all2_induct) auto

lemma mapE_map: "(\<And>x. x \<in> set xs \<Longrightarrow> f x = Inr (g x)) \<Longrightarrow> mapE f xs = Inr (map g xs)"
  by (induction xs) auto

lemma distinct_map_filter: "distinct (map f xs) \<Longrightarrow> distinct (map f (filter p xs))"
  by (induction xs) auto

lemma find_append: "find P (xs @ ys) = (case find P xs of None \<Rightarrow> find P ys | Some x \<Rightarrow> Some x)"
  by (induction xs) auto

lemma find_map_eq:
  "(\<And>x. x \<in> set xs \<Longrightarrow> P (f x) = P x) \<Longrightarrow> find P (map f xs) = map_option f (find P xs)"
  by (induction xs) auto

lemma find_unique_key:
  "distinct (map f xs) \<Longrightarrow> x \<in> set xs \<Longrightarrow> find (\<lambda>y. f y = f x) xs = Some x"
  by (induction xs) (auto simp: image_iff)

lemma find_in: "find P xs = Some x \<Longrightarrow> x \<in> set xs \<and> P x"
  by (auto simp: find_Some_iff)

text \<open>Python's \<open>xs[:n]\<close>: a negative bound counts from the end.\<close>

definition py_take :: "int \<Rightarrow> 'a list \<Rightarrow> 'a list" where
  "py_take n xs = take (nat (if n < 0 then int (length xs) + n else n)) xs"

lemma py_take_nat [simp]: "py_take (int n) xs = take n xs"
  by (simp add: py_take_def)

lemma set_py_take: "set (py_take n xs) \<subseteq> set xs"
  by (simp add: py_take_def set_take_subset)

lemma length_py_take: "0 \<le> n \<Longrightarrow> int (length (py_take n xs)) \<le> n"
  by (simp add: py_take_def)

text \<open>Decimal numerals, as \<open>str(int)\<close> prints them.\<close>

definition digit_char :: "nat \<Rightarrow> char" where
  "digit_char d = char_of (48 + d)"

fun nat_str :: "nat \<Rightarrow> string" where
  "nat_str n = (if n < 10 then [digit_char n] else nat_str (n div 10) @ [digit_char (n mod 10)])"

declare nat_str.simps [simp del]

definition int_str :: "int \<Rightarrow> string" where
  "int_str i = (if i < 0 then ''-'' @ nat_str (nat (- i)) else nat_str (nat i))"

text \<open>
  \<open>repr\<close> of a string, for code points up to 255: double quotes only when the text has a
  single quote and no double quote; backslash, the quote, and what is not printable are
  escaped.
\<close>

definition hex_char :: "nat \<Rightarrow> char" where
  "hex_char d = char_of (if d < 10 then 48 + d else 87 + d)"

definition repr_char :: "nat \<Rightarrow> char \<Rightarrow> string" where
  "repr_char quote c = (let n = of_char c in
     if n = quote \<or> n = 92 then [char_of (92 :: nat), c]
     else if n = 10 then [char_of (92 :: nat), CHR ''n'']
     else if n = 13 then [char_of (92 :: nat), CHR ''r'']
     else if n = 9 then [char_of (92 :: nat), CHR ''t'']
     else if n < 32 \<or> 127 \<le> n \<and> n \<le> 160 \<or> n = 173
       then [char_of (92 :: nat), CHR ''x'', hex_char (n div 16), hex_char (n mod 16)]
     else [c])"

definition py_repr :: "string \<Rightarrow> string" where
  "py_repr s = (let codes = map (of_char :: char \<Rightarrow> nat) s;
       quote = (if 39 \<in> set codes \<and> 34 \<notin> set codes then 34 else 39)
     in [char_of quote] @ concat (map (repr_char quote) s) @ [char_of quote])"

text \<open>\<open>str.join\<close>.\<close>

fun join :: "string \<Rightarrow> string list \<Rightarrow> string" where
  "join sep [] = ''''"
| "join sep [x] = x"
| "join sep (x # y # ys) = x @ sep @ join sep (y # ys)"

end
