(* ===== verification/Domain_Types.thy ===== *)
theory Domain_Types
  imports Prelude
begin

text \<open>
  \<^verbatim>\<open>domain/types.py\<close> and \<^verbatim>\<open>domain/exceptions.py\<close>: identifiers, the string enums and the
  exceptions.  An identifier is a \<^verbatim>\<open>NewType\<close> over \<open>str\<close>, hence a string; a Python string
  is a \<^typ>\<open>string\<close> with one character per code point.
\<close>

type_synonym memory_id = string
type_synonym tenant_id = string
type_synonym workspace_id = string
type_synonym principal_id = string
type_synonym session_id = string
type_synonym run_id = string
type_synonym fact_id = string
type_synonym entity_id = string
type_synonym trace_id = string
type_synonym audit_id = string
type_synonym policy_id = string
type_synonym schedule_id = string
type_synonym job_id = string

subsection \<open>Exceptions\<close>

text \<open>
  The classes of \<^verbatim>\<open>exceptions.py\<close> with the arguments they keep, then the exceptions of the
  language and of the services the code calls.  \<open>DatabaseError\<close> stands for whatever the
  database driver raises, \<open>ServiceError\<close> for what an external service (LLM, embedding,
  index) raises.
\<close>

datatype exn =
    MemoryLayerError string
  | TenantIsolationViolation (actor_of: string) (requested_of: string)
  | MemoryNotFoundError string
  | FactNotFoundError string
  | IdempotencyConflictError string
  | CapabilityNotAvailableError string
  | ExtractionError string
  | StorageError string
  | SchemaVersionError int int
  | PolicyError string
  | ValueError string
  | TypeError string
  | KeyError string
  | IndexError
  | AttributeError string
  | OverflowError string
  | DatabaseError string
  | ServiceError string
  | UnexpectedResponse string

fun is_memory_layer_error :: "exn \<Rightarrow> bool" where
  \<comment> \<open>\<^verbatim>\<open>isinstance(exc, MemoryLayerError)\<close>\<close>
  "is_memory_layer_error (ValueError _) = False"
| "is_memory_layer_error (TypeError _) = False"
| "is_memory_layer_error (KeyError _) = False"
| "is_memory_layer_error IndexError = False"
| "is_memory_layer_error (AttributeError _) = False"
| "is_memory_layer_error (OverflowError _) = False"
| "is_memory_layer_error (DatabaseError _) = False"
| "is_memory_layer_error (ServiceError _) = False"
| "is_memory_layer_error (UnexpectedResponse _) = False"
| "is_memory_layer_error _ = True"

fun exn_str :: "exn \<Rightarrow> string" where
  \<comment> \<open>\<^verbatim>\<open>str(exc)\<close>\<close>
  "exn_str (MemoryLayerError m) = m"
| "exn_str (TenantIsolationViolation a r) =
     ''Tenant isolation violation: actor='' @ a @ '', requested='' @ r"
| "exn_str (MemoryNotFoundError m) = ''Memory not found: '' @ m"
| "exn_str (FactNotFoundError m) = m"
| "exn_str (IdempotencyConflictError m) = m"
| "exn_str (CapabilityNotAvailableError c) = ''Capability not available: '' @ c"
| "exn_str (ExtractionError m) = m"
| "exn_str (StorageError m) = m"
| "exn_str (SchemaVersionError e f) =
     ''Schema version mismatch: expected='' @ int_str e @ '', found='' @ int_str f"
| "exn_str (PolicyError m) = m"
| "exn_str (ValueError m) = m"
| "exn_str (TypeError m) = m"
| "exn_str (KeyError m) = m"
| "exn_str IndexError = ''list index out of range''"
| "exn_str (AttributeError m) = m"
| "exn_str (OverflowError m) = m"
| "exn_str (DatabaseError m) = m"
| "exn_str (ServiceError m) = m"
| "exn_str (UnexpectedResponse m) = m"

type_synonym ('s, 'a) action = "(exn, 's, 'a) comp"

subsection \<open>String enums\<close>

datatype lifecycle_state = ACTIVE | PROPOSED | CONSOLIDATED | DECAYED | ARCHIVED | DELETED

datatype pipeline_status =
  PENDING | ENRICHED | PARTIAL_ENRICHMENT_FAILED | ENRICHMENT_SKIPPED

datatype memory_sector = EPISODIC | SEMANTIC | PROCEDURAL | IDENTITY | RELATIONAL | REFLECTIVE

datatype payload_type = CONVERSATION_TURN | DOCUMENT | TOOL_OUTPUT | EVENT | STRUCTURED

datatype principal_type = USER | AGENT

datatype audit_operation =
  WRITE | SEARCH | RECALL | CONSOLIDATE | DECAY | ARCHIVE | DELETE | MIGRATION

datatype audit_outcome = SUCCESS | PARTIAL | FAILED

text \<open>\<open>str(member)\<close> of a \<open>StrEnum\<close> is the member's value.\<close>

fun lifecycle_str :: "lifecycle_state \<Rightarrow> string" where
  "lifecycle_str ACTIVE = ''ACTIVE''"
| "lifecycle_str PROPOSED = ''PROPOSED''"
| "lifecycle_str CONSOLIDATED = ''CONSOLIDATED''"
| "lifecycle_str DECAYED = ''DECAYED''"
| "lifecycle_str ARCHIVED = ''ARCHIVED''"
| "lifecycle_str DELETED = ''DELETED''"

fun pipeline_str :: "pipeline_status \<Rightarrow> string" where
  "pipeline_str PENDING = ''PENDING''"
| "pipeline_str ENRICHED = ''ENRICHED''"
| "pipeline_str PARTIAL_ENRICHMENT_FAILED = ''PARTIAL_ENRICHMENT_FAILED''"
| "pipeline_str ENRICHMENT_SKIPPED = ''ENRICHMENT_SKIPPED''"

fun sector_str :: "memory_sector \<Rightarrow> string" where
  "sector_str EPISODIC = ''EPISODIC''"
| "sector_str SEMANTIC = ''SEMANTIC''"
| "sector_str PROCEDURAL = ''PROCEDURAL''"
| "sector_str IDENTITY = ''IDENTITY''"
| "sector_str RELATIONAL = ''RELATIONAL''"
| "sector_str REFLECTIVE = ''REFLECTIVE''"

fun payload_str :: "payload_type \<Rightarrow> string" where
  "payload_str CONVERSATION_TURN = ''CONVERSATION_TURN''"
| "payload_str DOCUMENT = ''DOCUMENT''"
| "payload_str TOOL_OUTPUT = ''TOOL_OUTPUT''"
| "payload_str EVENT = ''EVENT''"
| "payload_str STRUCTURED = ''STRUCTURED''"

fun principal_str :: "principal_type \<Rightarrow> string" where
  "principal_str USER = ''USER''"
| "principal_str AGENT = ''AGENT''"

fun operation_str :: "audit_operation \<Rightarrow> string" where
  "operation_str WRITE = ''WRITE''"
| "operation_str SEARCH = ''SEARCH''"
| "operation_str RECALL = ''RECALL''"
| "operation_str CONSOLIDATE = ''CONSOLIDATE''"
| "operation_str DECAY = ''DECAY''"
| "operation_str ARCHIVE = ''ARCHIVE''"
| "operation_str DELETE = ''DELETE''"
| "operation_str MIGRATION = ''MIGRATION''"

fun outcome_str :: "audit_outcome \<Rightarrow> string" where
  "outcome_str SUCCESS = ''SUCCESS''"
| "outcome_str PARTIAL = ''PARTIAL''"
| "outcome_str FAILED = ''FAILED''"

text \<open>Calling the enum class on a value looks the member up, or raises \<open>ValueError\<close>.\<close>

definition enum_of :: "string \<Rightarrow> ('a \<Rightarrow> string) \<Rightarrow> 'a list \<Rightarrow> string \<Rightarrow> exn + 'a" where
  "enum_of cls val members v =
     (case find (\<lambda>m. val m = v) members of
        None \<Rightarrow> Inl (ValueError (py_repr v @ '' is not a valid '' @ cls))
      | Some m \<Rightarrow> Inr m)"

definition lifecycle_members :: "lifecycle_state list" where
  "lifecycle_members = [ACTIVE, PROPOSED, CONSOLIDATED, DECAYED, ARCHIVED, DELETED]"

definition pipeline_members :: "pipeline_status list" where
  "pipeline_members = [PENDING, ENRICHED, PARTIAL_ENRICHMENT_FAILED, ENRICHMENT_SKIPPED]"

definition sector_members :: "memory_sector list" where
  "sector_members = [EPISODIC, SEMANTIC, PROCEDURAL, IDENTITY, RELATIONAL, REFLECTIVE]"

definition payload_members :: "payload_type list" where
  "payload_members = [CONVERSATION_TURN, DOCUMENT, TOOL_OUTPUT, EVENT, STRUCTURED]"

definition principal_members :: "principal_type list" where
  "principal_members = [USER, AGENT]"

definition operation_members :: "audit_operation list" where
  "operation_members = [WRITE, SEARCH, RECALL, CONSOLIDATE, DECAY, ARCHIVE, DELETE, MIGRATION]"

definition outcome_members :: "audit_outcome list" where
  "outcome_members = [SUCCESS, PARTIAL, FAILED]"

abbreviation lifecycle_of :: "string \<Rightarrow> exn + lifecycle_state" where
  "lifecycle_of \<equiv> enum_of ''LifecycleState'' lifecycle_str lifecycle_members"
abbreviation pipeline_of :: "string \<Rightarrow> exn + pipeline_status" where
  "pipeline_of \<equiv> enum_of ''PipelineStatus'' pipeline_str pipeline_members"
abbreviation sector_of :: "string \<Rightarrow> exn + memory_sector" where
  "sector_of \<equiv> enum_of ''MemorySector'' sector_str sector_members"
abbreviation payload_of :: "string \<Rightarrow> exn + payload_type" where
  "payload_of \<equiv> enum_of ''PayloadType'' payload_str payload_members"
abbreviation principal_of :: "string \<Rightarrow> exn + principal_type" where
  "principal_of \<equiv> enum_of ''PrincipalType'' principal_str principal_members"
abbreviation operation_of :: "string \<Rightarrow> exn + audit_operation" where
  "operation_of \<equiv> enum_of ''AuditOperation'' operation_str operation_members"
abbreviation outcome_of :: "string \<Rightarrow> exn + audit_outcome" where
  "outcome_of \<equiv> enum_of ''AuditOutcome'' outcome_str outcome_members"

text \<open>
  The contract of a string enum: its members are all the constructors and their values
  differ.  Then \<open>E(str(m))\<close> is \<open>m\<close>, and only a member's value is accepted.
\<close>

locale str_enum =
  fixes val :: "'a \<Rightarrow> string" and members :: "'a list"
  assumes complete: "m \<in> set members"
    and values_differ: "distinct (map val members)"
begin

lemma value_inj: "val a = val b \<Longrightarrow> a = b"
  using values_differ complete by (metis distinct_map inj_onD)

lemma value_eq_iff [simp]: "val a = val b \<longleftrightarrow> a = b"
  using value_inj by blast

lemma find_member: "find (\<lambda>m. val m = val a) ms = (if a \<in> set ms then Some a else None)"
  by (induction ms) auto

lemma roundtrip [simp]: "enum_of cls val members (val a) = Inr a"
  using complete [of a] by (simp only: enum_of_def find_member) simp

lemma of_Inr: "enum_of cls val members v = Inr a \<Longrightarrow> val a = v"
  by (auto simp: enum_of_def find_Some_iff split: option.splits)

lemma of_Inr_iff [result_iff]: "enum_of cls val members v = Inr a \<longleftrightarrow> v = val a"
  using of_Inr roundtrip by blast

end

interpretation lifecycle: str_enum lifecycle_str lifecycle_members
proof
  show "m \<in> set lifecycle_members" for m by (cases m) (simp_all add: lifecycle_members_def)
qed (simp add: lifecycle_members_def)

interpretation pipeline: str_enum pipeline_str pipeline_members
proof
  show "m \<in> set pipeline_members" for m by (cases m) (simp_all add: pipeline_members_def)
qed (simp add: pipeline_members_def)

interpretation sector: str_enum sector_str sector_members
proof
  show "m \<in> set sector_members" for m by (cases m) (simp_all add: sector_members_def)
qed (simp add: sector_members_def)

interpretation payload: str_enum payload_str payload_members
proof
  show "m \<in> set payload_members" for m by (cases m) (simp_all add: payload_members_def)
qed (simp add: payload_members_def)

interpretation principal: str_enum principal_str principal_members
proof
  show "m \<in> set principal_members" for m by (cases m) (simp_all add: principal_members_def)
qed (simp add: principal_members_def)

interpretation operation: str_enum operation_str operation_members
proof
  show "m \<in> set operation_members" for m by (cases m) (simp_all add: operation_members_def)
qed (simp add: operation_members_def)

interpretation outcome: str_enum outcome_str outcome_members
proof
  show "m \<in> set outcome_members" for m by (cases m) (simp_all add: outcome_members_def)
qed (simp add: outcome_members_def)

subsection \<open>The stored texts\<close>

text \<open>The text of an enum member is read back as that member, and every other text is refused,
  for each enum a table column holds: no stored row is ever read as another state.\<close>

theorem enum_texts_roundtrip:
  "(lifecycle_of s = Inr l \<longleftrightarrow> s = lifecycle_str l) \<and> (pipeline_of s = Inr p \<longleftrightarrow> s = pipeline_str p) \<and>
   (sector_of s = Inr m \<longleftrightarrow> s = sector_str m) \<and> (payload_of s = Inr y \<longleftrightarrow> s = payload_str y) \<and>
   (principal_of s = Inr r \<longleftrightarrow> s = principal_str r) \<and> (operation_of s = Inr a \<longleftrightarrow> s = operation_str a) \<and>
   (outcome_of s = Inr u \<longleftrightarrow> s = outcome_str u)"
  by (simp add: lifecycle.of_Inr_iff pipeline.of_Inr_iff sector.of_Inr_iff payload.of_Inr_iff
      principal.of_Inr_iff operation.of_Inr_iff outcome.of_Inr_iff)

end
