(* ===== verification/Py_Datetime.thy ===== *)
theory Py_Datetime
  imports Domain_Types "HOL-Library.Product_Lexorder" "HOL-Library.Monad_Syntax"
begin

text \<open>
  The part of Python's \<^verbatim>\<open>datetime\<close> the code uses: a timestamp with an optional offset
  from UTC (in whole minutes; \<open>None\<close> for a naive value), \<open>isoformat\<close>, \<open>fromisoformat\<close>
  on the strings \<open>isoformat\<close> writes, \<open>replace(tzinfo=UTC)\<close> and the subtraction of days.
  On top of it the two helpers every SQLite repository has, \<open>_dt_to_str\<close> and
  \<open>_str_to_dt\<close>.

  The stored strings are compared by SQLite as text (\<^verbatim>\<open>ORDER BY recorded_at\<close>), so the
  theory shows when text order is the order of time: always for UTC values, even though
  \<open>isoformat\<close> omits a zero microsecond field.
\<close>

record datetime =
  year :: nat
  month :: nat
  day :: nat
  hour :: nat
  minute :: nat
  second :: nat
  microsecond :: nat
  utc_offset :: "int option"

definition is_leap :: "nat \<Rightarrow> bool" where
  "is_leap y \<longleftrightarrow> 4 dvd y \<and> (\<not> 100 dvd y \<or> 400 dvd y)"

definition days_in_month :: "nat \<Rightarrow> nat \<Rightarrow> nat" where
  "days_in_month y m =
     (if m = 2 then (if is_leap y then 29 else 28)
      else if m \<in> {4, 6, 9, 11} then 30 else 31)"

definition valid_datetime :: "datetime \<Rightarrow> bool" where
  \<comment> \<open>what the \<^verbatim>\<open>datetime\<close> constructor accepts\<close>
  "valid_datetime d \<longleftrightarrow>
     1 \<le> year d \<and> year d \<le> 9999 \<and> 1 \<le> month d \<and> month d \<le> 12 \<and>
     1 \<le> day d \<and> day d \<le> days_in_month (year d) (month d) \<and>
     hour d < 24 \<and> minute d < 60 \<and> second d < 60 \<and> microsecond d < 1000000 \<and>
     (case utc_offset d of None \<Rightarrow> True | Some z \<Rightarrow> -1440 < z \<and> z < 1440)"

subsection \<open>isoformat\<close>

text \<open>\<^verbatim>\<open>%0kd\<close>: the last \<open>k\<close> decimal digits.\<close>

fun pad :: "nat \<Rightarrow> nat \<Rightarrow> string" where
  "pad 0 n = []"
| "pad (Suc k) n = pad k (n div 10) @ [digit_char (n mod 10)]"

definition micro_str :: "nat \<Rightarrow> string" where
  "micro_str us = (if us = 0 then [] else CHR ''.'' # pad 6 us)"

definition offset_str :: "int option \<Rightarrow> string" where
  "offset_str z = (case z of None \<Rightarrow> []
     | Some m \<Rightarrow> (if m < 0 then CHR ''-'' else CHR ''+'') #
         pad 2 (nat \<bar>m\<bar> div 60) @ CHR '':'' # pad 2 (nat \<bar>m\<bar> mod 60))"

definition isoformat :: "datetime \<Rightarrow> string" where
  "isoformat d =
     pad 4 (year d) @ CHR ''-'' # pad 2 (month d) @ CHR ''-'' # pad 2 (day d) @ CHR ''T'' #
     pad 2 (hour d) @ CHR '':'' # pad 2 (minute d) @ CHR '':'' # pad 2 (second d) @
     micro_str (microsecond d) @ offset_str (utc_offset d)"

subsection \<open>fromisoformat\<close>

definition is_digit :: "char \<Rightarrow> bool" where
  "is_digit c \<longleftrightarrow> 48 \<le> (of_char c :: nat) \<and> (of_char c :: nat) \<le> 57"

definition digits_val :: "string \<Rightarrow> nat" where
  "digits_val s = foldl (\<lambda>n c. 10 * n + (of_char c - 48)) 0 s"

definition read_digits :: "nat \<Rightarrow> string \<Rightarrow> (nat \<times> string) option" where
  "read_digits k s =
     (if k \<le> length s \<and> list_all is_digit (take k s)
      then Some (digits_val (take k s), drop k s) else None)"

definition read_char :: "char \<Rightarrow> string \<Rightarrow> string option" where
  "read_char c s = (case s of [] \<Rightarrow> None | x # xs \<Rightarrow> if x = c then Some xs else None)"

definition read_micro :: "string \<Rightarrow> (nat \<times> string) option" where
  "read_micro s = (case read_char (CHR ''.'') s of None \<Rightarrow> Some (0, s)
     | Some rest \<Rightarrow> read_digits 6 rest)"

definition read_hhmm :: "string \<Rightarrow> int option" where
  "read_hhmm s = do {
     (h, s) \<leftarrow> read_digits 2 s;
     s \<leftarrow> read_char (CHR '':'') s;
     (m, s) \<leftarrow> read_digits 2 s;
     if s = [] \<and> m < 60 then Some (int (60 * h + m)) else None
   }"

definition read_offset :: "string \<Rightarrow> int option option" where
  "read_offset s = (case s of [] \<Rightarrow> Some None
     | c # rest \<Rightarrow>
         if c = CHR ''+'' then map_option Some (read_hhmm rest)
         else if c = CHR ''-'' then map_option (\<lambda>m. Some (- m)) (read_hhmm rest)
         else if c = CHR ''Z'' \<and> rest = [] then Some (Some 0)
         else None)"

definition parse_iso :: "string \<Rightarrow> datetime option" where
  "parse_iso s = do {
     (y, s) \<leftarrow> read_digits 4 s;
     s \<leftarrow> read_char (CHR ''-'') s;
     (mo, s) \<leftarrow> read_digits 2 s;
     s \<leftarrow> read_char (CHR ''-'') s;
     (d, s) \<leftarrow> read_digits 2 s;
     s \<leftarrow> read_char (CHR ''T'') s;
     (h, s) \<leftarrow> read_digits 2 s;
     s \<leftarrow> read_char (CHR '':'') s;
     (mi, s) \<leftarrow> read_digits 2 s;
     s \<leftarrow> read_char (CHR '':'') s;
     (se, s) \<leftarrow> read_digits 2 s;
     (us, s) \<leftarrow> read_micro s;
     z \<leftarrow> read_offset s;
     Some \<lparr>year = y, month = mo, day = d, hour = h, minute = mi, second = se,
           microsecond = us, utc_offset = z\<rparr>
   }"

definition fromisoformat :: "string \<Rightarrow> exn + datetime" where
  "fromisoformat s =
     (case parse_iso s of
        Some d \<Rightarrow> if valid_datetime d then Inr d else Inl (ValueError ''Invalid isoformat string'')
      | None \<Rightarrow> Inl (ValueError ''Invalid isoformat string''))"

subsection \<open>The repositories' helpers\<close>

definition as_utc :: "datetime \<Rightarrow> datetime" where
  \<comment> \<open>\<^verbatim>\<open>if dt.tzinfo is None: dt = dt.replace(tzinfo=UTC)\<close>\<close>
  "as_utc d = (if utc_offset d = None then d\<lparr>utc_offset := Some 0\<rparr> else d)"

definition dt_to_str :: "datetime \<Rightarrow> string" where
  "dt_to_str d = isoformat (as_utc d)"

definition str_to_dt :: "string \<Rightarrow> exn + datetime" where
  "str_to_dt s = bindE (fromisoformat s) (\<lambda>d. Inr (as_utc d))"

subsection \<open>Reading back what isoformat wrote\<close>

lemma length_pad [simp]: "length (pad k n) = k"
  by (induction k arbitrary: n) auto

lemma of_char_digit_char [simp]: "d < 10 \<Longrightarrow> of_char (digit_char d) = 48 + d"
  by (simp add: digit_char_def)

lemma pad_digits: "list_all is_digit (pad k n)"
  by (induction k arbitrary: n) (auto simp: is_digit_def)

lemma digits_val_snoc: "digits_val (s @ [c]) = 10 * digits_val s + (of_char c - 48)"
  by (simp add: digits_val_def)

lemma digits_val_pad: "n < 10 ^ k \<Longrightarrow> digits_val (pad k n) = n"
proof (induction k arbitrary: n)
  case 0
  then show ?case by (simp add: digits_val_def)
next
  case (Suc k)
  then have "n div 10 < 10 ^ k" by (simp add: less_mult_imp_div_less mult.commute)
  then show ?case by (simp add: digits_val_snoc Suc.IH)
qed

lemma read_digits_pad [simp]:
  "n < 10 ^ k \<Longrightarrow> read_digits k (pad k n @ rest) = Some (n, rest)"
  by (simp add: read_digits_def digits_val_pad pad_digits)

lemma read_char_Cons [simp]: "read_char c (c # s) = Some s"
  by (simp add: read_char_def)

lemma read_offset_str [simp]:
  assumes "case z of None \<Rightarrow> True | Some m \<Rightarrow> -1440 < m \<and> m < 1440"
  shows "read_offset (offset_str z) = Some z"
proof (cases z)
  case None
  then show ?thesis by (simp add: offset_str_def read_offset_def)
next
  case (Some m)
  with assms have "nat \<bar>m\<bar> div 60 < 10 ^ 2" "nat \<bar>m\<bar> mod 60 < 10 ^ 2" by (auto intro: less_le_trans)
  moreover have "read_digits 2 (pad 2 (nat \<bar>m\<bar> mod 60)) = Some (nat \<bar>m\<bar> mod 60, [])"
    using read_digits_pad [of "nat \<bar>m\<bar> mod 60" 2 "[]"] \<open>nat \<bar>m\<bar> mod 60 < 10 ^ 2\<close> by simp
  ultimately have "read_hhmm (pad 2 (nat \<bar>m\<bar> div 60) @ CHR '':'' # pad 2 (nat \<bar>m\<bar> mod 60)) =
      Some (int (60 * (nat \<bar>m\<bar> div 60) + nat \<bar>m\<bar> mod 60))"
    by (simp add: read_hhmm_def)
  moreover have "int (60 * (nat \<bar>m\<bar> div 60) + nat \<bar>m\<bar> mod 60) = \<bar>m\<bar>" by simp
  ultimately have "read_hhmm (pad 2 (nat \<bar>m\<bar> div 60) @ CHR '':'' # pad 2 (nat \<bar>m\<bar> mod 60)) = Some \<bar>m\<bar>"
    by (simp only:)
  with Some show ?thesis by (auto simp: offset_str_def read_offset_def)
qed

lemma offset_str_not_dot: "read_char (CHR ''.'') (offset_str z) = None"
  by (auto simp: offset_str_def read_char_def split: option.split)

lemma read_micro_str [simp]:
  "us < 1000000 \<Longrightarrow> read_micro (micro_str us @ offset_str z) = Some (us, offset_str z)"
  by (simp add: micro_str_def read_micro_def offset_str_not_dot)

lemma days_in_month_le: "days_in_month y m \<le> 31"
  by (simp add: days_in_month_def)

lemma valid_bounds:
  assumes "valid_datetime d"
  shows "year d < 10 ^ 4" "month d < 10 ^ 2" "day d < 10 ^ 2" "hour d < 10 ^ 2"
    "minute d < 10 ^ 2" "second d < 10 ^ 2" "microsecond d < 1000000"
  using assms days_in_month_le [of "year d" "month d"] by (auto simp: valid_datetime_def)

lemma parse_isoformat: "valid_datetime d \<Longrightarrow> parse_iso (isoformat d) = Some d"
  using valid_bounds [of d]
  by (simp add: parse_iso_def isoformat_def valid_datetime_def)

lemma fromisoformat_isoformat: "valid_datetime d \<Longrightarrow> fromisoformat (isoformat d) = Inr d"
  by (simp add: fromisoformat_def parse_isoformat)

lemma valid_as_utc [simp]: "valid_datetime (as_utc d) \<longleftrightarrow> valid_datetime d"
  by (auto simp: as_utc_def valid_datetime_def)

lemma as_utc_idem [simp]: "as_utc (as_utc d) = as_utc d"
  by (simp add: as_utc_def)

lemma str_to_dt_to_str: "valid_datetime d \<Longrightarrow> str_to_dt (dt_to_str d) = Inr (as_utc d)"
  by (simp add: str_to_dt_def dt_to_str_def fromisoformat_isoformat)

subsection \<open>Text order is time order for UTC values\<close>

type_synonym time_key = "nat \<times> nat \<times> nat \<times> nat \<times> nat \<times> nat \<times> nat"

definition time_key :: "datetime \<Rightarrow> time_key" where
  \<comment> \<open>the wall-clock fields, compared lexicographically\<close>
  "time_key d = (year d, month d, day d, hour d, minute d, second d, microsecond d)"

lemma digit_char_less [simp]: "a < 10 \<Longrightarrow> b < 10 \<Longrightarrow> digit_char a < digit_char b \<longleftrightarrow> a < b"
  by (simp add: less_char_def)

lemma digit_char_eq [simp]:
  assumes "a < 10" "b < 10"
  shows "digit_char a = digit_char b \<longleftrightarrow> a = b"
  using of_char_digit_char [OF assms(1)] of_char_digit_char [OF assms(2)] by (metis add_left_cancel)

lemma ten_digits:
  assumes "r < 10" "t < 10"
  shows "q < u \<or> q = u \<and> r < t \<longleftrightarrow> 10 * q + r < 10 * u + (t::nat)"
    and "q = u \<and> r = t \<longleftrightarrow> 10 * q + r = 10 * u + t"
proof -
  have "10 * q + r < 10 * u + t" if "q < u"
  proof -
    from that have "10 * q + 10 \<le> 10 * u" by simp
    with assms(1) show ?thesis by linarith
  qed
  moreover have "10 * u + t < 10 * q + r" if "u < q"
  proof -
    from that have "10 * u + 10 \<le> 10 * q" by simp
    with assms(2) show ?thesis by linarith
  qed
  ultimately show "q < u \<or> q = u \<and> r < t \<longleftrightarrow> 10 * q + r < 10 * u + t"
    and "q = u \<and> r = t \<longleftrightarrow> 10 * q + r = 10 * u + t"
    by (cases q u rule: linorder_cases; fastforce)+
qed

lemma div_mod_less: "(a::nat) div 10 < b div 10 \<or> a div 10 = b div 10 \<and> a mod 10 < b mod 10 \<longleftrightarrow> a < b"
  using ten_digits(1) [of "a mod 10" "b mod 10" "a div 10" "b div 10"] by simp

lemma div_mod_eq: "(a::nat) div 10 = b div 10 \<and> a mod 10 = b mod 10 \<longleftrightarrow> a = b"
  by (metis div_mult_mod_eq)

lemma pad_less:
  "m < 10 ^ k \<Longrightarrow> n < 10 ^ k \<Longrightarrow>
   pad k m @ xs < pad k n @ ys \<longleftrightarrow> m < n \<or> m = n \<and> xs < ys"
proof (induction k arbitrary: m n xs ys)
  case 0
  then show ?case by simp
next
  case (Suc k)
  then have "m div 10 < 10 ^ k" "n div 10 < 10 ^ k"
    by (simp_all add: less_mult_imp_div_less mult.commute)
  then show ?case
    using div_mod_less [of m n] div_mod_eq [of m n] by (auto simp: Suc.IH)
qed

lemma micro_str_less:
  assumes "m < 1000000" "n < 1000000"
  shows "micro_str m @ offset_str (Some 0) < micro_str n @ offset_str (Some 0) \<longleftrightarrow> m < n"
  using assms by (auto simp: micro_str_def offset_str_def pad_less less_char_def)

lemma isoformat_less:
  assumes "valid_datetime a" "valid_datetime b" "utc_offset a = Some 0" "utc_offset b = Some 0"
  shows "isoformat a < isoformat b \<longleftrightarrow> time_key a < time_key b"
  using valid_bounds [OF assms(1)] valid_bounds [OF assms(2)] assms(3,4)
  by (simp add: isoformat_def time_key_def pad_less micro_str_less less_prod_def')

subsection \<open>Subtracting whole days\<close>

text \<open>
  \<open>d - timedelta(days=n)\<close>, one calendar day at a time; leaving the years 1 to 9999 raises
  \<open>OverflowError\<close>.
\<close>

fun prev_day :: "nat \<times> nat \<times> nat \<Rightarrow> (nat \<times> nat \<times> nat) option" where
  "prev_day (y, m, d) =
     (if 1 < d then Some (y, m, d - 1)
      else if 1 < m then Some (y, m - 1, days_in_month y (m - 1))
      else if 1 < y then Some (y - 1, 12, 31) else None)"

fun next_day :: "nat \<times> nat \<times> nat \<Rightarrow> (nat \<times> nat \<times> nat) option" where
  "next_day (y, m, d) =
     (if d < days_in_month y m then Some (y, m, d + 1)
      else if m < 12 then Some (y, m + 1, 1)
      else if y < 9999 then Some (y + 1, 1, 1) else None)"

fun iter_opt :: "nat \<Rightarrow> ('a \<Rightarrow> 'a option) \<Rightarrow> 'a \<Rightarrow> 'a option" where
  "iter_opt 0 f x = Some x"
| "iter_opt (Suc n) f x = (case f x of None \<Rightarrow> None | Some y \<Rightarrow> iter_opt n f y)"

definition sub_days :: "datetime \<Rightarrow> int \<Rightarrow> exn + datetime" where
  "sub_days t n =
     (case iter_opt (nat \<bar>n\<bar>) (if 0 \<le> n then prev_day else next_day) (year t, month t, day t) of
        None \<Rightarrow> Inl (OverflowError ''date value out of range'')
      | Some (y, m, d) \<Rightarrow> Inr (t\<lparr>year := y, month := m, day := d\<rparr>))"

text \<open>The proleptic Gregorian ordinal, the specification of day arithmetic.\<close>

fun days_before_month :: "nat \<Rightarrow> nat \<Rightarrow> nat" where
  "days_before_month y m = (\<Sum>k\<leftarrow>[1..<m]. days_in_month y k)"

definition days_before_year :: "nat \<Rightarrow> nat" where
  "days_before_year y = (y - 1) * 365 + (y - 1) div 4 - (y - 1) div 100 + (y - 1) div 400"

fun ordinal :: "nat \<times> nat \<times> nat \<Rightarrow> nat" where
  "ordinal (y, m, d) = days_before_year y + days_before_month y m + d"

fun valid_date :: "nat \<times> nat \<times> nat \<Rightarrow> bool" where
  "valid_date (y, m, d) \<longleftrightarrow> 1 \<le> y \<and> y \<le> 9999 \<and> 1 \<le> m \<and> m \<le> 12 \<and> 1 \<le> d \<and> d \<le> days_in_month y m"

declare days_before_month.simps [simp del]

lemma leap_count_step:
  fixes n a b c :: nat
  assumes "b \<le> a" "p100 \<Longrightarrow> p4" "p400 \<Longrightarrow> p100"
  shows "Suc n * 365 + (a + (if p4 then 1 else 0)) - (b + (if p100 then 1 else 0)) +
      (c + (if p400 then 1 else 0)) =
    n * 365 + a - b + c + 365 + (if p4 \<and> (\<not> p100 \<or> p400) then 1 else 0)"
proof -
  obtain k where "a = b + k" using assms(1) le_Suc_ex by blast
  then show ?thesis using assms(2,3) by (cases p4; cases p100; cases p400) simp_all
qed

lemma days_before_year_Suc:
  assumes "1 \<le> y"
  shows "days_before_year (Suc y) = days_before_year y + 365 + (if is_leap y then 1 else 0)"
proof -
  obtain x where y: "y = Suc x" using assms by (cases y) auto
  have div: "Suc x div k = x div k + (if k dvd Suc x then 1 else 0)" for k
    by (simp only: div_Suc dvd_eq_mod_eq_0) simp
  have "x div 100 \<le> x div 4" by (rule div_le_mono2) simp_all
  moreover have "100 dvd Suc x \<Longrightarrow> 4 dvd Suc x" by (rule dvd_trans) simp_all
  moreover have "400 dvd Suc x \<Longrightarrow> 100 dvd Suc x" by (rule dvd_trans) simp_all
  ultimately show ?thesis
    unfolding y days_before_year_def is_leap_def diff_Suc_1 div [of 4] div [of 100] div [of 400]
    by (rule leap_count_step)
qed

lemma days_before_month_Suc:
  "1 \<le> m \<Longrightarrow> days_before_month y (Suc m) = days_before_month y m + days_in_month y m"
  by (simp add: days_before_month.simps)

lemma days_before_month_1 [simp]: "days_before_month y (Suc 0) = 0"
  by (simp add: days_before_month.simps)

lemma days_before_december: "days_before_month y 12 + 31 = 365 + (if is_leap y then 1 else 0)"
  by (simp add: days_before_month.simps days_in_month_def upt_conv_Cons)

lemma days_in_month_pos [simp]: "1 \<le> days_in_month y m" "Suc 0 \<le> days_in_month y m"
  by (simp_all add: days_in_month_def)

lemma prev_day_ordinal:
  assumes "valid_date t" "prev_day t = Some u"
  shows "valid_date u \<and> Suc (ordinal u) = ordinal t"
proof -
  obtain y m d where t: "t = (y, m, d)" by (cases t)
  consider "1 < d" | "d = 1" "1 < m" | "d = 1" "m = 1" "1 < y" "u = (y - 1, 12, 31)"
    using assms by (fastforce simp: t split: if_splits)
  then show ?thesis
  proof cases
    case 1
    with assms show ?thesis by (auto simp: t)
  next
    case 2
    then have "days_before_month y m = days_before_month y (m - 1) + days_in_month y (m - 1)"
      using days_before_month_Suc [of "m - 1" y] by simp
    with 2 assms show ?thesis by (auto simp: t)
  next
    case 3
    then have "days_before_year y = days_before_year (y - 1) + 365 + (if is_leap (y - 1) then 1 else 0)"
      using days_before_year_Suc [of "y - 1"] by simp
    with 3 assms show ?thesis
      using days_before_december [of "y - 1"] by (auto simp: t days_in_month_def)
  qed
qed

lemma iter_prev_day_ordinal:
  "valid_date t \<Longrightarrow> iter_opt n prev_day t = Some u \<Longrightarrow> valid_date u \<and> ordinal u + n = ordinal t"
proof (induction n arbitrary: t)
  case 0
  then show ?case by simp
next
  case (Suc n)
  then obtain v where v: "prev_day t = Some v" "iter_opt n prev_day v = Some u"
    by (auto split: option.splits)
  with prev_day_ordinal [OF Suc.prems(1) v(1)] Suc.IH [of v] show ?case by auto
qed

lemma valid_date_of: "valid_datetime t \<Longrightarrow> valid_date (year t, month t, day t)"
  by (simp add: valid_datetime_def)

lemma sub_days_ordinal:
  assumes "valid_datetime t" "0 \<le> n" "sub_days t n = Inr u"
  shows "valid_datetime u"
    and "int (ordinal (year u, month u, day u)) = int (ordinal (year t, month t, day t)) - n"
proof -
  obtain y m d where it: "iter_opt (nat n) prev_day (year t, month t, day t) = Some (y, m, d)"
    and u: "u = t\<lparr>year := y, month := m, day := d\<rparr>"
    using assms by (auto simp: sub_days_def split: option.splits)
  have o: "valid_date (y, m, d) \<and> ordinal (y, m, d) + nat n = ordinal (year t, month t, day t)"
    by (rule iter_prev_day_ordinal [OF valid_date_of [OF assms(1)] it])
  show "valid_datetime u"
    using o assms(1) by (simp add: u valid_datetime_def)
  show "int (ordinal (year u, month u, day u)) = int (ordinal (year t, month t, day t)) - n"
    using assms(2) arg_cong [where f = int, OF conjunct2 [OF o]]
    by (simp add: u del: ordinal.simps)
qed

end
