(* ===== verification/Domain_Records.thy ===== *)
theory Domain_Records
  imports Py_Datetime Complex_Main
begin

text \<open>
  \<^verbatim>\<open>domain/records.py\<close>: the request, response and entity dataclasses, one record each with
  the fields in the source's order (prefixed, since record fields share one name space).

  A \<open>dict[str, Any]\<close> that is stored as JSON is an association list of \<open>json\<close> values;
  a Python float is the rational number it denotes.  \<open>Scope.principal_id\<close> and
  \<open>principal_type\<close> are optional because the consolidation service builds a scope with
  \<open>None\<close> in both.
\<close>

datatype json =
    JNull
  | JBool bool
  | JInt int
  | JFloat rat
  | JStr string
  | JArr "json list"
  | JObj "(string \<times> json) list"

type_synonym json_dict = "(string \<times> json) list"

text \<open>\<open>d.get(key)\<close> on a JSON object.\<close>

definition dict_get :: "json_dict \<Rightarrow> string \<Rightarrow> json option" where
  "dict_get d k = map_of d k"

subsection \<open>Enums\<close>

datatype search_mode =
    MODE_SEMANTIC | MODE_KEYWORD | MODE_HYBRID | MODE_HYBRID_TEMPORAL | MODE_QUALITY | MODE_GRAPH

datatype recall_status = MATCH | PARTIAL_MATCH | NO_MATCH

fun mode_str :: "search_mode \<Rightarrow> string" where
  "mode_str MODE_SEMANTIC = ''SEMANTIC''"
| "mode_str MODE_KEYWORD = ''KEYWORD''"
| "mode_str MODE_HYBRID = ''HYBRID''"
| "mode_str MODE_HYBRID_TEMPORAL = ''HYBRID_TEMPORAL''"
| "mode_str MODE_QUALITY = ''QUALITY''"
| "mode_str MODE_GRAPH = ''GRAPH''"

definition mode_members :: "search_mode list" where
  "mode_members =
     [MODE_SEMANTIC, MODE_KEYWORD, MODE_HYBRID, MODE_HYBRID_TEMPORAL, MODE_QUALITY, MODE_GRAPH]"

interpretation mode: str_enum mode_str mode_members
proof
  show "m \<in> set mode_members" for m by (cases m) (simp_all add: mode_members_def)
qed (simp add: mode_members_def)

subsection \<open>Scope and filters\<close>

record scope =
  scope_tenant_id :: tenant_id
  scope_principal_id :: "principal_id option"
  scope_principal_type :: "principal_type option"
  scope_workspace_id :: "workspace_id option"
  scope_session_id :: "session_id option"
  scope_run_id :: "run_id option"

definition Scope :: "tenant_id \<Rightarrow> principal_id option \<Rightarrow> principal_type option \<Rightarrow> scope" where
  \<comment> \<open>the constructor with its defaults for the optional parts\<close>
  "Scope t p ty = \<lparr>scope_tenant_id = t, scope_principal_id = p, scope_principal_type = ty,
     scope_workspace_id = None, scope_session_id = None, scope_run_id = None\<rparr>"

record temporal_filter =
  as_of :: "datetime option"
  from_dt :: "datetime option"
  until_dt :: "datetime option"

subsection \<open>Requests and results\<close>

record write_request =
  wr_tenant_id :: tenant_id
  wr_scope :: scope
  wr_raw_payload :: string
  wr_payload_type :: payload_type
  wr_sector :: "memory_sector option"
  wr_idempotency_key :: "string option"
  wr_extract :: bool
  wr_wait_for_enrichment :: bool
  wr_metadata :: json_dict

record write_result =
  res_memory_id :: memory_id
  res_scope :: scope
  res_pipeline_status :: pipeline_status
  res_accepted_at :: datetime
  res_idempotent :: bool

record search_request =
  sr_tenant_id :: tenant_id
  sr_scope :: scope
  sr_query :: string
  sr_mode :: search_mode
  sr_sectors :: "memory_sector list option"
  sr_lifecycle_states :: "lifecycle_state list"
  sr_temporal_filter :: "temporal_filter option"
  sr_k :: int

record recall_request =
  rq_tenant_id :: tenant_id
  rq_scope :: scope
  rq_query :: string
  rq_max_tokens :: "int option"
  rq_max_items :: int
  rq_sectors :: "memory_sector list option"
  rq_include_facts :: bool
  rq_include_verbatim :: bool
  rq_mode :: search_mode

record recall_item =
  ri_memory_id :: memory_id
  ri_content :: string
  ri_sector :: memory_sector
  ri_lifecycle_state :: lifecycle_state
  ri_pipeline_status :: pipeline_status
  ri_effective_from :: "datetime option"
  ri_signals :: json_dict
  ri_explanation :: string
  ri_trace_id :: "trace_id option"

record recall_result =
  rl_status :: recall_status
  rl_no_match_reason :: "string option"
  rl_items :: "recall_item list"
  rl_total_tokens_estimate :: int
  rl_recall_strategy :: string
  rl_recalled_at :: datetime

subsection \<open>Entities\<close>

record memory_record =
  mr_id :: memory_id
  mr_tenant_id :: tenant_id
  mr_scope :: scope
  mr_raw_payload :: string
  mr_payload_type :: payload_type
  mr_sector :: memory_sector
  mr_lifecycle_state :: lifecycle_state
  mr_pipeline_status :: pipeline_status
  mr_recorded_at :: datetime
  mr_idempotency_key :: "string option"
  mr_metadata :: json_dict

record fact =
  fact_id :: fact_id
  fact_memory_record_id :: memory_id
  fact_tenant_id :: tenant_id
  fact_scope :: scope
  fact_subject_entity_id :: entity_id
  fact_predicate :: string
  fact_predicate_group :: string
  fact_object_value :: string
  fact_effective_from :: datetime
  fact_effective_to :: "datetime option"
  fact_recorded_at :: datetime
  fact_supersedes :: "fact_id option"
  fact_confidence :: rat
  fact_sector :: memory_sector
  fact_lifecycle_state :: lifecycle_state

record audit_entry =
  ae_id :: audit_id
  ae_tenant_id :: tenant_id
  ae_scope :: scope
  ae_operation :: audit_operation
  ae_memory_id :: "memory_id option"
  ae_actor :: string
  ae_timestamp :: datetime
  ae_outcome :: audit_outcome
  ae_detail :: json_dict

record memory_trace =
  mt_trace_id :: trace_id
  mt_memory_id :: memory_id
  mt_scope :: scope
  mt_write_event :: audit_entry
  mt_enrichment_status :: pipeline_status
  mt_facts_derived :: "fact_id list"
  mt_entities_extracted :: "entity_id list"
  mt_mutations :: "audit_entry list"
  mt_recall_event :: "audit_entry option"
  mt_recall_signals :: "json_dict option"
  mt_recall_explanation :: "string option"
  mt_query_plan :: "json option"
  mt_constructed_at :: datetime

record trace_step =
  ts_memory_id :: memory_id
  ts_rank :: int
  ts_score :: rat
  ts_signals :: json_dict
  ts_explanation :: string
  ts_record_available :: bool

record recall_trace =
  rt_trace_id :: trace_id
  rt_tenant_id :: tenant_id
  rt_query :: string
  rt_mode :: string
  rt_steps :: "trace_step list"
  rt_query_plan :: "json option"
  rt_created_at :: datetime

text \<open>
  Python's \<^verbatim>\<open>str(x) if x else None\<close> on an optional string: the empty string is dropped
  too.  \<open>str(None)\<close> is the text \<open>None\<close>.
\<close>

definition or_none :: "string option \<Rightarrow> string option" where
  "or_none x = (case x of None \<Rightarrow> None | Some s \<Rightarrow> if s = [] then None else Some s)"

definition opt_str :: "string option \<Rightarrow> string" where
  "opt_str x = (case x of None \<Rightarrow> ''None'' | Some s \<Rightarrow> s)"

lemma or_none_simps [simp]: "or_none None = None" "or_none (or_none x) = or_none x"
  by (auto simp: or_none_def split: option.splits)

lemma or_none_Some: "s \<noteq> [] \<Longrightarrow> or_none (Some s) = Some s"
  by (simp add: or_none_def)

lemma opt_str_Some [simp]: "opt_str (Some s) = s"
  by (simp add: opt_str_def)

end
