(* ===== verification/Domain_Policies.thy ===== *)
theory Domain_Policies
  imports Domain_Records
begin

text \<open>
  \<^verbatim>\<open>domain/policies.py\<close>: the per-tenant policies with their defaults.  A default
  \<open>policy_id\<close> is a fresh identifier, so the default constructors take it as an argument.
\<close>

datatype consolidation_trigger = SESSION_END | THRESHOLD | SCHEDULE | ON_DEMAND

datatype conflict_resolution_mode = AUTO_CLOSE | FLAG_ONLY | MANUAL | LLM_ARBITRATED

fun trigger_str :: "consolidation_trigger \<Rightarrow> string" where
  "trigger_str SESSION_END = ''SESSION_END''"
| "trigger_str THRESHOLD = ''THRESHOLD''"
| "trigger_str SCHEDULE = ''SCHEDULE''"
| "trigger_str ON_DEMAND = ''ON_DEMAND''"

fun conflict_mode_str :: "conflict_resolution_mode \<Rightarrow> string" where
  "conflict_mode_str AUTO_CLOSE = ''AUTO_CLOSE''"
| "conflict_mode_str FLAG_ONLY = ''FLAG_ONLY''"
| "conflict_mode_str MANUAL = ''MANUAL''"
| "conflict_mode_str LLM_ARBITRATED = ''LLM_ARBITRATED''"

definition trigger_members :: "consolidation_trigger list" where
  "trigger_members = [SESSION_END, THRESHOLD, SCHEDULE, ON_DEMAND]"

definition conflict_mode_members :: "conflict_resolution_mode list" where
  "conflict_mode_members = [AUTO_CLOSE, FLAG_ONLY, MANUAL, LLM_ARBITRATED]"

abbreviation trigger_of :: "string \<Rightarrow> exn + consolidation_trigger" where
  "trigger_of \<equiv> enum_of ''ConsolidationTrigger'' trigger_str trigger_members"
abbreviation conflict_mode_of :: "string \<Rightarrow> exn + conflict_resolution_mode" where
  "conflict_mode_of \<equiv> enum_of ''ConflictResolutionMode'' conflict_mode_str conflict_mode_members"

interpretation trigger: str_enum trigger_str trigger_members
proof
  show "m \<in> set trigger_members" for m by (cases m) (simp_all add: trigger_members_def)
qed (simp add: trigger_members_def)

interpretation conflict_mode: str_enum conflict_mode_str conflict_mode_members
proof
  show "m \<in> set conflict_mode_members" for m
    by (cases m) (simp_all add: conflict_mode_members_def)
qed (simp add: conflict_mode_members_def)

record consolidation_policy =
  cp_policy_id :: policy_id
  cp_trigger :: consolidation_trigger
  cp_threshold_record_count :: int
  cp_max_items_per_run :: int
  cp_sectors :: "memory_sector list"
  cp_enabled :: bool

record retention_policy =
  rp_policy_id :: policy_id
  rp_decay_after_days :: "int option"
  rp_archive_after_days :: "int option"
  rp_delete_after_days :: "int option"
  rp_sector_decay_overrides :: json_dict
  rp_enabled :: bool

record conflict_resolution_policy =
  crp_policy_id :: policy_id
  crp_mode :: conflict_resolution_mode
  crp_low_confidence_threshold :: rat
  crp_enabled :: bool

record search_weights_policy =
  sw_policy_id :: policy_id
  semantic_weight :: rat
  keyword_weight :: rat
  entity_weight :: rat
  recency_weight :: rat
  salience_weight :: rat
  sw_enabled :: bool

record tenant_policies =
  tp_consolidation :: consolidation_policy
  tp_retention :: retention_policy
  tp_conflict_resolution :: conflict_resolution_policy
  tp_search_weights :: search_weights_policy

definition total_weight :: "search_weights_policy \<Rightarrow> rat" where
  "total_weight w = semantic_weight w + keyword_weight w + entity_weight w +
     recency_weight w + salience_weight w"

definition default_consolidation_policy :: "policy_id \<Rightarrow> consolidation_policy" where
  "default_consolidation_policy i = \<lparr>cp_policy_id = i, cp_trigger = SESSION_END,
     cp_threshold_record_count = 500, cp_max_items_per_run = 200,
     cp_sectors = sector_members, cp_enabled = True\<rparr>"

definition default_retention_policy :: "policy_id \<Rightarrow> retention_policy" where
  "default_retention_policy i = \<lparr>rp_policy_id = i, rp_decay_after_days = Some 90,
     rp_archive_after_days = Some 365, rp_delete_after_days = None,
     rp_sector_decay_overrides = [], rp_enabled = True\<rparr>"

definition default_conflict_resolution_policy :: "policy_id \<Rightarrow> conflict_resolution_policy" where
  "default_conflict_resolution_policy i = \<lparr>crp_policy_id = i, crp_mode = AUTO_CLOSE,
     crp_low_confidence_threshold = 6/10, crp_enabled = True\<rparr>"

definition default_search_weights_policy :: "policy_id \<Rightarrow> search_weights_policy" where
  "default_search_weights_policy i = \<lparr>sw_policy_id = i, semantic_weight = 5/10,
     keyword_weight = 2/10, entity_weight = 15/100, recency_weight = 1/10,
     salience_weight = 5/100, sw_enabled = True\<rparr>"

definition default_tenant_policies ::
  "policy_id \<Rightarrow> policy_id \<Rightarrow> policy_id \<Rightarrow> policy_id \<Rightarrow> tenant_policies" where
  "default_tenant_policies i j k l = \<lparr>tp_consolidation = default_consolidation_policy i,
     tp_retention = default_retention_policy j,
     tp_conflict_resolution = default_conflict_resolution_policy k,
     tp_search_weights = default_search_weights_policy l\<rparr>"

lemma total_weight_default: "total_weight (default_search_weights_policy i) = 1"
  by (simp add: total_weight_def default_search_weights_policy_def)

end
