(* ===== verification/Domain_Events.thy ===== *)
theory Domain_Events
  imports Domain_Policies
begin

text \<open>
  \<^verbatim>\<open>domain/events.py\<close>: the events a use case emits.  A constructor per event class with its
  own fields; the base class's \<open>tenant_id\<close> is a field of \<open>memory_event\<close>.  The generated
  \<open>event_id\<close> and \<open>occurred_at\<close> and the \<open>correlation_id\<close>, which no code reads, are left
  out.
\<close>

datatype event_type =
    MEMORY_WRITTEN | MEMORY_ENRICHED | ENRICHMENT_FAILED | FACTS_EXTRACTED
  | CONTRADICTION_DETECTED | CONTRADICTION_LOW_CONFIDENCE | MEMORY_RECALLED | RECALL_NO_MATCH
  | MEMORY_CONSOLIDATED | MEMORY_DECAYED | MEMORY_ARCHIVED | MEMORY_DELETED | SESSION_ENDED
  | CONSOLIDATION_JOB_STARTED | CONSOLIDATION_JOB_COMPLETED | TENANT_ISOLATION_VIOLATION
  | SCHEMA_MIGRATED

datatype event_body =
    MemoryWrittenEvent memory_id scope memory_sector pipeline_status
  | MemoryEnrichedEvent memory_id scope int int
  | EnrichmentFailedEvent memory_id scope string
  | FactsExtractedEvent memory_id "fact_id list"
  | ContradictionDetectedEvent fact_id fact_id entity_id string
  | ContradictionLowConfidenceEvent fact_id entity_id string rat
  | MemoryRecalledEvent scope string int int string trace_id
  | RecallNoMatchEvent scope string string
  | MemoryConsolidatedEvent memory_id "scope option" lifecycle_state
  | MemoryDecayedEvent memory_id "scope option"
  | MemoryArchivedEvent memory_id "scope option"
  | MemoryDeletedEvent memory_id "scope option"
  | SessionEndedEvent session_id scope int
  | ConsolidationJobStartedEvent job_id schedule_id string
  | ConsolidationJobCompletedEvent job_id int int
  | TenantIsolationViolationEvent string string string
  | SchemaMigratedEvent int int

record memory_event =
  ev_tenant_id :: tenant_id
  ev_body :: event_body

text \<open>Each \<open>__post_init__\<close> overwrites \<open>event_type\<close>.\<close>

fun event_type_of :: "event_body \<Rightarrow> event_type" where
  "event_type_of (MemoryWrittenEvent _ _ _ _) = MEMORY_WRITTEN"
| "event_type_of (MemoryEnrichedEvent _ _ _ _) = MEMORY_ENRICHED"
| "event_type_of (EnrichmentFailedEvent _ _ _) = ENRICHMENT_FAILED"
| "event_type_of (FactsExtractedEvent _ _) = FACTS_EXTRACTED"
| "event_type_of (ContradictionDetectedEvent _ _ _ _) = CONTRADICTION_DETECTED"
| "event_type_of (ContradictionLowConfidenceEvent _ _ _ _) = CONTRADICTION_LOW_CONFIDENCE"
| "event_type_of (MemoryRecalledEvent _ _ _ _ _ _) = MEMORY_RECALLED"
| "event_type_of (RecallNoMatchEvent _ _ _) = RECALL_NO_MATCH"
| "event_type_of (MemoryConsolidatedEvent _ _ _) = MEMORY_CONSOLIDATED"
| "event_type_of (MemoryDecayedEvent _ _) = MEMORY_DECAYED"
| "event_type_of (MemoryArchivedEvent _ _) = MEMORY_ARCHIVED"
| "event_type_of (MemoryDeletedEvent _ _) = MEMORY_DELETED"
| "event_type_of (SessionEndedEvent _ _ _) = SESSION_ENDED"
| "event_type_of (ConsolidationJobStartedEvent _ _ _) = CONSOLIDATION_JOB_STARTED"
| "event_type_of (ConsolidationJobCompletedEvent _ _ _) = CONSOLIDATION_JOB_COMPLETED"
| "event_type_of (TenantIsolationViolationEvent _ _ _) = TENANT_ISOLATION_VIOLATION"
| "event_type_of (SchemaMigratedEvent _ _) = SCHEMA_MIGRATED"

definition event :: "tenant_id \<Rightarrow> event_body \<Rightarrow> memory_event" where
  "event t b = \<lparr>ev_tenant_id = t, ev_body = b\<rparr>"

end
