(* ===== verification/Ports.thy ===== *)
theory Ports
  imports Domain_Events
begin

text \<open>
  \<^verbatim>\<open>ports/outbound.py\<close> and \<^verbatim>\<open>ports/inbound.py\<close>: the interfaces the services are given in
  their constructors.  A port is a record of operations over a state type \<open>'s\<close>; a service
  method takes the ports of its \<open>__init__\<close> as arguments, and is run against an adapter by
  instantiating them.

  Python checks neither that an adapter has every method of its protocol nor that a call
  passes the protocol's arguments.  Where the code depends on that, the port says so: the
  argument of \<open>append\<close> is either an entry, as the protocol has it, or the keyword arguments
  the consolidation service passes; an adapter that lacks a method raises
  \<open>AttributeError\<close> in its place.
\<close>

subsection \<open>Support dataclasses\<close>

record vector_document =
  vd_memory_id :: memory_id
  vd_tenant_id :: tenant_id
  vd_embedding :: "rat list"
  vd_embedding_model_id :: string
  vd_embedding_dimensions :: int
  vd_content :: string
  vd_sector :: memory_sector
  vd_lifecycle_state :: lifecycle_state
  vd_metadata :: json_dict

record vector_search_result =
  vr_memory_id :: memory_id
  vr_score :: rat
  vr_content :: string
  vr_metadata :: json_dict

record full_text_document =
  fd_memory_id :: memory_id
  fd_tenant_id :: tenant_id
  fd_content :: string
  fd_sector :: memory_sector
  fd_metadata :: json_dict

record full_text_search_result =
  fr_memory_id :: memory_id
  fr_score :: rat
  fr_content :: string

record extraction_result =
  er_memory_record_id :: memory_id
  er_facts :: "fact list"
  er_entities :: "entity_id list"
  er_error :: "string option"

record search_result_item =
  si_memory_id :: memory_id
  si_content :: string
  si_sector :: memory_sector
  si_score :: rat
  si_pipeline_status :: pipeline_status
  si_lifecycle_state :: lifecycle_state
  si_signals :: json_dict
  si_effective_from :: "datetime option"

subsection \<open>The runtime\<close>

text \<open>
  What the services take from the language's library: the clock, \<open>str(uuid4())\<close>, the
  metrics registry, \<open>asyncio.create_task\<close> on the enrichment of a record, and three pure
  functions (the text of a float, \<open>json.loads\<close>, the hexadecimal SHA-256 of a text).
\<close>

text \<open>A call on a metric, \<^verbatim>\<open>name.labels(...).inc(n)\<close> or \<^verbatim>\<open>.observe(x)\<close>, with the labels it passes.\<close>

datatype metric =
    Inc string "(string \<times> string) list" int
  | Observe string "(string \<times> string) list" rat

record 's runtime =
  run_utcnow :: "('s, datetime) action"
  run_uuid4 :: "('s, string) action"
  run_metric :: "metric \<Rightarrow> ('s, unit) action"
  run_create_task :: "memory_record \<Rightarrow> ('s, unit) action"
  run_float_str :: "rat \<Rightarrow> string"
  run_json_loads :: "string \<Rightarrow> exn + json"
  run_sha256_hex :: "string \<Rightarrow> string"

subsection \<open>Outbound ports\<close>

record 's record_repo =
  rr_save :: "memory_record \<Rightarrow> ('s, unit) action"
  rr_get_by_id :: "memory_id \<Rightarrow> tenant_id \<Rightarrow> ('s, memory_record option) action"
  rr_update_lifecycle :: "memory_id \<Rightarrow> tenant_id \<Rightarrow> lifecycle_state \<Rightarrow> string \<Rightarrow> ('s, unit) action"
  rr_update_pipeline_status :: "memory_id \<Rightarrow> tenant_id \<Rightarrow> pipeline_status \<Rightarrow> ('s, unit) action"
  rr_list_by_scope :: "scope \<Rightarrow> lifecycle_state list \<Rightarrow> int \<Rightarrow> ('s, memory_record list) action"
  rr_get_by_idempotency_key :: "string \<Rightarrow> tenant_id \<Rightarrow> ('s, memory_record option) action"
  rr_list_active_older_than :: "tenant_id \<Rightarrow> datetime \<Rightarrow> ('s, memory_record list) action"
  rr_update_lifecycle_state :: "memory_id \<Rightarrow> tenant_id \<Rightarrow> lifecycle_state \<Rightarrow> ('s, unit) action"

text \<open>The default of \<open>limit\<close> in \<open>list_by_scope\<close>.\<close>

definition default_limit :: int where
  "default_limit = 100"

record 's fact_repo =
  fr_save :: "fact \<Rightarrow> ('s, unit) action"
  fr_get_by_id :: "fact_id \<Rightarrow> tenant_id \<Rightarrow> ('s, fact option) action"
  fr_close_fact :: "fact_id \<Rightarrow> tenant_id \<Rightarrow> datetime \<Rightarrow> fact_id \<Rightarrow> ('s, unit) action"
  fr_get_active_facts :: "entity_id \<Rightarrow> string \<Rightarrow> tenant_id \<Rightarrow> ('s, fact list) action"
  fr_list_by_memory_record :: "memory_id \<Rightarrow> tenant_id \<Rightarrow> ('s, fact list) action"

datatype append_call =
    Append_Entry audit_entry
  | Append_Kwargs (kw_tenant_id: tenant_id) (kw_event_type: string) (kw_memory_id: memory_id) (kw_actor: string)

record 's audit_log_port =
  al_append :: "append_call \<Rightarrow> ('s, unit) action"
  al_get_by_memory_id :: "memory_id \<Rightarrow> tenant_id \<Rightarrow> ('s, audit_entry list) action"

record 's observer_port =
  ob_emit :: "memory_event \<Rightarrow> ('s, unit) action"

record 's policy_repo =
  pr_get :: "tenant_id \<Rightarrow> ('s, tenant_policies) action"
  pr_save :: "tenant_id \<Rightarrow> tenant_policies \<Rightarrow> ('s, unit) action"

record 's trace_repo =
  tr_save :: "recall_trace \<Rightarrow> ('s, unit) action"
  tr_get_by_trace_id :: "trace_id \<Rightarrow> tenant_id \<Rightarrow> ('s, recall_trace option) action"

type_synonym 's extraction_port = "memory_record \<Rightarrow> ('s, extraction_result) action"

type_synonym 's llm_client = "string \<Rightarrow> string \<Rightarrow> ('s, string) action"

type_synonym 's embedding_port = "string list \<Rightarrow> ('s, rat list list) action"

type_synonym 's vector_search = "rat list \<Rightarrow> tenant_id \<Rightarrow> int \<Rightarrow> ('s, vector_search_result list) action"

type_synonym 's full_text_search = "string \<Rightarrow> tenant_id \<Rightarrow> int \<Rightarrow> ('s, full_text_search_result list) action"

end
