(* ===== verification/Fixtures.thy ===== *)
theory Fixtures
  imports Ports
begin

text \<open>
  Concrete values the examples of the other theories evaluate: two tenants, a timestamp, a
  record, a fact and an audit entry.
\<close>

definition t0 :: datetime where
  "t0 = \<lparr>year = 2024, month = 2, day = 29, hour = 12, minute = 0, second = 5, microsecond = 0,
     utc_offset = None\<rparr>"

definition t1 :: datetime where
  "t1 = t0\<lparr>day := 3, month := 3, microsecond := 250000\<rparr>"

definition alice :: scope where
  "alice = Scope ''acme'' (Some ''alice'') (Some USER)"

definition record_a :: memory_record where
  "record_a = \<lparr>mr_id = ''m1'', mr_tenant_id = ''acme'', mr_scope = alice, mr_raw_payload = ''likes tea'',
     mr_payload_type = CONVERSATION_TURN, mr_sector = EPISODIC, mr_lifecycle_state = ACTIVE,
     mr_pipeline_status = PENDING, mr_recorded_at = t0, mr_idempotency_key = Some ''k'',
     mr_metadata = []\<rparr>"

definition record_b :: memory_record where
  "record_b = record_a\<lparr>mr_id := ''m2'', mr_raw_payload := ''likes coffee'', mr_recorded_at := t1\<rparr>"

definition fact_a :: fact where
  "fact_a = \<lparr>fact_id = ''f1'', fact_memory_record_id = ''m1'', fact_tenant_id = ''acme'',
     fact_scope = alice, fact_subject_entity_id = ''alice'', fact_predicate = ''drinks'',
     fact_predicate_group = ''drink'', fact_object_value = ''tea'', fact_effective_from = t0,
     fact_effective_to = None, fact_recorded_at = t0, fact_supersedes = None, fact_confidence = 1,
     fact_sector = SEMANTIC, fact_lifecycle_state = ACTIVE\<rparr>"

definition fact_b :: fact where
  "fact_b = fact_a\<lparr>fact_id := ''f2'', fact_object_value := ''coffee'', fact_recorded_at := t1\<rparr>"

definition entry_a :: audit_entry where
  "entry_a = \<lparr>ae_id = ''a1'', ae_tenant_id = ''acme'', ae_scope = alice, ae_operation = WRITE,
     ae_memory_id = Some ''m1'', ae_actor = ''system'', ae_timestamp = t0, ae_outcome = SUCCESS,
     ae_detail = []\<rparr>"

definition write_a :: write_request where
  "write_a = \<lparr>wr_tenant_id = ''acme'', wr_scope = alice, wr_raw_payload = ''likes tea'',
     wr_payload_type = CONVERSATION_TURN, wr_sector = None, wr_idempotency_key = Some ''k'',
     wr_extract = True, wr_wait_for_enrichment = False, wr_metadata = []\<rparr>"

definition search_a :: search_request where
  "search_a = \<lparr>sr_tenant_id = ''acme'', sr_scope = alice, sr_query = ''tea'', sr_mode = MODE_HYBRID,
     sr_sectors = None, sr_lifecycle_states = [ACTIVE], sr_temporal_filter = None, sr_k = 1\<rparr>"

definition recall_a :: recall_request where
  "recall_a = \<lparr>rq_tenant_id = ''acme'', rq_scope = alice, rq_query = ''tea'', rq_max_tokens = Some 5,
     rq_max_items = 10, rq_sectors = None, rq_include_facts = True, rq_include_verbatim = True,
     rq_mode = MODE_HYBRID\<rparr>"

definition item_a :: search_result_item where
  "item_a = \<lparr>si_memory_id = ''m1'', si_content = ''likes green tea'', si_sector = SEMANTIC, si_score = 1,
     si_pipeline_status = ENRICHED, si_lifecycle_state = ACTIVE, si_signals = [],
     si_effective_from = None\<rparr>"

text \<open>A runtime whose clock stands still, and a JSON library that reads the empty array only.\<close>

definition still_runtime :: "'s runtime" where
  "still_runtime = \<lparr>
     run_utcnow = returnM t0, run_uuid4 = returnM ''u'', run_metric = (\<lambda>_. returnM ()),
     run_create_task = (\<lambda>_. returnM ()), run_float_str = (\<lambda>_. ''1.0''),
     run_json_loads = (\<lambda>s. if s = ''[]'' then Inr (JArr []) else Inl (ValueError ''Expecting value'')),
     run_sha256_hex = (\<lambda>s. s)\<rparr>"

lemma still_runtime_simps [simp]:
  "run_utcnow still_runtime = returnM t0" "run_uuid4 still_runtime = returnM ''u''"
  "run_metric still_runtime m = returnM ()" "run_create_task still_runtime r = returnM ()"
  by (simp_all add: still_runtime_def)

definition silent_observer :: "'s observer_port" where
  "silent_observer = \<lparr>ob_emit = (\<lambda>_. returnM ())\<rparr>"

lemma silent_observer_simps [simp]: "ob_emit silent_observer e = returnM ()"
  by (simp add: silent_observer_def)

lemmas fixture_defs = t0_def t1_def alice_def record_a_def record_b_def fact_a_def fact_b_def
  entry_a_def write_a_def

lemma valid_t0 [simp]: "valid_datetime t0" "valid_datetime t1"
  by (simp_all add: valid_datetime_def t0_def t1_def days_in_month_def is_leap_def)

lemma naive_fixtures [simp]: "utc_offset t0 = None" "utc_offset t1 = None"
  by (simp_all add: t0_def t1_def)

lemma t0_before_t1: "time_key t0 < time_key t1"
  by (simp add: t0_def t1_def time_key_def)

lemma alice_simps [simp]: "scope_principal_type alice = Some USER" "scope_tenant_id alice = ''acme''"
  "scope_principal_id alice = Some ''alice''"
  by (simp_all add: alice_def Scope_def)

end
