(* ===== verification/Planner.thy ===== *)
theory Planner
  imports Fixtures
begin

text \<open>
  \<^verbatim>\<open>engine/planner.py\<close>, \<open>DefaultQueryPlanner\<close>: a pure function from a search request and the
  tenant's weights to a query plan.  The argument \<open>fs\<close> is the text of a float in the
  explanations.
\<close>

datatype index_target = VECTOR | FULL_TEXT | GRAPH | TEMPORAL

record query_plan =
  qp_mode :: search_mode
  qp_targets :: "index_target list"
  qp_weights :: "(string \<times> rat) list"
  qp_use_llm_rerank :: bool
  qp_temporal_filter :: "temporal_filter option"
  qp_k_per_index :: int
  qp_final_k :: int
  qp_explanation :: string

text \<open>\<open>getattr(request, "k", 10) or 10\<close>, and the candidates asked of every index.\<close>

definition final_k_of :: "search_request \<Rightarrow> int" where
  "final_k_of request = (if sr_k request = 0 then 10 else sr_k request)"

definition k_per_index_of :: "int \<Rightarrow> int" where
  "k_per_index_of final_k = max (final_k * 3) 20"

fun mode_targets :: "search_mode \<Rightarrow> index_target list" where
  "mode_targets MODE_SEMANTIC = [VECTOR]"
| "mode_targets MODE_KEYWORD = [FULL_TEXT]"
| "mode_targets MODE_HYBRID = [VECTOR, FULL_TEXT]"
| "mode_targets MODE_HYBRID_TEMPORAL = [VECTOR, FULL_TEXT, TEMPORAL]"
| "mode_targets MODE_QUALITY = [VECTOR, FULL_TEXT, TEMPORAL]"
| "mode_targets MODE_GRAPH = [GRAPH]"

fun mode_weights :: "search_weights_policy \<Rightarrow> search_mode \<Rightarrow> (string \<times> rat) list" where
  "mode_weights w MODE_SEMANTIC = [(''semantic_weight'', semantic_weight w)]"
| "mode_weights w MODE_KEYWORD = [(''keyword_weight'', keyword_weight w)]"
| "mode_weights w MODE_HYBRID =
     [(''semantic_weight'', semantic_weight w), (''keyword_weight'', keyword_weight w)]"
| "mode_weights w MODE_HYBRID_TEMPORAL =
     [(''semantic_weight'', semantic_weight w), (''keyword_weight'', keyword_weight w),
      (''recency_weight'', recency_weight w)]"
| "mode_weights w MODE_QUALITY =
     [(''semantic_weight'', semantic_weight w), (''keyword_weight'', keyword_weight w),
      (''recency_weight'', recency_weight w)]"
| "mode_weights w MODE_GRAPH = [(''entity_weight'', entity_weight w)]"

fun mode_explanation :: "(rat \<Rightarrow> string) \<Rightarrow> search_weights_policy \<Rightarrow> search_mode \<Rightarrow> string" where
  "mode_explanation fs w MODE_SEMANTIC =
     ''SEMANTIC mode: dense vector search only; semantic_weight='' @ fs (semantic_weight w) @ ''.''"
| "mode_explanation fs w MODE_KEYWORD =
     ''KEYWORD mode: full-text BM25 search only; keyword_weight='' @ fs (keyword_weight w) @ ''.''"
| "mode_explanation fs w MODE_HYBRID =
     ''HYBRID mode: RRF fusion of vector + full-text; semantic='' @ fs (semantic_weight w) @
     '', keyword='' @ fs (keyword_weight w) @ ''.''"
| "mode_explanation fs w MODE_HYBRID_TEMPORAL =
     ''HYBRID_TEMPORAL mode: RRF fusion of vector + full-text + temporal decay; semantic='' @
     fs (semantic_weight w) @ '', keyword='' @ fs (keyword_weight w) @
     '', recency='' @ fs (recency_weight w) @ ''.''"
| "mode_explanation fs w MODE_QUALITY =
     ''QUALITY mode: full RRF fusion + LLM rerank for highest precision; semantic='' @
     fs (semantic_weight w) @ '', keyword='' @ fs (keyword_weight w) @
     '', recency='' @ fs (recency_weight w) @ ''.''"
| "mode_explanation fs w MODE_GRAPH =
     ''GRAPH mode: graph traversal search; entity_weight='' @ fs (entity_weight w) @ ''.''"

definition plan ::
  "(rat \<Rightarrow> string) \<Rightarrow> search_request \<Rightarrow> search_weights_policy \<Rightarrow> bool \<Rightarrow> exn + query_plan" where
  "plan fs request weights graph_available = (let m = sr_mode request; final_k = final_k_of request in
     if m = MODE_GRAPH \<and> \<not> graph_available then
       Inl (CapabilityNotAvailableError ''GRAPH search mode requested but no graph index is available.'')
     else Inr \<lparr>
       qp_mode = m,
       qp_targets = mode_targets m,
       qp_weights = mode_weights weights m,
       qp_use_llm_rerank = (m = MODE_QUALITY),
       qp_temporal_filter = sr_temporal_filter request,
       qp_k_per_index = k_per_index_of final_k,
       qp_final_k = final_k,
       qp_explanation = mode_explanation fs weights m\<rparr>)"

lemma plan_Inr_iff [result_iff]:
  "plan fs rq w g = Inr p \<longleftrightarrow> (sr_mode rq = MODE_GRAPH \<longrightarrow> g) \<and>
     p = \<lparr>qp_mode = sr_mode rq, qp_targets = mode_targets (sr_mode rq),
       qp_weights = mode_weights w (sr_mode rq), qp_use_llm_rerank = (sr_mode rq = MODE_QUALITY),
       qp_temporal_filter = sr_temporal_filter rq, qp_k_per_index = k_per_index_of (final_k_of rq),
       qp_final_k = final_k_of rq, qp_explanation = mode_explanation fs w (sr_mode rq)\<rparr>"
  by (auto simp: plan_def Let_def)

lemma final_k_nonzero [simp]: "final_k_of rq \<noteq> 0"
  by (simp add: final_k_of_def)

lemma mode_targets_distinct: "distinct (mode_targets m)"
  by (cases m) simp_all

text \<open>A plan names the weight of exactly the searched indexes; a ranking by time, where it
  is a target, comes with the recency weight.\<close>

lemma mode_weights_keys:
  "map fst (mode_weights w m) = map (\<lambda>x. case x of VECTOR \<Rightarrow> ''semantic_weight''
     | FULL_TEXT \<Rightarrow> ''keyword_weight'' | TEMPORAL \<Rightarrow> ''recency_weight'' | GRAPH \<Rightarrow> ''entity_weight'')
     (mode_targets m)"
  by (cases m) simp_all

subsection \<open>Properties\<close>

text \<open>What is planned: a GRAPH search without a graph index raises
  \<open>CapabilityNotAvailableError\<close> and nothing else raises; a plan asks each of its indexes for at
  least twenty candidates and for at least three per final result, carries one weight per index, in
  their order, and reranks exactly in QUALITY mode.\<close>

theorem plan_spec:
  "(case plan fs request w graph of
      Inl e \<Rightarrow> sr_mode request = MODE_GRAPH \<and> \<not> graph \<and>
        e = CapabilityNotAvailableError ''GRAPH search mode requested but no graph index is available.''
    | Inr p \<Rightarrow> (sr_mode request = MODE_GRAPH \<longrightarrow> graph) \<and>
        qp_final_k p = final_k_of request \<and> qp_final_k p \<noteq> 0 \<and>
        20 \<le> qp_k_per_index p \<and> 3 * qp_final_k p \<le> qp_k_per_index p \<and>
        (qp_k_per_index p = 20 \<or> qp_k_per_index p = 3 * qp_final_k p) \<and>
        distinct (qp_targets p) \<and> length (qp_weights p) = length (qp_targets p) \<and>
        (GRAPH \<in> set (qp_targets p) \<longleftrightarrow> sr_mode request = MODE_GRAPH) \<and>
        (qp_use_llm_rerank p \<longleftrightarrow> sr_mode request = MODE_QUALITY))"
proof (cases "plan fs request w graph")
  case (Inl e)
  then show ?thesis by (auto simp: plan_def Let_def split: if_splits)
next
  case (Inr p)
  have "length (mode_weights w m) = length (mode_targets m)" "GRAPH \<in> set (mode_targets m) \<longleftrightarrow> m = MODE_GRAPH" for m
    by (cases m; simp)+
  moreover have "k_per_index_of k = 20 \<or> k_per_index_of k = 3 * k" "20 \<le> k_per_index_of k" "3 * k \<le> k_per_index_of k" for k
    by (auto simp: k_per_index_of_def)
  moreover note Inr [unfolded plan_Inr_iff]
  ultimately show ?thesis unfolding Inr by (simp add: mode_targets_distinct)
qed

theorem plan_spec_witness:
  "plan (\<lambda>_. []) (search_a\<lparr>sr_mode := MODE_GRAPH\<rparr>) (default_search_weights_policy ''w'') False =
    Inl (CapabilityNotAvailableError ''GRAPH search mode requested but no graph index is available.'')"
  using plan_spec [where fs = "\<lambda>_. []" and request = "search_a\<lparr>sr_mode := MODE_GRAPH\<rparr>" and graph = False
      and w = "default_search_weights_policy ''w''"]
  by (simp split: sum.splits)

end
