(* ===== verification/Retrieval.thy ===== *)
theory Retrieval
  imports Planner "HOL-Library.AList"
begin

text \<open>
  \<^verbatim>\<open>engine/retrieval.py\<close>: reciprocal rank fusion and the retrieval service.  A Python dict is
  an association list in insertion order (an assignment to an existing key keeps its place).
\<close>

subsection \<open>Reciprocal rank fusion\<close>

type_synonym scores = "(memory_id \<times> rat) list"

definition score_of :: "scores \<Rightarrow> memory_id \<Rightarrow> rat" where
  "score_of d m = (case map_of d m of None \<Rightarrow> 0 | Some x \<Rightarrow> x)"

fun add_ranked :: "nat \<Rightarrow> rat \<Rightarrow> nat \<Rightarrow> memory_id list \<Rightarrow> scores \<Rightarrow> scores" where
  \<comment> \<open>the inner loop, from position \<open>rank\<close> on\<close>
  "add_ranked k weight rank [] d = d"
| "add_ranked k weight rank (m # ms) d =
     add_ranked k weight (Suc rank) ms
       (AList.update m (score_of d m + weight / of_nat (k + rank + 1)) d)"

fun add_lists :: "nat \<Rightarrow> (memory_id list \<times> rat) list \<Rightarrow> scores \<Rightarrow> scores" where
  "add_lists k [] d = d"
| "add_lists k ((ranked, weight) # rest) d = add_lists k rest (add_ranked k weight 0 ranked d)"

definition sort_desc :: "scores \<Rightarrow> scores" where
  \<comment> \<open>\<^verbatim>\<open>sorted(items, key=score, reverse=True)\<close>: stable\<close>
  "sort_desc d = sort_key (\<lambda>x. - snd x) d"

definition reciprocal_rank_fusion :: "memory_id list list \<Rightarrow> rat list option \<Rightarrow> nat \<Rightarrow> scores" where
  "reciprocal_rank_fusion ranked_lists weights k =
     (if ranked_lists = [] then []
      else (let ws = (case weights of None \<Rightarrow> replicate (length ranked_lists) 1 | Some w \<Rightarrow> w) in
        sort_desc (add_lists k (zip ranked_lists ws) [])))"

text \<open>What the score of an id is meant to be: the weighted sum over its occurrences.\<close>

fun list_score :: "nat \<Rightarrow> rat \<Rightarrow> nat \<Rightarrow> memory_id \<Rightarrow> memory_id list \<Rightarrow> rat" where
  "list_score k weight rank m [] = 0"
| "list_score k weight rank m (x # xs) =
     (if x = m then weight / of_nat (k + rank + 1) else 0) + list_score k weight (Suc rank) m xs"

definition rrf_score :: "nat \<Rightarrow> (memory_id list \<times> rat) list \<Rightarrow> memory_id \<Rightarrow> rat" where
  "rrf_score k lws m = (\<Sum>(ranked, w) \<leftarrow> lws. list_score k w 0 m ranked)"

lemma score_of_update [simp]:
  "score_of (AList.update a x d) m = (if m = a then x else score_of d m)"
  by (auto simp: score_of_def AList.update_conv)

lemma keys_update: "fst ` set (AList.update a x d) = insert a (fst ` set d)"
  by (simp add: AList.dom_update)

lemma add_ranked_score:
  "score_of (add_ranked k w rank ms d) m = score_of d m + list_score k w rank m ms"
  by (induction ms arbitrary: rank d) simp_all

lemma add_ranked_keys:
  "fst ` set (add_ranked k w rank ms d) = fst ` set d \<union> set ms"
  "distinct (map fst d) \<Longrightarrow> distinct (map fst (add_ranked k w rank ms d))"
  by (induction ms arbitrary: rank d) (simp_all add: keys_update AList.distinct_update)

lemma add_lists_score: "score_of (add_lists k lws d) m = score_of d m + rrf_score k lws m"
  by (induction lws arbitrary: d) (auto simp: rrf_score_def add_ranked_score)

lemma add_lists_keys:
  "fst ` set (add_lists k lws d) = fst ` set d \<union> \<Union> (set ` set (map fst lws))"
  "distinct (map fst d) \<Longrightarrow> distinct (map fst (add_lists k lws d))"
  by (induction k lws d rule: add_lists.induct) (simp_all add: add_ranked_keys Un_assoc)

lemma sort_desc_simps [simp]:
  "set (sort_desc d) = set d" "distinct (map fst (sort_desc d)) = distinct (map fst d)"
  "length (sort_desc d) = length d"
  by (simp_all add: sort_desc_def distinct_map)

lemma sort_desc_sorted: "sorted_wrt (\<lambda>a b. snd b \<le> snd a) (sort_desc d)"
  using sorted_sort_key [of "\<lambda>x. - snd x" d] by (simp add: sort_desc_def sorted_map)

lemma score_of_member: "distinct (map fst d) \<Longrightarrow> (m, x) \<in> set d \<Longrightarrow> score_of d m = x"
  by (simp add: score_of_def)

lemma rrf_facts:
  assumes "length ws = length rls" and fused_def: "fused = reciprocal_rank_fusion rls (Some ws) k"
  shows "fst ` set fused = \<Union> (set ` set rls)" "distinct (map fst fused)"
    "sorted_wrt (\<lambda>a b. snd b \<le> snd a) fused"
    "(m, x) \<in> set fused \<Longrightarrow> x = rrf_score k (zip rls ws) m"
proof -
  let ?d = "add_lists k (zip rls ws) []"
  have dist: "distinct (map fst ?d)" by (rule add_lists_keys) simp
  have keys: "fst ` set ?d = \<Union> (set ` set rls)"
    using assms(1) by (simp add: add_lists_keys del: set_map)
  show "fst ` set fused = \<Union> (set ` set rls)" "distinct (map fst fused)"
    "sorted_wrt (\<lambda>a b. snd b \<le> snd a) fused"
    using keys dist by (auto simp: fused_def reciprocal_rank_fusion_def sort_desc_sorted)
  assume "(m, x) \<in> set fused"
  then have "score_of ?d m = x"
    using dist by (auto simp: fused_def reciprocal_rank_fusion_def intro: score_of_member split: if_splits)
  then show "x = rrf_score k (zip rls ws) m"
    by (simp add: add_lists_score) (simp add: score_of_def)
qed

subsection \<open>The retrieval service\<close>

record search_result =
  ss_items :: "search_result_item list"
  ss_total :: int
  ss_query_plan :: "query_plan option"
  ss_searched_at :: datetime

text \<open>What the two index results have in common: id, content, score.\<close>

type_synonym hit = "memory_id \<times> string \<times> rat"

definition hit_ids :: "hit list \<Rightarrow> memory_id list" where
  "hit_ids hits = map fst hits"

text \<open>
  \<open>asyncio.gather\<close>: every task runs, here one after the other in the order they were made;
  the first exception is raised.
\<close>

fun gather :: "('s, 'a) action list \<Rightarrow> ('s, 'a list) action" where
  "gather [] s = (Inr [], s)"
| "gather (m # ms) s = (case m s of (r, s1) \<Rightarrow> (case gather ms s1 of (rs, s2) \<Rightarrow>
     (bindE r (\<lambda>x. bindE rs (\<lambda>xs. Inr (x # xs))), s2)))"

definition vector_task :: "'s vector_search \<Rightarrow> rat list \<Rightarrow> tenant_id \<Rightarrow> int \<Rightarrow> ('s, hit list) action" where
  "vector_task search e t k = bindM (search e t k) (\<lambda>rs.
     returnM (map (\<lambda>r. (vr_memory_id r, vr_content r, vr_score r)) rs))"

definition full_text_task :: "'s full_text_search \<Rightarrow> string \<Rightarrow> tenant_id \<Rightarrow> int \<Rightarrow> ('s, hit list) action" where
  "full_text_task search q t k = bindM (search q t k) (\<lambda>rs.
     returnM (map (\<lambda>r. (fr_memory_id r, fr_content r, fr_score r)) rs))"

text \<open>\<open>content_map\<close> and \<open>score_map\<close>: assignments for the first list, \<open>setdefault\<close> for the second.\<close>

definition assign_hits :: "(hit \<Rightarrow> 'a) \<Rightarrow> hit list \<Rightarrow> (memory_id \<rightharpoonup> 'a) \<Rightarrow> memory_id \<rightharpoonup> 'a" where
  "assign_hits f hits d = foldl (\<lambda>d h. d(fst h \<mapsto> f h)) d hits"

definition default_hits :: "(hit \<Rightarrow> 'a) \<Rightarrow> hit list \<Rightarrow> (memory_id \<rightharpoonup> 'a) \<Rightarrow> memory_id \<rightharpoonup> 'a" where
  "default_hits f hits d = foldl (\<lambda>d h. if d (fst h) = None then d(fst h \<mapsto> f h) else d) d hits"

definition hit_map :: "(hit \<Rightarrow> 'a) \<Rightarrow> hit list option \<Rightarrow> hit list option \<Rightarrow> memory_id \<rightharpoonup> 'a" where
  "hit_map f vec fts =
     (case fts of None \<Rightarrow> id | Some hs \<Rightarrow> default_hits f hs)
       ((case vec of None \<Rightarrow> id | Some hs \<Rightarrow> assign_hits f hs) Map.empty)"

definition get_or :: "(memory_id \<rightharpoonup> 'a) \<Rightarrow> memory_id \<Rightarrow> 'a \<Rightarrow> 'a" where
  "get_or d m x = (case d m of None \<Rightarrow> x | Some y \<Rightarrow> y)"

definition plan_weight :: "query_plan \<Rightarrow> string \<Rightarrow> rat" where
  "plan_weight p name = (case map_of (qp_weights p) name of None \<Rightarrow> 1 | Some x \<Rightarrow> x)"

definition merge_hits :: "query_plan \<Rightarrow> hit list option \<Rightarrow> hit list option \<Rightarrow> scores" where
  "merge_hits p vec fts = (let
       ranked =
         (case vec of None \<Rightarrow> [] | Some hs \<Rightarrow> [(hit_ids hs, plan_weight p ''semantic_weight'')]) @
         (case fts of None \<Rightarrow> [] | Some hs \<Rightarrow> [(hit_ids hs, plan_weight p ''keyword_weight'')]);
       score_map = hit_map (snd \<circ> snd) vec fts
     in if 1 < length ranked then reciprocal_rank_fusion (map fst ranked) (Some (map snd ranked)) 60
        else (case ranked of [] \<Rightarrow> []
          | (ids, w) # _ \<Rightarrow> map (\<lambda>m. (m, get_or score_map m 1)) ids))"

definition to_item :: "(memory_id \<rightharpoonup> string) \<Rightarrow> memory_id \<times> rat \<Rightarrow> search_result_item" where
  "to_item content_map x =
     \<lparr>si_memory_id = fst x, si_content = get_or content_map (fst x) [], si_sector = SEMANTIC,
      si_score = snd x, si_pipeline_status = ENRICHED, si_lifecycle_state = ACTIVE,
      si_signals = [], si_effective_from = None\<rparr>"

definition result_items :: "query_plan \<Rightarrow> hit list option \<Rightarrow> hit list option \<Rightarrow> search_result_item list" where
  "result_items p vec fts =
     map (to_item (hit_map (fst \<circ> snd) vec fts)) (py_take (qp_final_k p) (merge_hits p vec fts))"

definition index_tasks ::
  "'s embedding_port \<Rightarrow> 's vector_search \<Rightarrow> 's full_text_search \<Rightarrow> search_request \<Rightarrow> query_plan \<Rightarrow>
   ('s, (index_target \<times> ('s, hit list) action) list) action" where
  \<comment> \<open>the \<open>tasks\<close> dict; the query is embedded while it is built\<close>
  "index_tasks emb vector_search fts_search request p =
     bindM (if VECTOR \<in> set (qp_targets p)
            then bindM (emb [sr_query request]) (\<lambda>es. case es of
                [] \<Rightarrow> raiseM IndexError
              | e # _ \<Rightarrow> returnM [(VECTOR,
                  vector_task vector_search e (sr_tenant_id request) (qp_k_per_index p))])
            else returnM []) (\<lambda>vtasks.
     returnM (vtasks @
       (if FULL_TEXT \<in> set (qp_targets p)
        then [(FULL_TEXT, full_text_task fts_search (sr_query request) (sr_tenant_id request)
          (qp_k_per_index p))] else [])))"

definition retrieve ::
  "'s runtime \<Rightarrow> 's embedding_port \<Rightarrow> 's vector_search \<Rightarrow> 's full_text_search \<Rightarrow> bool \<Rightarrow>
   search_request \<Rightarrow> query_plan \<Rightarrow> ('s, search_result) action" where
  \<comment> \<open>the graph port is only compared to \<open>None\<close>\<close>
  "retrieve rt emb vector_search fts_search has_graph request p =
     (if GRAPH \<in> set (qp_targets p) \<and> \<not> has_graph
      then raiseM (CapabilityNotAvailableError ''graph'')
      else
        bindM (index_tasks emb vector_search fts_search request p) (\<lambda>tasks.
        bindM (gather (map snd tasks)) (\<lambda>results.
        let gathered = map_of (zip (map fst tasks) results);
            items = result_items p (gathered VECTOR) (gathered FULL_TEXT)
        in bindM (run_utcnow rt) (\<lambda>now.
          returnM \<lparr>ss_items = items, ss_total = int (length items), ss_query_plan = Some p,
            ss_searched_at = now\<rparr>))))"

subsection \<open>The ranking\<close>

lemma merge_both:
  "merge_hits p (Some vs) (Some fs) = reciprocal_rank_fusion [hit_ids vs, hit_ids fs]
     (Some [plan_weight p ''semantic_weight'', plan_weight p ''keyword_weight'']) 60"
  by (simp add: merge_hits_def)

lemma merge_ids:
  "fst ` set (merge_hits p vec fts) =
     (case vec of None \<Rightarrow> {} | Some hs \<Rightarrow> set (hit_ids hs)) \<union>
     (case fts of None \<Rightarrow> {} | Some hs \<Rightarrow> set (hit_ids hs))"
proof (cases vec; cases fts)
  fix vs fs assume "vec = Some vs" "fts = Some fs"
  then show ?thesis by (simp add: merge_both) (subst rrf_facts(1) [OF _ refl], auto)
qed (auto simp: merge_hits_def image_image)

lemma result_items_ids:
  "si_memory_id ` set (result_items p vec fts) \<subseteq> fst ` set (merge_hits p vec fts)"
  using set_py_take [of "qp_final_k p" "merge_hits p vec fts"]
  by (force simp: result_items_def to_item_def)

lemma result_items_length:
  "0 \<le> qp_final_k p \<Longrightarrow> int (length (result_items p vec fts)) \<le> qp_final_k p"
  by (simp add: result_items_def length_py_take)

lemma result_items_ranking:
  "map (\<lambda>i. (si_memory_id i, si_score i)) (result_items p vec fts) = py_take (qp_final_k p) (merge_hits p vec fts)"
  by (simp add: result_items_def to_item_def o_def)

text \<open>What \<open>retrieve\<close> returns is determined by the hits of the two searches.\<close>

lemma gather_Inr: "gather ms s = (Inr xs, s') \<Longrightarrow> length xs = length ms"
  by (induction ms arbitrary: s xs s') (auto split: prod.splits simp: bindE_Inr_iff)

lemma case_first_iff:
  "(case es of [] \<Rightarrow> raiseM IndexError | e # _ \<Rightarrow> returnM (f e)) s = (Inr x, s') \<longleftrightarrow>
     (\<exists>e es'. es = e # es' \<and> x = f e \<and> s' = s)"
  by (auto simp: monad_simps split: list.split)

lemma index_tasks_targets:
  "index_tasks emb vs fs request p s = (Inr tasks, s') \<Longrightarrow>
     set (map fst tasks) = set (qp_targets p) \<inter> {VECTOR, FULL_TEXT}"
  by (auto simp: index_tasks_def result_iff case_first_iff split: if_splits)
    (auto simp: monad_simps)

lemma retrieve_items:
  assumes "retrieve rt emb vs fs g request p s = (Inr r, s')"
  obtains vec fts where "ss_items r = result_items p vec fts" "ss_query_plan r = Some p"
    "ss_total r = int (length (ss_items r))"
    "vec = None \<longleftrightarrow> VECTOR \<notin> set (qp_targets p)" "fts = None \<longleftrightarrow> FULL_TEXT \<notin> set (qp_targets p)"
proof -
  from assms obtain tasks s1 results s2 now where
      tasks: "index_tasks emb vs fs request p s = (Inr tasks, s1)"
    and "gather (map snd tasks) s1 = (Inr results, s2)"
    and r: "r = \<lparr>ss_items = result_items p (map_of (zip (map fst tasks) results) VECTOR)
        (map_of (zip (map fst tasks) results) FULL_TEXT),
      ss_total = int (length (result_items p (map_of (zip (map fst tasks) results) VECTOR)
        (map_of (zip (map fst tasks) results) FULL_TEXT))),
      ss_query_plan = Some p, ss_searched_at = now\<rparr>"
    by (auto simp: retrieve_def Let_def result_iff monad_simps split: if_splits)
  then have "length (map fst tasks) = length results" by (auto dest: gather_Inr)
  then have "map_of (zip (map fst tasks) results) x = None \<longleftrightarrow> x \<notin> set (map fst tasks)" for x
    by (rule map_of_zip_is_None)
  with that r index_tasks_targets [OF tasks] show ?thesis by auto
qed

subsection \<open>Properties\<close>

text \<open>C18. Reciprocal rank fusion: the fused ranking holds each id of any of the lists once, an id's
  score is the weighted sum over its occurrences of one over \<open>k\<close> plus its one-based rank, and the
  highest score comes first.\<close>

theorem fusion_spec:
  assumes "length ws = length rls"
  shows "fst ` set (reciprocal_rank_fusion rls (Some ws) k) = \<Union> (set ` set rls) \<and>
    distinct (map fst (reciprocal_rank_fusion rls (Some ws) k)) \<and>
    sorted_wrt (\<lambda>a b. snd b \<le> snd a) (reciprocal_rank_fusion rls (Some ws) k) \<and>
    (\<forall>m x. (m, x) \<in> set (reciprocal_rank_fusion rls (Some ws) k) \<longrightarrow> x = rrf_score k (zip rls ws) m)"
  using rrf_facts [OF assms refl] by blast

theorem fusion_spec_witness:
  "fst ` set (reciprocal_rank_fusion [[''a'', ''b''], [''b'', ''c'']] (Some [1, 1]) 60) = {''a'', ''b'', ''c''}"
proof -
  have "fst ` set (reciprocal_rank_fusion [[''a'', ''b''], [''b'', ''c'']] (Some [1, 1]) 60) =
      \<Union> (set ` set [[''a'', ''b''], [''b'', ''c'']])"
    by (rule conjunct1 [OF fusion_spec]) simp
  then show ?thesis by auto
qed

lemma vector_task_Inr: "vector_task vs e t k s = (Inr hits, s') \<longleftrightarrow>
    (\<exists>rs. vs e t k s = (Inr rs, s') \<and> hits = map (\<lambda>r. (vr_memory_id r, vr_content r, vr_score r)) rs)"
  by (auto simp: vector_task_def result_iff monad_simps)

lemma full_text_task_Inr: "full_text_task fs q t k s = (Inr hits, s') \<longleftrightarrow>
    (\<exists>rs. fs q t k s = (Inr rs, s') \<and> hits = map (\<lambda>r. (fr_memory_id r, fr_content r, fr_score r)) rs)"
  by (auto simp: full_text_task_def result_iff monad_simps)

lemma gather_two: "gather [m, n] s = (Inr xs, s') \<longleftrightarrow>
    (\<exists>x y s1. m s = (Inr x, s1) \<and> n s1 = (Inr y, s') \<and> xs = [x, y])"
  by (auto simp: bindE_Inr_iff split: prod.splits)

lemma index_tasks_both:
  assumes "VECTOR \<in> set (qp_targets p)" "FULL_TEXT \<in> set (qp_targets p)"
    and "index_tasks emb vs fs request p s = (Inr tasks, s')"
  obtains e es where "emb [sr_query request] s = (Inr (e # es), s')"
    "tasks = [(VECTOR, vector_task vs e (sr_tenant_id request) (qp_k_per_index p)),
      (FULL_TEXT, full_text_task fs (sr_query request) (sr_tenant_id request) (qp_k_per_index p))]"
  using assms by (auto simp: index_tasks_def result_iff case_first_iff monad_simps)

text \<open>A hybrid retrieval ranks what its two indexes answered: the query is embedded once, both
  indexes are asked for the plan's number of candidates of the request's tenant, and the items are
  the first \<open>final_k\<close> of the fusion of the two rankings under the plan's weights.\<close>

theorem retrieve_hybrid:
  assumes "VECTOR \<in> set (qp_targets p)" "FULL_TEXT \<in> set (qp_targets p)"
    and "retrieve rt emb vs fs g request p s = (Inr r, s')"
  shows "\<exists>e es s1 vrs s2 frs s3. emb [sr_query request] s = (Inr (e # es), s1) \<and>
    vs e (sr_tenant_id request) (qp_k_per_index p) s1 = (Inr vrs, s2) \<and>
    fs (sr_query request) (sr_tenant_id request) (qp_k_per_index p) s2 = (Inr frs, s3) \<and>
    map (\<lambda>i. (si_memory_id i, si_score i)) (ss_items r) =
      py_take (qp_final_k p) (reciprocal_rank_fusion [map vr_memory_id vrs, map fr_memory_id frs]
        (Some [plan_weight p ''semantic_weight'', plan_weight p ''keyword_weight'']) 60) \<and>
    ss_total r = int (length (ss_items r)) \<and> ss_query_plan r = Some p"
proof -
  from assms(3) obtain tasks s1 results s2 now s3 where
      tasks: "index_tasks emb vs fs request p s = (Inr tasks, s1)"
    and gat: "gather (map snd tasks) s1 = (Inr results, s2)"
    and r: "ss_items r = result_items p (map_of (zip (map fst tasks) results) VECTOR)
        (map_of (zip (map fst tasks) results) FULL_TEXT)"
      "ss_total r = int (length (ss_items r))" "ss_query_plan r = Some p"
    by (auto simp: retrieve_def Let_def result_iff monad_simps split: if_splits)
  from tasks obtain e es where emb: "emb [sr_query request] s = (Inr (e # es), s1)"
    and t: "tasks = [(VECTOR, vector_task vs e (sr_tenant_id request) (qp_k_per_index p)),
      (FULL_TEXT, full_text_task fs (sr_query request) (sr_tenant_id request) (qp_k_per_index p))]"
    by (rule index_tasks_both [OF assms(1,2)])
  from gat obtain x y u where xy: "vector_task vs e (sr_tenant_id request) (qp_k_per_index p) s1 = (Inr x, u)"
      "full_text_task fs (sr_query request) (sr_tenant_id request) (qp_k_per_index p) u = (Inr y, s2)"
      "results = [x, y]"
    unfolding t by (auto simp: gather_two simp del: gather.simps)
  with emb r show ?thesis
    by (auto simp: vector_task_Inr full_text_task_Inr t result_items_ranking merge_both hit_ids_def o_def)
qed

theorem retrieve_hybrid_witness:
  "\<exists>r. retrieve still_runtime (\<lambda>_. returnM [[1]])
      (\<lambda>_ _ _. returnM [\<lparr>vr_memory_id = ''m1'', vr_score = 1, vr_content = ''tea'', vr_metadata = []\<rparr>])
      (\<lambda>_ _ _. returnM [\<lparr>fr_memory_id = ''m1'', fr_score = 1, fr_content = ''tea''\<rparr>])
      False search_a (projr (plan (\<lambda>_. []) search_a (default_search_weights_policy ''w'') False)) () = (Inr r, ()) \<and>
    map si_memory_id (ss_items r) = [''m1'']"
proof -
  define vs :: "unit vector_search" where
    "vs = (\<lambda>_ _ _. returnM [\<lparr>vr_memory_id = ''m1'', vr_score = 1, vr_content = ''tea'', vr_metadata = []\<rparr>])"
  define fs :: "unit full_text_search" where
    "fs = (\<lambda>_ _ _. returnM [\<lparr>fr_memory_id = ''m1'', fr_score = 1, fr_content = ''tea''\<rparr>])"
  define p where "p = projr (plan (\<lambda>_. []) search_a (default_search_weights_policy ''w'') False)"
  have p: "qp_targets p = [VECTOR, FULL_TEXT]" "qp_final_k p = 1"
    by (simp_all add: p_def plan_def Let_def search_a_def final_k_of_def)
  have "\<exists>r. retrieve still_runtime (\<lambda>_. returnM [[1]]) vs fs False search_a p () = (Inr r, ())"
    by (simp add: retrieve_def index_tasks_def p vector_task_def full_text_task_def vs_def fs_def Let_def
        bindM_def monad_simps)
  then obtain r where r: "retrieve still_runtime (\<lambda>_. returnM [[1]]) vs fs False search_a p () = (Inr r, ())" ..
  from retrieve_hybrid [OF _ _ r] p have "map (\<lambda>i. (si_memory_id i, si_score i)) (ss_items r) =
      py_take 1 (reciprocal_rank_fusion [[''m1''], [''m1'']]
        (Some [plan_weight p ''semantic_weight'', plan_weight p ''keyword_weight'']) 60)"
    by (auto simp: vs_def fs_def monad_simps)
  then have "map fst (map (\<lambda>i. (si_memory_id i, si_score i)) (ss_items r)) = [''m1'']"
    by (simp add: reciprocal_rank_fusion_def sort_desc_def py_take_def)
  with r show ?thesis by (auto simp: vs_def fs_def p_def o_def)
qed

text \<open>The request's sectors, lifecycle states, scope and temporal filter have no influence on a
  retrieval, and each item is reported as an enriched, active, semantic record, whatever the record
  is; a plan's \<open>final_k\<close> bounds the number of items.\<close>

theorem retrieve_ignores_filters:
  "retrieve rt emb vs fs g (request\<lparr>sr_sectors := ses, sr_lifecycle_states := lss, sr_scope := sc,
      sr_temporal_filter := tf\<rparr>) p = retrieve rt emb vs fs g request p \<and>
   (retrieve rt emb vs fs g request p s = (Inr r, s') \<longrightarrow>
     (\<forall>i \<in> set (ss_items r). si_sector i = SEMANTIC \<and> si_pipeline_status i = ENRICHED \<and>
       si_lifecycle_state i = ACTIVE) \<and>
     (0 \<le> qp_final_k p \<longrightarrow> int (length (ss_items r)) \<le> qp_final_k p))"
proof (intro conjI impI)
  show "retrieve rt emb vs fs g (request\<lparr>sr_sectors := ses, sr_lifecycle_states := lss, sr_scope := sc,
      sr_temporal_filter := tf\<rparr>) p = retrieve rt emb vs fs g request p"
    by (simp add: retrieve_def index_tasks_def)
  assume "retrieve rt emb vs fs g request p s = (Inr r, s')"
  then obtain vec fts where r: "ss_items r = result_items p vec fts" by (rule retrieve_items)
  then show "\<forall>i \<in> set (ss_items r). si_sector i = SEMANTIC \<and> si_pipeline_status i = ENRICHED \<and>
      si_lifecycle_state i = ACTIVE" by (auto simp: result_items_def to_item_def)
  show "int (length (ss_items r)) \<le> qp_final_k p" if "0 \<le> qp_final_k p"
    using result_items_length [OF that] r by simp
qed

theorem retrieve_ignores_filters_witness:
  "\<exists>r. retrieve still_runtime (\<lambda>_. returnM [])
      (\<lambda>_ _ _. returnM []) (\<lambda>_ _ _. returnM [\<lparr>fr_memory_id = ''m1'', fr_score = 1, fr_content = ''tea''\<rparr>])
      False (search_a\<lparr>sr_sectors := Some [EPISODIC]\<rparr>)
      \<lparr>qp_mode = MODE_KEYWORD, qp_targets = [FULL_TEXT], qp_weights = [], qp_use_llm_rerank = False,
       qp_temporal_filter = None, qp_k_per_index = 20, qp_final_k = 1, qp_explanation = []\<rparr> () = (Inr r, ()) \<and>
    length (ss_items r) \<le> 1 \<and> (\<forall>i \<in> set (ss_items r). si_sector i = SEMANTIC)"
proof -
  define p where "p = \<lparr>qp_mode = MODE_KEYWORD, qp_targets = [FULL_TEXT], qp_weights = [], qp_use_llm_rerank = False,
       qp_temporal_filter = None, qp_k_per_index = 20, qp_final_k = 1, qp_explanation = []\<rparr>"
  define fs :: "unit full_text_search" where
    "fs = (\<lambda>_ _ _. returnM [\<lparr>fr_memory_id = ''m1'', fr_score = 1, fr_content = ''tea''\<rparr>])"
  have "\<exists>r. retrieve still_runtime (\<lambda>_. returnM []) (\<lambda>_ _ _. returnM []) fs False
      (search_a\<lparr>sr_sectors := Some [EPISODIC]\<rparr>) p () = (Inr r, ())"
    by (simp add: retrieve_def index_tasks_def p_def full_text_task_def fs_def Let_def bindM_def monad_simps)
  then obtain r where r: "retrieve still_runtime (\<lambda>_. returnM []) (\<lambda>_ _ _. returnM []) fs False
      (search_a\<lparr>sr_sectors := Some [EPISODIC]\<rparr>) p () = (Inr r, ())" ..
  have "int (length (ss_items r)) \<le> 1 \<and> (\<forall>i \<in> set (ss_items r). si_sector i = SEMANTIC)"
    using mp [OF conjunct2 [OF retrieve_ignores_filters] r] by (simp add: p_def)
  with r show ?thesis by (auto simp: fs_def p_def)
qed

end
