(* ===== verification/Recall.thy ===== *)
theory Recall
  imports Retrieval
begin

text \<open>
  \<^verbatim>\<open>engine/recall.py\<close>: the search service over a retrieval service, and the recall service
  over a search service.  The other service is an argument, as in the constructors.
\<close>

definition query_hash :: "'s runtime \<Rightarrow> string \<Rightarrow> string" where
  "query_hash rt q = take 16 (run_sha256_hex rt q)"

definition search_execute ::
  "'s runtime \<Rightarrow> (search_request \<Rightarrow> query_plan \<Rightarrow> ('s, search_result) action) \<Rightarrow> 's policy_repo \<Rightarrow>
   's observer_port \<Rightarrow> search_request \<Rightarrow> ('s, search_result) action" where
  "search_execute rt retrieval policy_repo observer request =
     bindM (pr_get policy_repo (sr_tenant_id request)) (\<lambda>policies.
     bindM (liftM (plan (run_float_str rt) request (tp_search_weights policies) False)) (\<lambda>p.
     bindM (retrieval request p) (\<lambda>result.
     bindM (run_uuid4 rt) (\<lambda>trace_id.
     bindM (ob_emit observer (event (sr_tenant_id request)
       (MemoryRecalledEvent (sr_scope request) (query_hash rt (sr_query request))
         (int (length (ss_items result)))
         (\<Sum>i \<leftarrow> ss_items result. int (length (si_content i)) div 4)
         (mode_str (sr_mode request)) trace_id))) (\<lambda>_.
     returnM result)))))"

subsection \<open>Recall within a budget\<close>

definition estimate_tokens :: "string \<Rightarrow> int" where
  "estimate_tokens s = max 1 (int (length s) div 4)"

definition recall_search_request :: "recall_request \<Rightarrow> search_request" where
  "recall_search_request request =
     \<lparr>sr_tenant_id = rq_tenant_id request, sr_scope = rq_scope request, sr_query = rq_query request,
      sr_mode = rq_mode request, sr_sectors = rq_sectors request, sr_lifecycle_states = [ACTIVE],
      sr_temporal_filter = None, sr_k = rq_max_items request\<rparr>"

definition to_recall_item :: "string \<Rightarrow> trace_id \<Rightarrow> search_result_item \<Rightarrow> recall_item" where
  "to_recall_item mode trace_id i =
     \<lparr>ri_memory_id = si_memory_id i, ri_content = si_content i, ri_sector = si_sector i,
      ri_lifecycle_state = si_lifecycle_state i, ri_pipeline_status = si_pipeline_status i,
      ri_effective_from = None, ri_signals = si_signals i,
      ri_explanation = ''Retrieved via search mode '' @ mode, ri_trace_id = Some trace_id\<rparr>"

text \<open>The loop over the items: what is kept, the tokens spent, whether the budget ended it.\<close>

fun within_budget :: "int option \<Rightarrow> int \<Rightarrow> search_result_item list \<Rightarrow> search_result_item list \<times> int \<times> bool" where
  "within_budget max_tokens spent [] = ([], spent, False)"
| "within_budget max_tokens spent (i # items) = (let n = estimate_tokens (si_content i) in
     if (case max_tokens of None \<Rightarrow> False | Some b \<Rightarrow> b < spent + n) then ([], spent, True)
     else (case within_budget max_tokens (spent + n) items of (kept, t, ex) \<Rightarrow> (i # kept, t, ex)))"

definition no_match :: "string \<Rightarrow> string \<Rightarrow> datetime \<Rightarrow> recall_result" where
  "no_match strategy reason now =
     \<lparr>rl_status = NO_MATCH, rl_no_match_reason = Some reason, rl_items = [],
      rl_total_tokens_estimate = 0, rl_recall_strategy = strategy, rl_recalled_at = now\<rparr>"

definition emit_no_match :: "'s runtime \<Rightarrow> 's observer_port \<Rightarrow> recall_request \<Rightarrow> string \<Rightarrow> ('s, unit) action" where
  "emit_no_match rt observer request reason =
     ob_emit observer (event (rq_tenant_id request)
       (RecallNoMatchEvent (rq_scope request) (query_hash rt (rq_query request)) reason))"

definition recall_execute ::
  "'s runtime \<Rightarrow> (search_request \<Rightarrow> ('s, search_result) action) \<Rightarrow> 's observer_port \<Rightarrow>
   recall_request \<Rightarrow> ('s, recall_result) action" where
  "recall_execute rt search observer request =
     bindM (search (recall_search_request request)) (\<lambda>found.
       if ss_items found = [] then (let reason = ''No active memories found for this query.'' in
         bindM (emit_no_match rt observer request reason) (\<lambda>_.
         bindM (run_utcnow rt) (\<lambda>now. returnM (no_match '''' reason now))))
       else
         bindM (run_uuid4 rt) (\<lambda>trace_id. (let mode = mode_str (rq_mode request) in
         case within_budget (rq_max_tokens request) 0
             (py_take (rq_max_items request) (ss_items found)) of (kept, spent, exhausted) \<Rightarrow>
         if kept = [] then (let reason = ''Token budget too small for any result.'' in
           bindM (emit_no_match rt observer request reason) (\<lambda>_.
           bindM (run_utcnow rt) (\<lambda>now. returnM (no_match mode reason now))))
         else
           bindM (run_utcnow rt) (\<lambda>now. returnM
             \<lparr>rl_status = (if exhausted then PARTIAL_MATCH else MATCH), rl_no_match_reason = None,
              rl_items = map (to_recall_item mode trace_id) kept, rl_total_tokens_estimate = spent,
              rl_recall_strategy = mode, rl_recalled_at = now\<rparr>))))"

subsection \<open>The budget\<close>

definition tokens :: "search_result_item list \<Rightarrow> int" where
  "tokens items = (\<Sum>i \<leftarrow> items. estimate_tokens (si_content i))"

lemma tokens_simps [simp]:
  "tokens [] = 0" "tokens (i # is) = estimate_tokens (si_content i) + tokens is"
  by (simp_all add: tokens_def)

text \<open>The longest prefix that fits: what is kept fits, and the item after it would not.\<close>

lemma within_budget_prefix:
  assumes "within_budget mt spent items = (kept, t, ex)"
  shows "kept = take (length kept) items \<and> t = spent + tokens kept \<and>
    (\<forall>b. mt = Some b \<longrightarrow> kept \<noteq> [] \<longrightarrow> t \<le> b) \<and>
    (ex \<longleftrightarrow> length kept < length items) \<and>
    (ex \<longrightarrow> (\<exists>b. mt = Some b \<and> b < t + estimate_tokens (si_content (items ! length kept))))"
  using assms
proof (induction mt spent items arbitrary: kept t ex rule: within_budget.induct)
  case (1 mt spent)
  then show ?case by simp
next
  case (2 mt spent i items)
  let ?n = "estimate_tokens (si_content i)"
  let ?stop = "case mt of None \<Rightarrow> False | Some b \<Rightarrow> b < spent + ?n"
  show ?case
  proof (cases ?stop)
    case True
    with 2(2) show ?thesis by (auto split: option.splits)
  next
    case False
    obtain kept' t' ex' where rec: "within_budget mt (spent + ?n) items = (kept', t', ex')"
      by (cases "within_budget mt (spent + ?n) items") auto
    from 2(2) False rec have eq: "kept = i # kept'" "t = t'" "ex = ex'" by auto
    have ih: "kept' = take (length kept') items \<and> t' = (spent + ?n) + tokens kept' \<and>
        (\<forall>b. mt = Some b \<longrightarrow> kept' \<noteq> [] \<longrightarrow> t' \<le> b) \<and> (ex' \<longleftrightarrow> length kept' < length items) \<and>
        (ex' \<longrightarrow> (\<exists>b. mt = Some b \<and> b < t' + estimate_tokens (si_content (items ! length kept'))))"
      using 2(1) [OF refl False rec] .
    have "t' \<le> b" if "mt = Some b" for b
      using ih that False by (cases "kept' = []") auto
    with ih eq show ?thesis by auto
  qed
qed

lemma to_recall_item_simps [simp]:
  "ri_memory_id (to_recall_item m tr i) = si_memory_id i"
  "ri_content (to_recall_item m tr i) = si_content i"
  "ri_trace_id (to_recall_item m tr i) = Some tr"
  by (simp_all add: to_recall_item_def)

definition no_match_reason :: "search_result \<Rightarrow> search_result_item list \<Rightarrow> string option" where
  "no_match_reason found kept = (if kept \<noteq> [] then None
     else Some (if ss_items found = [] then ''No active memories found for this query.''
       else ''Token budget too small for any result.''))"

lemma recall_Inr:
  assumes "recall_execute rt search ob request s = (Inr r, s')"
  obtains found s1 kept spent ex where "search (recall_search_request request) s = (Inr found, s1)"
    "within_budget (rq_max_tokens request) 0 (py_take (rq_max_items request) (ss_items found)) = (kept, spent, ex)"
    "map ri_content (rl_items r) = map si_content kept"
    "map ri_memory_id (rl_items r) = map si_memory_id kept"
    "rl_total_tokens_estimate r = spent"
    "rl_status r = (if kept = [] then NO_MATCH else if ex then PARTIAL_MATCH else MATCH)"
    "rl_no_match_reason r = no_match_reason found kept"
proof -
  from assms obtain found s1 where f: "search (recall_search_request request) s = (Inr found, s1)"
    by (auto simp: recall_execute_def result_iff)
  obtain kept spent ex where w: "within_budget (rq_max_tokens request) 0
      (py_take (rq_max_items request) (ss_items found)) = (kept, spent, ex)"
    by (cases "within_budget (rq_max_tokens request) 0 (py_take (rq_max_items request) (ss_items found))") auto
  show ?thesis
  proof (cases "ss_items found = []")
    case True
    then have "kept = [] \<and> spent = 0" using w by (simp add: py_take_def)
    with assms f w True show ?thesis
      by (intro that [OF f w])
        (auto simp: recall_execute_def result_iff Let_def no_match_def no_match_reason_def monad_simps)
  next
    case False
    have "spent = 0" if "kept = []" using within_budget_prefix [OF w] that by simp
    with assms f w False show ?thesis
      by (intro that [OF f w])
        (auto simp: recall_execute_def result_iff Let_def no_match_def no_match_reason_def monad_simps o_def split: if_splits)
  qed
qed

subsection \<open>Properties\<close>

text \<open>The next item is what the prefix is cut before.\<close>

lemma within_budget_next:
  assumes "within_budget mt 0 items = (kept, t, ex)" "kept \<noteq> items"
  shows "\<exists>b. mt = Some b \<and> b < tokens (take (Suc (length kept)) items)"
proof -
  note p = within_budget_prefix [OF assms(1)]
  have short: "length kept < length items" using p assms(2) by (metis linorder_not_less take_all)
  then have "take (Suc (length kept)) items = kept @ [items ! length kept]"
    using p by (simp add: take_Suc_conv_app_nth)
  with p short show ?thesis by (auto simp: tokens_def)
qed

text \<open>C17. A recall returns the longest prefix of the found items, cut at \<open>max_items\<close>, whose
  estimated tokens fit the budget: what it returns fits, and when an item was left out the prefix with
  the next item does not.  The items come in the order of the search with the sum of their estimates.
  The answer is a NO_MATCH with a reason when nothing is returned (always so for \<open>max_items = 0\<close>), a
  MATCH when everything is, and a PARTIAL_MATCH when the budget cut off a later item.\<close>

theorem recall_spec:
  assumes "recall_execute rt search observer request s = (Inr r, s')"
  shows "\<exists>found s1 items kept. search (recall_search_request request) s = (Inr found, s1) \<and>
    items = py_take (rq_max_items request) (ss_items found) \<and> kept = take (length kept) items \<and>
    (\<forall>b. rq_max_tokens request = Some b \<longrightarrow> kept \<noteq> [] \<longrightarrow> tokens kept \<le> b) \<and>
    (kept \<noteq> items \<longrightarrow> (\<exists>b. rq_max_tokens request = Some b \<and> b < tokens (take (Suc (length kept)) items))) \<and>
    map ri_memory_id (rl_items r) = map si_memory_id kept \<and>
    map ri_content (rl_items r) = map si_content kept \<and>
    rl_total_tokens_estimate r = tokens kept \<and>
    rl_status r = (if kept = [] then NO_MATCH else if kept = items then MATCH else PARTIAL_MATCH) \<and>
    rl_no_match_reason r = no_match_reason found kept \<and>
    (rq_max_items request = 0 \<longrightarrow> rl_status r = NO_MATCH)"
proof (rule recall_Inr [OF assms])
  fix found :: search_result and s1 kept spent ex
  let ?items = "py_take (rq_max_items request) (ss_items found)"
  assume search: "search (recall_search_request request) s = (Inr found, s1)"
    and w: "within_budget (rq_max_tokens request) 0 ?items = (kept, spent, ex)"
    and c: "map ri_content (rl_items r) = map si_content kept" "map ri_memory_id (rl_items r) = map si_memory_id kept"
    and t: "rl_total_tokens_estimate r = spent"
    and st: "rl_status r = (if kept = [] then NO_MATCH else if ex then PARTIAL_MATCH else MATCH)"
    and rs: "rl_no_match_reason r = no_match_reason found kept"
  note p = within_budget_prefix [OF w]
  have "ex \<longleftrightarrow> kept \<noteq> ?items" using p by (metis linorder_not_less nat_less_le take_all)
  with st have status: "rl_status r = (if kept = [] then NO_MATCH else if kept = ?items then MATCH else PARTIAL_MATCH)"
    by simp
  have "py_take 0 xs = []" for xs :: "search_result_item list" by (simp add: py_take_def)
  then have zero: "rq_max_items request = 0 \<longrightarrow> rl_status r = NO_MATCH" using w st by auto
  have fits: "\<forall>b. rq_max_tokens request = Some b \<longrightarrow> kept \<noteq> [] \<longrightarrow> tokens kept \<le> b" using p by (metis add_0)
  have more: "kept \<noteq> ?items \<longrightarrow> (\<exists>b. rq_max_tokens request = Some b \<and> b < tokens (take (Suc (length kept)) ?items))"
    using within_budget_next [OF w] by blast
  have front: "kept = take (length kept) ?items" and sum: "rl_total_tokens_estimate r = tokens kept"
    using p t by (metis add_0)+
  show ?thesis
    by (intro exI [of _ found] exI [of _ s1] exI [of _ ?items] exI [of _ kept] conjI)
      (rule refl search front fits more c status rs zero sum)+
qed

theorem recall_spec_witness:
  "\<exists>r. recall_execute still_runtime (\<lambda>_. returnM \<lparr>ss_items = [item_a, item_a], ss_total = 2,
      ss_query_plan = None, ss_searched_at = t0\<rparr>) silent_observer recall_a () = (Inr r, ()) \<and>
    rl_status r = PARTIAL_MATCH \<and> rl_total_tokens_estimate r = 3"
proof -
  let ?search = "\<lambda>_. returnM \<lparr>ss_items = [item_a, item_a], ss_total = 2, ss_query_plan = None, ss_searched_at = t0\<rparr>"
  have n: "estimate_tokens (si_content item_a) = 3" by (simp add: estimate_tokens_def item_a_def)
  have kept: "within_budget (Some 5) 0 [item_a, item_a] = ([item_a], 3, True)" by (simp add: n)
  have "\<exists>r. recall_execute still_runtime ?search silent_observer recall_a () = (Inr r, ()) \<and> length (rl_items r) = 1"
    by (simp add: recall_execute_def recall_a_def py_take_def n Let_def)
      (simp add: monad_simps)
  then obtain r where r: "recall_execute still_runtime ?search silent_observer recall_a () = (Inr r, ())"
    and one: "length (rl_items r) = 1" by blast
  have cut: "py_take (rq_max_items recall_a) [item_a, item_a] = [item_a, item_a]"
    "rq_max_tokens recall_a = Some 5" by (simp_all add: py_take_def recall_a_def)
  from recall_spec [OF r] obtain found s1 items kept where
    f: "?search (recall_search_request recall_a) () = (Inr found :: exn + _, s1)"
    and k: "items = py_take (rq_max_items recall_a) (ss_items found)" "kept = take (length kept) items"
      "map ri_memory_id (rl_items r) = map si_memory_id kept" "rl_total_tokens_estimate r = tokens kept"
      "rl_status r = (if kept = [] then NO_MATCH else if kept = items then MATCH else PARTIAL_MATCH)"
    by (elim exE conjE) (rule that; assumption)
  from f have "ss_items found = [item_a, item_a]" by (auto simp: returnM_def)
  with k(1) cut have items: "items = [item_a, item_a]" by simp
  from arg_cong [where f = length, OF k(3)] one have "length kept = 1" by simp
  with k(2) items have "kept = [item_a]" by simp
  with k(4,5) items n have "rl_status r = PARTIAL_MATCH" "rl_total_tokens_estimate r = 3" by simp_all
  with r show ?thesis by blast
qed

end
