(* ===== verification/Scheduler.thy ===== *)
theory Scheduler
  imports Fixtures "HOL-Library.AList"
begin

text \<open>
  \<^verbatim>\<open>engine/scheduler.py\<close>, \<open>LifecycleScheduler\<close>.  The event loop's tasks are numbered in the
  order they are created; \<open>sd_all\<close> holds the key and the state of each, \<open>sd_tasks\<close> is the
  dict \<open>_tasks\<close> from keys to task numbers in insertion order.  A cancelled task is
  \<open>Cancelling\<close> until the loop delivers the cancellation.
\<close>

type_synonym task_key = "tenant_id \<times> string"

datatype task_state = Running | Cancelling | Finished

record schedule_config =
  decay_interval_seconds :: int
  consolidation_interval_seconds :: int
  sched_enabled :: bool

definition default_schedule_config :: schedule_config where
  "default_schedule_config = \<lparr>decay_interval_seconds = 3600, consolidation_interval_seconds = 1800,
     sched_enabled = True\<rparr>"

record scheduler =
  sd_tasks :: "(task_key \<times> nat) list"
  sd_all :: "(task_key \<times> task_state) list"

definition new_scheduler :: scheduler where
  "new_scheduler = \<lparr>sd_tasks = [], sd_all = []\<rparr>"

definition task_done :: "scheduler \<Rightarrow> nat \<Rightarrow> bool" where
  "task_done s n \<longleftrightarrow> snd (sd_all s ! n) = Finished"

definition cancel_task :: "nat \<Rightarrow> scheduler \<Rightarrow> scheduler" where
  \<comment> \<open>\<open>task.cancel()\<close> on a task that is not done: only a request\<close>
  "cancel_task n s = s\<lparr>sd_all := (sd_all s)[n := (fst (sd_all s ! n), Cancelling)]\<rparr>"

subsection \<open>Operations\<close>

definition cancel_existing :: "task_key \<Rightarrow> scheduler \<Rightarrow> scheduler" where
  "cancel_existing key s = (case map_of (sd_tasks s) key of
     None \<Rightarrow> s
   | Some n \<Rightarrow> if task_done s n then s else cancel_task n s)"

definition ensure_task :: "task_key \<Rightarrow> scheduler \<Rightarrow> scheduler" where
  "ensure_task key s = (let s1 = cancel_existing key s in
     s1\<lparr>sd_tasks := AList.update key (length (sd_all s1)) (sd_tasks s1),
        sd_all := sd_all s1 @ [(key, Running)]\<rparr>)"

fun cancel_keys :: "task_key list \<Rightarrow> scheduler \<Rightarrow> scheduler" where
  "cancel_keys [] s = s"
| "cancel_keys (key # keys) s = cancel_keys keys
     ((cancel_existing key s)\<lparr>sd_tasks := AList.delete key (sd_tasks s)\<rparr>)"

definition tenant_keys :: "tenant_id \<Rightarrow> scheduler \<Rightarrow> task_key list" where
  "tenant_keys t s = filter (\<lambda>k. fst k = t) (map fst (sd_tasks s))"

definition stop :: "tenant_id \<Rightarrow> scheduler \<Rightarrow> scheduler" where
  \<comment> \<open>up to the \<open>await\<close> of the cancelled tasks\<close>
  "stop t s = cancel_keys (tenant_keys t s) s"

definition stop_all :: "scheduler \<Rightarrow> scheduler" where
  "stop_all s = cancel_keys (map fst (sd_tasks s)) s"

definition is_running :: "tenant_id \<Rightarrow> scheduler \<Rightarrow> bool" where
  "is_running t s \<longleftrightarrow> list_ex (\<lambda>(k, n). fst k = t \<and> \<not> task_done s n) (sd_tasks s)"

text \<open>\<open>start\<close> awaits the policy between its two halves.\<close>

definition start_decay :: "tenant_id \<Rightarrow> scheduler \<Rightarrow> scheduler" where
  "start_decay t s = ensure_task (t, ''decay'') s"

definition start_consolidation :: "tenant_id \<Rightarrow> consolidation_policy \<Rightarrow> scheduler \<Rightarrow> scheduler" where
  "start_consolidation t policy s =
     (if cp_trigger policy = SCHEDULE then ensure_task (t, ''consolidation'') s else s)"

definition start ::
  "'s policy_repo \<Rightarrow> tenant_id \<Rightarrow> schedule_config option \<Rightarrow> ('s \<times> scheduler, unit) action" where
  "start policy_repo t config =
     (let cfg = (case config of None \<Rightarrow> default_schedule_config | Some c \<Rightarrow> c) in
     if \<not> sched_enabled cfg then returnM ()
     else
       bindM (modifyM (\<lambda>(w, s). (w, start_decay t s))) (\<lambda>_.
       bindM (\<lambda>(w, s). case pr_get policy_repo t w of (x, w') \<Rightarrow> (x, (w', s))) (\<lambda>policies.
       modifyM (\<lambda>(w, s). (w, start_consolidation t (tp_consolidation policies) s)))))"

text \<open>One turn of either loop after the sleep: an exception of the service is only logged.\<close>

definition sweep :: "(tenant_id \<Rightarrow> ('s, int) action) \<Rightarrow> tenant_id \<Rightarrow> ('s, unit) action" where
  "sweep service t = tryM (bindM (service t) (\<lambda>_. returnM ())) (\<lambda>_. returnM ())"

text \<open>The first \<open>n\<close> turns of the endless loops.\<close>

definition decay_loop :: "(tenant_id \<Rightarrow> ('s, int) action) \<Rightarrow> tenant_id \<Rightarrow> nat \<Rightarrow> ('s, unit) action" where
  "decay_loop decay_service t n = bindM (forM [0..<n] (\<lambda>_. sweep decay_service t)) (\<lambda>_. returnM ())"

definition consolidation_loop :: "(tenant_id \<Rightarrow> ('s, int) action) \<Rightarrow> tenant_id \<Rightarrow> nat \<Rightarrow> ('s, unit) action" where
  "consolidation_loop consolidation_service t n =
     bindM (forM [0..<n] (\<lambda>_. sweep consolidation_service t)) (\<lambda>_. returnM ())"

lemma sweep_eq: "sweep service t s = (Inr (), snd (service t s))"
  by (auto simp: sweep_def tryM_def bindM_def monad_simps split: prod.splits sum.splits)

lemma sweeps_eq: "\<exists>xs. forM ns (\<lambda>_. sweep service t) s = (Inr xs, ((\<lambda>s. snd (service t s)) ^^ length ns) s)"
proof (induction ns arbitrary: s)
  case (Cons n ns)
  from Cons.IH [of "snd (service t s)"] show ?case
    by (auto simp: bindM_def monad_simps sweep_eq funpow_Suc_right simp del: funpow.simps)
qed simp

text \<open>The loops survive the failures of their services: whatever a turn raises, the next one runs, and
  after \<open>n\<close> turns the service has been called \<open>n\<close> times, each in the state the one before left.\<close>

theorem loops_survive:
  "decay_loop service t n s = (Inr (), ((\<lambda>s. snd (service t s)) ^^ n) s) \<and>
   consolidation_loop service t n s = (Inr (), ((\<lambda>s. snd (service t s)) ^^ n) s)"
  using sweeps_eq [of "[0..<n]" service t s] by (auto simp: decay_loop_def consolidation_loop_def bindM_def monad_simps)

subsection \<open>Invariant\<close>

definition sched_inv :: "scheduler \<Rightarrow> bool" where
  \<comment> \<open>the dict's handles are the tasks of their keys, and every running task is in it\<close>
  "sched_inv s \<longleftrightarrow> distinct (map fst (sd_tasks s)) \<and>
     (\<forall>k n. map_of (sd_tasks s) k = Some n \<longrightarrow> n < length (sd_all s) \<and> fst (sd_all s ! n) = k) \<and>
     (\<forall>n < length (sd_all s). snd (sd_all s ! n) = Running \<longrightarrow>
        map_of (sd_tasks s) (fst (sd_all s ! n)) = Some n)"

lemma sched_invD:
  assumes "sched_inv s"
  shows "distinct (map fst (sd_tasks s))"
    "map_of (sd_tasks s) k = Some n \<Longrightarrow> n < length (sd_all s) \<and> fst (sd_all s ! n) = k"
    "n < length (sd_all s) \<Longrightarrow> snd (sd_all s ! n) = Running \<Longrightarrow>
      map_of (sd_tasks s) (fst (sd_all s ! n)) = Some n"
  using assms unfolding sched_inv_def by blast+

lemma new_scheduler_inv: "sched_inv new_scheduler"
  by (simp add: sched_inv_def new_scheduler_def)

lemma cancel_existing_simps [simp]:
  "sd_tasks (cancel_existing key s) = sd_tasks s"
  "length (sd_all (cancel_existing key s)) = length (sd_all s)"
  by (simp_all add: cancel_existing_def cancel_task_def split: option.split)

lemma cancel_existing_task:
  assumes "sched_inv s" "n < length (sd_all s)"
  shows "fst (sd_all (cancel_existing key s) ! n) = fst (sd_all s ! n)"
    "snd (sd_all (cancel_existing key s) ! n) = Running \<longleftrightarrow>
      snd (sd_all s ! n) = Running \<and> fst (sd_all s ! n) \<noteq> key"
    "snd (sd_all (cancel_existing key s) ! n) = Finished \<longleftrightarrow> snd (sd_all s ! n) = Finished"
  using sched_invD(2) [OF assms(1), of key] sched_invD(3) [OF assms(1) assms(2)] assms(2)
  by (auto simp: cancel_existing_def cancel_task_def task_done_def nth_list_update split: option.splits)

lemma ensure_task_inv:
  assumes "sched_inv s"
  shows "sched_inv (ensure_task key s)"
  unfolding sched_inv_def
proof (intro conjI allI impI)
  let ?s = "cancel_existing key s"
  have tasks: "sd_tasks (ensure_task key s) = AList.update key (length (sd_all s)) (sd_tasks s)"
    and all: "sd_all (ensure_task key s) = sd_all ?s @ [(key, Running)]"
    by (simp_all add: ensure_task_def Let_def)
  show "distinct (map fst (sd_tasks (ensure_task key s)))"
    using sched_invD(1) [OF assms] by (simp add: tasks AList.distinct_update)
  fix k n
  assume "map_of (sd_tasks (ensure_task key s)) k = Some n"
  then have "k = key \<and> n = length (sd_all s) \<or> k \<noteq> key \<and> map_of (sd_tasks s) k = Some n"
    by (auto simp: tasks AList.update_conv split: if_splits)
  then show "n < length (sd_all (ensure_task key s))" "fst (sd_all (ensure_task key s) ! n) = k"
    using sched_invD(2) [OF assms, of k n] cancel_existing_task(1) [OF assms, of n key]
    by (auto simp: all nth_append)
next
  fix n
  assume n: "n < length (sd_all (ensure_task key s))" "snd (sd_all (ensure_task key s) ! n) = Running"
  show "map_of (sd_tasks (ensure_task key s)) (fst (sd_all (ensure_task key s) ! n)) = Some n"
    using n sched_invD(3) [OF assms, of n] cancel_existing_task [OF assms, of n key]
    by (cases "n < length (sd_all s)")
      (auto simp: ensure_task_def Let_def nth_append AList.update_conv less_Suc_eq)
qed

lemma pop_key_inv:
  assumes "sched_inv s"
  shows "sched_inv ((cancel_existing key s)\<lparr>sd_tasks := AList.delete key (sd_tasks s)\<rparr>)"
  unfolding sched_inv_def
proof (intro conjI allI impI; simp)
  show "distinct (map fst (AList.delete key (sd_tasks s)))"
    using sched_invD(1) [OF assms] by (rule AList.distinct_delete)
next
  fix k n
  assume "map_of (AList.delete key (sd_tasks s)) k = Some n"
  then have "map_of (sd_tasks s) k = Some n" by (simp add: AList.delete_conv split: if_splits)
  with sched_invD(2) [OF assms this] cancel_existing_task(1) [OF assms]
  show "n < length (sd_all s)" "fst (sd_all (cancel_existing key s) ! n) = k" by auto
next
  fix n
  assume "n < length (sd_all s)" "snd (sd_all (cancel_existing key s) ! n) = Running"
  with sched_invD(3) [OF assms] cancel_existing_task [OF assms]
  show "map_of (AList.delete key (sd_tasks s)) (fst (sd_all (cancel_existing key s) ! n)) = Some n"
    by (simp add: AList.delete_conv)
qed

lemma cancel_keys_inv: "sched_inv s \<Longrightarrow> sched_inv (cancel_keys keys s)"
  by (induction keys s rule: cancel_keys.induct) (auto simp: pop_key_inv)

lemma cancel_keys_running:
  assumes "sched_inv s" "n < length (sd_all s)"
  shows "length (sd_all (cancel_keys keys s)) = length (sd_all s) \<and>
    fst (sd_all (cancel_keys keys s) ! n) = fst (sd_all s ! n) \<and>
    (snd (sd_all (cancel_keys keys s) ! n) = Running \<longleftrightarrow>
      snd (sd_all s ! n) = Running \<and> fst (sd_all s ! n) \<notin> set keys)"
  using assms
proof (induction keys s rule: cancel_keys.induct)
  case (2 key keys s)
  let ?s = "(cancel_existing key s)\<lparr>sd_tasks := AList.delete key (sd_tasks s)\<rparr>"
  from 2(1) [of] 2(2,3) pop_key_inv [OF 2(2), of key] cancel_existing_task [OF 2(2,3), of key]
  show ?case by simp
qed simp

lemma cancel_keys_tasks: "map_of (sd_tasks (cancel_keys keys s)) k =
    (if k \<in> set keys then None else map_of (sd_tasks s) k)"
  by (induction keys s rule: cancel_keys.induct) (auto simp: AList.delete_conv)

subsection \<open>Interleavings\<close>

text \<open>
  The operations in the order the event loop runs them: between the two halves of a \<open>start\<close>
  (a pending one is listed in the second component) anything else may happen, and a
  cancellation is delivered at some later point.
\<close>

inductive sched_step :: "scheduler \<times> tenant_id list \<Rightarrow> scheduler \<times> tenant_id list \<Rightarrow> bool" where
  begin_start: "sched_step (s, ps) (start_decay t s, t # ps)"
| resume_start: "t \<in> set ps \<Longrightarrow> sched_step (s, ps) (start_consolidation t policy s, remove1 t ps)"
| failed_start: "t \<in> set ps \<Longrightarrow> sched_step (s, ps) (s, remove1 t ps)"
| stop_tenant: "sched_step (s, ps) (stop t s, ps)"
| stop_everyone: "sched_step (s, ps) (stop_all s, ps)"
| deliver: "n < length (sd_all s) \<Longrightarrow> snd (sd_all s ! n) = Cancelling \<Longrightarrow>
    sched_step (s, ps) (s\<lparr>sd_all := (sd_all s)[n := (fst (sd_all s ! n), Finished)]\<rparr>, ps)"

inductive sched_reach :: "scheduler \<times> tenant_id list \<Rightarrow> bool" where
  initial: "sched_reach (new_scheduler, [])"
| further: "sched_reach c \<Longrightarrow> sched_step c c' \<Longrightarrow> sched_reach c'"

inductive_cases sched_stepE: "sched_step (s, ps) c"

lemma deliver_inv:
  assumes "sched_inv s" "n < length (sd_all s)" "snd (sd_all s ! n) = Cancelling"
  shows "sched_inv (s\<lparr>sd_all := (sd_all s)[n := (fst (sd_all s ! n), Finished)]\<rparr>)"
  using assms by (auto simp: sched_inv_def nth_list_update)

lemma sched_step_inv: "sched_step c c' \<Longrightarrow> sched_inv (fst c) \<Longrightarrow> sched_inv (fst c')"
  by (induction rule: sched_step.induct)
    (simp_all add: start_decay_def start_consolidation_def stop_def stop_all_def ensure_task_inv
      cancel_keys_inv deliver_inv)

lemma sched_reach_inv: "sched_reach c \<Longrightarrow> sched_inv (fst c)"
  by (induction rule: sched_reach.induct) (auto simp: new_scheduler_inv dest: sched_step_inv)

subsection \<open>Properties\<close>

text \<open>C19. At any point of any interleaving of starts, stops and deliveries, each key (a tenant and
  one of the two loops) has at most one running task, and that task is the one the dict holds, so
  that a later \<open>stop\<close> reaches it.\<close>

theorem scheduler_single_task:
  assumes "sched_reach (s, ps)"
    and "m < length (sd_all s)" "snd (sd_all s ! m) = Running"
    and "n < length (sd_all s)" "snd (sd_all s ! n) = Running"
    and "fst (sd_all s ! m) = fst (sd_all s ! n)"
  shows "m = n \<and> map_of (sd_tasks s) (fst (sd_all s ! n)) = Some n"
proof -
  have inv: "sched_inv s" using sched_reach_inv [OF assms(1)] by simp
  have "map_of (sd_tasks s) (fst (sd_all s ! m)) = Some m"
    by (rule sched_invD(3) [OF inv assms(2,3)])
  moreover have "map_of (sd_tasks s) (fst (sd_all s ! n)) = Some n"
    by (rule sched_invD(3) [OF inv assms(4,5)])
  ultimately show ?thesis using assms(6) by (metis option.inject)
qed

lemma started_twice: "sched_reach (start_decay ''acme'' (start_decay ''acme'' new_scheduler), [''acme'', ''acme''])"
proof -
  have "sched_reach (start_decay ''acme'' new_scheduler, [''acme''])"
    using sched_reach.further [OF sched_reach.initial sched_step.begin_start] by blast
  from sched_reach.further [OF this sched_step.begin_start] show ?thesis by blast
qed

lemma started_twice_tasks:
  "sd_all (start_decay ''acme'' (start_decay ''acme'' new_scheduler)) =
     [((''acme'', ''decay''), Cancelling), ((''acme'', ''decay''), Running)]"
  by (simp add: start_decay_def ensure_task_def Let_def cancel_existing_def cancel_task_def task_done_def
      new_scheduler_def)

theorem scheduler_single_task_witness:
  "map_of (sd_tasks (start_decay ''acme'' (start_decay ''acme'' new_scheduler))) (''acme'', ''decay'') = Some 1"
  using scheduler_single_task [OF started_twice, of 1 1] by (simp add: started_twice_tasks)

lemma in_dict: "k \<in> fst ` set (sd_tasks s) \<longleftrightarrow> map_of (sd_tasks s) k \<noteq> None"
  by (simp add: map_of_eq_None_iff)

lemma length_cancel_keys: "length (sd_all (cancel_keys ks s)) = length (sd_all s)"
  by (induction ks s rule: cancel_keys.induct) simp_all

lemma stop_all_none:
  assumes "sched_inv s"
  shows "\<forall>n < length (sd_all (stop_all s)). snd (sd_all (stop_all s) ! n) \<noteq> Running"
    "sd_tasks (stop_all s) = []"
proof -
  have "snd (sd_all (stop_all s) ! n) \<noteq> Running" if "n < length (sd_all s)" for n
    using cancel_keys_running [OF assms that, of "map fst (sd_tasks s)"] sched_invD(3) [OF assms that]
      in_dict [of "fst (sd_all s ! n)" s]
    by (auto simp: stop_all_def)
  then show "\<forall>n < length (sd_all (stop_all s)). snd (sd_all (stop_all s) ! n) \<noteq> Running"
    by (simp add: stop_all_def length_cancel_keys)
  have "map_of (sd_tasks (stop_all s)) = Map.empty"
    using in_dict [of _ s] by (simp add: stop_all_def cancel_keys_tasks fun_eq_iff)
  then show "sd_tasks (stop_all s) = []" by simp
qed

text \<open>C20. \<open>stop\<close> leaves no running task and no handle of the tenant, and disturbs no other tenant's;
  \<open>stop_all\<close> leaves none at all.\<close>

theorem scheduler_stop:
  assumes "sched_reach (s, ps)"
  shows "\<not> is_running t (stop t s) \<and>
    (\<forall>n < length (sd_all (stop t s)). snd (sd_all (stop t s) ! n) = Running \<longleftrightarrow>
      snd (sd_all s ! n) = Running \<and> fst (fst (sd_all s ! n)) \<noteq> t) \<and>
    (\<forall>k. map_of (sd_tasks (stop t s)) k = (if fst k = t then None else map_of (sd_tasks s) k)) \<and>
    (\<forall>n < length (sd_all (stop_all s)). snd (sd_all (stop_all s) ! n) \<noteq> Running) \<and>
    sd_tasks (stop_all s) = []"
proof -
  have inv: "sched_inv s" using sched_reach_inv [OF assms] by simp
  note run = cancel_keys_running [OF inv]
  have tasks: "map_of (sd_tasks (stop t s)) k = (if fst k = t then None else map_of (sd_tasks s) k)" for k
    using in_dict [of k s] by (auto simp: stop_def cancel_keys_tasks tenant_keys_def)
  have alive: "map_of (sd_tasks s) (fst (sd_all s ! n)) = Some n"
    if "n < length (sd_all s)" "snd (sd_all s ! n) = Running" for n
    using sched_invD(3) [OF inv that] .
  have "snd (sd_all (stop t s) ! n) = Running \<longleftrightarrow> snd (sd_all s ! n) = Running \<and> fst (fst (sd_all s ! n)) \<noteq> t"
    if "n < length (sd_all (stop t s))" for n
    using that run [of n "tenant_keys t s"] alive [of n] in_dict [of "fst (sd_all s ! n)" s]
    by (auto simp: stop_def length_cancel_keys tenant_keys_def)
  moreover have "\<not> is_running t (stop t s)"
  proof
    assume "is_running t (stop t s)"
    then obtain k n where "(k, n) \<in> set (sd_tasks (stop t s))" "fst k = t"
      by (auto simp: is_running_def list_ex_iff)
    moreover then have "map_of (sd_tasks (stop t s)) k \<noteq> None"
      by (auto simp: map_of_eq_None_iff image_iff intro: rev_bexI)
    ultimately show False using tasks [of k] by simp
  qed
  ultimately show ?thesis using tasks stop_all_none [OF inv] by simp
qed

theorem scheduler_stop_witness:
  "\<not> is_running ''acme'' (stop ''acme'' (start_decay ''acme'' (start_decay ''acme'' new_scheduler)))"
  using scheduler_stop [OF started_twice] by blast

lemma deliver_one:
  assumes "n < length (sd_all s)" "snd (sd_all s ! n) = Cancelling"
  shows "length (filter (\<lambda>x. snd x \<noteq> Finished) ((sd_all s)[n := (fst (sd_all s ! n), Finished)])) <
    length (filter (\<lambda>x. snd x \<noteq> Finished) (sd_all s))"
proof -
  have split: "sd_all s = take n (sd_all s) @ sd_all s ! n # drop (Suc n) (sd_all s)"
    using assms(1) by (rule id_take_nth_drop)
  have "(sd_all s)[n := y] = take n (sd_all s) @ y # drop (Suc n) (sd_all s)" for y
    using assms(1) by (rule upd_conv_take_nth_drop)
  then show ?thesis
    using assms(2) by (subst (2) split) (simp del: append_take_drop_id)
qed

lemma deliver_all:
  assumes "\<forall>n < length (sd_all s). snd (sd_all s ! n) \<noteq> Running"
  shows "\<exists>s'. sched_step\<^sup>*\<^sup>* (s, ps) (s', ps) \<and> (\<forall>x \<in> set (sd_all s'). snd x = Finished) \<and>
    sd_tasks s' = sd_tasks s"
  using assms
proof (induction "length (filter (\<lambda>x. snd x \<noteq> Finished) (sd_all s))" arbitrary: s rule: less_induct)
  case less
  show ?case
  proof (cases "\<forall>x \<in> set (sd_all s). snd x = Finished")
    case True
    then show ?thesis by blast
  next
    case False
    then obtain n where n: "n < length (sd_all s)" "snd (sd_all s ! n) \<noteq> Finished"
      by (auto simp: in_set_conv_nth)
    with less(2) have c: "snd (sd_all s ! n) = Cancelling" by (cases "snd (sd_all s ! n)") auto
    let ?s = "s\<lparr>sd_all := (sd_all s)[n := (fst (sd_all s ! n), Finished)]\<rparr>"
    have "\<forall>m < length (sd_all ?s). snd (sd_all ?s ! m) \<noteq> Running"
      using less(2) n(1) by (simp add: nth_list_update)
    with less(1) [of ?s] deliver_one [OF n(1) c] obtain s' where "sched_step\<^sup>*\<^sup>* (?s, ps) (s', ps)"
      "\<forall>x \<in> set (sd_all s'). snd x = Finished" "sd_tasks s' = sd_tasks s" by auto
    with sched_step.deliver [OF n(1) c, of ps] show ?thesis
      by (meson converse_rtranclp_into_rtranclp)
  qed
qed

text \<open>C21. Shutdown completes: from every reachable state, after \<open>stop_all\<close> the event loop only has
  to deliver the cancellations that are pending, finitely many, for every task ever created to be
  finished.\<close>

theorem scheduler_shutdown:
  assumes "sched_reach (s, ps)"
  shows "\<exists>s'. sched_step\<^sup>*\<^sup>* (stop_all s, ps) (s', ps) \<and>
    (\<forall>x \<in> set (sd_all s'). snd x = Finished) \<and> sd_tasks s' = []"
proof -
  have inv: "sched_inv s" using sched_reach_inv [OF assms] by simp
  show ?thesis using deliver_all [OF stop_all_none(1) [OF inv], of ps] stop_all_none(2) [OF inv] by simp
qed

theorem scheduler_shutdown_witness:
  "\<exists>s'. sched_step\<^sup>*\<^sup>* (stop_all (start_decay ''acme'' (start_decay ''acme'' new_scheduler)), [''acme'', ''acme'']) (s', [''acme'', ''acme'']) \<and>
    (\<forall>x \<in> set (sd_all s'). snd x = Finished)"
  using scheduler_shutdown [OF started_twice] by blast

text \<open>\<open>start\<close> awaits the tenant's policy between creating its two tasks; a \<open>stop\<close> that runs
  meanwhile is lost on the second: the consolidation loop of the stopped tenant runs on.\<close>

theorem scheduler_stop_during_start:
  assumes "cp_trigger policy = SCHEDULE"
  shows "\<exists>s. sched_reach (s, [t]) \<and> \<not> is_running t s \<and> s = stop t (start_decay t new_scheduler) \<and>
    sched_reach (start_consolidation t policy s, []) \<and> is_running t (start_consolidation t policy s)"
proof -
  let ?s = "stop t (start_decay t new_scheduler)"
  have 1: "sched_reach (start_decay t new_scheduler, [t])"
    using sched_reach.further [OF sched_reach.initial sched_step.begin_start] .
  then have 2: "sched_reach (?s, [t])" using sched_step.stop_tenant sched_reach.further by blast
  have "sched_step (?s, [t]) (start_consolidation t policy ?s, remove1 t [t])"
    by (rule sched_step.resume_start) simp
  with 2 have 3: "sched_reach (start_consolidation t policy ?s, [])" using sched_reach.further by fastforce
  have dict: "sd_tasks ?s = []"
    by (simp add: stop_def tenant_keys_def start_decay_def ensure_task_def Let_def new_scheduler_def
        cancel_existing_def)
  then have "is_running t (start_consolidation t policy ?s)"
    using assms by (simp add: start_consolidation_def ensure_task_def Let_def is_running_def task_done_def
        cancel_existing_def nth_append)
  with 2 3 dict show ?thesis by (simp add: is_running_def)
qed

theorem scheduler_stop_during_start_witness:
  "\<exists>s. sched_reach (s, []) \<and> is_running ''acme'' s \<and> s = start_consolidation ''acme''
    ((default_consolidation_policy ''p'')\<lparr>cp_trigger := SCHEDULE\<rparr>) (stop ''acme'' (start_decay ''acme'' new_scheduler))"
  using scheduler_stop_during_start [of "(default_consolidation_policy ''p'')\<lparr>cp_trigger := SCHEDULE\<rparr>" "''acme''"]
  by auto

end
