(* ===== verification/Py_Values.thy ===== *)
theory Py_Values
  imports Domain_Policies
begin

text \<open>
  The builtin conversions the code applies to values that came out of \<open>json.loads\<close>:
  \<open>int\<close>, \<open>float\<close>, \<open>bool\<close> and \<open>str\<close>, and the subscript \<open>d[key]\<close>.  Numbers are exact: rounding to
  a double, overflow to infinity and the texts \<open>inf\<close> and \<open>nan\<close> are not represented.  The text
  \<open>repr\<close> gives a float is an argument (\<open>fr\<close>).
\<close>

subsection \<open>Numerals in text\<close>

definition is_space :: "char \<Rightarrow> bool" where
  "is_space c = (let n = (of_char c :: nat) in
     9 \<le> n \<and> n \<le> 13 \<or> 28 \<le> n \<and> n \<le> 32 \<or> n = 133 \<or> n = 160)"

definition py_strip :: "string \<Rightarrow> string" where
  "py_strip s = rev (dropWhile is_space (rev (dropWhile is_space s)))"

text \<open>Digits with single underscores between them; the flag says whether a digit precedes.\<close>

fun digits_us :: "bool \<Rightarrow> string \<Rightarrow> string option" where
  "digits_us p [] = (if p then Some [] else None)"
| "digits_us p (c # cs) =
     (if is_digit c then map_option (Cons c) (digits_us True cs)
      else if c = CHR ''_'' \<and> p then digits_us False cs
      else None)"

definition split_sign :: "string \<Rightarrow> bool \<times> string" where
  \<comment> \<open>whether the sign is a minus, and the rest\<close>
  "split_sign s = (case s of [] \<Rightarrow> (False, [])
     | c # cs \<Rightarrow> if c = CHR ''-'' then (True, cs) else if c = CHR ''+'' then (False, cs) else (False, s))"

definition signed_digits :: "string \<Rightarrow> int option" where
  "signed_digits s = (case split_sign s of (neg, ds) \<Rightarrow>
     map_option (\<lambda>x. if neg then - int (digits_val x) else int (digits_val x)) (digits_us False ds))"

definition int_of_str :: "string \<Rightarrow> exn + int" where
  "int_of_str s = (case signed_digits (py_strip s) of
     None \<Rightarrow> Inl (ValueError (''invalid literal for int() with base 10: '' @ py_repr s))
   | Some i \<Rightarrow> Inr i)"

definition opt_digits :: "string \<Rightarrow> string option" where
  "opt_digits s = (if s = [] then Some [] else digits_us False s)"

definition decimal :: "string \<Rightarrow> rat option" where
  \<comment> \<open>an unsigned literal: integer part, fraction, exponent\<close>
  "decimal u = (let
       mant = takeWhile (\<lambda>c. c \<noteq> CHR ''e'' \<and> c \<noteq> CHR ''E'') u;
       rest = dropWhile (\<lambda>c. c \<noteq> CHR ''e'' \<and> c \<noteq> CHR ''E'') u;
       ip = takeWhile (\<lambda>c. c \<noteq> CHR ''.'') mant;
       fp = tl (dropWhile (\<lambda>c. c \<noteq> CHR ''.'') mant);
       expo = (if rest = [] then Some 0 else signed_digits (tl rest))
     in case (opt_digits ip, opt_digits fp, expo) of
          (Some i, Some f, Some e) \<Rightarrow>
            if i = [] \<and> f = [] then None
            else (let k = e - int (length f); n = of_nat (digits_val (i @ f)) in
              Some (if 0 \<le> k then n * 10 ^ nat k else n / 10 ^ nat (- k)))
        | _ \<Rightarrow> None)"

definition float_of_str :: "string \<Rightarrow> exn + rat" where
  "float_of_str s = (case split_sign (py_strip s) of (neg, u) \<Rightarrow>
     (case decimal u of
        None \<Rightarrow> Inl (ValueError (''could not convert string to float: '' @ py_repr s))
      | Some x \<Rightarrow> Inr (if neg then - x else x)))"

subsection \<open>Conversions of a JSON value\<close>

definition json_type :: "json \<Rightarrow> string" where
  "json_type j = (case j of JNull \<Rightarrow> ''NoneType'' | JBool _ \<Rightarrow> ''bool'' | JInt _ \<Rightarrow> ''int''
     | JFloat _ \<Rightarrow> ''float'' | JStr _ \<Rightarrow> ''str'' | JArr _ \<Rightarrow> ''list'' | JObj _ \<Rightarrow> ''dict'')"

definition py_int :: "json \<Rightarrow> exn + int" where
  "py_int j = (case j of
     JBool b \<Rightarrow> Inr (if b then 1 else 0)
   | JInt i \<Rightarrow> Inr i
   | JFloat x \<Rightarrow> Inr (if x < 0 then - \<lfloor>- x\<rfloor> else \<lfloor>x\<rfloor>)
   | JStr s \<Rightarrow> int_of_str s
   | _ \<Rightarrow> Inl (TypeError (''int() argument must be a string, a bytes-like object or a real number, not ''
       @ py_repr (json_type j))))"

definition py_float :: "json \<Rightarrow> exn + rat" where
  "py_float j = (case j of
     JBool b \<Rightarrow> Inr (if b then 1 else 0)
   | JInt i \<Rightarrow> Inr (of_int i)
   | JFloat x \<Rightarrow> Inr x
   | JStr s \<Rightarrow> float_of_str s
   | _ \<Rightarrow> Inl (TypeError (''float() argument must be a string or a real number, not ''
       @ py_repr (json_type j))))"

definition py_bool :: "json \<Rightarrow> bool" where
  "py_bool j = (case j of JNull \<Rightarrow> False | JBool b \<Rightarrow> b | JInt i \<Rightarrow> i \<noteq> 0 | JFloat x \<Rightarrow> x \<noteq> 0
     | JStr s \<Rightarrow> s \<noteq> [] | JArr xs \<Rightarrow> xs \<noteq> [] | JObj kvs \<Rightarrow> kvs \<noteq> [])"

fun json_repr :: "(rat \<Rightarrow> string) \<Rightarrow> json \<Rightarrow> string" where
  "json_repr fr JNull = ''None''"
| "json_repr fr (JBool b) = (if b then ''True'' else ''False'')"
| "json_repr fr (JInt i) = int_str i"
| "json_repr fr (JFloat x) = fr x"
| "json_repr fr (JStr s) = py_repr s"
| "json_repr fr (JArr xs) = ''['' @ join '', '' (map (json_repr fr) xs) @ '']''"
| "json_repr fr (JObj kvs) =
     ''{'' @ join '', '' (map (\<lambda>(k, v). py_repr k @ '': '' @ json_repr fr v) kvs) @ ''}''"

definition py_str :: "(rat \<Rightarrow> string) \<Rightarrow> json \<Rightarrow> string" where
  "py_str fr j = (case j of JStr s \<Rightarrow> s | _ \<Rightarrow> json_repr fr j)"

definition subscript :: "json_dict \<Rightarrow> string \<Rightarrow> exn + json" where
  "subscript d k = (case dict_get d k of None \<Rightarrow> Inl (KeyError (py_repr k)) | Some v \<Rightarrow> Inr v)"

definition dict_get_or :: "json_dict \<Rightarrow> string \<Rightarrow> json \<Rightarrow> json" where
  "dict_get_or d k v = (case dict_get d k of None \<Rightarrow> v | Some w \<Rightarrow> w)"

lemma conversions [simp]:
  "py_int (JInt i) = Inr i" "py_float (JFloat x) = Inr x" "py_bool (JBool b) = b"
  "py_str fr (JStr s) = s"
  by (simp_all add: py_int_def py_float_def py_bool_def py_str_def)

end
