(* ===== verification/Local_Vector.thy ===== *)
theory Local_Vector
  imports Fixtures Py_Values "HOL-Library.AList" "HOL-Library.Sublist"
begin

text \<open>
  \<^verbatim>\<open>storage/vector/local_vector.py\<close>, \<open>ChromaVectorIndex\<close>.  The ChromaDB client is a record of
  operations over its state; a collection is addressed by its name, which is also what the cache
  of the index keeps.  The index runs over the client's state and the names it has cached.
\<close>

subsection \<open>Names and filters\<close>

definition is_lower_alnum :: "char \<Rightarrow> bool" where
  "is_lower_alnum c \<longleftrightarrow> (let n = of_char c :: nat in 97 \<le> n \<and> n \<le> 122 \<or> 48 \<le> n \<and> n \<le> 57)"

definition is_alnum :: "char \<Rightarrow> bool" where
  "is_alnum c \<longleftrightarrow> is_lower_alnum c \<or> (let n = of_char c :: nat in 65 \<le> n \<and> n \<le> 90)"

definition lower_char :: "char \<Rightarrow> char" where
  \<comment> \<open>\<open>str.lower\<close> on the letters the next step keeps\<close>
  "lower_char c = (let n = of_char c :: nat in if 65 \<le> n \<and> n \<le> 90 then char_of (n + 32) else c)"

definition tenant_short :: "tenant_id \<Rightarrow> string" where
  "tenant_short t = take 8 (filter is_lower_alnum (map lower_char t))"

definition model_slug :: "string \<Rightarrow> string" where
  "model_slug m = map (\<lambda>c. if is_alnum c then c else CHR ''_'') m"

definition collection_name :: "tenant_id \<Rightarrow> string \<Rightarrow> string" where
  "collection_name t m = ''memory_vectors_'' @ tenant_short t @ ''_'' @ model_slug m"

datatype chroma_where = Where_Eq string json | Where_And "chroma_where list"

definition routing_keys :: "string set" where
  "routing_keys = {''embedding_model_id'', ''embedding_dimensions''}"

definition build_chroma_where :: "json_dict \<Rightarrow> tenant_id \<Rightarrow> chroma_where" where
  "build_chroma_where filters t = (let conditions = Where_Eq ''tenant_id'' (JStr t) #
       map (\<lambda>(key, v). Where_Eq key v)
         (filter (\<lambda>(key, v). key \<notin> routing_keys \<and> key \<noteq> ''tenant_id'') filters)
     in if length conditions = 1 then Where_Eq ''tenant_id'' (JStr t) else Where_And conditions)"

subsection \<open>The client\<close>

text \<open>The four lists of a query's answer; a key of the answer may be missing.\<close>

record chroma_result =
  cq_ids :: "string list list option"
  cq_documents :: "string option list list option"
  cq_metadatas :: "json_dict option list list option"
  cq_distances :: "rat list list option"

record 's chroma =
  ch_get_or_create :: "string \<Rightarrow> ('s, unit) action"
  ch_list_collections :: "('s, string list) action"
  ch_get_collection :: "string \<Rightarrow> ('s, unit) action"
  ch_upsert :: "string \<Rightarrow> string \<Rightarrow> rat list \<Rightarrow> string \<Rightarrow> json_dict \<Rightarrow> ('s, unit) action"
  ch_count :: "string \<Rightarrow> ('s, int) action"
  ch_query :: "string \<Rightarrow> rat list \<Rightarrow> int \<Rightarrow> chroma_where \<Rightarrow> ('s, chroma_result) action"
  ch_get :: "string \<Rightarrow> string \<Rightarrow> chroma_where \<Rightarrow> ('s, string list) action"
  ch_delete :: "string \<Rightarrow> string \<Rightarrow> ('s, unit) action"

type_synonym 's index_state = "'s \<times> string list"

definition on_client :: "('s, 'a) action \<Rightarrow> ('s index_state, 'a) action" where
  "on_client m s = (case m (fst s) of (x, c) \<Rightarrow> (x, (c, snd s)))"

definition wrap_storage :: "string \<Rightarrow> ('s, 'a) action \<Rightarrow> ('s, 'a) action" where
  \<comment> \<open>\<^verbatim>\<open>except Exception as exc: raise StorageError(f"{msg}: {exc}") from exc\<close>\<close>
  "wrap_storage msg m = tryM m (\<lambda>e. raiseM (StorageError (msg @ '': '' @ exn_str e)))"

definition get_collection :: "'s chroma \<Rightarrow> tenant_id \<Rightarrow> string \<Rightarrow> ('s index_state, string) action" where
  "get_collection client t model_id = (let name = collection_name t model_id in
     bindM (getM snd) (\<lambda>cached.
       if name \<in> set cached then returnM name
       else bindM (on_client (ch_get_or_create client name)) (\<lambda>_.
            bindM (modifyM (\<lambda>(c, names). (c, names @ [name]))) (\<lambda>_. returnM name))))"

subsection \<open>Upsert\<close>

definition is_scalar :: "json \<Rightarrow> bool" where
  "is_scalar v = (case v of JStr _ \<Rightarrow> True | JInt _ \<Rightarrow> True | JFloat _ \<Rightarrow> True | JBool _ \<Rightarrow> True | _ \<Rightarrow> False)"

definition dict_set :: "json_dict \<Rightarrow> string \<times> json \<Rightarrow> json_dict" where
  "dict_set d kv = AList.update (fst kv) (snd kv) d"

definition flat_metadata :: "vector_document \<Rightarrow> json_dict" where
  "flat_metadata doc = foldl dict_set (filter (\<lambda>(key, v). is_scalar v) (vd_metadata doc))
     [(''tenant_id'', JStr (vd_tenant_id doc)), (''sector'', JStr (sector_str (vd_sector doc))),
      (''lifecycle_state'', JStr (lifecycle_str (vd_lifecycle_state doc))),
      (''embedding_model_id'', JStr (vd_embedding_model_id doc)),
      (''embedding_dimensions'', JInt (vd_embedding_dimensions doc))]"

definition chroma_upsert :: "'s chroma \<Rightarrow> vector_document \<Rightarrow> ('s index_state, unit) action" where
  "chroma_upsert client doc =
     wrap_storage (''upsert failed for memory_id='' @ vd_memory_id doc)
       (bindM (get_collection client (vd_tenant_id doc) (vd_embedding_model_id doc)) (\<lambda>name.
        on_client (ch_upsert client name (vd_memory_id doc) (vd_embedding doc) (vd_content doc)
          (flat_metadata doc))))"

subsection \<open>Search\<close>

definition first_of :: "'a list list option \<Rightarrow> 'a list" where
  \<comment> \<open>\<^verbatim>\<open>(results.get(key) or [[]])[0]\<close>\<close>
  "first_of x = (case x of Some (ys # _) \<Rightarrow> ys | _ \<Rightarrow> [])"

definition similarity :: "rat \<Rightarrow> rat" where
  "similarity distance = max 0 (min 1 (1 - distance / 2))"

definition to_search_result ::
  "string \<times> string option \<times> json_dict option \<times> rat \<Rightarrow> vector_search_result" where
  "to_search_result row = (case row of (mem_id, content, meta, distance) \<Rightarrow>
     \<lparr>vr_memory_id = mem_id, vr_score = similarity distance, vr_content = opt_str content,
      vr_metadata = (case meta of None \<Rightarrow> [] | Some d \<Rightarrow> d)\<rparr>)"

definition query_rows :: "chroma_result \<Rightarrow> (string \<times> string option \<times> json_dict option \<times> rat) list" where
  "query_rows r = zip (first_of (cq_ids r)) (zip (first_of (cq_documents r))
     (zip (first_of (cq_metadatas r)) (first_of (cq_distances r))))"

definition filter_model :: "json_dict \<Rightarrow> json" where
  "filter_model filters = (case dict_get filters ''embedding_model_id'' of
     None \<Rightarrow> JStr ''__unknown__'' | Some j \<Rightarrow> j)"

definition chroma_search ::
  "'s chroma \<Rightarrow> rat list \<Rightarrow> tenant_id \<Rightarrow> int \<Rightarrow> json_dict \<Rightarrow> ('s index_state, vector_search_result list) action" where
  "chroma_search client embedding t k filters =
     wrap_storage (''search failed for tenant_id='' @ t)
       (bindM (case filter_model filters of JStr m \<Rightarrow> get_collection client t m
          | j \<Rightarrow> raiseM (TypeError (''expected string or bytes-like object, got '' @ py_repr (json_type j)))) (\<lambda>name.
        bindM (on_client (ch_count client name)) (\<lambda>n_docs.
        let n_results = min k n_docs in
        if n_results = 0 then returnM []
        else
          bindM (on_client (ch_query client name embedding n_results (build_chroma_where filters t))) (\<lambda>results.
          returnM (map to_search_result (query_rows results))))))"

subsection \<open>Delete\<close>

definition delete_from :: "'s chroma \<Rightarrow> memory_id \<Rightarrow> tenant_id \<Rightarrow> string \<Rightarrow> ('s index_state, unit) action" where
  "delete_from client m t name =
     (if \<not> prefix (''memory_vectors_'' @ tenant_short t @ ''_'') name then returnM ()
      else
        bindM (on_client (ch_get_collection client name)) (\<lambda>_.
        bindM (on_client (ch_get client name m (Where_Eq ''tenant_id'' (JStr t)))) (\<lambda>existing.
        if existing = [] then returnM () else on_client (ch_delete client name m))))"

definition chroma_delete :: "'s chroma \<Rightarrow> memory_id \<Rightarrow> tenant_id \<Rightarrow> ('s index_state, unit) action" where
  "chroma_delete client m t =
     wrap_storage (''delete failed for memory_id='' @ m @ '', tenant='' @ t)
       (bindM (on_client (ch_list_collections client)) (\<lambda>names.
        bindM (forM names (delete_from client m t)) (\<lambda>_. returnM ())))"

subsection \<open>Routing\<close>

lemma short_alnum: "c \<in> set (tenant_short t) \<Longrightarrow> is_lower_alnum c"
  by (auto simp: tenant_short_def dest: in_set_takeD)

lemma not_underscore: "is_lower_alnum c \<Longrightarrow> c \<noteq> CHR ''_''"
  by (auto simp: is_lower_alnum_def Let_def)

lemma split_at_underscore:
  assumes "\<forall>c \<in> set a. c \<noteq> x" "\<forall>c \<in> set b. c \<noteq> x"
  shows "a @ x # y = b @ x # z \<longleftrightarrow> a = b \<and> y = z"
  using assms
proof (induction a arbitrary: b)
  case Nil
  then show ?case by (cases b) auto
next
  case (Cons c a)
  then show ?case by (cases b) auto
qed

lemma prefix_at_underscore:
  assumes "\<forall>c \<in> set a. c \<noteq> x" "\<forall>c \<in> set b. c \<noteq> x"
  shows "prefix (a @ [x]) (b @ x # z) \<longleftrightarrow> a = b"
proof -
  have "prefix (a @ [x]) (b @ x # z) \<longleftrightarrow> (\<exists>zs. b @ x # z = a @ x # zs)" by (auto simp: prefix_def)
  also have "\<dots> \<longleftrightarrow> a = b" using split_at_underscore [OF assms(2,1)] by auto
  finally show ?thesis .
qed

lemma short_no_underscore: "\<forall>c \<in> set (tenant_short t). c \<noteq> CHR ''_''"
  using short_alnum not_underscore by blast

lemma collection_name_eq:
  "collection_name t m = collection_name u n \<longleftrightarrow> tenant_short t = tenant_short u \<and> model_slug m = model_slug n"
  using split_at_underscore [OF short_no_underscore short_no_underscore, of t "model_slug m" u "model_slug n"]
  by (simp add: collection_name_def)

lemma delete_prefix:
  "prefix (''memory_vectors_'' @ tenant_short t @ ''_'') (collection_name u m) \<longleftrightarrow> tenant_short t = tenant_short u"
  using prefix_at_underscore [OF short_no_underscore short_no_underscore, of t u "model_slug m"]
  by (simp add: collection_name_def)

subsection \<open>The guard\<close>

text \<open>What ChromaDB documents of a \<open>where\<close> clause: a row's metadata satisfies it.\<close>

fun satisfies :: "json_dict \<Rightarrow> chroma_where \<Rightarrow> bool" where
  "satisfies meta (Where_Eq key v) \<longleftrightarrow> map_of meta key = Some v"
| "satisfies meta (Where_And ws) \<longleftrightarrow> (\<forall>w \<in> set ws. satisfies meta w)"

lemma satisfies_where:
  "satisfies meta (build_chroma_where filters t) \<longleftrightarrow> map_of meta ''tenant_id'' = Some (JStr t) \<and>
     (\<forall>(key, v) \<in> set filters. key \<in> routing_keys \<or> key = ''tenant_id'' \<or> map_of meta key = Some v)"
proof -
  let ?fs = "filter (\<lambda>(key, v). key \<notin> routing_keys \<and> key \<noteq> ''tenant_id'') filters"
  have "satisfies meta (build_chroma_where filters t) \<longleftrightarrow> map_of meta ''tenant_id'' = Some (JStr t) \<and>
      (\<forall>(key, v) \<in> set ?fs. map_of meta key = Some v)"
    by (cases ?fs) (auto simp: build_chroma_where_def Let_def)
  then show ?thesis by auto
qed

lemma similarity_bounds: "0 \<le> similarity d" "similarity d \<le> 1"
  by (simp_all add: similarity_def)

subsection \<open>An in-memory client\<close>

text \<open>A client that behaves as documented, for the examples: the collections with their documents.\<close>

type_synonym memory_collections = "(string \<times> (string \<times> rat list \<times> string \<times> json_dict) list) list"

definition documents :: "memory_collections \<Rightarrow> string \<Rightarrow> (string \<times> rat list \<times> string \<times> json_dict) list" where
  "documents c name = (case map_of c name of None \<Rightarrow> [] | Some ds \<Rightarrow> ds)"

definition matching :: "memory_collections \<Rightarrow> string \<Rightarrow> int \<Rightarrow> chroma_where \<Rightarrow> (string \<times> rat list \<times> string \<times> json_dict) list" where
  "matching c name n w = take (nat n) (filter (\<lambda>(_, _, _, meta). satisfies meta w) (documents c name))"

definition memory_chroma :: "memory_collections chroma" where
  "memory_chroma = \<lparr>
     ch_get_or_create = (\<lambda>name c. (Inr (), if map_of c name = None then c @ [(name, [])] else c)),
     ch_list_collections = (\<lambda>c. (Inr (map fst c), c)),
     ch_get_collection = (\<lambda>name c. (if map_of c name = None then Inl (ServiceError ''no collection'') else Inr (), c)),
     ch_upsert = (\<lambda>name i e d meta c. (Inr (),
       AList.update name (filter (\<lambda>x. fst x \<noteq> i) (documents c name) @ [(i, e, d, meta)]) c)),
     ch_count = (\<lambda>name c. (Inr (int (length (documents c name))), c)),
     ch_query = (\<lambda>name e n w c. (Inr \<lparr>
         cq_ids = Some [map fst (matching c name n w)],
         cq_documents = Some [map (\<lambda>(_, _, d, _). Some d) (matching c name n w)],
         cq_metadatas = Some [map (\<lambda>(_, _, _, meta). Some meta) (matching c name n w)],
         cq_distances = Some [map (\<lambda>_. 0) (matching c name n w)]\<rparr>, c)),
     ch_get = (\<lambda>name i w c. (Inr (map fst (filter (\<lambda>(j, _, _, meta). j = i \<and> satisfies meta w)
       (documents c name))), c)),
     ch_delete = (\<lambda>name i c. (Inr (), AList.update name (filter (\<lambda>x. fst x \<noteq> i) (documents c name)) c))\<rparr>"

definition document_a :: vector_document where
  "document_a = \<lparr>vd_memory_id = ''m1'', vd_tenant_id = ''acme'', vd_embedding = [1],
     vd_embedding_model_id = ''text-embedding-3'', vd_embedding_dimensions = 1, vd_content = ''likes tea'',
     vd_sector = SEMANTIC, vd_lifecycle_state = ACTIVE, vd_metadata = []\<rparr>"

lemma zip_map4: "zip (map f xs) (zip (map g xs) (zip (map h xs) (map k xs))) = map (\<lambda>x. (f x, g x, h x, k x)) xs"
  by (induction xs) simp_all

lemma memory_query_rows:
  assumes "ch_query memory_chroma name e n w c = (Inr res, c')"
  shows "\<forall>(i, d, meta, x) \<in> set (query_rows res). \<exists>m. meta = Some m \<and> satisfies m w"
    "int (length (query_rows res)) \<le> max 0 n"
proof -
  from assms have "query_rows res = map (\<lambda>x. (fst x, Some (fst (snd (snd x))), Some (snd (snd (snd x))), 0))
      (matching c name n w)"
    by (auto simp: memory_chroma_def query_rows_def first_of_def zip_map4 split_beta)
  then show "\<forall>(i, d, meta, x) \<in> set (query_rows res). \<exists>m. meta = Some m \<and> satisfies m w"
    "int (length (query_rows res)) \<le> max 0 n"
    by (auto simp: matching_def dest!: in_set_takeD)
qed

subsection \<open>Properties\<close>

lemma flat_metadata_guard: "map_of (flat_metadata doc) ''tenant_id'' = Some (JStr (vd_tenant_id doc))"
  by (simp add: flat_metadata_def dict_set_def AList.update_conv)

text \<open>Routing: two documents share a collection exactly when the first eight lower-case
  alphanumerics of their tenants and the slugs of their models agree; a delete visits exactly the
  collections of its own eight characters, though different tenants may share them; and each stored
  document carries its whole tenant id, whatever its metadata says.\<close>

theorem vector_collection_routing:
  "(collection_name t m = collection_name u n \<longleftrightarrow> tenant_short t = tenant_short u \<and> model_slug m = model_slug n) \<and>
   (prefix (''memory_vectors_'' @ tenant_short t @ ''_'') (collection_name u m) \<longleftrightarrow> tenant_short t = tenant_short u) \<and>
   map_of (flat_metadata doc) ''tenant_id'' = Some (JStr (vd_tenant_id doc))"
  using collection_name_eq delete_prefix flat_metadata_guard by blast

lemma on_client_Inr [result_iff]: "on_client m s = (Inr x, s') \<longleftrightarrow> (\<exists>c. m (fst s) = (Inr x, c) \<and> s' = (c, snd s))"
  by (auto simp: on_client_def split: prod.split)

lemma wrap_storage_Inr [result_iff]: "wrap_storage msg m s = (Inr x, s') \<longleftrightarrow> m s = (Inr x, s')"
  by (auto simp: wrap_storage_def tryM_def monad_simps split: prod.split sum.split)

lemma chroma_search_Inr:
  assumes "chroma_search client e t k filters s = (Inr rs, s')"
  shows "rs = [] \<or> (\<exists>name n c c' res. ch_query client name e n (build_chroma_where filters t) c = (Inr res, c') \<and>
    n \<le> k \<and> rs = map to_search_result (query_rows res))"
proof -
  from assms obtain name s1 n s2 where "(if min k n = 0 then returnM []
      else bindM (on_client (ch_query client name e (min k n) (build_chroma_where filters t))) (\<lambda>results.
        returnM (map to_search_result (query_rows results)))) s2 = (Inr rs, s')"
    unfolding chroma_search_def Let_def wrap_storage_Inr bindM_Inr_iff by blast
  then consider "rs = []" | c' res where "ch_query client name e (min k n) (build_chroma_where filters t) (fst s2) = (Inr res, c')"
      "rs = map to_search_result (query_rows res)"
    by (auto simp: result_iff returnM_def split: if_splits)
  then show ?thesis using min.cobounded1 [of k n] by cases blast+
qed

text \<open>The guard of a vector search: over a client whose query honours its \<open>where\<close> clause and its
  bound, whatever filters the caller passes, each result is a document of the caller's own tenant
  that satisfies every filter but the routing keys, its score is between zero and one, and there are
  at most \<open>k\<close>.\<close>

theorem vector_search_guard:
  assumes honours: "\<And>name e n w c res c'. ch_query client name e n w c = (Inr res, c') \<Longrightarrow>
      (\<forall>(i, d, meta, x) \<in> set (query_rows res). \<exists>m. meta = Some m \<and> satisfies m w) \<and>
      int (length (query_rows res)) \<le> max 0 n"
    and run: "chroma_search client e t k filters s = (Inr rs, s')"
  shows "(\<forall>r \<in> set rs. map_of (vr_metadata r) ''tenant_id'' = Some (JStr t) \<and>
      (\<forall>(key, v) \<in> set filters. key \<in> routing_keys \<or> key = ''tenant_id'' \<or> map_of (vr_metadata r) key = Some v) \<and>
      0 \<le> vr_score r \<and> vr_score r \<le> 1) \<and> int (length rs) \<le> max 0 k"
proof (cases "rs = []")
  case False
  with chroma_search_Inr [OF run] obtain name n c c' res
    where q: "ch_query client name e n (build_chroma_where filters t) c = (Inr res, c')" "n \<le> k"
      "rs = map to_search_result (query_rows res)" by blast
  note h = honours [OF q(1)]
  have "map_of (vr_metadata r) ''tenant_id'' = Some (JStr t) \<and>
      (\<forall>(key, v) \<in> set filters. key \<in> routing_keys \<or> key = ''tenant_id'' \<or> map_of (vr_metadata r) key = Some v) \<and>
      0 \<le> vr_score r \<and> vr_score r \<le> 1" if "r \<in> set rs" for r
  proof -
    from that q(3) obtain i d meta x where row: "(i, d, meta, x) \<in> set (query_rows res)"
      "r = to_search_result (i, d, meta, x)" by auto
    with h obtain m where "meta = Some m" "satisfies m (build_chroma_where filters t)" by blast
    with row(2) show ?thesis
      by (simp add: to_search_result_def similarity_bounds satisfies_where)
  qed
  with h q show ?thesis by auto
qed simp

theorem vector_search_guard_witness:
  "\<exists>rs s. chroma_search memory_chroma [1] ''acme'' 5 [(''embedding_model_id'', JStr ''text-embedding-3'')]
      (snd (chroma_upsert memory_chroma document_a ([], []))) = (Inr rs, s) \<and> rs \<noteq> [] \<and>
    (\<forall>r \<in> set rs. map_of (vr_metadata r) ''tenant_id'' = Some (JStr ''acme''))"
proof -
  let ?m = "[(''embedding_model_id'', JStr ''text-embedding-3'')]"
  have guard: "satisfies (flat_metadata document_a) (build_chroma_where ?m ''acme'')"
    by (simp add: satisfies_where routing_keys_def flat_metadata_guard) (simp add: document_a_def)
  let ?name = "collection_name ''acme'' ''text-embedding-3''"
  have up: "chroma_upsert memory_chroma document_a ([], []) =
      (Inr (), ([(?name, [(''m1'', [1], ''likes tea'', flat_metadata document_a)])], [?name]))"
    by (simp add: chroma_upsert_def wrap_storage_def tryM_def bindM_def get_collection_def Let_def monad_simps
        on_client_def memory_chroma_def document_a_def documents_def)
  have "\<exists>rs s. chroma_search memory_chroma [1] ''acme'' 5 ?m (snd (chroma_upsert memory_chroma document_a ([], []))) = (Inr rs, s) \<and> rs \<noteq> []"
    unfolding up using guard
    by (simp add: chroma_search_def wrap_storage_def tryM_def bindM_def get_collection_def Let_def monad_simps
        on_client_def memory_chroma_def documents_def filter_model_def dict_get_def matching_def
        query_rows_def first_of_def)
  then obtain rs s where run: "chroma_search memory_chroma [1] ''acme'' 5 ?m
      (snd (chroma_upsert memory_chroma document_a ([], []))) = (Inr rs, s)" "rs \<noteq> []" by blast
  have "\<forall>r \<in> set rs. map_of (vr_metadata r) ''tenant_id'' = Some (JStr ''acme'')"
    using vector_search_guard [OF _ run(1)] memory_query_rows by blast
  with run show ?thesis by blast
qed

subsection \<open>The search of the retrieval service\<close>

lemma unknown_collection:
  assumes "model_slug m \<noteq> ''__unknown__''"
  shows "collection_name u m \<noteq> collection_name t ''__unknown__''"
proof -
  have "model_slug ''__unknown__'' = ''__unknown__''" by (simp add: model_slug_def is_alnum_def is_lower_alnum_def)
  with assms show ?thesis by (simp add: collection_name_eq)
qed

lemma get_collection_stored:
  assumes "\<And>n c. stored (snd (ch_get_or_create client n c)) = stored c"
    and "get_collection client t m s = (x, s')"
  shows "stored (fst s') = stored (fst s) \<and> (\<forall>name. x = Inr name \<longrightarrow> name = collection_name t m)"
proof -
  have "stored (fst (snd (on_client (ch_get_or_create client n) s))) = stored (fst s)" for n
    using assms(1) by (simp add: on_client_def split: prod.split) (metis snd_conv)
  with assms(2) show ?thesis
    by (auto simp: get_collection_def Let_def bindM_def monad_simps split: if_splits prod.splits sum.splits)
      (metis snd_conv fst_conv)+
qed

lemma get_collection_ok:
  assumes "\<And>n c. fst (ch_get_or_create client n c) = Inr ()"
  shows "\<exists>s1. get_collection client t m s = (Inr (collection_name t m), s1)"
proof -
  obtain c' where "ch_get_or_create client (collection_name t m) (fst s) = (Inr (), c')"
    using assms by (metis prod.collapse)
  then show ?thesis by (simp add: get_collection_def Let_def bindM_def on_client_def monad_simps)
qed

lemma search_empty_collection:
  assumes "get_collection client t ''__unknown__'' u = (Inr n, s1)" "ch_count client n (fst s1) = (Inr 0, c)" "0 \<le> k"
  shows "fst (chroma_search client e t k [] u) = Inr []"
  using assms by (simp add: chroma_search_def wrap_storage_def tryM_def bindM_def filter_model_def dict_get_def
      on_client_def monad_simps)

lemma upsert_stored:
  assumes creates: "\<And>n c. stored (snd (ch_get_or_create client n c)) = stored c"
    and upserts: "\<And>n i e d m c. stored (snd (ch_upsert client n i e d m c)) n' = stored c n' \<or> n = n'"
    and slug: "n' \<noteq> collection_name (vd_tenant_id doc) (vd_embedding_model_id doc)"
  shows "stored (fst (snd (chroma_upsert client doc s))) n' = stored (fst s) n'"
proof -
  obtain x s1 where get: "get_collection client (vd_tenant_id doc) (vd_embedding_model_id doc) s = (x, s1)"
    by (metis surj_pair)
  from get_collection_stored [where stored = stored, OF creates get]
  have s1: "stored (fst s1) = stored (fst s)" and x: "\<And>name. x = Inr name \<Longrightarrow> name \<noteq> n'" using slug by auto
  show ?thesis
  proof (cases x)
    case (Inl e)
    with get s1 show ?thesis
      by (simp add: chroma_upsert_def wrap_storage_def tryM_def bindM_def monad_simps)
  next
    case (Inr name)
    with x upserts [of name] have "stored (snd (ch_upsert client name i e d m (fst s1))) n' = stored (fst s1) n'"
      for i e d m by blast
    with get s1 Inr show ?thesis
      by (simp add: chroma_upsert_def wrap_storage_def tryM_def bindM_def monad_simps on_client_def
          split: prod.split sum.split) (metis snd_conv)
  qed
qed

text \<open>The retrieval service passes no filters, so the local index searches the collection of the
  model \<open>__unknown__\<close>; over a client that counts what was stored, no document of any model whose
  slug differs is ever there, and every such search returns nothing.\<close>

theorem default_vector_search_empty:
  assumes counts: "\<And>n c. ch_count client n c = (Inr (int (stored c n)), c)"
    and creates: "\<And>n c. fst (ch_get_or_create client n c) = Inr () \<and> stored (snd (ch_get_or_create client n c)) = stored c"
    and upserts: "\<And>n i e d m c n'. stored (snd (ch_upsert client n i e d m c)) n' = stored c n' \<or> n = n'"
    and new: "stored (fst s) (collection_name t ''__unknown__'') = 0"
    and docs: "\<forall>doc \<in> set docs. model_slug (vd_embedding_model_id doc) \<noteq> ''__unknown__''"
    and "0 \<le> k"
  shows "fst (chroma_search client e t k [] (snd (forM docs (chroma_upsert client) s))) = Inr []"
proof -
  let ?n = "collection_name t ''__unknown__''"
  have stored: "\<And>n c. stored (snd (ch_get_or_create client n c)) = stored c" using creates by blast
  have one: "stored (fst (snd (chroma_upsert client doc u))) ?n = stored (fst u) ?n" if "doc \<in> set docs" for doc u
    using unknown_collection [of "vd_embedding_model_id doc" "vd_tenant_id doc" t] docs that
    by (intro upsert_stored stored upserts) auto
  have all: "keeps (\<lambda>u. stored (fst u) ?n = 0) (forM docs (chroma_upsert client))"
    by (rule keeps_forM) (simp add: keeps_def one)
  have zero: "stored (fst (snd (forM docs (chroma_upsert client) s))) ?n = 0"
    using keepsD [OF all, of s] new by simp
  let ?s = "snd (forM docs (chroma_upsert client) s)"
  obtain s1 where get: "get_collection client t ''__unknown__'' ?s = (Inr ?n, s1)"
    using get_collection_ok [of client] creates by blast
  then have "stored (fst s1) = stored (fst ?s)" using get_collection_stored [where stored = stored, OF stored get] by simp
  with zero have "ch_count client ?n (fst s1) = (Inr 0, fst s1)" using counts [of ?n "fst s1"] by simp
  from search_empty_collection [OF get this \<open>0 \<le> k\<close>] show ?thesis .
qed

theorem default_vector_search_empty_witness:
  "fst (chroma_search memory_chroma [1] ''acme'' 5 [] (snd (forM [document_a] (chroma_upsert memory_chroma) ([], [])))) = Inr []"
proof (rule default_vector_search_empty [where stored = "\<lambda>c n. length (documents c n)"])
  show "\<forall>doc \<in> set [document_a]. model_slug (vd_embedding_model_id doc) \<noteq> ''__unknown__''"
    by (simp add: document_a_def model_slug_def is_alnum_def is_lower_alnum_def)
  have "documents (snd (ch_get_or_create memory_chroma n c)) = documents c" for n c
    by (auto simp: memory_chroma_def documents_def fun_eq_iff map_add_def split: option.split)
  then show "fst (ch_get_or_create memory_chroma n c) = Inr () \<and>
      (\<lambda>x. length (documents (snd (ch_get_or_create memory_chroma n c)) x)) = (\<lambda>x. length (documents c x))" for n c
    by (simp add: memory_chroma_def)
  show "length (documents (snd (ch_upsert memory_chroma n i e d m c)) n') = length (documents c n') \<or> n = n'" for n i e d m c n'
    by (simp add: memory_chroma_def documents_def AList.update_conv)
qed (simp_all add: memory_chroma_def documents_def)

end
