(* ===== verification/Migrations.thy ===== *)
theory Migrations
  imports Fixtures "HOL-Library.Sublist"
begin

text \<open>
  The two migration runners: \<^verbatim>\<open>storage/sqlite/migration_runner.py\<close> over the files of the migrations
  directory, and \<open>SchemaMigrator\<close> of \<^verbatim>\<open>adapters/postgres/migrator.py\<close> over its list of DDL texts.

  Executing a migration's SQL is a parameter; the bookkeeping tables are modelled.
\<close>

subsection \<open>SQLite: the version of a file name\<close>

definition sql_suffix :: string where
  "sql_suffix = ''.sql''"

definition parse_version :: "string \<Rightarrow> exn + int" where
  \<comment> \<open>the pattern \<^verbatim>\<open>^V(\d+)__.*\.sql$\<close> on a name without line breaks\<close>
  "parse_version name = (case name of
       [] \<Rightarrow> Inl (ValueError name)
     | v # rest \<Rightarrow> (let ds = takeWhile is_digit rest; tail = dropWhile is_digit rest in
         if v = CHR ''V'' \<and> ds \<noteq> [] \<and> prefix ''__'' tail \<and> suffix sql_suffix (drop 2 tail)
         then Inr (int (digits_val ds))
         else Inl (ValueError (''Migration filename does not match pattern V{N}__description.sql: '' @
           py_repr name))))"

definition file_stem :: "string \<Rightarrow> string" where
  "file_stem name = take (length name - 4) name"

type_synonym migration_file = "string \<times> string"

definition migration_files :: "migration_file list \<Rightarrow> (int \<times> migration_file) list" where
  \<comment> \<open>\<^verbatim>\<open>glob("V*.sql")\<close>, the names that do not parse skipped, by version\<close>
  "migration_files dir = sort_key fst (concat (map (\<lambda>f.
     if prefix ''V'' (fst f) \<and> suffix sql_suffix (fst f)
     then (case parse_version (fst f) of Inr v \<Rightarrow> [(v, f)] | Inl _ \<Rightarrow> []) else []) dir))"

subsection \<open>SQLite: the bookkeeping table\<close>

record 't migrated =
  md_versions :: "(int \<times> string \<times> string) list option"
  md_schema :: 't

definition recorded :: "'t migrated \<Rightarrow> int list" where
  "recorded d = (case md_versions d of None \<Rightarrow> [] | Some rows \<Rightarrow> map fst rows)"

definition get_current_version :: "'t migrated \<Rightarrow> int" where
  "get_current_version d = (if recorded d = [] then 0 else Max (set (recorded d)))"

definition insert_version :: "int \<Rightarrow> string \<Rightarrow> string \<Rightarrow> ('t migrated, unit) action" where
  "insert_version version description applied_at d = (case md_versions d of
       None \<Rightarrow> (Inl (DatabaseError ''no such table: schema_version''), d)
     | Some rows \<Rightarrow>
         if version \<in> fst ` set rows
         then (Inl (DatabaseError ''UNIQUE constraint failed: schema_version.version''), d)
         else (Inr (), d\<lparr>md_versions := Some (rows @ [(version, description, applied_at)])\<rparr>))"

definition apply_migration ::
  "(string \<Rightarrow> ('t migrated, unit) action) \<Rightarrow> datetime \<Rightarrow> int \<times> migration_file \<Rightarrow> ('t migrated, int) action" where
  "apply_migration executescript now m = (case m of (version, name, sql) \<Rightarrow>
     bindM (executescript sql) (\<lambda>_.
     bindM (insert_version version (file_stem name) (isoformat now)) (\<lambda>_.
     returnM version)))"

definition known_max :: "(int \<times> migration_file) list \<Rightarrow> int" where
  "known_max files = (if files = [] then 0 else fst (last files))"

definition run_migrations ::
  "(string \<Rightarrow> ('t migrated, unit) action) \<Rightarrow> datetime \<Rightarrow> migration_file list \<Rightarrow> ('t migrated, int list) action" where
  "run_migrations executescript now dir = (let files = migration_files dir in
     bindM (getM get_current_version) (\<lambda>current.
     if known_max files < current then raiseM (SchemaVersionError (known_max files) current)
     else forM (filter (\<lambda>(version, _). current < version) files) (apply_migration executescript now)))"

subsection \<open>Laws\<close>

text \<open>What the migration scripts do to the bookkeeping table: at most create it, empty.\<close>

definition keeps_versions :: "(string \<Rightarrow> ('t migrated, unit) action) \<Rightarrow> bool" where
  "keeps_versions executescript \<longleftrightarrow> (\<forall>sql d. recorded (snd (executescript sql d)) = recorded d)"

lemma apply_migration_recorded:
  assumes "keeps_versions ex" "apply_migration ex now m d = (x, d')"
  shows "case x of Inl _ \<Rightarrow> recorded d' = recorded d | Inr v \<Rightarrow> v = fst m \<and> recorded d' = recorded d @ [fst m]"
proof -
  obtain version name sql where m: "m = (version, name, sql)" by (cases m)
  obtain y d1 where e: "ex sql d = (y, d1)" by fastforce
  have "recorded d1 = recorded d" using assms(1) e by (metis keeps_versions_def snd_conv)
  with assms(2) e m show ?thesis
    by (cases y) (auto simp: apply_migration_def bindM_def insert_version_def monad_simps recorded_def
        split: option.splits if_splits)
qed

lemma forM_migrations:
  assumes "keeps_versions ex" "forM ms (apply_migration ex now) d = (x, d')"
  shows "\<exists>n \<le> length ms. recorded d' = recorded d @ take n (map fst ms) \<and>
    (\<forall>vs. x = Inr vs \<longrightarrow> n = length ms \<and> vs = map fst ms)"
  using assms(2)
proof (induction ms arbitrary: d x d')
  case Nil
  then show ?case by auto
next
  case (Cons m ms)
  obtain y d1 where one: "apply_migration ex now m d = (y, d1)" by fastforce
  note r1 = apply_migration_recorded [OF assms(1) one]
  show ?case
  proof (cases y)
    case (Inl e)
    with Cons.prems one r1 show ?thesis by (auto simp: bindM_def intro!: exI [of _ 0])
  next
    case (Inr v)
    obtain z d2 where rest: "forM ms (apply_migration ex now) d1 = (z, d2)" by fastforce
    from Cons.IH [OF this] obtain n where n: "n \<le> length ms" "recorded d2 = recorded d1 @ take n (map fst ms)"
      "\<forall>vs. z = Inr vs \<longrightarrow> n = length ms \<and> vs = map fst ms" by blast
    have "d' = d2" "\<forall>vs. x = Inr vs \<longrightarrow> (\<exists>ws. z = Inr ws \<and> vs = v # ws)"
      using Cons.prems one Inr rest by (auto simp: bindM_def monad_simps split: sum.splits)
    with n r1 Inr show ?thesis by (intro exI [of _ "Suc n"]) auto
  qed
qed

lemma sorted_migration_files: "sorted (map fst (migration_files dir))"
  by (simp add: migration_files_def)

lemma known_max_ge: "m \<in> set (migration_files dir) \<Longrightarrow> fst m \<le> known_max (migration_files dir)"
  using sorted_migration_files [of dir]
  by (cases "migration_files dir" rule: rev_cases) (auto simp: known_max_def sorted_append)

lemma recorded_after:
  assumes "migration_files dir \<noteq> []" "get_current_version d \<le> known_max (migration_files dir)"
    and "recorded d' = recorded d @ map fst (filter (\<lambda>(v, _). get_current_version d < v) (migration_files dir))"
  shows "get_current_version d' = known_max (migration_files dir)"
proof -
  let ?fs = "migration_files dir" and ?c = "get_current_version d" and ?k = "known_max (migration_files dir)"
  let ?p = "filter (\<lambda>(v, _). ?c < v) ?fs"
  have last: "last ?fs \<in> set ?fs" "?k = fst (last ?fs)" using assms(1) by (simp_all add: known_max_def)
  show ?thesis
  proof (cases "?c < ?k")
    case True
    then have k: "?k \<in> set (recorded d')" using last by (auto simp: assms(3) intro!: image_eqI [of _ fst "last ?fs"])
    have "v \<le> ?k" if "v \<in> set (recorded d')" for v
    proof -
      from that consider "v \<in> set (recorded d)" | m where "m \<in> set ?fs" "v = fst m"
        by (auto simp: assms(3))
      then show ?thesis
      proof cases
        case 1
        then have "v \<le> ?c" by (auto simp: get_current_version_def)
        with True show ?thesis by simp
      qed (simp add: known_max_ge)
    qed
    with k have "Max (set (recorded d')) = ?k" by (intro Max_eqI) auto
    with k show ?thesis by (auto simp: get_current_version_def)
  next
    case False
    then have "?p = []" using known_max_ge [of _ dir] by (fastforce simp: filter_empty_conv)
    then have "recorded d' = recorded d" using assms(3) by simp
    then have "get_current_version d' = ?c" by (simp add: get_current_version_def)
    with assms(2) False show ?thesis by simp
  qed
qed

definition pending :: "migration_file list \<Rightarrow> 't migrated \<Rightarrow> int list" where
  \<comment> \<open>the versions of the directory above the current one, in order\<close>
  "pending dir d = filter (\<lambda>v. get_current_version d < v) (map fst (migration_files dir))"

lemma pending_eq:
  "pending dir d = map fst (filter (\<lambda>(v, _). get_current_version d < v) (migration_files dir))"
  by (simp add: pending_def filter_map comp_def case_prod_beta')

lemma run_migrations_eq:
  "run_migrations ex now dir d =
     (if known_max (migration_files dir) < get_current_version d
      then (Inl (SchemaVersionError (known_max (migration_files dir)) (get_current_version d)), d)
      else forM (filter (\<lambda>(v, _). get_current_version d < v) (migration_files dir))
             (apply_migration ex now) d)"
  by (simp add: run_migrations_def Let_def monad_simps)

lemma run_again:
  assumes "\<not> known_max (migration_files dir) < get_current_version d"
    and "recorded d' = recorded d @ pending dir d"
  shows "run_migrations ex now dir d' = (Inr [], d')"
proof -
  have "get_current_version d' \<le> known_max (migration_files dir) \<and>
      filter (\<lambda>(v, _). get_current_version d' < v) (migration_files dir) = []"
  proof (cases "migration_files dir = []")
    case True
    then have "recorded d' = recorded d" using assms(2) by (simp add: pending_def)
    then have "get_current_version d' = get_current_version d" by (simp add: get_current_version_def)
    with assms(1) True show ?thesis by simp
  next
    case False
    then have "get_current_version d' = known_max (migration_files dir)"
      using assms recorded_after [of dir d d'] by (simp add: pending_eq)
    then show ?thesis using known_max_ge [of _ dir] by (fastforce simp: filter_empty_conv)
  qed
  then show ?thesis by (simp add: run_migrations_eq)
qed

lemma run_migrations_facts:
  assumes "keeps_versions ex" "run_migrations ex now dir d = (x, d')"
  shows "(known_max (migration_files dir) < get_current_version d \<longrightarrow>
        x = Inl (SchemaVersionError (known_max (migration_files dir)) (get_current_version d)) \<and> d' = d) \<and>
     (\<exists>n \<le> length (pending dir d). recorded d' = recorded d @ take n (pending dir d)) \<and>
     (\<forall>vs. x = Inr vs \<longrightarrow> vs = pending dir d \<and> recorded d' = recorded d @ vs \<and>
        run_migrations ex later dir d' = (Inr [], d'))"
proof (cases "known_max (migration_files dir) < get_current_version d")
  case True
  with assms(2) show ?thesis by (auto simp: run_migrations_eq intro!: exI [of _ 0])
next
  case False
  with assms(2) have run: "forM (filter (\<lambda>(v, _). get_current_version d < v) (migration_files dir))
      (apply_migration ex now) d = (x, d')" by (simp add: run_migrations_eq)
  from forM_migrations [OF assms(1) run, folded pending_eq] obtain n
    where n: "n \<le> length (pending dir d)" "recorded d' = recorded d @ take n (pending dir d)"
      "\<forall>vs. x = Inr vs \<longrightarrow> n = length (pending dir d) \<and> vs = pending dir d"
    by (auto simp: pending_eq)
  have "\<forall>vs. x = Inr vs \<longrightarrow> vs = pending dir d \<and> recorded d' = recorded d @ vs \<and>
      run_migrations ex later dir d' = (Inr [], d')"
    using n(2,3) run_again [OF False, of d'] by simp
  with n(1,2) False show ?thesis by blast
qed

subsection \<open>SQLite: opening a database\<close>

text \<open>The files of the disk by their paths; an open connection is to a file or to a database of its
  own in memory.  \<open>prepare\<close>, making the parent directory and connecting to the file, may raise.\<close>

datatype 't connection = File_Connection string | Memory_Connection "'t migrated"

type_synonym 't disk = "string \<rightharpoonup> 't migrated"

definition ensure_schema ::
  "(string \<Rightarrow> ('t migrated, unit) action) \<Rightarrow> datetime \<Rightarrow> migration_file list \<Rightarrow> 't migrated \<Rightarrow> (string \<Rightarrow> exn + unit) \<Rightarrow>
   string \<Rightarrow> ('t disk, 't connection) action" where
  \<comment> \<open>\<open>fresh\<close>: a database just created; the two PRAGMAs change no table\<close>
  "ensure_schema executescript now dir fresh prepare db_path disk =
     (if db_path = '':memory:''
      then (case run_migrations executescript now dir fresh of
          (Inl e, _) \<Rightarrow> (Inl e, disk) | (Inr _, d) \<Rightarrow> (Inr (Memory_Connection d), disk))
      else (case prepare db_path of
          Inl e \<Rightarrow> (Inl e, disk)
        | Inr _ \<Rightarrow> (case run_migrations executescript now dir (case disk db_path of None \<Rightarrow> fresh | Some d \<Rightarrow> d) of
            (Inl e, d) \<Rightarrow> (Inl e, disk(db_path \<mapsto> d)) | (Inr _, d) \<Rightarrow> (Inr (File_Connection db_path), disk(db_path \<mapsto> d)))))"

text \<open>A database file that was opened is up to date: every migration of the directory above its earlier
  version is recorded, opening it again changes nothing on the disk, and no other file is touched.\<close>

theorem ensure_schema_spec:
  assumes "keeps_versions ex" "db_path \<noteq> '':memory:''"
    and "ensure_schema ex now dir fresh prepare db_path disk = (Inr conn, disk')"
  shows "conn = File_Connection db_path \<and> (\<forall>p. p \<noteq> db_path \<longrightarrow> disk' p = disk p) \<and>
    (\<exists>d'. disk' db_path = Some d' \<and>
      recorded d' = (let d = (case disk db_path of None \<Rightarrow> fresh | Some d \<Rightarrow> d) in recorded d @ pending dir d)) \<and>
    ensure_schema ex later dir fresh prepare db_path disk' = (Inr conn, disk')"
proof -
  let ?d = "case disk db_path of None \<Rightarrow> fresh | Some d \<Rightarrow> d"
  obtain x d' where run: "run_migrations ex now dir ?d = (x, d')" by fastforce
  from assms(2,3) run obtain vs u where ok: "prepare db_path = Inr u" "x = Inr vs" "conn = File_Connection db_path"
      "disk' = disk(db_path \<mapsto> d')"
    by (auto simp: ensure_schema_def split: sum.splits)
  from run_migrations_facts [OF assms(1) run, of later] ok(2)
  have "vs = pending dir ?d" "recorded d' = recorded ?d @ vs" "run_migrations ex later dir d' = (Inr [], d')" by blast+
  with ok assms(2) show ?thesis by (auto simp: ensure_schema_def Let_def)
qed

subsection \<open>Properties\<close>

text \<open>C38. Running the SQLite migrations.  A database whose recorded version is above the last
  known migration is refused with the two versions, untouched.  Otherwise the migrations above
  the current version are applied in order: whatever happens, the versions recorded are the
  earlier ones and a prefix of the pending ones; on success all of them, which are what is
  returned, and a second run applies nothing.  The hypothesis says that the SQL files do not
  write the version table themselves.\<close>

theorem migrations_spec:
  assumes "keeps_versions ex" "run_migrations ex now dir d = (x, d')"
  shows "(known_max (migration_files dir) < get_current_version d \<longrightarrow>
        x = Inl (SchemaVersionError (known_max (migration_files dir)) (get_current_version d)) \<and> d' = d) \<and>
     (\<exists>n \<le> length (pending dir d). recorded d' = recorded d @ take n (pending dir d)) \<and>
     (\<forall>vs. x = Inr vs \<longrightarrow> vs = pending dir d \<and> recorded d' = recorded d @ vs \<and>
        run_migrations ex later dir d' = (Inr [], d'))"
  by (rule run_migrations_facts [OF assms])

definition init_file :: migration_file where
  "init_file = (''V1__init.sql'', ''CREATE TABLE IF NOT EXISTS schema_version'')"

definition create_versions :: "string \<Rightarrow> (unit migrated, unit) action" where
  "create_versions sql d = (Inr (), if md_versions d = None then d\<lparr>md_versions := Some []\<rparr> else d)"

lemma keeps_create_versions: "keeps_versions create_versions"
  by (simp add: keeps_versions_def create_versions_def recorded_def)

definition empty_database :: "unit migrated" where
  "empty_database = \<lparr>md_versions = None, md_schema = ()\<rparr>"

lemma init_files [simp]: "migration_files [init_file] = [(1, init_file)]"
  by code_simp

lemma apply_init:
  "apply_migration create_versions t0 (1, init_file) empty_database =
     (Inr 1, empty_database\<lparr>md_versions := Some [(1, ''V1__init'', isoformat t0)]\<rparr>)"
  by (simp add: apply_migration_def init_file_def file_stem_def create_versions_def
      insert_version_def empty_database_def bindM_def monad_simps)

lemma run_init:
  "run_migrations create_versions t0 [init_file] empty_database =
     (Inr [1], empty_database\<lparr>md_versions := Some [(1, ''V1__init'', isoformat t0)]\<rparr>)"
proof -
  have "get_current_version empty_database = 0"
    by (simp add: get_current_version_def recorded_def empty_database_def)
  then show ?thesis
    by (simp add: run_migrations_eq known_max_def bindM_ok [where m = "apply_migration create_versions t0 (1, init_file)", OF apply_init] bindM_def [of "forM [] _"] monad_simps)
qed

lemma migrations_spec_witness:
  "run_migrations create_versions t1 [init_file] (snd (run_migrations create_versions t0 [init_file] empty_database)) =
     (Inr [], snd (run_migrations create_versions t0 [init_file] empty_database))"
  using migrations_spec [OF keeps_create_versions run_init, of t1] by (simp add: run_init)

subsection \<open>Postgres: the migrator\<close>

text \<open>
  \<open>schema_migrations\<close> holds the applied versions as texts.  \<open>conn.transaction()\<close> restores the
  state on an exception; \<open>duration_ms\<close>, read off a monotonic clock, is left out of the result.
\<close>

record 't pg_schema =
  ps_versions :: "string list option"
  ps_tables :: 't

record migration_result =
  mg_applied :: "string list"
  mg_skipped :: "string list"

definition transaction :: "('t pg_schema, 'a) action \<Rightarrow> ('t pg_schema, 'a) action" where
  "transaction m d = (case m d of (Inl e, _) \<Rightarrow> (Inl e, d) | (Inr x, d') \<Rightarrow> (Inr x, d'))"

definition ensure_migrations_table :: "('t pg_schema, unit) action" where
  "ensure_migrations_table = modifyM (\<lambda>d. if ps_versions d = None then d\<lparr>ps_versions := Some []\<rparr> else d)"

definition pg_versions :: "'t pg_schema \<Rightarrow> string list" where
  "pg_versions d = (case ps_versions d of None \<Rightarrow> [] | Some vs \<Rightarrow> vs)"

definition pg_insert_version :: "string \<Rightarrow> ('t pg_schema, unit) action" where
  "pg_insert_version version d =
     (if version \<in> set (pg_versions d) then (Inl (DatabaseError ''UniqueViolationError''), d)
      else (Inr (), d\<lparr>ps_versions := Some (pg_versions d @ [version])\<rparr>))"

definition pg_apply :: "(string \<Rightarrow> ('t pg_schema, unit) action) \<Rightarrow> string \<Rightarrow> string \<Rightarrow> ('t pg_schema, unit) action" where
  "pg_apply execute version ddl = bindM (execute ddl) (\<lambda>_. pg_insert_version version)"

text \<open>One turn of the loop: whether the version was applied, and the event of an applied one.\<close>

definition pg_step ::
  "(string \<Rightarrow> ('t pg_schema, unit) action) \<Rightarrow> (memory_event \<Rightarrow> ('t pg_schema, unit) action) \<Rightarrow> tenant_id
    \<Rightarrow> nat \<times> string \<times> string \<Rightarrow> ('t pg_schema, bool) action" where
  "pg_step execute emit t m = (case m of (idx, version, ddl) \<Rightarrow>
     bindM (transaction (bindM (getM pg_versions) (\<lambda>vs.
       if version \<in> set vs then returnM False
       else bindM (pg_apply execute version ddl) (\<lambda>_. returnM True)))) (\<lambda>applied.
     if applied
     then bindM (emit (event t (SchemaMigratedEvent (int idx) (int idx + 1)))) (\<lambda>_. returnM True)
     else returnM False))"

definition pg_run ::
  "(string \<Rightarrow> ('t pg_schema, unit) action) \<Rightarrow> (memory_event \<Rightarrow> ('t pg_schema, unit) action) \<Rightarrow> tenant_id
    \<Rightarrow> (string \<times> string) list \<Rightarrow> ('t pg_schema, migration_result) action" where
  "pg_run execute emit t migrations =
     bindM ensure_migrations_table (\<lambda>_.
     bindM (forM (enumerate 0 migrations) (pg_step execute emit t)) (\<lambda>flags.
     returnM \<lparr>mg_applied = map (fst \<circ> fst) (filter snd (zip migrations flags)),
       mg_skipped = map (fst \<circ> fst) (filter (\<lambda>(_, f). \<not> f) (zip migrations flags))\<rparr>))"

definition keeps_pg_versions :: "('t pg_schema, 'a) action \<Rightarrow> bool" where
  "keeps_pg_versions m \<longleftrightarrow> (\<forall>d. ps_versions (snd (m d)) = ps_versions d)"

lemma pg_step_cases:
  assumes "\<forall>sql. keeps_pg_versions (execute sql)" "\<forall>e. keeps_pg_versions (emit e)"
    and "pg_step execute emit t (idx, version, ddl) d = (y, d')" "ps_versions d = Some vs"
  shows "if version \<in> set vs then y = Inr False \<and> d' = d
    else (case y of Inr b \<Rightarrow> b \<and> ps_versions d' = Some (vs @ [version])
          | Inl _ \<Rightarrow> ps_versions d' = Some vs \<or> ps_versions d' = Some (vs @ [version]))"
proof (cases "version \<in> set vs")
  case True
  with assms(3,4) show ?thesis
    by (simp add: pg_step_def transaction_def bindM_def monad_simps pg_versions_def)
next
  case False
  let ?ev = "event t (SchemaMigratedEvent (int idx) (int idx + 1))"
  obtain z d1 where e: "execute ddl d = (z, d1)" by fastforce
  have v1: "ps_versions d1 = Some vs" using assms(1,4) e by (metis keeps_pg_versions_def snd_conv)
  let ?d2 = "d1\<lparr>ps_versions := Some (vs @ [version])\<rparr>"
  obtain w d3 where m: "emit ?ev ?d2 = (w, d3)" by fastforce
  have v3: "ps_versions d3 = Some (vs @ [version])" using assms(2) m
    by (metis keeps_pg_versions_def pg_schema.select_convs(1) pg_schema.surjective
        pg_schema.update_convs(1) snd_conv)
  from assms(3,4) False e v1 m v3 show ?thesis
    by (cases z; cases w) (auto simp: pg_step_def transaction_def pg_apply_def pg_insert_version_def
        bindM_def monad_simps pg_versions_def)
qed

definition pg_pending :: "(string \<times> string) list \<Rightarrow> string list \<Rightarrow> string list" where
  "pg_pending ms vs = filter (\<lambda>v. v \<notin> set vs) (map fst ms)"

lemma pg_loop:
  assumes "\<forall>sql. keeps_pg_versions (execute sql)" "\<forall>e. keeps_pg_versions (emit e)"
    and "forM (enumerate k ms) (pg_step execute emit t) d = (x, d')" "ps_versions d = Some vs"
    and "distinct (map fst ms)"
  shows "\<exists>n \<le> length (pg_pending ms vs). ps_versions d' = Some (vs @ take n (pg_pending ms vs)) \<and>
    (\<forall>fs. x = Inr fs \<longrightarrow> n = length (pg_pending ms vs) \<and> fs = map (\<lambda>m. fst m \<notin> set vs) ms)"
  using assms(3-5)
proof (induction ms arbitrary: k d vs x d')
  case Nil
  then show ?case by (auto simp: pg_pending_def)
next
  case (Cons m ms)
  obtain version ddl where m: "m = (version, ddl)" by (cases m)
  obtain y d1 where one: "pg_step execute emit t (k, version, ddl) d = (y, d1)" by fastforce
  note step = pg_step_cases [OF assms(1,2) one Cons.prems(2)]
  have other: "u \<noteq> version" if "u \<in> fst ` set ms" for u using that Cons.prems(3) m by auto
  show ?case
  proof (cases y)
    case (Inl e)
    then have "version \<notin> set vs" "ps_versions d1 = Some vs \<or> ps_versions d1 = Some (vs @ [version])"
      using step by (auto split: if_splits)
    moreover have "x = Inl e" "d' = d1" using Cons.prems(1) one Inl m by (simp_all add: bindM_def)
    ultimately show ?thesis
      by (auto simp: pg_pending_def m intro: exI [of _ 0] exI [of _ 1])
  next
    case (Inr b)
    obtain z d2 where rest: "forM (enumerate (Suc k) ms) (pg_step execute emit t) d1 = (z, d2)" by fastforce
    have run: "d' = d2" "\<forall>fs. x = Inr fs \<longrightarrow> (\<exists>gs. z = Inr gs \<and> fs = b # gs)"
      using Cons.prems(1) one Inr rest m by (auto simp: bindM_def monad_simps split: sum.splits)
    let ?vs = "if version \<in> set vs then vs else vs @ [version]"
    have v1: "ps_versions d1 = Some ?vs" "b \<longleftrightarrow> version \<notin> set vs"
      using step Inr Cons.prems(2) by (auto split: if_splits)
    have same: "pg_pending ms ?vs = pg_pending ms vs"
      unfolding pg_pending_def
    proof (rule filter_cong [OF refl])
      fix u assume "u \<in> set (map fst ms)"
      then have "u \<noteq> version" by (intro other) simp
      then show "(u \<notin> set ?vs) = (u \<notin> set vs)" by simp
    qed
    from Cons.IH [OF rest v1(1)] Cons.prems(3) obtain n where
      n: "n \<le> length (pg_pending ms vs)" "ps_versions d2 = Some (?vs @ take n (pg_pending ms vs))"
        "\<forall>fs. z = Inr fs \<longrightarrow> n = length (pg_pending ms vs) \<and> fs = map (\<lambda>m. fst m \<notin> set ?vs) ms"
      unfolding same by auto
    have flags: "map (\<lambda>m. fst m \<notin> set ?vs) ms = map (\<lambda>m. fst m \<notin> set vs) ms"
    proof (rule map_cong [OF refl])
      fix m assume "m \<in> set ms"
      then have "fst m \<noteq> version" by (intro other) simp
      then show "(fst m \<notin> set ?vs) = (fst m \<notin> set vs)" by simp
    qed
    from n run v1(2) m flags show ?thesis
      by (intro exI [of _ "if version \<in> set vs then n else Suc n"]) (auto simp: pg_pending_def)
  qed
qed

lemma filter_zip_map: "filter p (zip ms (map f ms)) = map (\<lambda>m. (m, f m)) (filter (\<lambda>m. p (m, f m)) ms)"
  by (induction ms) auto

text \<open>Running the Postgres migrations, of which no two have one name.  The versions recorded
  afterwards are the earlier ones followed by a prefix of the versions that were missing, in
  order, also when a migration fails.  On success all of the missing ones are recorded and
  reported as applied, the others as skipped.  The hypotheses say that neither the DDL nor the
  observer writes the version table.\<close>

theorem pg_migrations_spec:
  assumes "\<forall>sql. keeps_pg_versions (execute sql)" "\<forall>e. keeps_pg_versions (emit e)"
    and "distinct (map fst migrations)" "pg_run execute emit t migrations d = (x, d')"
  shows "(\<exists>n. pg_versions d' = pg_versions d @ take n (pg_pending migrations (pg_versions d))) \<and>
    (\<forall>r. x = Inr r \<longrightarrow> mg_applied r = pg_pending migrations (pg_versions d) \<and>
       mg_skipped r = filter (\<lambda>v. v \<in> set (pg_versions d)) (map fst migrations) \<and>
       pg_versions d' = pg_versions d @ mg_applied r)"
proof -
  obtain d1 where e: "ensure_migrations_table d = (Inr (), d1)" "ps_versions d1 = Some (pg_versions d)"
    by (auto simp: ensure_migrations_table_def monad_simps pg_versions_def split: option.splits)
  obtain y d2 where loop: "forM (enumerate 0 migrations) (pg_step execute emit t) d1 = (y, d2)" by fastforce
  have x: "d' = d2" "x = (case y of Inl e \<Rightarrow> Inl e | Inr flags \<Rightarrow> Inr
      \<lparr>mg_applied = map (fst \<circ> fst) (filter snd (zip migrations flags)),
       mg_skipped = map (fst \<circ> fst) (filter (\<lambda>(_, f). \<not> f) (zip migrations flags))\<rparr>)"
    using assms(4) loop by (auto simp: pg_run_def bindM_def e(1) monad_simps split: sum.splits)
  from pg_loop [OF assms(1,2) loop e(2) assms(3)] obtain n where
    n: "ps_versions d2 = Some (pg_versions d @ take n (pg_pending migrations (pg_versions d)))"
      "\<forall>fs. y = Inr fs \<longrightarrow> n = length (pg_pending migrations (pg_versions d)) \<and>
        fs = map (\<lambda>m. fst m \<notin> set (pg_versions d)) migrations" by blast
  then have "pg_versions d' = pg_versions d @ take n (pg_pending migrations (pg_versions d))"
    using x(1) by (simp add: pg_versions_def)
  with n(2) x(2) show ?thesis
    by (cases y) (auto simp: filter_zip_map pg_pending_def filter_map comp_def intro: exI [of _ "length migrations"])
qed

definition fresh_pg :: "unit pg_schema" where
  "fresh_pg = \<lparr>ps_versions = None, ps_tables = ()\<rparr>"

lemma pg_migrations_spec_witness:
  "\<exists>d'. pg_run (\<lambda>_. returnM ()) (\<lambda>_. returnM ()) ''system'' [(''0001_initial'', ''CREATE'')] fresh_pg =
     (Inr \<lparr>mg_applied = [''0001_initial''], mg_skipped = []\<rparr>, d') \<and> pg_versions d' = [''0001_initial'']"
proof -
  have run: "pg_run (\<lambda>_. returnM ()) (\<lambda>_. returnM ()) ''system'' [(''0001_initial'', ''CREATE'')] fresh_pg =
     (Inr \<lparr>mg_applied = [''0001_initial''], mg_skipped = []\<rparr>, fresh_pg\<lparr>ps_versions := Some [''0001_initial'']\<rparr>)"
    by (simp add: pg_run_def ensure_migrations_table_def pg_step_def transaction_def pg_apply_def
        pg_insert_version_def bindM_def monad_simps pg_versions_def fresh_pg_def)
  have "pg_versions (fresh_pg\<lparr>ps_versions := Some [''0001_initial'']\<rparr>) = [''0001_initial'']"
    using pg_migrations_spec [OF _ _ _ run]
    by (simp add: keeps_pg_versions_def monad_simps pg_versions_def fresh_pg_def pg_pending_def)
  with run show ?thesis by blast
qed

end
