(* ===== verification/Postgres_Db.thy ===== *)
theory Postgres_Db
  imports Fixtures
begin

text \<open>
  The Postgres database behind \<^verbatim>\<open>adapters/postgres\<close>: the tables of the five DDL texts, a table the
  list of its rows in the order a scan returns them.  A \<open>TIMESTAMPTZ\<close> column holds the instant it
  was given as an aware UTC value; what the driver makes of a Python value, naive ones included, is
  the parameter \<open>codec\<close> of the writing operations.  A \<open>JSONB\<close> column holds the JSON value.

  Every statement is its own transaction, and may fail in the driver: \<open>pg_fails n\<close> says whether
  the \<open>n\<close>-th one does, for an arbitrary \<open>pg_fails\<close>.
\<close>

record pg_record_row =
  pr_memory_id :: string
  pr_tenant_id :: string
  pr_raw_payload :: string
  pr_payload_type :: string
  pr_sector :: string
  pr_lifecycle_state :: string
  pr_pipeline_status :: string
  pr_scope_agent_id :: "string option"
  pr_scope_user_id :: "string option"
  pr_scope_session_id :: "string option"
  pr_idempotency_key :: "string option"
  pr_recorded_at :: datetime

record pg_fact_row =
  pf_fact_id :: string
  pf_tenant_id :: string
  pf_memory_record_id :: string
  pf_subject_entity_id :: string
  pf_predicate :: string
  pf_predicate_group :: string
  pf_object_value :: string
  pf_confidence :: rat
  pf_sector :: string
  pf_lifecycle_state :: string
  pf_effective_from :: datetime
  pf_effective_to :: "datetime option"
  pf_superseded_by :: "string option"

record pg_audit_row =
  pa_audit_id :: string
  pa_tenant_id :: string
  pa_memory_id :: string
  pa_operation :: string
  pa_actor :: string
  pa_outcome :: string
  pa_detail :: "json_dict option"
  pa_occurred_at :: datetime

record pg_trace_row =
  pt_trace_id :: string
  pt_tenant_id :: string
  pt_query :: string
  pt_mode :: string
  pt_steps :: json
  pt_query_plan :: "json option"
  pt_created_at :: datetime

record pg_vector_row =
  pv_memory_id :: string
  pv_tenant_id :: string
  pv_embedding :: "rat list"
  pv_embedding_model_id :: string
  pv_embedding_dimensions :: int
  pv_content :: string
  pv_sector :: string
  pv_lifecycle_state :: string
  pv_metadata :: json_dict

record pg_db =
  pg_records :: "pg_record_row list"
  pg_facts :: "pg_fact_row list"
  pg_audit :: "pg_audit_row list"
  pg_traces :: "pg_trace_row list"
  pg_vectors :: "pg_vector_row list"
  pg_fails :: "nat \<Rightarrow> bool"
  pg_count :: nat

definition empty_pg :: "(nat \<Rightarrow> bool) \<Rightarrow> pg_db" where
  "empty_pg fails = \<lparr>pg_records = [], pg_facts = [], pg_audit = [], pg_traces = [], pg_vectors = [], pg_fails = fails, pg_count = 0\<rparr>"

type_synonym codec = "datetime \<Rightarrow> datetime"

subsection \<open>Statements\<close>

definition tick :: "pg_db \<Rightarrow> pg_db" where
  "tick d = d\<lparr>pg_count := Suc (pg_count d)\<rparr>"

definition pg_execute :: "(pg_db, 'a) action \<Rightarrow> (pg_db, 'a) action" where
  "pg_execute m d = (if pg_fails d (pg_count d) then (Inl (DatabaseError ''PostgresError''), tick d)
     else m (tick d))"

definition pg_fetch :: "(pg_db \<Rightarrow> 'a) \<Rightarrow> (pg_db, 'a) action" where
  "pg_fetch f = pg_execute (getM f)"

lemma tick_simps [simp]:
  "pg_records (tick d) = pg_records d" "pg_facts (tick d) = pg_facts d" "pg_audit (tick d) = pg_audit d"
  "pg_traces (tick d) = pg_traces d" "pg_vectors (tick d) = pg_vectors d" "pg_fails (tick d) = pg_fails d"
  by (simp_all add: tick_def)

lemma pg_execute_Inr:
  "pg_execute m d = (Inr x, d') \<Longrightarrow> m (tick d) = (Inr x, d')"
  by (simp add: pg_execute_def split: if_splits)

lemma pg_execute_cases:
  "pg_execute m d = (x, d') \<Longrightarrow> (\<exists>e. x = Inl e) \<and> d' = tick d \<or> m (tick d) = (x, d')"
  by (auto simp: pg_execute_def split: if_splits)

lemma pg_fetch_cases:
  "pg_fetch f d = (x, d') \<Longrightarrow> d' = tick d \<and> (case x of Inl _ \<Rightarrow> True | Inr y \<Rightarrow> y = f (tick d))"
  by (auto simp: pg_fetch_def pg_execute_def getM_def split: if_splits)

lemma keeps_pg_execute: "(\<And>d. P d \<Longrightarrow> P (tick d)) \<Longrightarrow> keeps P m \<Longrightarrow> keeps P (pg_execute m)"
  by (simp add: keeps_def pg_execute_def)

text \<open>\<^verbatim>\<open>ORDER BY key\<close> on an instant, and LIMIT, which refuses a negative number.\<close>

definition order_time :: "('a \<Rightarrow> datetime) \<Rightarrow> 'a list \<Rightarrow> 'a list" where
  "order_time key xs = sort_key (time_key \<circ> key) xs"

definition order_time_desc :: "('a \<Rightarrow> datetime) \<Rightarrow> 'a list \<Rightarrow> 'a list" where
  "order_time_desc key xs = rev (sort_key (time_key \<circ> key) (rev xs))"

lemma set_order_time [simp]: "set (order_time key xs) = set xs" "set (order_time_desc key xs) = set xs"
  by (simp_all add: order_time_def order_time_desc_def)

lemma sorted_order_time: "sorted_wrt (\<lambda>a b. time_key (key a) \<le> time_key (key b)) (order_time key xs)"
  using sorted_sort_key [of "time_key \<circ> key" xs] by (simp add: order_time_def sorted_map)

lemma sorted_order_time_desc:
  "sorted_wrt (\<lambda>a b. time_key (key b) \<le> time_key (key a)) (order_time_desc key xs)"
  using sorted_order_time [of key "rev xs"] by (simp add: order_time_desc_def order_time_def sorted_wrt_rev)

lemma distinct_order_time [simp]:
  "distinct (map f (order_time_desc key xs)) = distinct (map f xs)"
  by (simp add: order_time_desc_def distinct_map)

end
