(* ===== verification/Record_Contract.thy ===== *)
theory Record_Contract
  imports Ports
begin

text \<open>
  The contract of \<open>MemoryRecordRepositoryPort\<close> the services rest on.  The abstract store
  maps a tenant and an id to the record, and a tenant and an idempotency key to the id of
  the record that used it; every operation of a repository is, on this view, one of the
  functions below or nothing.  \<open>norm\<close> is what the repository makes of a record it saves.
\<close>

type_synonym record_view = "tenant_id \<times> memory_id \<Rightarrow> memory_record option"

record store_view =
  v_records :: record_view
  v_keys :: "tenant_id \<times> string \<Rightarrow> memory_id option"

definition v_save :: "memory_record \<Rightarrow> memory_record \<Rightarrow> store_view \<Rightarrow> store_view" where
  "v_save r stored v = v\<lparr>
     v_records := (v_records v)((mr_tenant_id r, mr_id r) \<mapsto> stored),
     v_keys := (case mr_idempotency_key r of None \<Rightarrow> v_keys v
       | Some k \<Rightarrow> (v_keys v)((mr_tenant_id r, k) \<mapsto> mr_id r))\<rparr>"

definition v_update :: "tenant_id \<Rightarrow> memory_id \<Rightarrow> (memory_record \<Rightarrow> memory_record) \<Rightarrow> store_view \<Rightarrow> store_view" where
  "v_update t m f v = v\<lparr>v_records := (v_records v)((t, m) := map_option f (v_records v (t, m)))\<rparr>"

definition set_status :: "pipeline_status \<Rightarrow> memory_record \<Rightarrow> memory_record" where
  "set_status st r = r\<lparr>mr_pipeline_status := st\<rparr>"

definition set_lifecycle :: "lifecycle_state \<Rightarrow> memory_record \<Rightarrow> memory_record" where
  "set_lifecycle ls r = r\<lparr>mr_lifecycle_state := ls\<rparr>"

definition v_fresh :: "memory_record \<Rightarrow> store_view \<Rightarrow> bool" where
  \<comment> \<open>the id is new to every tenant, and the idempotency key to the record's tenant\<close>
  "v_fresh r v \<longleftrightarrow> (\<forall>t. v_records v (t, mr_id r) = None) \<and>
     (\<forall>k. mr_idempotency_key r = Some k \<longrightarrow> v_keys v (mr_tenant_id r, k) = None)"

definition lifecycles :: "store_view \<Rightarrow> tenant_id \<times> memory_id \<Rightarrow> lifecycle_state option" where
  "lifecycles v p = map_option mr_lifecycle_state (v_records v p)"

lemma lifecycles_status [simp]: "lifecycles (v_update t m (set_status st) v) = lifecycles v"
  by (auto simp: lifecycles_def fun_eq_iff option.map_comp o_def v_update_def set_status_def)

lemma v_update_simps [simp]:
  "v_keys (v_update t m f v) = v_keys v"
  "v_records (v_update t m f v) (t, m) = map_option f (v_records v (t, m))"
  "p \<noteq> (t, m) \<Longrightarrow> v_records (v_update t m f v) p = v_records v p"
  by (simp_all add: v_update_def)

lemma v_save_simps [simp]:
  "v_records (v_save r x v) (mr_tenant_id r, mr_id r) = Some x"
  "p \<noteq> (mr_tenant_id r, mr_id r) \<Longrightarrow> v_records (v_save r x v) p = v_records v p"
  "mr_idempotency_key r = Some k \<Longrightarrow> v_keys (v_save r x v) (mr_tenant_id r, k) = Some (mr_id r)"
  by (simp_all add: v_save_def)

lemma store_view_eqI: "v = w \<longleftrightarrow> v_records v = v_records w \<and> v_keys v = v_keys (w :: store_view)"
  by (cases v; cases w) simp

locale record_repository =
  fixes repo :: "'s record_repo"
    and inv :: "'s \<Rightarrow> bool"
    and view :: "'s \<Rightarrow> store_view"
    and norm :: "memory_record \<Rightarrow> memory_record"
    and storable :: "memory_record \<Rightarrow> bool"
  assumes save_inv: "storable r \<Longrightarrow> keeps inv (rr_save repo r)"
    and save_ok: "inv s \<Longrightarrow> storable r \<Longrightarrow> v_fresh r (view s) \<Longrightarrow>
      rr_save repo r s = (Inr (), s') \<Longrightarrow> view s' = v_save r (norm r) (view s)"
    and save_error: "rr_save repo r s = (Inl e, s') \<Longrightarrow> view s' = view s"
    and get_by_id_inv: "keeps inv (rr_get_by_id repo m t)"
    and get_by_id_view: "view (snd (rr_get_by_id repo m t s)) = view s"
    and get_by_id_ok: "inv s \<Longrightarrow> rr_get_by_id repo m t s = (Inr x, s') \<Longrightarrow>
      x = v_records (view s) (t, m)"
    and get_by_key_inv: "keeps inv (rr_get_by_idempotency_key repo k t)"
    and get_by_key_view: "view (snd (rr_get_by_idempotency_key repo k t s)) = view s"
    and get_by_key_ok: "inv s \<Longrightarrow> rr_get_by_idempotency_key repo k t s = (Inr x, s') \<Longrightarrow>
      v_keys (view s) (t, k) = map_option mr_id x \<and>
      (\<forall>r. x = Some r \<longrightarrow> v_records (view s) (t, mr_id r) = Some r)"
    and status_inv: "keeps inv (rr_update_pipeline_status repo m t st)"
    and status_ok: "inv s \<Longrightarrow> rr_update_pipeline_status repo m t st s = (Inr (), s') \<Longrightarrow>
      view s' = v_update t m (set_status st) (view s)"
    and status_error: "rr_update_pipeline_status repo m t st s = (Inl e, s') \<Longrightarrow> view s' = view s"
    and lifecycle_inv: "keeps inv (rr_update_lifecycle repo m t ls a)"
    and lifecycle_ok: "inv s \<Longrightarrow> rr_update_lifecycle repo m t ls a s = (Inr (), s') \<Longrightarrow>
      view s' = v_update t m (set_lifecycle ls) (view s)"
    and lifecycle_error: "rr_update_lifecycle repo m t ls a s = (Inl e, s') \<Longrightarrow> view s' = view s"
    and list_inv: "keeps inv (rr_list_by_scope repo sc sts n)"
    and list_view: "view (snd (rr_list_by_scope repo sc sts n s)) = view s"
    and list_ok: "inv s \<Longrightarrow> rr_list_by_scope repo sc sts n s = (Inr rs, s') \<Longrightarrow> r \<in> set rs \<Longrightarrow>
      mr_tenant_id r = scope_tenant_id sc \<and> mr_lifecycle_state r \<in> set sts \<and>
      v_records (view s) (mr_tenant_id r, mr_id r) = Some r"
    and list_distinct: "inv s \<Longrightarrow> rr_list_by_scope repo sc sts n s = (Inr rs, s') \<Longrightarrow>
      distinct (map mr_id rs)"
    and list_limit: "0 \<le> n \<Longrightarrow> rr_list_by_scope repo sc sts n s = (Inr rs, s') \<Longrightarrow>
      int (length rs) \<le> n"
begin

lemma view_read:
  "rr_get_by_idempotency_key repo k t s = (x, s') \<Longrightarrow> view s' = view s"
  "rr_get_by_id repo m t s = (y, s') \<Longrightarrow> view s' = view s"
  "rr_list_by_scope repo sc sts n s = (z, s') \<Longrightarrow> view s' = view s"
  using get_by_key_view [of k t s] get_by_id_view [of m t s] list_view [of sc sts n s] by auto

text \<open>No update of the pipeline status touches a lifecycle state.\<close>

lemma status_lifecycles:
  "inv s \<Longrightarrow> rr_update_pipeline_status repo m t st s = (x, s') \<Longrightarrow>
   lifecycles (view s') = lifecycles (view s)"
  by (cases x) (auto dest!: status_error status_ok)

end

end
