(* ===== verification/Postgres_Records.thy ===== *)
theory Postgres_Records
  imports Postgres_Db Record_Contract
begin

text \<open>
  \<^verbatim>\<open>adapters/postgres/record_repo.py\<close> over its table, and the proof that it provides the contract
  of the record repository: a second provider beside SQLite.
\<close>

subsection \<open>Rows\<close>

definition pg_record_to_row :: "codec \<Rightarrow> memory_record \<Rightarrow> pg_record_row" where
  "pg_record_to_row codec r = \<lparr>pr_memory_id = mr_id r, pr_tenant_id = mr_tenant_id r,
     pr_raw_payload = mr_raw_payload r, pr_payload_type = payload_str (mr_payload_type r),
     pr_sector = sector_str (mr_sector r), pr_lifecycle_state = lifecycle_str (mr_lifecycle_state r),
     pr_pipeline_status = pipeline_str (mr_pipeline_status r), pr_scope_agent_id = None,
     pr_scope_user_id = Some (opt_str (scope_principal_id (mr_scope r))),
     pr_scope_session_id = or_none (scope_session_id (mr_scope r)),
     pr_idempotency_key = mr_idempotency_key r, pr_recorded_at = codec (mr_recorded_at r)\<rparr>"

definition pg_row_to_record :: "pg_record_row \<Rightarrow> exn + memory_record" where
  "pg_row_to_record w =
     bindE (payload_of (pr_payload_type w)) (\<lambda>payload_type.
     bindE (sector_of (pr_sector w)) (\<lambda>sector.
     bindE (lifecycle_of (pr_lifecycle_state w)) (\<lambda>lifecycle_state.
     bindE (pipeline_of (pr_pipeline_status w)) (\<lambda>pipeline_status.
     Inr \<lparr>mr_id = pr_memory_id w, mr_tenant_id = pr_tenant_id w,
       mr_scope = \<lparr>scope_tenant_id = pr_tenant_id w,
         scope_principal_id = Some (case or_none (pr_scope_user_id w) of None \<Rightarrow> ''unknown'' | Some p \<Rightarrow> p),
         scope_principal_type = Some USER, scope_workspace_id = None,
         scope_session_id = or_none (pr_scope_session_id w), scope_run_id = None\<rparr>,
       mr_raw_payload = pr_raw_payload w, mr_payload_type = payload_type, mr_sector = sector,
       mr_lifecycle_state = lifecycle_state, mr_pipeline_status = pipeline_status,
       mr_recorded_at = pr_recorded_at w, mr_idempotency_key = pr_idempotency_key w,
       mr_metadata = []\<rparr>))))"

subsection \<open>Operations\<close>

text \<open>
  The keys of the table: the primary key, on which \<^verbatim>\<open>ON CONFLICT ... DO NOTHING\<close> skips the
  insertion, and the unique index over tenant and idempotency key, which makes it fail.
\<close>

definition same_primary :: "pg_record_row \<Rightarrow> pg_record_row \<Rightarrow> bool" where
  "same_primary a b \<longleftrightarrow> pr_memory_id a = pr_memory_id b \<and> pr_tenant_id a = pr_tenant_id b"

definition same_key :: "pg_record_row \<Rightarrow> pg_record_row \<Rightarrow> bool" where
  "same_key a b \<longleftrightarrow> pr_tenant_id a = pr_tenant_id b \<and> pr_idempotency_key a \<noteq> None \<and>
     pr_idempotency_key a = pr_idempotency_key b"

definition pg_insert_record :: "pg_record_row \<Rightarrow> (pg_db, unit) action" where
  "pg_insert_record w d =
     (if \<exists>v \<in> set (pg_records d). same_primary w v then (Inr (), d)
      else if \<exists>v \<in> set (pg_records d). same_key w v then (Inl (DatabaseError ''UniqueViolationError''), d)
      else (Inr (), d\<lparr>pg_records := pg_records d @ [w]\<rparr>))"

definition pg_record_save :: "codec \<Rightarrow> memory_record \<Rightarrow> (pg_db, unit) action" where
  "pg_record_save codec r = pg_execute (pg_insert_record (pg_record_to_row codec r))"

definition pg_find_record :: "memory_id \<Rightarrow> tenant_id \<Rightarrow> pg_db \<Rightarrow> pg_record_row option" where
  "pg_find_record m t d = find (\<lambda>w. pr_memory_id w = m \<and> pr_tenant_id w = t) (pg_records d)"

definition pg_key_record :: "string \<Rightarrow> tenant_id \<Rightarrow> pg_db \<Rightarrow> pg_record_row option" where
  "pg_key_record k t d = find (\<lambda>w. pr_idempotency_key w = Some k \<and> pr_tenant_id w = t) (pg_records d)"

definition opt_record :: "pg_record_row option \<Rightarrow> exn + memory_record option" where
  "opt_record row = (case row of None \<Rightarrow> Inr None | Some w \<Rightarrow> bindE (pg_row_to_record w) (\<lambda>r. Inr (Some r)))"

definition pg_record_get_by_id :: "memory_id \<Rightarrow> tenant_id \<Rightarrow> (pg_db, memory_record option) action" where
  "pg_record_get_by_id m t = bindM (pg_fetch (pg_find_record m t)) (\<lambda>row. liftM (opt_record row))"

definition pg_record_get_by_key :: "string \<Rightarrow> tenant_id \<Rightarrow> (pg_db, memory_record option) action" where
  "pg_record_get_by_key k t = bindM (pg_fetch (pg_key_record k t)) (\<lambda>row. liftM (opt_record row))"

definition pg_update_records ::
  "(pg_record_row \<Rightarrow> bool) \<Rightarrow> (pg_record_row \<Rightarrow> pg_record_row) \<Rightarrow> pg_db \<Rightarrow> pg_db" where
  "pg_update_records p f d = d\<lparr>pg_records := map (\<lambda>w. if p w then f w else w) (pg_records d)\<rparr>"

definition pg_update_lifecycle ::
  "memory_id \<Rightarrow> tenant_id \<Rightarrow> lifecycle_state \<Rightarrow> string \<Rightarrow> (pg_db, unit) action" where
  "pg_update_lifecycle m t state actor = pg_execute (modifyM (pg_update_records
     (\<lambda>w. pr_memory_id w = m \<and> pr_tenant_id w = t \<and> pr_lifecycle_state w \<noteq> lifecycle_str state)
     (\<lambda>w. w\<lparr>pr_lifecycle_state := lifecycle_str state\<rparr>)))"

definition pg_update_pipeline_status ::
  "memory_id \<Rightarrow> tenant_id \<Rightarrow> pipeline_status \<Rightarrow> (pg_db, unit) action" where
  "pg_update_pipeline_status m t st = pg_execute (modifyM (pg_update_records
     (\<lambda>w. pr_memory_id w = m \<and> pr_tenant_id w = t) (\<lambda>w. w\<lparr>pr_pipeline_status := pipeline_str st\<rparr>)))"

definition pg_select_by_scope :: "scope \<Rightarrow> lifecycle_state list \<Rightarrow> int \<Rightarrow> pg_db \<Rightarrow> pg_record_row list" where
  "pg_select_by_scope sc states limit d = take (nat limit) (order_time_desc pr_recorded_at
     (filter (\<lambda>w. pr_tenant_id w = scope_tenant_id sc \<and>
        pr_lifecycle_state w \<in> set (map lifecycle_str states)) (pg_records d)))"

definition pg_list_by_scope ::
  "scope \<Rightarrow> lifecycle_state list \<Rightarrow> int \<Rightarrow> (pg_db, memory_record list) action" where
  "pg_list_by_scope sc states limit = bindM (pg_execute (\<lambda>d.
       if limit < 0 then (Inl (DatabaseError ''LIMIT must not be negative''), d)
       else (Inr (pg_select_by_scope sc states limit d), d))) (\<lambda>rows. liftM (mapE pg_row_to_record rows))"

definition pg_record_repo :: "codec \<Rightarrow> pg_db record_repo" where
  "pg_record_repo codec = \<lparr>
     rr_save = pg_record_save codec,
     rr_get_by_id = pg_record_get_by_id,
     rr_update_lifecycle = pg_update_lifecycle,
     rr_update_pipeline_status = pg_update_pipeline_status,
     rr_list_by_scope = pg_list_by_scope,
     rr_get_by_idempotency_key = pg_record_get_by_key,
     rr_list_active_older_than = (\<lambda>_ _. raiseM (AttributeError ''list_active_older_than'')),
     rr_update_lifecycle_state = (\<lambda>_ _ _. raiseM (AttributeError ''update_lifecycle_state''))\<rparr>"

subsection \<open>Round trip of a row\<close>

text \<open>
  What comes back: the scope keeps the tenant, the principal as a user and a non-empty session;
  the metadata is not stored.
\<close>

definition pg_norm :: "codec \<Rightarrow> memory_record \<Rightarrow> memory_record" where
  "pg_norm codec r = r\<lparr>
     mr_scope := \<lparr>scope_tenant_id = mr_tenant_id r,
       scope_principal_id = Some (if opt_str (scope_principal_id (mr_scope r)) = [] then ''unknown''
         else opt_str (scope_principal_id (mr_scope r))),
       scope_principal_type = Some USER, scope_workspace_id = None,
       scope_session_id = or_none (scope_session_id (mr_scope r)), scope_run_id = None\<rparr>,
     mr_recorded_at := codec (mr_recorded_at r), mr_metadata := []\<rparr>"

lemma pg_row_roundtrip: "pg_row_to_record (pg_record_to_row codec r) = Inr (pg_norm codec r)"
  by (simp add: pg_row_to_record_def pg_record_to_row_def pg_norm_def or_none_def split: option.split)

lemma pg_record_to_row_simps [simp]:
  "pr_memory_id (pg_record_to_row codec r) = mr_id r"
  "pr_tenant_id (pg_record_to_row codec r) = mr_tenant_id r"
  "pr_idempotency_key (pg_record_to_row codec r) = mr_idempotency_key r"
  by (simp_all add: pg_record_to_row_def)

lemma pg_norm_simps [simp]:
  "mr_id (pg_norm codec r) = mr_id r" "mr_tenant_id (pg_norm codec r) = mr_tenant_id r"
  "mr_raw_payload (pg_norm codec r) = mr_raw_payload r" "mr_sector (pg_norm codec r) = mr_sector r"
  "mr_lifecycle_state (pg_norm codec r) = mr_lifecycle_state r"
  "mr_pipeline_status (pg_norm codec r) = mr_pipeline_status r"
  by (simp_all add: pg_norm_def)

lemma pg_row_record:
  assumes "pg_row_to_record w = Inr r"
  shows "mr_id r = pr_memory_id w" "mr_tenant_id r = pr_tenant_id w"
    "mr_idempotency_key r = pr_idempotency_key w" "pr_lifecycle_state w = lifecycle_str (mr_lifecycle_state r)"
    "mr_recorded_at r = pr_recorded_at w"
  using assms by (auto simp: pg_row_to_record_def result_iff lifecycle.of_Inr_iff)

subsection \<open>The table invariant and the view\<close>

definition pg_row_ok :: "pg_record_row \<Rightarrow> bool" where
  "pg_row_ok w \<longleftrightarrow> (\<exists>r. pg_row_to_record w = Inr r)"

definition pg_clash :: "pg_record_row \<Rightarrow> pg_record_row \<Rightarrow> bool" where
  "pg_clash a b \<longleftrightarrow> same_primary a b \<or> same_key a b"

definition pg_records_inv :: "pg_db \<Rightarrow> bool" where
  "pg_records_inv d \<longleftrightarrow> sorted_wrt (\<lambda>a b. \<not> pg_clash a b) (pg_records d) \<and>
     (\<forall>w \<in> set (pg_records d). pg_row_ok w)"

definition pg_lookup :: "pg_db \<Rightarrow> record_view" where
  "pg_lookup d = (\<lambda>(t, m). case pg_find_record m t d of None \<Rightarrow> None
     | Some w \<Rightarrow> (case pg_row_to_record w of Inl _ \<Rightarrow> None | Inr r \<Rightarrow> Some r))"

definition pg_view :: "pg_db \<Rightarrow> store_view" where
  "pg_view d = \<lparr>v_records = pg_lookup d, v_keys = (\<lambda>(t, k). map_option pr_memory_id (pg_key_record k t d))\<rparr>"

lemma pg_view_simps [simp]:
  "v_records (pg_view d) = pg_lookup d"
  "v_keys (pg_view d) (t, k) = map_option pr_memory_id (pg_key_record k t d)"
  by (simp_all add: pg_view_def)

lemma same_pg_records:
  assumes "pg_records d' = pg_records d"
  shows "pg_view d' = pg_view d" "pg_records_inv d' = pg_records_inv d"
  using assms by (simp_all add: pg_view_def pg_lookup_def pg_find_record_def pg_key_record_def pg_records_inv_def)

lemma pg_tick [simp]: "pg_view (tick d) = pg_view d" "pg_records_inv (tick d) = pg_records_inv d"
  "pg_find_record m t (tick d) = pg_find_record m t d" "pg_key_record k t (tick d) = pg_key_record k t d"
  by (simp_all add: same_pg_records [OF tick_simps(1)] pg_find_record_def pg_key_record_def)

lemma pg_find_unique:
  assumes "pg_records_inv d" "w \<in> set (pg_records d)"
  shows "pg_find_record (pr_memory_id w) (pr_tenant_id w) d = Some w"
proof -
  have "find (\<lambda>v. pr_memory_id v = pr_memory_id w \<and> pr_tenant_id v = pr_tenant_id w) ws = Some w"
    if "sorted_wrt (\<lambda>a b. \<not> pg_clash a b) ws" "w \<in> set ws" for ws
    using that by (induction ws) (auto simp: pg_clash_def same_primary_def)
  then show ?thesis using assms by (simp add: pg_find_record_def pg_records_inv_def)
qed

lemma pg_lookup_row:
  assumes "pg_records_inv d" "w \<in> set (pg_records d)" "pg_row_to_record w = Inr r"
  shows "pg_lookup d (mr_tenant_id r, mr_id r) = Some r"
  using pg_find_unique [OF assms(1,2)] assms(3) pg_row_record(1,2) [OF assms(3)]
  by (simp add: pg_lookup_def)

lemma pg_found:
  assumes "pg_records_inv d" "pg_find_record m t d = Some w"
  obtains r where "pg_row_to_record w = Inr r" "pg_lookup d (t, m) = Some r"
  using assms find_in [OF assms(2) [unfolded pg_find_record_def]]
  by (auto simp: pg_records_inv_def pg_row_ok_def pg_lookup_def)

lemma pg_lookup_None: "pg_records_inv d \<Longrightarrow> pg_lookup d (t, m) = None \<Longrightarrow> pg_find_record m t d = None"
  by (metis option.exhaust option.distinct(1) pg_found)

subsection \<open>Saving\<close>

lemma pg_insert_cases:
  "pg_insert_record w d = (x, d') \<Longrightarrow> d' = d \<or> x = Inr () \<and> d' = d\<lparr>pg_records := pg_records d @ [w]\<rparr> \<and>
     (\<forall>v \<in> set (pg_records d). \<not> pg_clash w v)"
  by (auto simp: pg_insert_record_def pg_clash_def split: if_splits)

lemma pg_clash_sym: "pg_clash a b = pg_clash b a"
  unfolding pg_clash_def same_primary_def same_key_def by metis

lemma pg_save_inv: "keeps pg_records_inv (pg_record_save codec r)"
proof (unfold pg_record_save_def, rule keeps_pg_execute, simp, rule keepsI)
  fix d assume inv: "pg_records_inv d"
  let ?w = "pg_record_to_row codec r"
  obtain x d' where run: "pg_insert_record ?w d = (x, d')" by fastforce
  have "pg_row_ok ?w" by (simp add: pg_row_ok_def pg_row_roundtrip)
  with pg_insert_cases [OF run] inv pg_clash_sym show "pg_records_inv (snd (pg_insert_record ?w d))"
    by (auto simp: run pg_records_inv_def sorted_wrt_append)
qed

lemma pg_save_view:
  assumes inv: "pg_records_inv d" and new: "v_fresh r (pg_view d)"
    and save: "pg_record_save codec r d = (Inr (), d')"
  shows "pg_view d' = v_save r (pg_norm codec r) (pg_view d)"
proof -
  let ?w = "pg_record_to_row codec r"
  from new have none: "pg_find_record (mr_id r) t d = None" for t
    using pg_lookup_None [OF inv] by (simp add: v_fresh_def)
  from new have key: "pg_key_record k (mr_tenant_id r) d = None" if "mr_idempotency_key r = Some k" for k
    using that by (simp add: v_fresh_def)
  have "\<not> same_primary ?w v" if "v \<in> set (pg_records d)" for v
    using none [of "mr_tenant_id r"] that by (auto simp: same_primary_def pg_find_record_def find_None_iff)
  moreover have "\<not> same_key ?w v" if v: "v \<in> set (pg_records d)" for v
  proof
    assume "same_key ?w v"
    then obtain k where "mr_idempotency_key r = Some k" "pr_idempotency_key v = Some k" "pr_tenant_id v = mr_tenant_id r"
      unfolding same_key_def pg_record_to_row_simps by (metis not_None_eq)
    with key [OF this(1)] v show False by (auto simp: pg_key_record_def find_None_iff)
  qed
  ultimately have rows: "pg_records d' = pg_records d @ [?w]"
    using pg_execute_Inr [OF save [unfolded pg_record_save_def]]
    by (auto simp: pg_insert_record_def split: if_splits)
  have "pg_find_record m t d' = (case pg_find_record m t d of
      None \<Rightarrow> if mr_id r = m \<and> mr_tenant_id r = t then Some ?w else None | Some w \<Rightarrow> Some w)" for m t
    by (simp add: pg_find_record_def rows find_append split: option.split)
  then have "pg_lookup d' = (pg_lookup d)((mr_tenant_id r, mr_id r) \<mapsto> pg_norm codec r)"
    using none by (auto simp: fun_eq_iff pg_lookup_def pg_row_roundtrip split: option.splits)
  moreover have "pg_key_record k t d' = (case pg_key_record k t d of
      None \<Rightarrow> if mr_tenant_id r = t \<and> mr_idempotency_key r = Some k then Some ?w else None
      | Some w \<Rightarrow> Some w)" for k t
    by (simp add: pg_key_record_def rows find_append split: option.split)
  ultimately show ?thesis
    using key by (auto simp: store_view_eqI v_save_def fun_eq_iff split: option.splits)
qed

lemma pg_save_error:
  assumes "pg_record_save codec r d = (Inl e, d')"
  shows "pg_view d' = pg_view d"
  using pg_execute_cases [OF assms [unfolded pg_record_save_def]] pg_insert_cases
  by (metis Inl_Inr_False pg_tick(1))

subsection \<open>Updating\<close>

definition pg_updates :: "(pg_record_row \<Rightarrow> pg_record_row) \<Rightarrow> (memory_record \<Rightarrow> memory_record) \<Rightarrow> bool" where
  "pg_updates f g \<longleftrightarrow> (\<forall>w r. pg_row_to_record w = Inr r \<longrightarrow> pg_row_to_record (f w) = Inr (g r)) \<and>
     (\<forall>w. pr_memory_id (f w) = pr_memory_id w \<and> pr_tenant_id (f w) = pr_tenant_id w \<and>
       pr_idempotency_key (f w) = pr_idempotency_key w)"

lemma pg_updates_columns:
  "pg_updates (\<lambda>w. if pr_lifecycle_state w \<noteq> lifecycle_str ls then w\<lparr>pr_lifecycle_state := lifecycle_str ls\<rparr> else w)
     (set_lifecycle ls)"
  "pg_updates (\<lambda>w. w\<lparr>pr_pipeline_status := pipeline_str ps\<rparr>) (set_status ps)"
  by (auto simp: pg_updates_def pg_row_to_record_def result_iff lifecycle.of_Inr_iff pipeline.of_Inr_iff
      set_lifecycle_def set_status_def dest!: sym [of "lifecycle_str _"])

lemma pg_update_lifecycle_eq:
  "pg_update_lifecycle m t ls a = pg_execute (modifyM (pg_update_records (\<lambda>w. pr_memory_id w = m \<and> pr_tenant_id w = t)
     (\<lambda>w. if pr_lifecycle_state w \<noteq> lifecycle_str ls then w\<lparr>pr_lifecycle_state := lifecycle_str ls\<rparr> else w)))"
  unfolding pg_update_lifecycle_def pg_update_records_def
  by (intro arg_cong [where f = pg_execute] arg_cong [where f = modifyM] ext) (auto simp: pg_db.defs)

abbreviation pg_update_row :: "memory_id \<Rightarrow> tenant_id \<Rightarrow> (pg_record_row \<Rightarrow> pg_record_row) \<Rightarrow> pg_db \<Rightarrow> pg_db" where
  "pg_update_row m t f \<equiv> pg_update_records (\<lambda>w. pr_memory_id w = m \<and> pr_tenant_id w = t) f"

lemma pg_update_row_inv:
  assumes "pg_updates f g" "pg_records_inv d"
  shows "pg_records_inv (pg_update_row m t f d)"
proof -
  define h where "h = (\<lambda>w. if pr_memory_id w = m \<and> pr_tenant_id w = t then f w else w)"
  have "pg_clash (h a) (h b) = pg_clash a b" for a b
    using assms(1) by (simp add: pg_updates_def h_def pg_clash_def same_primary_def same_key_def)
  moreover have "pg_row_ok (h w)" if "pg_row_ok w" for w
  proof -
    from that obtain r where "pg_row_to_record w = Inr r" by (auto simp: pg_row_ok_def)
    then have "pg_row_to_record (f w) = Inr (g r)" using assms(1) by (simp add: pg_updates_def)
    with that show ?thesis by (auto simp: h_def pg_row_ok_def)
  qed
  ultimately show ?thesis
    using assms(2) by (auto simp: pg_records_inv_def pg_update_records_def sorted_wrt_map simp flip: h_def)
qed

lemma pg_update_row_view:
  assumes up: "pg_updates f g" and inv: "pg_records_inv d"
  shows "pg_view (pg_update_row m t f d) = v_update t m g (pg_view d)"
proof -
  define h where "h = (\<lambda>w. if pr_memory_id w = m \<and> pr_tenant_id w = t then f w else w)"
  have same: "pr_memory_id (h w) = pr_memory_id w \<and> pr_tenant_id (h w) = pr_tenant_id w \<and>
      pr_idempotency_key (h w) = pr_idempotency_key w" for w
    using up by (simp add: pg_updates_def h_def)
  have found: "pg_find_record i u (pg_update_row m t f d) = map_option h (pg_find_record i u d)"
    "pg_key_record k u (pg_update_row m t f d) = map_option h (pg_key_record k u d)" for i u k
    using same by (auto simp: pg_find_record_def pg_key_record_def pg_update_records_def
        simp flip: h_def intro!: find_map_eq)
  have "pg_lookup (pg_update_row m t f d) p = ((pg_lookup d)((t, m) := map_option g (pg_lookup d (t, m)))) p" for p
  proof (cases p)
    case (Pair u i)
    show ?thesis
    proof (cases "pg_find_record i u d")
      case None
      then show ?thesis using found(1) [of i u] by (auto simp: Pair pg_lookup_def)
    next
      case (Some w)
      then obtain r where r: "pg_row_to_record w = Inr r" by (rule pg_found [OF inv])
      have "pr_memory_id w = i" "pr_tenant_id w = u"
        using find_in [OF Some [unfolded pg_find_record_def]] by auto
      then have "pg_row_to_record (h w) = Inr (if i = m \<and> u = t then g r else r)"
        using up r by (simp add: h_def pg_updates_def)
      with Some r found(1) [of i u] show ?thesis by (auto simp: Pair pg_lookup_def)
    qed
  qed
  moreover have "map_option pr_memory_id (map_option h x) = map_option pr_memory_id x" for x
    using same by (cases x) simp_all
  ultimately show ?thesis by (simp add: store_view_eqI v_update_def fun_eq_iff found)
qed

lemma pg_update_keeps:
  "pg_updates f g \<Longrightarrow> keeps pg_records_inv (pg_execute (modifyM (pg_update_row m t f)))"
  by (intro keeps_pg_execute keeps_modifyM pg_update_row_inv) simp_all

lemma pg_update_ok:
  assumes "pg_updates f g" "pg_records_inv d"
    and "pg_execute (modifyM (pg_update_row m t f)) d = (Inr (), d')"
  shows "pg_view d' = v_update t m g (pg_view d)"
  using pg_execute_Inr [OF assms(3)] pg_update_row_view [OF assms(1), of "tick d" m t] assms(2)
  by (simp add: modifyM_def)

lemma pg_update_error:
  "pg_execute (modifyM f) d = (Inl e, d') \<Longrightarrow> pg_view d' = pg_view d"
  by (auto dest!: pg_execute_cases simp: modifyM_def)

subsection \<open>Reading\<close>

lemma pg_read_state:
  "bindM (pg_fetch f) (\<lambda>row. liftM (g row)) d = (x, d') \<Longrightarrow> d' = tick d"
  "pg_list_by_scope sc sts n d = (y, d') \<Longrightarrow> d' = tick d"
  by (auto simp: bindM_def liftM_def pg_fetch_def pg_execute_def getM_def pg_list_by_scope_def
      split: if_splits prod.splits sum.splits)

lemma pg_read_cases:
  "bindM (pg_fetch f) (\<lambda>row. liftM (g row)) d = (Inr x, d') \<Longrightarrow> g (f (tick d)) = Inr x"
  by (auto simp: result_iff liftM_def dest!: pg_fetch_cases)

lemma keeps_pg_read:
  "keeps pg_records_inv (bindM (pg_fetch f) (\<lambda>row. liftM (g row)))"
  by (rule keepsI) (metis pg_read_state(1) pg_tick(2) prod.collapse)

lemma pg_get_by_id_ok:
  assumes "pg_records_inv d" "pg_record_get_by_id m t d = (Inr x, d')"
  shows "x = pg_lookup d (t, m)"
  using pg_read_cases [OF assms(2) [unfolded pg_record_get_by_id_def]]
  by (auto simp: opt_record_def pg_lookup_def result_iff split: option.splits)

lemma pg_get_by_key_ok:
  assumes inv: "pg_records_inv d" and get: "pg_record_get_by_key k t d = (Inr x, d')"
  shows "v_keys (pg_view d) (t, k) = map_option mr_id x \<and>
    (\<forall>r. x = Some r \<longrightarrow> pg_lookup d (t, mr_id r) = Some r)"
proof (cases "pg_key_record k t d")
  case None
  with pg_read_cases [OF get [unfolded pg_record_get_by_key_def]] show ?thesis by (auto simp: opt_record_def)
next
  case (Some w)
  with pg_read_cases [OF get [unfolded pg_record_get_by_key_def]] obtain r where
    r: "x = Some r" "pg_row_to_record w = Inr r" by (auto simp: opt_record_def result_iff)
  have w: "w \<in> set (pg_records d)" "pr_tenant_id w = t"
    using find_in [OF Some [unfolded pg_key_record_def]] by auto
  from pg_lookup_row [OF inv w(1) r(2)] pg_row_record(1,2) [OF r(2)] w(2) r(1) Some show ?thesis by simp
qed

lemma pg_list_rows:
  assumes "pg_list_by_scope sc sts n d = (Inr rs, d')"
  shows "0 \<le> n" "list_all2 (\<lambda>w r. pg_row_to_record w = Inr r) (pg_select_by_scope sc sts n (tick d)) rs"
  using assms by (auto simp: pg_list_by_scope_def result_iff liftM_def pg_execute_def split: if_splits)

lemma pg_select_in:
  "w \<in> set (pg_select_by_scope sc sts n d) \<Longrightarrow> w \<in> set (pg_records d) \<and>
     pr_tenant_id w = scope_tenant_id sc \<and> pr_lifecycle_state w \<in> lifecycle_str ` set sts"
  by (auto simp: pg_select_by_scope_def dest: in_set_takeD)

lemma pg_select_distinct:
  assumes "pg_records_inv d"
  shows "distinct (map pr_memory_id (pg_select_by_scope sc sts n d))"
proof -
  have "distinct (map pr_memory_id (filter (\<lambda>w. pr_tenant_id w = t \<and> P w) ws))"
    if "sorted_wrt (\<lambda>a b. \<not> pg_clash a b) ws" for t P ws
    using that by (induction ws) (auto simp: pg_clash_def same_primary_def)
  with assms show ?thesis
    by (simp add: pg_select_by_scope_def pg_records_inv_def take_map [symmetric] del: take_map)
qed

lemma pg_list_member:
  assumes inv: "pg_records_inv d" and list: "pg_list_by_scope sc sts n d = (Inr rs, d')" and r: "r \<in> set rs"
  shows "mr_tenant_id r = scope_tenant_id sc \<and> mr_lifecycle_state r \<in> set sts \<and>
    pg_lookup d (mr_tenant_id r, mr_id r) = Some r"
proof -
  obtain w where w: "w \<in> set (pg_select_by_scope sc sts n (tick d))"
    "pg_row_to_record w = Inr r"
    using list_all2_Inr_set [OF pg_list_rows(2) [OF list]] r by auto
  from pg_select_in [OF w(1)] have in_w: "w \<in> set (pg_records d)" "pr_tenant_id w = scope_tenant_id sc"
    "pr_lifecycle_state w \<in> lifecycle_str ` set sts" by auto
  have "mr_lifecycle_state r \<in> set sts"
    using in_w(3) pg_row_record(4) [OF w(2)] lifecycle.roundtrip by (metis imageE Inr_inject)
  with pg_lookup_row [OF inv in_w(1) w(2)] in_w(2) pg_row_record(2) [OF w(2)] show ?thesis by simp
qed

lemma list_all2_map_eq: "list_all2 P ws rs \<Longrightarrow> (\<And>w r. P w r \<Longrightarrow> f r = g w) \<Longrightarrow> map f rs = map g ws"
  by (induction rule: list_all2_induct) auto

lemma pg_list_distinct:
  assumes "pg_records_inv d" "pg_list_by_scope sc sts n d = (Inr rs, d')"
  shows "distinct (map mr_id rs)"
  using list_all2_map_eq [OF pg_list_rows(2) [OF assms(2)], of mr_id pr_memory_id] pg_row_record(1)
    pg_select_distinct [of "tick d"] assms(1) by simp

lemma pg_list_length:
  "pg_list_by_scope sc sts n d = (Inr rs, d') \<Longrightarrow> int (length rs) \<le> n"
  using pg_list_rows [of sc sts n d rs d'] by (auto simp: pg_select_by_scope_def dest!: list_all2_lengthD)

subsection \<open>The contract\<close>

lemma pg_record_repo_simps [simp]:
  "rr_save (pg_record_repo codec) = pg_record_save codec"
  "rr_get_by_id (pg_record_repo codec) = pg_record_get_by_id"
  "rr_update_lifecycle (pg_record_repo codec) = pg_update_lifecycle"
  "rr_update_pipeline_status (pg_record_repo codec) = pg_update_pipeline_status"
  "rr_list_by_scope (pg_record_repo codec) = pg_list_by_scope"
  "rr_get_by_idempotency_key (pg_record_repo codec) = pg_record_get_by_key"
  by (simp_all add: pg_record_repo_def)

lemmas pg_ops = pg_record_get_by_id_def pg_record_get_by_key_def pg_update_lifecycle_eq pg_update_pipeline_status_def

interpretation pg_records: record_repository
  "pg_record_repo codec" pg_records_inv pg_view "pg_norm codec" "\<lambda>_. True" for codec
proof (unfold_locales, unfold pg_record_repo_simps, goal_cases)
  case 1 show ?case by (rule pg_save_inv)
next
  case 2 then show ?case by (intro pg_save_view)
next
  case 3 then show ?case by (rule pg_save_error)
next
  case 4 show ?case unfolding pg_ops by (rule keeps_pg_read)
next
  case (5 m t s) show ?case unfolding pg_ops
    by (metis pg_read_state(1) pg_tick(1) prod.collapse)
next
  case 6 then show ?case by (simp add: pg_get_by_id_ok)
next
  case 7 show ?case unfolding pg_ops by (rule keeps_pg_read)
next
  case (8 k t s) show ?case unfolding pg_ops
    by (metis pg_read_state(1) pg_tick(1) prod.collapse)
next
  case (9 s k t x s') then show ?case using pg_get_by_key_ok by simp
next
  case 10 show ?case unfolding pg_ops by (rule pg_update_keeps [OF pg_updates_columns(2)])
next
  case 11 then show ?case unfolding pg_ops by (intro pg_update_ok [OF pg_updates_columns(2)])
next
  case 12 then show ?case unfolding pg_ops by (rule pg_update_error)
next
  case 13 show ?case unfolding pg_ops by (rule pg_update_keeps [OF pg_updates_columns(1)])
next
  case 14 then show ?case unfolding pg_ops by (intro pg_update_ok [OF pg_updates_columns(1)])
next
  case 15 then show ?case unfolding pg_ops by (rule pg_update_error)
next
  case 16 show ?case by (rule keepsI) (metis pg_read_state(2) pg_tick(2) prod.collapse)
next
  case 17 show ?case by (metis pg_read_state(2) pg_tick(1) prod.collapse)
next
  case 18 then show ?case unfolding pg_view_simps by (intro pg_list_member)
next
  case 19 then show ?case by (rule pg_list_distinct)
next
  case 20 then show ?case by (intro pg_list_length)
qed

subsection \<open>Properties\<close>


definition utc_codec :: codec where
  "utc_codec d = d\<lparr>utc_offset := Some 0\<rparr>"

lemma empty_pg_simps [simp]: "pg_records_inv (empty_pg f)" "pg_records (empty_pg f) = []" "pg_fails (empty_pg f) = f"
  by (simp_all add: pg_records_inv_def empty_pg_def)


lemma pg_save_empty:
  "pg_record_save codec r (empty_pg (\<lambda>_. False)) =
     (Inr (), (tick (empty_pg (\<lambda>_. False)))\<lparr>pg_records := [pg_record_to_row codec r]\<rparr>)"
  by (simp add: pg_record_save_def pg_execute_def pg_insert_record_def)


text \<open>What saving a record does, whatever the table holds.  A known id of the tenant leaves
  everything as it is, without an error; otherwise a known idempotency key of the tenant raises a
  database error, again with nothing changed; otherwise the record is appended.  No save ever
  removes or changes a stored record.\<close>

theorem pg_record_save_spec:
  assumes "pg_record_save codec r d = (x, d')"
  shows "(\<exists>e. x = Inl e) \<and> pg_records d' = pg_records d \<or>
    x = Inr () \<and> (if \<exists>w \<in> set (pg_records d). pr_memory_id w = mr_id r \<and> pr_tenant_id w = mr_tenant_id r
      then pg_records d' = pg_records d
      else pg_records d' = pg_records d @ [pg_record_to_row codec r] \<and>
        (\<forall>w \<in> set (pg_records d). pr_tenant_id w = mr_tenant_id r \<longrightarrow> pr_idempotency_key w \<noteq> None \<longrightarrow>
           pr_idempotency_key w \<noteq> mr_idempotency_key r))"
  using pg_execute_cases [OF assms [unfolded pg_record_save_def]]
  by (auto simp: pg_insert_record_def same_primary_def same_key_def split: if_splits)

lemma pg_record_save_spec_witness:
  "pg_records (snd (pg_record_save utc_codec record_a (empty_pg (\<lambda>_. False)))) = [pg_record_to_row utc_codec record_a]"
  using pg_record_save_spec [OF pg_save_empty [of utc_codec record_a]] by (simp add: pg_save_empty)

text \<open>What \<open>list_by_scope\<close> returns over Postgres: at most \<open>limit\<close> records of the scope's tenant
  in one of the states, latest first.  Only the tenant of the scope counts: two scopes of a
  tenant are answered alike, whoever their principals are.\<close>

theorem pg_list_by_scope_spec:
  assumes "pg_records_inv d" "pg_list_by_scope sc states limit d = (Inr rs, d')"
  shows "(\<forall>r \<in> set rs. mr_tenant_id r = scope_tenant_id sc \<and> mr_lifecycle_state r \<in> set states \<and>
      pg_lookup d (mr_tenant_id r, mr_id r) = Some r) \<and>
    int (length rs) \<le> limit \<and> distinct (map mr_id rs) \<and>
    sorted_wrt (\<lambda>a b. time_key (mr_recorded_at b) \<le> time_key (mr_recorded_at a)) rs \<and>
    (\<forall>sc'. scope_tenant_id sc' = scope_tenant_id sc \<longrightarrow> pg_list_by_scope sc' states limit d = (Inr rs, d'))"
proof -
  let ?rows = "pg_select_by_scope sc states limit (tick d)"
  have times: "map mr_recorded_at rs = map pr_recorded_at ?rows"
    by (rule list_all2_map_eq [OF pg_list_rows(2) [OF assms(2)]]) (rule pg_row_record(5))
  have "sorted_wrt (\<lambda>a b. time_key (pr_recorded_at b) \<le> time_key (pr_recorded_at a)) ?rows"
    unfolding pg_select_by_scope_def by (intro sorted_wrt_take sorted_order_time_desc)
  then have "sorted_wrt (\<lambda>a b. time_key b \<le> time_key a) (map mr_recorded_at rs)"
    by (simp add: times sorted_wrt_map)
  moreover have "pg_list_by_scope sc' states limit d = (Inr rs, d')"
    if "scope_tenant_id sc' = scope_tenant_id sc" for sc'
  proof -
    have "pg_select_by_scope sc' states limit = pg_select_by_scope sc states limit"
      by (rule ext) (simp add: pg_select_by_scope_def that)
    with assms(2) show ?thesis unfolding pg_list_by_scope_def by metis
  qed
  ultimately show ?thesis
    using pg_list_member [OF assms] pg_list_length [OF assms(2)] pg_list_distinct [OF assms]
    unfolding sorted_wrt_map by blast
qed

lemma pg_list_by_scope_spec_witness:
  "\<exists>r d'. pg_list_by_scope alice [ACTIVE] 10 (snd (pg_record_save utc_codec record_a (empty_pg (\<lambda>_. False)))) = (Inr [r], d') \<and>
     pg_list_by_scope (Scope ''acme'' (Some ''bob'') (Some USER)) [ACTIVE] 10
       (snd (pg_record_save utc_codec record_a (empty_pg (\<lambda>_. False)))) = (Inr [r], d')"
proof -
  let ?d = "snd (pg_record_save utc_codec record_a (empty_pg (\<lambda>_. False)))"
  have inv: "pg_records_inv ?d" using keepsD [OF pg_save_inv empty_pg_simps(1)] .
  have list: "pg_list_by_scope alice [ACTIVE] 10 ?d = (Inr [pg_norm utc_codec record_a], tick ?d)"
    by (simp add: pg_list_by_scope_def pg_select_by_scope_def pg_execute_def bindM_def monad_simps pg_save_empty
        order_time_desc_def pg_row_roundtrip) (simp add: pg_record_to_row_def record_a_def alice_def Scope_def)
  from pg_list_by_scope_spec [OF inv list] list show ?thesis by (auto simp: Scope_def)
qed

end
