(* ===== verification/Fact_Contract.thy ===== *)
theory Fact_Contract
  imports Ports
begin

text \<open>
  The contract of \<open>FactRepositoryPort\<close> the extraction service rests on.  The abstract store
  maps a fact id to the fact (ids are unique over all tenants); closing a fact is the
  function \<open>v_close\<close>, all of it or none of it.
\<close>

type_synonym fact_view = "fact_id \<Rightarrow> fact option"

definition v_close :: "fact_id \<Rightarrow> datetime \<Rightarrow> fact_id \<Rightarrow> fact_view \<Rightarrow> fact_view" where
  "v_close old eto new v = (let w = v(old := map_option (fact_effective_to_update (\<lambda>_. Some (as_utc eto))) (v old))
     in w(new := map_option (fact_supersedes_update (\<lambda>_. or_none (Some old))) (w new)))"

definition is_current :: "entity_id \<Rightarrow> string \<Rightarrow> tenant_id \<Rightarrow> fact \<Rightarrow> bool" where
  \<comment> \<open>the open-world temporal model: active and with no end of validity\<close>
  "is_current e g t f \<longleftrightarrow> fact_tenant_id f = t \<and> fact_subject_entity_id f = e \<and>
     fact_predicate_group f = g \<and> fact_lifecycle_state f = ACTIVE \<and> fact_effective_to f = None"

locale fact_repository =
  fixes repo :: "'s fact_repo"
    and inv :: "'s \<Rightarrow> bool"
    and view :: "'s \<Rightarrow> fact_view"
    and norm :: "fact \<Rightarrow> fact"
    and storable :: "fact \<Rightarrow> bool"
  assumes save_inv: "storable f \<Longrightarrow> keeps inv (fr_save repo f)"
    and save_ok: "inv s \<Longrightarrow> storable f \<Longrightarrow> fr_save repo f s = (Inr (), s') \<Longrightarrow>
      view s' = (view s)(fact_id f \<mapsto> norm f)"
    and save_error: "fr_save repo f s = (Inl e, s') \<Longrightarrow> view s' = view s"
    and active_inv: "keeps inv (fr_get_active_facts repo en g t)"
    and active_view: "view (snd (fr_get_active_facts repo en g t s)) = view s"
    and active_ok: "inv s \<Longrightarrow> fr_get_active_facts repo en g t s = (Inr fs, s') \<Longrightarrow>
      set fs = {f. view s (fact_id f) = Some f \<and> is_current en g t f}"
    and close_inv: "valid_datetime eto \<Longrightarrow> keeps inv (fr_close_fact repo old t eto new)"
    and close_ok: "inv s \<Longrightarrow> valid_datetime eto \<Longrightarrow> fr_close_fact repo old t eto new s = (Inr (), s') \<Longrightarrow>
      map_option fact_tenant_id (view s old) = Some t \<and>
      map_option fact_tenant_id (view s new) = Some t \<and> view s' = v_close old eto new (view s)"
    and close_error: "fr_close_fact repo old t eto new s = (Inl e, s') \<Longrightarrow> view s' = view s"
begin

text \<open>Nothing closes a fact in favour of one that is not stored.\<close>

lemma close_unknown:
  assumes "inv s" "valid_datetime eto" "view s new = None"
  shows "\<exists>e s'. fr_close_fact repo old t eto new s = (Inl e, s') \<and> view s' = view s"
proof (cases "fr_close_fact repo old t eto new s")
  case (Pair x s')
  then show ?thesis using close_ok [of s eto old t new s'] close_error assms by (cases x) auto
qed

text \<open>A fact that was closed is no longer a current one.\<close>

lemma closed_not_active:
  assumes "inv s" "valid_datetime eto" "fr_close_fact repo old t eto new s = (Inr (), s1)"
    and "fr_get_active_facts repo en g u s1 = (Inr fs, s2)"
  shows "old \<notin> fact_id ` set fs"
proof -
  have inv1: "inv s1"
    using keepsD_eq [OF close_inv] assms by metis
  have "\<forall>f. view s1 old = Some f \<longrightarrow> fact_effective_to f \<noteq> None"
    using close_ok [OF assms(1,2,3)] by (auto simp: v_close_def Let_def)
  with active_ok [OF inv1 assms(4)] show ?thesis unfolding is_current_def by blast
qed

end

end
