(* ===== verification/Postgres_Facts.thy ===== *)
theory Postgres_Facts
  imports Postgres_Db Fact_Contract
begin

text \<open>
  \<^verbatim>\<open>adapters/postgres/fact_repo.py\<close>.  The table has no column for the time a fact was recorded, so
  a fact that is read gets the default of its dataclass, the current time: \<open>now i\<close> is the
  clock when the \<open>i\<close>-th row of a result is read.

  The adapter does not provide the contract of theory Fact_Contract: closing checks neither fact
  and links the old fact to the new one in the column that is read as \<open>supersedes\<close>.
\<close>

subsection \<open>Rows\<close>

definition pg_fact_to_row :: "codec \<Rightarrow> fact \<Rightarrow> pg_fact_row" where
  "pg_fact_to_row codec f = \<lparr>pf_fact_id = fact_id f, pf_tenant_id = fact_tenant_id f,
     pf_memory_record_id = fact_memory_record_id f, pf_subject_entity_id = fact_subject_entity_id f,
     pf_predicate = fact_predicate f, pf_predicate_group = fact_predicate_group f,
     pf_object_value = fact_object_value f, pf_confidence = fact_confidence f,
     pf_sector = sector_str (fact_sector f), pf_lifecycle_state = lifecycle_str (fact_lifecycle_state f),
     pf_effective_from = codec (fact_effective_from f),
     pf_effective_to = map_option codec (fact_effective_to f),
     pf_superseded_by = or_none (fact_supersedes f)\<rparr>"

definition pg_row_to_fact :: "datetime \<Rightarrow> pg_fact_row \<Rightarrow> exn + fact" where
  "pg_row_to_fact now w =
     bindE (sector_of (pf_sector w)) (\<lambda>sector.
     bindE (lifecycle_of (pf_lifecycle_state w)) (\<lambda>lifecycle_state.
     Inr \<lparr>fact_id = pf_fact_id w, fact_memory_record_id = pf_memory_record_id w,
       fact_tenant_id = pf_tenant_id w, fact_scope = Scope (pf_tenant_id w) (Some ''system'') (Some AGENT),
       fact_subject_entity_id = pf_subject_entity_id w, fact_predicate = pf_predicate w,
       fact_predicate_group = pf_predicate_group w, fact_object_value = pf_object_value w,
       fact_effective_from = pf_effective_from w, fact_effective_to = pf_effective_to w,
       fact_recorded_at = now, fact_supersedes = or_none (pf_superseded_by w),
       fact_confidence = pf_confidence w, fact_sector = sector, fact_lifecycle_state = lifecycle_state\<rparr>))"

definition pg_facts_of :: "(nat \<Rightarrow> datetime) \<Rightarrow> pg_fact_row list \<Rightarrow> exn + fact list" where
  "pg_facts_of now rows = mapE (\<lambda>(i, w). pg_row_to_fact (now i) w) (enumerate 0 rows)"

subsection \<open>Operations\<close>

definition fact_pk :: "fact_id \<Rightarrow> tenant_id \<Rightarrow> pg_fact_row \<Rightarrow> bool" where
  "fact_pk i t w \<longleftrightarrow> pf_fact_id w = i \<and> pf_tenant_id w = t"

definition pg_insert_fact :: "pg_fact_row \<Rightarrow> pg_db \<Rightarrow> pg_db" where
  "pg_insert_fact w d = (if \<exists>v \<in> set (pg_facts d). fact_pk (pf_fact_id w) (pf_tenant_id w) v then d
     else d\<lparr>pg_facts := pg_facts d @ [w]\<rparr>)"

definition pg_fact_save :: "codec \<Rightarrow> fact \<Rightarrow> (pg_db, unit) action" where
  "pg_fact_save codec f = pg_execute (modifyM (pg_insert_fact (pg_fact_to_row codec f)))"

definition pg_find_fact :: "fact_id \<Rightarrow> tenant_id \<Rightarrow> pg_db \<Rightarrow> pg_fact_row option" where
  "pg_find_fact i t d = find (fact_pk i t) (pg_facts d)"

definition pg_fact_get_by_id :: "(nat \<Rightarrow> datetime) \<Rightarrow> fact_id \<Rightarrow> tenant_id \<Rightarrow> (pg_db, fact option) action" where
  "pg_fact_get_by_id now i t = bindM (pg_fetch (pg_find_fact i t)) (\<lambda>row. case row of
       None \<Rightarrow> returnM None
     | Some w \<Rightarrow> bindM (liftM (pg_row_to_fact (now 0) w)) (\<lambda>f. returnM (Some f)))"

definition pg_close_rows :: "codec \<Rightarrow> fact_id \<Rightarrow> tenant_id \<Rightarrow> datetime \<Rightarrow> fact_id \<Rightarrow> pg_db \<Rightarrow> pg_db" where
  "pg_close_rows codec i t effective_to new d = d\<lparr>pg_facts := map (\<lambda>w.
     if fact_pk i t w then w\<lparr>pf_effective_to := Some (codec effective_to), pf_superseded_by := Some new\<rparr> else w)
     (pg_facts d)\<rparr>"

definition pg_close_fact ::
  "codec \<Rightarrow> fact_id \<Rightarrow> tenant_id \<Rightarrow> datetime \<Rightarrow> fact_id \<Rightarrow> (pg_db, unit) action" where
  "pg_close_fact codec i t effective_to new = pg_execute (modifyM (pg_close_rows codec i t effective_to new))"

definition pg_active_rows :: "entity_id \<Rightarrow> string \<Rightarrow> tenant_id \<Rightarrow> pg_db \<Rightarrow> pg_fact_row list" where
  "pg_active_rows e g t d = filter (\<lambda>w. pf_effective_to w = None \<and> pf_subject_entity_id w = e \<and>
     pf_predicate_group w = g \<and> pf_tenant_id w = t) (pg_facts d)"

definition pg_get_active_facts ::
  "(nat \<Rightarrow> datetime) \<Rightarrow> entity_id \<Rightarrow> string \<Rightarrow> tenant_id \<Rightarrow> (pg_db, fact list) action" where
  "pg_get_active_facts now e g t = bindM (pg_fetch (pg_active_rows e g t)) (\<lambda>rows. liftM (pg_facts_of now rows))"

definition pg_list_by_memory_record ::
  "(nat \<Rightarrow> datetime) \<Rightarrow> memory_id \<Rightarrow> tenant_id \<Rightarrow> (pg_db, fact list) action" where
  "pg_list_by_memory_record now m t = bindM (pg_fetch (\<lambda>d.
       filter (\<lambda>w. pf_memory_record_id w = m \<and> pf_tenant_id w = t) (pg_facts d)))
     (\<lambda>rows. liftM (pg_facts_of now rows))"

definition pg_fact_repo :: "codec \<Rightarrow> (nat \<Rightarrow> datetime) \<Rightarrow> pg_db fact_repo" where
  "pg_fact_repo codec now = \<lparr>fr_save = pg_fact_save codec, fr_get_by_id = pg_fact_get_by_id now,
     fr_close_fact = pg_close_fact codec, fr_get_active_facts = pg_get_active_facts now,
     fr_list_by_memory_record = pg_list_by_memory_record now\<rparr>"

subsection \<open>Round trip, and the rows a result is read from\<close>

definition pg_norm_fact :: "codec \<Rightarrow> datetime \<Rightarrow> fact \<Rightarrow> fact" where
  "pg_norm_fact codec now f = f\<lparr>fact_scope := Scope (fact_tenant_id f) (Some ''system'') (Some AGENT),
     fact_effective_from := codec (fact_effective_from f),
     fact_effective_to := map_option codec (fact_effective_to f), fact_recorded_at := now,
     fact_supersedes := or_none (fact_supersedes f)\<rparr>"

lemma pg_fact_row_roundtrip: "pg_row_to_fact now (pg_fact_to_row codec f) = Inr (pg_norm_fact codec now f)"
  by (simp add: pg_row_to_fact_def pg_fact_to_row_def pg_norm_fact_def)

lemma pg_row_to_fact_close:
  "pg_row_to_fact now (w\<lparr>pf_effective_to := e, pf_superseded_by := s\<rparr>) =
     bindE (pg_row_to_fact now w) (\<lambda>f. Inr (f\<lparr>fact_effective_to := e, fact_supersedes := or_none s\<rparr>))"
  by (simp add: pg_row_to_fact_def bindE_def split: sum.split)

lemma pg_row_fact:
  assumes "pg_row_to_fact now w = Inr f"
  shows "fact_id f = pf_fact_id w" "fact_tenant_id f = pf_tenant_id w" "fact_effective_to f = pf_effective_to w"
    "fact_supersedes f = or_none (pf_superseded_by w)" "fact_subject_entity_id f = pf_subject_entity_id w"
    "fact_predicate_group f = pf_predicate_group w"
  using assms by (auto simp: pg_row_to_fact_def result_iff)

lemma pg_facts_of_rows:
  assumes "pg_facts_of now rows = Inr fs"
  shows "map fact_id fs = map pf_fact_id rows"
    and "\<forall>f \<in> set fs. \<exists>w \<in> set rows. \<exists>n. pg_row_to_fact n w = Inr f"
proof -
  from assms have all: "list_all2 (\<lambda>(i, w) f. pg_row_to_fact (now i) w = Inr f) (enumerate 0 rows) fs"
    by (simp add: pg_facts_of_def result_iff case_prod_beta')
  have "map fact_id fs = map (pf_fact_id \<circ> snd) (enumerate 0 rows)"
    using all by (induction rule: list_all2_induct) (auto simp: pg_row_fact(1))
  also have "\<dots> = map pf_fact_id rows" by (metis list.map_comp map_snd_enumerate)
  finally show "map fact_id fs = map pf_fact_id rows" .
  have "\<forall>f \<in> set fs. \<exists>(i, w) \<in> set (enumerate 0 rows). pg_row_to_fact (now i) w = Inr f"
    using all by (induction rule: list_all2_induct) auto
  then show "\<forall>f \<in> set fs. \<exists>w \<in> set rows. \<exists>n. pg_row_to_fact n w = Inr f"
    by (fastforce simp: in_set_enumerate_eq)
qed

lemma pg_active_rows_tick [simp]: "pg_active_rows e g t (tick d) = pg_active_rows e g t d"
  "pg_find_fact i t (tick d) = pg_find_fact i t d"
  by (simp_all add: pg_active_rows_def pg_find_fact_def)

lemma pg_get_active_Inr:
  "pg_get_active_facts now e g t d = (Inr fs, d') \<Longrightarrow> pg_facts_of now (pg_active_rows e g t d) = Inr fs"
  by (auto simp: pg_get_active_facts_def result_iff liftM_def dest!: pg_fetch_cases)

lemma pg_get_by_id_Inr:
  "pg_fact_get_by_id now i t d = (Inr x, d') \<Longrightarrow> (case pg_find_fact i t d of
     None \<Rightarrow> x = None | Some w \<Rightarrow> \<exists>f. x = Some f \<and> pg_row_to_fact (now 0) w = Inr f)"
  by (auto simp: pg_fact_get_by_id_def result_iff liftM_def returnM_def dest!: pg_fetch_cases split: option.splits)

subsection \<open>Properties\<close>

text \<open>C28. Closing a fact over Postgres.  A close that returns changes only the fact of that tenant and
  id, if there is one: it is from then on not among the open facts of any entity, it ends at the
  given time, and it, not the fact that replaces it, carries the link, so that reading it back shows
  the old fact superseding the new one.  Neither fact has to exist.\<close>

theorem pg_close_fact_spec:
  assumes "pg_close_fact codec old t eto new d = (Inr (), d1)"
  shows "(\<forall>i u. (i, u) \<noteq> (old, t) \<longrightarrow> pg_find_fact i u d1 = pg_find_fact i u d) \<and>
    (\<forall>now e g fs d2. pg_get_active_facts now e g t d1 = (Inr fs, d2) \<longrightarrow> old \<notin> fact_id ` set fs) \<and>
    (\<forall>now x d2. pg_fact_get_by_id now old t d1 = (Inr x, d2) \<longrightarrow>
       (case x of None \<Rightarrow> pg_find_fact old t d = None
        | Some f \<Rightarrow> fact_effective_to f = Some (codec eto) \<and> fact_supersedes f = or_none (Some new)))"
proof -
  define h where "h = (\<lambda>w. if fact_pk old t w
    then w\<lparr>pf_effective_to := Some (codec eto), pf_superseded_by := Some new\<rparr> else w)"
  have rows: "pg_facts d1 = map h (pg_facts d)"
    using pg_execute_Inr [OF assms [unfolded pg_close_fact_def]]
    by (auto simp: modifyM_def pg_close_rows_def h_def)
  have pk: "fact_pk i u (h w) = fact_pk i u w" for i u w by (simp add: h_def fact_pk_def)
  have found: "pg_find_fact i u d1 = map_option h (pg_find_fact i u d)" for i u
    unfolding pg_find_fact_def rows by (rule find_map_eq) (rule pk)
  have at: "fact_pk i u w" if "pg_find_fact i u d = Some w" for i u w
    using find_in [OF that [unfolded pg_find_fact_def]] by simp
  have "pg_find_fact i u d1 = pg_find_fact i u d" if "(i, u) \<noteq> (old, t)" for i u
    using at [of i u] that by (cases "pg_find_fact i u d") (auto simp: found h_def fact_pk_def)
  moreover have "old \<notin> fact_id ` set fs" if "pg_get_active_facts now e g t d1 = (Inr fs, d2)" for now e g fs d2
  proof
    assume "old \<in> fact_id ` set fs"
    then have "old \<in> pf_fact_id ` set (pg_active_rows e g t d1)"
      using pg_facts_of_rows(1) [OF pg_get_active_Inr [OF that]] by (metis list.set_map)
    then obtain w where "pf_effective_to (h w) = None" "fact_pk old t (h w)"
      by (auto simp: pg_active_rows_def rows fact_pk_def)
    then show False by (simp only: pk) (simp add: h_def)
  qed
  moreover have "case x of None \<Rightarrow> pg_find_fact old t d = None
      | Some f \<Rightarrow> fact_effective_to f = Some (codec eto) \<and> fact_supersedes f = or_none (Some new)"
    if "pg_fact_get_by_id now old t d1 = (Inr x, d2)" for now x d2
    using pg_get_by_id_Inr [OF that] at [of old t]
    by (cases "pg_find_fact old t d") (auto simp: found h_def pg_row_fact)
  ultimately show ?thesis by blast
qed

definition pg_two_facts :: pg_db where
  "pg_two_facts = (empty_pg (\<lambda>_. False))\<lparr>pg_facts := [pg_fact_to_row id fact_a, pg_fact_to_row id fact_b]\<rparr>"

lemma pg_two_ids: "pf_fact_id (pg_fact_to_row id fact_a) = ''f1''" "pf_tenant_id (pg_fact_to_row id fact_a) = ''acme''"
  by (simp_all add: pg_fact_to_row_def fact_a_def)

lemma pg_close_two: "pg_close_fact id ''f1'' ''acme'' t1 ''f2'' pg_two_facts =
    (Inr (), pg_close_rows id ''f1'' ''acme'' t1 ''f2'' (tick pg_two_facts))"
  by (simp add: pg_close_fact_def pg_execute_def modifyM_def pg_two_facts_def empty_pg_def)

lemma pg_close_fact_spec_witness:
  "\<exists>d1 d2 f. pg_close_fact id ''f1'' ''acme'' t1 ''f2'' pg_two_facts = (Inr (), d1) \<and>
     pg_fact_get_by_id (\<lambda>_. t0) ''f1'' ''acme'' d1 = (Inr (Some f), d2) \<and>
     fact_supersedes f = Some ''f2'' \<and> pg_find_fact ''f2'' ''acme'' d1 = pg_find_fact ''f2'' ''acme'' pg_two_facts"
proof -
  let ?d = "pg_close_rows id ''f1'' ''acme'' t1 ''f2'' (tick pg_two_facts)"
  have "\<exists>f d2. pg_fact_get_by_id (\<lambda>_. t0) ''f1'' ''acme'' ?d = (Inr (Some f), d2)"
    by (simp add: pg_fact_get_by_id_def pg_fetch_def pg_execute_def bindM_def monad_simps pg_find_fact_def
        pg_close_rows_def pg_two_facts_def empty_pg_def tick_def fact_pk_def pg_row_to_fact_close
        pg_fact_row_roundtrip pg_two_ids)
  then obtain f d2 where get: "pg_fact_get_by_id (\<lambda>_. t0) ''f1'' ''acme'' ?d = (Inr (Some f), d2)" by blast
  note spec = pg_close_fact_spec [OF pg_close_two]
  have "case Some f of None \<Rightarrow> pg_find_fact ''f1'' ''acme'' pg_two_facts = None
      | Some f \<Rightarrow> fact_effective_to f = Some (id t1) \<and> fact_supersedes f = or_none (Some ''f2'')"
    using spec get by blast
  then have "fact_supersedes f = Some ''f2''" by (simp add: or_none_def)
  moreover have "pg_find_fact ''f2'' ''acme'' ?d = pg_find_fact ''f2'' ''acme'' pg_two_facts"
    using spec by simp
  ultimately show ?thesis using get pg_close_two by blast
qed

text \<open>A new fact that was saved is read back with its fields, apart from the scope, which is the
  system's, and the time it was recorded, which is the time it is read; it is among the open facts
  of its entity exactly when it has no end, whatever its lifecycle state is.\<close>

theorem pg_fact_roundtrip:
  assumes "pg_find_fact (fact_id f) (fact_tenant_id f) d = None" "pg_fact_save codec f d = (Inr (), d1)"
  shows "(\<forall>now x d2. pg_fact_get_by_id now (fact_id f) (fact_tenant_id f) d1 = (Inr x, d2) \<longrightarrow>
       x = Some (pg_norm_fact codec (now 0) f)) \<and>
    (\<forall>now fs d2. pg_get_active_facts now (fact_subject_entity_id f) (fact_predicate_group f) (fact_tenant_id f) d1
        = (Inr fs, d2) \<longrightarrow> (fact_id f \<in> fact_id ` set fs \<longleftrightarrow> fact_effective_to f = None))"
proof -
  let ?w = "pg_fact_to_row codec f"
  have w: "pf_fact_id ?w = fact_id f" "pf_tenant_id ?w = fact_tenant_id f"
    "pf_effective_to ?w = map_option codec (fact_effective_to f)"
    "pf_subject_entity_id ?w = fact_subject_entity_id f" "pf_predicate_group ?w = fact_predicate_group f"
    by (simp_all add: pg_fact_to_row_def)
  have new: "\<not> fact_pk (fact_id f) (fact_tenant_id f) v" if "v \<in> set (pg_facts d)" for v
    using assms(1) that by (auto simp: pg_find_fact_def find_None_iff)
  then have rows: "pg_facts d1 = pg_facts d @ [?w]"
    using pg_execute_Inr [OF assms(2) [unfolded pg_fact_save_def]]
    by (auto simp: modifyM_def pg_insert_fact_def w split: if_splits)
  have "pg_find_fact (fact_id f) (fact_tenant_id f) d1 = Some ?w"
    using assms(1) by (simp add: pg_find_fact_def rows find_append) (simp add: fact_pk_def w)
  then have "x = Some (pg_norm_fact codec (now 0) f)"
    if "pg_fact_get_by_id now (fact_id f) (fact_tenant_id f) d1 = (Inr x, d2)" for now x d2
    using pg_get_by_id_Inr [OF that] by (auto simp: pg_fact_row_roundtrip)
  moreover have "fact_id f \<in> fact_id ` set fs \<longleftrightarrow> fact_effective_to f = None"
    if "pg_get_active_facts now (fact_subject_entity_id f) (fact_predicate_group f) (fact_tenant_id f) d1 = (Inr fs, d2)"
    for now fs d2
  proof -
    have "fact_id ` set fs = pf_fact_id ` set (pg_active_rows (fact_subject_entity_id f) (fact_predicate_group f) (fact_tenant_id f) d1)"
      using pg_facts_of_rows(1) [OF pg_get_active_Inr [OF that]] by (metis list.set_map)
    then show ?thesis using new w by (auto simp: pg_active_rows_def rows fact_pk_def)
  qed
  ultimately show ?thesis by blast
qed

lemma pg_fact_roundtrip_witness:
  "\<exists>d1 d2. pg_fact_save id (fact_a\<lparr>fact_lifecycle_state := DELETED\<rparr>) (empty_pg (\<lambda>_. False)) = (Inr (), d1) \<and>
     pg_fact_get_by_id (\<lambda>_. t1) ''f1'' ''acme'' d1 =
       (Inr (Some (pg_norm_fact id t1 (fact_a\<lparr>fact_lifecycle_state := DELETED\<rparr>))), d2)"
proof -
  let ?f = "fact_a\<lparr>fact_lifecycle_state := DELETED\<rparr>" and ?d = "empty_pg (\<lambda>_. False)"
  let ?d1 = "(tick ?d)\<lparr>pg_facts := [pg_fact_to_row id ?f]\<rparr>"
  have none: "pg_find_fact i t ?d = None" for i t by (simp add: pg_find_fact_def empty_pg_def)
  have save: "pg_fact_save id ?f ?d = (Inr (), ?d1)"
    by (simp add: pg_fact_save_def pg_execute_def modifyM_def pg_insert_fact_def empty_pg_def tick_def)
  have "\<exists>x d2. pg_fact_get_by_id (\<lambda>_. t1) (fact_id ?f) (fact_tenant_id ?f) ?d1 = (Inr x, d2)"
    by (simp add: pg_fact_get_by_id_def pg_fetch_def pg_execute_def bindM_def monad_simps pg_find_fact_def
        empty_pg_def tick_def pg_fact_row_roundtrip)
  then obtain x d2 where get: "pg_fact_get_by_id (\<lambda>_. t1) (fact_id ?f) (fact_tenant_id ?f) ?d1 = (Inr x, d2)" by blast
  with pg_fact_roundtrip [OF none save] have "x = Some (pg_norm_fact id t1 ?f)" by blast
  with save get show ?thesis by (auto simp: fact_a_def)
qed

end
