(* ===== verification/Audit_Contract.thy ===== *)
theory Audit_Contract
  imports Ports
begin

text \<open>
  The contract of \<open>AuditLogPort\<close>: an append-only log, seen as the list of its entries in the
  order they were appended.  A call that is not \<open>append(entry)\<close> is no call of the protocol:
  it raises and logs nothing.
\<close>

locale audit_trail =
  fixes log :: "'s audit_log_port"
    and inv :: "'s \<Rightarrow> bool"
    and entries :: "'s \<Rightarrow> audit_entry list"
    and norm :: "audit_entry \<Rightarrow> audit_entry"
    and storable :: "audit_entry \<Rightarrow> bool"
  assumes append_inv: "storable e \<Longrightarrow> keeps inv (al_append log (Append_Entry e))"
    and append_ok: "inv s \<Longrightarrow> storable e \<Longrightarrow> al_append log (Append_Entry e) s = (Inr (), s') \<Longrightarrow>
      entries s' = entries s @ [norm e]"
    and append_error: "al_append log c s = (Inl x, s') \<Longrightarrow> entries s' = entries s"
    and append_kwargs: "\<exists>x. al_append log (Append_Kwargs t ty m a) s = (Inl x, s)"
    and get_inv: "keeps inv (al_get_by_memory_id log m t)"
    and get_entries: "entries (snd (al_get_by_memory_id log m t s)) = entries s"
    and get_ok: "inv s \<Longrightarrow> m \<noteq> [] \<Longrightarrow> al_get_by_memory_id log m t s = (Inr es, s') \<Longrightarrow>
      set es = {e \<in> set (entries s). ae_memory_id e = Some m \<and> ae_tenant_id e = t}"
begin

text \<open>No call takes an entry back.\<close>

lemma append_prefix:
  assumes "inv s" "storable e" "al_append log (Append_Entry e) s = (x, s')"
  shows "\<exists>es. entries s' = entries s @ es"
  using assms append_ok append_error by (cases x) auto

lemma entry_found:
  assumes "inv s" "storable e" "al_append log (Append_Entry e) s = (Inr (), s1)"
    and "al_get_by_memory_id log m t s1 = (Inr es, s2)" "m \<noteq> []"
    and "ae_memory_id (norm e) = Some m" "ae_tenant_id (norm e) = t"
  shows "norm e \<in> set es"
proof -
  have "inv s1" using keepsD_eq [OF append_inv] assms by metis
  with get_ok [OF this assms(5,4)] append_ok [OF assms(1-3)] assms(6,7) show ?thesis by simp
qed

end

end
