(* ===== verification/Postgres_Logs.thy ===== *)
theory Postgres_Logs
  imports Postgres_Db Audit_Contract Py_Values
begin

text \<open>
  \<^verbatim>\<open>adapters/postgres/audit_repo.py\<close> and \<^verbatim>\<open>trace_repo.py\<close>: the audit log, which provides the same
  contract as the SQLite one, and the stored explanations of recalls.
\<close>

subsection \<open>The audit log\<close>









subsection \<open>The contract of the audit log\<close>













subsection \<open>Traces\<close>



















end
