(* ===== verification/Postgres_Ddl.thy ===== *)
theory Postgres_Ddl
  imports Migrations
begin

text \<open>
  The schema of the Postgres adapters: the catalogue of a database as far as the DDL texts speak of
  it, the statements of these texts, and over them the migrator (\<^verbatim>\<open>adapters/postgres/migrator.py\<close>) and
  the Alembic revision \<^verbatim>\<open>migrations/versions/0001_initial.py\<close> with the URL of \<^verbatim>\<open>migrations/env.py\<close>.
  Which extensions the server can install is an argument (\<open>available\<close>); the body of a function and
  the options of an index are left out.
\<close>

subsection \<open>The catalogue\<close>

datatype column = Column (co_name: string) (co_type: string) (co_not_null: bool)

record table_def =
  tb_columns :: "column list"
  tb_primary_key :: "string list"

record index_def =
  ix_table :: string
  ix_columns :: "string list"
  ix_unique :: bool

record catalogue =
  cat_tables :: "string \<rightharpoonup> table_def"
  cat_indexes :: "string \<rightharpoonup> index_def"
  cat_functions :: "string set"
  cat_triggers :: "(string \<times> string) \<rightharpoonup> string"
  cat_extensions :: "string set"

text \<open>A trigger is named within its table and calls a function.  \<open>IF NOT EXISTS\<close>, \<open>OR REPLACE\<close>,
  \<open>IF EXISTS\<close> and \<open>CASCADE\<close> are part of the statements, because every text has them.\<close>

datatype ddl =
    Create_Table string table_def
  | Create_Index string index_def
  | Create_Function string
  | Create_Trigger string string string
  | Create_Extension string
  | Drop_Trigger string string
  | Drop_Table string
  | Drop_Function string

definition type_exists :: "catalogue \<Rightarrow> string \<Rightarrow> bool" where
  \<comment> \<open>every type of the texts is built in but those of the vector extension\<close>
  "type_exists c ty \<longleftrightarrow> (prefix ''vector'' ty \<longrightarrow> ''vector'' \<in> cat_extensions c)"

definition undefined_object :: "string \<Rightarrow> exn + 'a" where
  "undefined_object name = Inl (DatabaseError (''UndefinedObjectError: '' @ name))"

fun run_statement :: "string set \<Rightarrow> ddl \<Rightarrow> catalogue \<Rightarrow> exn + catalogue" where
  "run_statement available (Create_Table n d) c =
     (if cat_tables c n \<noteq> None then Inr c
      else if \<not> list_all (\<lambda>col. type_exists c (co_type col)) (tb_columns d) then undefined_object n
      else Inr (c\<lparr>cat_tables := (cat_tables c)(n \<mapsto> d)\<rparr>))"
| "run_statement available (Create_Index n d) c =
     (case cat_tables c (ix_table d) of
        None \<Rightarrow> undefined_object (ix_table d)
      | Some tb \<Rightarrow>
          if cat_indexes c n \<noteq> None then Inr c
          else if \<not> list_all (\<lambda>col. col \<in> set (map co_name (tb_columns tb))) (ix_columns d) then undefined_object n
          else Inr (c\<lparr>cat_indexes := (cat_indexes c)(n \<mapsto> d)\<rparr>))"
| "run_statement available (Create_Function n) c = Inr (c\<lparr>cat_functions := insert n (cat_functions c)\<rparr>)"
| "run_statement available (Create_Trigger n t f) c =
     (if cat_tables c t = None then undefined_object t
      else if f \<notin> cat_functions c then undefined_object f
      else if cat_triggers c (t, n) \<noteq> None then Inl (DatabaseError ''DuplicateObjectError'')
      else Inr (c\<lparr>cat_triggers := (cat_triggers c)((t, n) \<mapsto> f)\<rparr>))"
| "run_statement available (Create_Extension n) c =
     (if n \<in> cat_extensions c then Inr c
      else if n \<notin> available then Inl (DatabaseError ''FeatureNotSupportedError'')
      else Inr (c\<lparr>cat_extensions := insert n (cat_extensions c)\<rparr>))"
| "run_statement available (Drop_Trigger n t) c = Inr (c\<lparr>cat_triggers := (cat_triggers c)((t, n) := None)\<rparr>)"
| "run_statement available (Drop_Table n) c = Inr (c\<lparr>
     cat_tables := (cat_tables c)(n := None),
     cat_indexes := (\<lambda>i. case cat_indexes c i of None \<Rightarrow> None | Some d \<Rightarrow> if ix_table d = n then None else Some d),
     cat_triggers := (\<lambda>(t, g). if t = n then None else cat_triggers c (t, g))\<rparr>)"
| "run_statement available (Drop_Function n) c = Inr (c\<lparr>
     cat_functions := cat_functions c - {n},
     cat_triggers := (\<lambda>k. if cat_triggers c k = Some n then None else cat_triggers c k)\<rparr>)"

fun run_ddl :: "string set \<Rightarrow> ddl list \<Rightarrow> catalogue \<Rightarrow> exn + catalogue" where
  \<comment> \<open>the statements of a text in order, up to the first error\<close>
  "run_ddl available [] c = Inr c"
| "run_ddl available (x # xs) c = bindE (run_statement available x c) (run_ddl available xs)"

subsection \<open>The texts\<close>

definition memory_records_ddl :: "ddl list" where
  "memory_records_ddl =
     [Create_Table ''memory_records'' \<lparr>tb_columns =
        [Column ''memory_id'' ''TEXT'' True, Column ''tenant_id'' ''TEXT'' True, Column ''raw_payload'' ''TEXT'' True,
         Column ''payload_type'' ''TEXT'' True, Column ''sector'' ''TEXT'' True,
         Column ''lifecycle_state'' ''TEXT'' True, Column ''pipeline_status'' ''TEXT'' True,
         Column ''scope_agent_id'' ''TEXT'' False, Column ''scope_user_id'' ''TEXT'' False,
         Column ''scope_session_id'' ''TEXT'' False, Column ''idempotency_key'' ''TEXT'' False,
         Column ''recorded_at'' ''TIMESTAMPTZ'' True],
        tb_primary_key = [''memory_id'', ''tenant_id'']\<rparr>,
      Create_Index ''idx_memory_records_tenant_lifecycle''
        \<lparr>ix_table = ''memory_records'', ix_columns = [''tenant_id'', ''lifecycle_state''], ix_unique = False\<rparr>,
      Create_Index ''idx_memory_records_idempotency''
        \<lparr>ix_table = ''memory_records'', ix_columns = [''tenant_id'', ''idempotency_key''], ix_unique = True\<rparr>]"

definition facts_ddl :: "ddl list" where
  "facts_ddl =
     [Create_Table ''facts'' \<lparr>tb_columns =
        [Column ''fact_id'' ''TEXT'' True, Column ''tenant_id'' ''TEXT'' True,
         Column ''memory_record_id'' ''TEXT'' True, Column ''subject_entity_id'' ''TEXT'' True,
         Column ''predicate'' ''TEXT'' True, Column ''predicate_group'' ''TEXT'' True,
         Column ''object_value'' ''TEXT'' True, Column ''confidence'' ''FLOAT'' True, Column ''sector'' ''TEXT'' True,
         Column ''lifecycle_state'' ''TEXT'' True, Column ''effective_from'' ''TIMESTAMPTZ'' True,
         Column ''effective_to'' ''TIMESTAMPTZ'' False, Column ''superseded_by'' ''TEXT'' False],
        tb_primary_key = [''fact_id'', ''tenant_id'']\<rparr>,
      Create_Index ''idx_facts_entity_predicate''
        \<lparr>ix_table = ''facts'', ix_columns = [''tenant_id'', ''subject_entity_id'', ''predicate_group''], ix_unique = False\<rparr>]"

definition audit_log_ddl :: "ddl list" where
  "audit_log_ddl =
     [Create_Table ''audit_log'' \<lparr>tb_columns =
        [Column ''audit_id'' ''TEXT'' True, Column ''tenant_id'' ''TEXT'' True, Column ''memory_id'' ''TEXT'' True,
         Column ''operation'' ''TEXT'' True, Column ''actor'' ''TEXT'' True, Column ''outcome'' ''TEXT'' True,
         Column ''detail'' ''JSONB'' False, Column ''occurred_at'' ''TIMESTAMPTZ'' True],
        tb_primary_key = [''audit_id'', ''tenant_id'']\<rparr>,
      Create_Function ''audit_log_immutable'',
      Drop_Trigger ''trg_audit_log_immutable'' ''audit_log'',
      Create_Trigger ''trg_audit_log_immutable'' ''audit_log'' ''audit_log_immutable'']"

definition traces_ddl :: "ddl list" where
  "traces_ddl =
     [Create_Table ''memory_traces'' \<lparr>tb_columns =
        [Column ''trace_id'' ''TEXT'' True, Column ''tenant_id'' ''TEXT'' True, Column ''query'' ''TEXT'' True,
         Column ''mode'' ''TEXT'' True, Column ''steps'' ''JSONB'' True, Column ''query_plan'' ''JSONB'' False,
         Column ''created_at'' ''TIMESTAMPTZ'' True],
        tb_primary_key = [''trace_id'', ''tenant_id'']\<rparr>,
      Create_Index ''idx_traces_tenant''
        \<lparr>ix_table = ''memory_traces'', ix_columns = [''tenant_id'', ''created_at''], ix_unique = False\<rparr>]"

definition vector_index_ddl :: "ddl list" where
  "vector_index_ddl =
     [Create_Extension ''vector'',
      Create_Table ''vector_index'' \<lparr>tb_columns =
        [Column ''memory_id'' ''TEXT'' True, Column ''tenant_id'' ''TEXT'' True,
         Column ''embedding'' ''vector(1536)'' False, Column ''embedding_model_id'' ''TEXT'' True,
         Column ''embedding_dimensions'' ''INT'' True, Column ''content'' ''TEXT'' True, Column ''sector'' ''TEXT'' True,
         Column ''lifecycle_state'' ''TEXT'' True, Column ''metadata'' ''JSONB'' True],
        tb_primary_key = [''memory_id'', ''tenant_id'']\<rparr>,
      Create_Index ''idx_vector_index_hnsw''
        \<lparr>ix_table = ''vector_index'', ix_columns = [''embedding''], ix_unique = False\<rparr>,
      Create_Index ''idx_vector_index_tenant_sector''
        \<lparr>ix_table = ''vector_index'', ix_columns = [''tenant_id'', ''sector'', ''lifecycle_state''], ix_unique = False\<rparr>]"

definition initial_ddl :: "ddl list" where
  "initial_ddl = concat [memory_records_ddl, facts_ddl, audit_log_ddl, traces_ddl, vector_index_ddl]"

text \<open>The Alembic revision: the five texts, and the drops.  Each \<^verbatim>\<open>op.execute\<close> is taken to run the
  statements of its text in order; whether the driver accepts several in one call is its own matter.\<close>

definition alembic_upgrade :: "ddl list" where
  "alembic_upgrade = memory_records_ddl @ facts_ddl @ audit_log_ddl @ traces_ddl @ vector_index_ddl"

definition alembic_downgrade :: "ddl list" where
  "alembic_downgrade =
     [Drop_Table ''vector_index'', Drop_Table ''memory_traces'', Drop_Table ''audit_log'',
      Drop_Trigger ''trg_audit_log_immutable'' ''audit_log'', Drop_Function ''audit_log_immutable'',
      Drop_Table ''facts'', Drop_Table ''memory_records'']"

subsection \<open>The URL of the Alembic environment\<close>

definition alembic_dsn :: "string \<Rightarrow> string" where
  "alembic_dsn dsn =
     (if prefix ''postgresql://'' dsn then ''postgresql+asyncpg://'' @ drop (length ''postgresql://'') dsn
      else if prefix ''postgres://'' dsn then ''postgresql+asyncpg://'' @ drop (length ''postgres://'') dsn
      else dsn)"

definition alembic_url :: "(string \<Rightarrow> exn + unit) \<Rightarrow> (exn + string option) \<Rightarrow> string option \<Rightarrow> string option" where
  \<comment> \<open>the option \<open>sqlalchemy.url\<close> after the try block: \<open>set_main_option\<close> may refuse a text, and the
      settings may fail to load, both of which leave the option as it was\<close>
  "alembic_url accepts dsn url = (case dsn of
       Inr (Some (c # cs)) \<Rightarrow> (case accepts (alembic_dsn (c # cs)) of Inl _ \<Rightarrow> url | Inr _ \<Rightarrow> Some (alembic_dsn (c # cs)))
     | _ \<Rightarrow> url)"

text \<open>A Postgres URL gets the driver of SQLAlchemy and keeps everything after the scheme, and one that
  has it already is not changed again.\<close>

theorem alembic_dsn_spec:
  "alembic_dsn (''postgresql://'' @ rest) = ''postgresql+asyncpg://'' @ rest \<and>
   alembic_dsn (''postgres://'' @ rest) = ''postgresql+asyncpg://'' @ rest \<and>
   alembic_dsn (alembic_dsn dsn) = alembic_dsn dsn"
  by (auto simp: alembic_dsn_def)

subsection \<open>Well-formed catalogues\<close>

text \<open>Every index is on columns of a table, every trigger on a table and calling a function.\<close>

definition cat_wf :: "catalogue \<Rightarrow> bool" where
  "cat_wf c \<longleftrightarrow>
     (\<forall>i d. cat_indexes c i = Some d \<longrightarrow> (\<exists>tb. cat_tables c (ix_table d) = Some tb \<and>
        set (ix_columns d) \<subseteq> set (map co_name (tb_columns tb)))) \<and>
     (\<forall>t g f. cat_triggers c (t, g) = Some f \<longrightarrow> cat_tables c t \<noteq> None \<and> f \<in> cat_functions c)"

lemma statement_wf: "cat_wf c \<Longrightarrow> run_statement available x c = Inr c' \<Longrightarrow> cat_wf c'"
proof (induction available x c arbitrary: c' rule: run_statement.induct)
  case (1 available n d c)
  then show ?case by (auto simp: cat_wf_def undefined_object_def split: if_splits) fastforce+
next
  case (2 available n d c)
  then show ?case
    by (auto simp: cat_wf_def undefined_object_def list_all_iff split: if_splits option.splits)
next
  case (3 available n c)
  then show ?case by (auto simp: cat_wf_def)
next
  case (4 available n t f c)
  then show ?case by (auto simp: cat_wf_def undefined_object_def split: if_splits)
next
  case (5 available n c)
  then show ?case by (auto simp: cat_wf_def split: if_splits)
next
  case (6 available n t c)
  then show ?case by (auto simp: cat_wf_def split: if_splits)
next
  case (7 available n c)
  then show ?case by (auto simp: cat_wf_def split: if_splits option.splits)
next
  case (8 available n c)
  then show ?case by (auto simp: cat_wf_def split: if_splits)
qed

lemma ddl_wf: "cat_wf c \<Longrightarrow> run_ddl available xs c = Inr c' \<Longrightarrow> cat_wf c'"
  by (induction xs arbitrary: c) (auto simp: bindE_Inr_iff dest: statement_wf)

subsection \<open>Running the texts\<close>

text \<open>Statements that leave the tables, indexes, functions and extensions that are there.\<close>

definition adds_only :: "ddl \<Rightarrow> bool" where
  "adds_only x \<longleftrightarrow> (case x of Drop_Table _ \<Rightarrow> False | Drop_Function _ \<Rightarrow> False | _ \<Rightarrow> True)"

definition extends :: "catalogue \<Rightarrow> catalogue \<Rightarrow> bool" where
  "extends c c' \<longleftrightarrow> cat_tables c \<subseteq>\<^sub>m cat_tables c' \<and> cat_indexes c \<subseteq>\<^sub>m cat_indexes c' \<and>
     cat_functions c \<subseteq> cat_functions c' \<and> cat_extensions c \<subseteq> cat_extensions c'"

lemma extends_refl [simp]: "extends c c"
  by (simp add: extends_def)

lemma extends_trans: "extends a b \<Longrightarrow> extends b c \<Longrightarrow> extends a c"
  by (auto simp: extends_def intro: map_le_trans)

lemma statement_extends: "adds_only x \<Longrightarrow> run_statement available x c = Inr c' \<Longrightarrow> extends c c'"
  by (cases x) (auto simp: adds_only_def extends_def undefined_object_def map_le_def dom_def split: if_splits option.splits)

lemma ddl_extends: "list_all adds_only xs \<Longrightarrow> run_ddl available xs c = Inr c' \<Longrightarrow> extends c c'"
  by (induction xs arbitrary: c) (auto simp: bindE_Inr_iff dest: statement_extends intro: extends_trans)

text \<open>What a statement has made.\<close>

definition made :: "ddl \<Rightarrow> catalogue \<Rightarrow> bool" where
  "made x c \<longleftrightarrow> (case x of
       Create_Table n _ \<Rightarrow> n \<in> dom (cat_tables c)
     | Create_Index n d \<Rightarrow> n \<in> dom (cat_indexes c) \<and> ix_table d \<in> dom (cat_tables c)
     | Create_Function n \<Rightarrow> n \<in> cat_functions c
     | Create_Extension n \<Rightarrow> n \<in> cat_extensions c
     | Create_Trigger n t f \<Rightarrow> t \<in> dom (cat_tables c) \<and> f \<in> cat_functions c
     | _ \<Rightarrow> True)"

lemma made_extends: "made x c \<Longrightarrow> extends c c' \<Longrightarrow> made x c'"
  by (cases x) (auto simp: made_def extends_def map_le_def dom_def)

lemma statement_made: "run_statement available x c = Inr c' \<Longrightarrow> made x c'"
  by (cases x) (auto simp: made_def undefined_object_def split: if_splits option.splits)

lemma ddl_made:
  "list_all adds_only xs \<Longrightarrow> run_ddl available xs c = Inr c' \<Longrightarrow> x \<in> set xs \<Longrightarrow> made x c'"
proof (induction xs arbitrary: c)
  case (Cons y ys)
  then obtain c1 where c1: "run_statement available y c = Inr c1" "run_ddl available ys c1 = Inr c'"
    by (auto simp: bindE_Inr_iff)
  have "extends c1 c'" using ddl_extends [OF _ c1(2)] Cons.prems(1) by simp
  with statement_made [OF c1(1)] Cons.IH [OF _ c1(2)] Cons.prems show ?case by (auto intro: made_extends)
qed simp

lemma made_again:
  "made x c \<Longrightarrow> adds_only x \<Longrightarrow> (case x of Create_Trigger _ _ _ \<Rightarrow> False | Drop_Trigger _ _ \<Rightarrow> False | _ \<Rightarrow> True) \<Longrightarrow>
   run_statement available x c = Inr c"
  by (cases x) (auto simp: made_def adds_only_def insert_absorb split: option.splits)

lemma run_ddl_append: "run_ddl available (xs @ ys) c = bindE (run_ddl available xs c) (run_ddl available ys)"
  by (induction xs arbitrary: c) (auto simp: bindE_def split: sum.splits)

lemma made_all_again:
  "(\<And>x. x \<in> set xs \<Longrightarrow> made x c \<and> adds_only x \<and>
      (case x of Create_Trigger _ _ _ \<Rightarrow> False | Drop_Trigger _ _ \<Rightarrow> False | _ \<Rightarrow> True)) \<Longrightarrow>
   run_ddl available xs c = Inr c"
  by (induction xs) (auto simp: made_again bindE_def)

text \<open>The five texts in three parts: the trigger is dropped and made again in the middle.\<close>

definition trigger_ddl :: "ddl list" where
  "trigger_ddl = [Drop_Trigger ''trg_audit_log_immutable'' ''audit_log'',
     Create_Trigger ''trg_audit_log_immutable'' ''audit_log'' ''audit_log_immutable'']"

definition before_trigger :: "ddl list" where
  "before_trigger = memory_records_ddl @ facts_ddl @ butlast (butlast audit_log_ddl)"

definition after_trigger :: "ddl list" where
  "after_trigger = traces_ddl @ vector_index_ddl"

lemma initial_parts: "initial_ddl = before_trigger @ trigger_ddl @ after_trigger" "alembic_upgrade = initial_ddl"
  by (simp_all add: initial_ddl_def before_trigger_def trigger_ddl_def after_trigger_def audit_log_ddl_def alembic_upgrade_def)

lemmas ddl_texts = memory_records_ddl_def facts_ddl_def audit_log_ddl_def traces_ddl_def vector_index_ddl_def

lemma initial_adds: "list_all adds_only initial_ddl"
  by (simp add: initial_ddl_def ddl_texts adds_only_def)

lemma plain_parts:
  "x \<in> set (before_trigger @ after_trigger) \<Longrightarrow> (case x of Create_Trigger _ _ _ \<Rightarrow> False | Drop_Trigger _ _ \<Rightarrow> False | _ \<Rightarrow> True)"
  by (auto simp: before_trigger_def after_trigger_def ddl_texts)

lemma trigger_kept:
  "list_all (\<lambda>x. adds_only x \<and> (case x of Create_Trigger _ _ _ \<Rightarrow> False | Drop_Trigger _ _ \<Rightarrow> False | _ \<Rightarrow> True)) xs \<Longrightarrow>
   run_ddl available xs c = Inr c' \<Longrightarrow> cat_triggers c' = cat_triggers c"
proof (induction xs arbitrary: c)
  case (Cons x xs)
  then obtain c1 where "run_statement available x c = Inr c1" "run_ddl available xs c1 = Inr c'"
    by (auto simp: bindE_Inr_iff)
  moreover from this(1) Cons.prems(1) have "cat_triggers c1 = cat_triggers c"
    by (cases x) (auto simp: adds_only_def undefined_object_def split: if_splits option.splits)
  ultimately show ?case using Cons by simp
qed simp

lemma initial_trigger:
  assumes "run_ddl available initial_ddl c = Inr c'"
  shows "cat_triggers c' (''audit_log'', ''trg_audit_log_immutable'') = Some ''audit_log_immutable''"
proof -
  from assms obtain c1 c2 where c: "run_ddl available before_trigger c = Inr c1"
    "run_ddl available trigger_ddl c1 = Inr c2" "run_ddl available after_trigger c2 = Inr c'"
    by (auto simp: initial_parts(1) run_ddl_append bindE_Inr_iff)
  from c(2) have "cat_triggers c2 (''audit_log'', ''trg_audit_log_immutable'') = Some ''audit_log_immutable''"
    by (auto simp: trigger_ddl_def bindE_def undefined_object_def split: if_splits)
  moreover have "cat_triggers c' = cat_triggers c2"
    by (rule trigger_kept [OF _ c(3)]) (simp add: after_trigger_def ddl_texts adds_only_def)
  ultimately show ?thesis by simp
qed

lemma initial_again:
  assumes "run_ddl available initial_ddl c = Inr c'"
  shows "run_ddl available initial_ddl c' = Inr c'"
proof -
  note m = ddl_made [OF initial_adds assms]
  have parts: "run_ddl available xs c' = Inr c'" if "set xs \<subseteq> set (before_trigger @ after_trigger)" for xs
    using that m plain_parts initial_adds unfolding initial_parts(1) list_all_iff
    by (intro made_all_again) (simp add: subset_iff, blast)
  have "run_ddl available trigger_ddl c' = Inr c'"
    using m [of "Create_Trigger ''trg_audit_log_immutable'' ''audit_log'' ''audit_log_immutable''"] initial_trigger [OF assms]
    by (auto simp: trigger_ddl_def made_def bindE_def initial_parts(1) fun_upd_idem)
  then show ?thesis by (simp add: initial_parts(1) run_ddl_append parts bindE_def)
qed

subsection \<open>A database without the schema\<close>

definition schema_tables :: "string set" where
  "schema_tables = {''memory_records'', ''facts'', ''audit_log'', ''memory_traces'', ''vector_index''}"

definition schema_indexes :: "string set" where
  "schema_indexes = {''idx_memory_records_tenant_lifecycle'', ''idx_memory_records_idempotency'',
     ''idx_facts_entity_predicate'', ''idx_traces_tenant'', ''idx_vector_index_hnsw'', ''idx_vector_index_tenant_sector''}"

definition without_schema :: "catalogue \<Rightarrow> bool" where
  "without_schema c \<longleftrightarrow> dom (cat_tables c) \<inter> schema_tables = {} \<and> dom (cat_indexes c) \<inter> schema_indexes = {} \<and>
     ''audit_log_immutable'' \<notin> cat_functions c"

fun table_of :: "ddl list \<Rightarrow> table_def" where
  "table_of (Create_Table _ d # _) = d"
| "table_of (_ # xs) = table_of xs"
| "table_of [] = \<lparr>tb_columns = [], tb_primary_key = []\<rparr>"

fun index_of :: "string \<Rightarrow> ddl list \<Rightarrow> index_def" where
  "index_of n (Create_Index m d # xs) = (if m = n then d else index_of n xs)"
| "index_of n (_ # xs) = index_of n xs"
| "index_of n [] = \<lparr>ix_table = [], ix_columns = [], ix_unique = False\<rparr>"

text \<open>What the texts add to it.\<close>

definition with_schema :: "catalogue \<Rightarrow> catalogue" where
  "with_schema c = c\<lparr>
     cat_tables := (cat_tables c)(''memory_records'' \<mapsto> table_of memory_records_ddl, ''facts'' \<mapsto> table_of facts_ddl,
       ''audit_log'' \<mapsto> table_of audit_log_ddl, ''memory_traces'' \<mapsto> table_of traces_ddl,
       ''vector_index'' \<mapsto> table_of vector_index_ddl),
     cat_indexes := (cat_indexes c)(
       ''idx_memory_records_tenant_lifecycle'' \<mapsto> index_of ''idx_memory_records_tenant_lifecycle'' memory_records_ddl,
       ''idx_memory_records_idempotency'' \<mapsto> index_of ''idx_memory_records_idempotency'' memory_records_ddl,
       ''idx_facts_entity_predicate'' \<mapsto> index_of ''idx_facts_entity_predicate'' facts_ddl,
       ''idx_traces_tenant'' \<mapsto> index_of ''idx_traces_tenant'' traces_ddl,
       ''idx_vector_index_hnsw'' \<mapsto> index_of ''idx_vector_index_hnsw'' vector_index_ddl,
       ''idx_vector_index_tenant_sector'' \<mapsto> index_of ''idx_vector_index_tenant_sector'' vector_index_ddl),
     cat_functions := insert ''audit_log_immutable'' (cat_functions c),
     cat_triggers := (cat_triggers c)((''audit_log'', ''trg_audit_log_immutable'') \<mapsto> ''audit_log_immutable''),
     cat_extensions := insert ''vector'' (cat_extensions c)\<rparr>"

lemma absent:
  assumes "without_schema c"
  shows "n \<in> schema_tables \<Longrightarrow> cat_tables c n = None" "n \<in> schema_indexes \<Longrightarrow> cat_indexes c n = None"
  using assms by (auto simp: without_schema_def dom_def)

lemma absent_names:
  assumes "without_schema c"
  shows "cat_tables c ''memory_records'' = None" "cat_tables c ''facts'' = None" "cat_tables c ''audit_log'' = None"
    "cat_tables c ''memory_traces'' = None" "cat_tables c ''vector_index'' = None"
    "cat_indexes c ''idx_memory_records_tenant_lifecycle'' = None" "cat_indexes c ''idx_memory_records_idempotency'' = None"
    "cat_indexes c ''idx_facts_entity_predicate'' = None" "cat_indexes c ''idx_traces_tenant'' = None"
    "cat_indexes c ''idx_vector_index_hnsw'' = None" "cat_indexes c ''idx_vector_index_tenant_sector'' = None"
  using absent [OF assms] by (simp_all add: schema_tables_def schema_indexes_def)

lemma run_records_text:
  assumes "cat_tables c ''memory_records'' = None" "cat_indexes c ''idx_memory_records_tenant_lifecycle'' = None"
    "cat_indexes c ''idx_memory_records_idempotency'' = None"
  shows "run_ddl available memory_records_ddl c = Inr (c\<lparr>
    cat_tables := (cat_tables c)(''memory_records'' \<mapsto> table_of memory_records_ddl),
    cat_indexes := (cat_indexes c)(
      ''idx_memory_records_tenant_lifecycle'' \<mapsto> index_of ''idx_memory_records_tenant_lifecycle'' memory_records_ddl,
      ''idx_memory_records_idempotency'' \<mapsto> index_of ''idx_memory_records_idempotency'' memory_records_ddl)\<rparr>)"
  using assms by (simp add: memory_records_ddl_def type_exists_def bindE_def)

lemma run_facts_text:
  assumes "cat_tables c ''facts'' = None" "cat_indexes c ''idx_facts_entity_predicate'' = None"
  shows "run_ddl available facts_ddl c = Inr (c\<lparr>
    cat_tables := (cat_tables c)(''facts'' \<mapsto> table_of facts_ddl),
    cat_indexes := (cat_indexes c)(''idx_facts_entity_predicate'' \<mapsto> index_of ''idx_facts_entity_predicate'' facts_ddl)\<rparr>)"
  using assms by (simp add: facts_ddl_def type_exists_def bindE_def)

lemma run_audit_text:
  assumes "cat_tables c ''audit_log'' = None"
  shows "run_ddl available audit_log_ddl c = Inr (c\<lparr>
    cat_tables := (cat_tables c)(''audit_log'' \<mapsto> table_of audit_log_ddl),
    cat_functions := insert ''audit_log_immutable'' (cat_functions c),
    cat_triggers := (cat_triggers c)((''audit_log'', ''trg_audit_log_immutable'') \<mapsto> ''audit_log_immutable'')\<rparr>)"
  using assms by (simp add: audit_log_ddl_def type_exists_def bindE_def)

lemma run_traces_text:
  assumes "cat_tables c ''memory_traces'' = None" "cat_indexes c ''idx_traces_tenant'' = None"
  shows "run_ddl available traces_ddl c = Inr (c\<lparr>
    cat_tables := (cat_tables c)(''memory_traces'' \<mapsto> table_of traces_ddl),
    cat_indexes := (cat_indexes c)(''idx_traces_tenant'' \<mapsto> index_of ''idx_traces_tenant'' traces_ddl)\<rparr>)"
  using assms by (simp add: traces_ddl_def type_exists_def bindE_def)

lemma run_vector_text:
  assumes "cat_tables c ''vector_index'' = None" "cat_indexes c ''idx_vector_index_hnsw'' = None"
    "cat_indexes c ''idx_vector_index_tenant_sector'' = None"
  shows "run_ddl available vector_index_ddl c =
    (if ''vector'' \<in> available \<union> cat_extensions c
     then Inr (c\<lparr>cat_tables := (cat_tables c)(''vector_index'' \<mapsto> table_of vector_index_ddl),
       cat_indexes := (cat_indexes c)(
         ''idx_vector_index_hnsw'' \<mapsto> index_of ''idx_vector_index_hnsw'' vector_index_ddl,
         ''idx_vector_index_tenant_sector'' \<mapsto> index_of ''idx_vector_index_tenant_sector'' vector_index_ddl),
       cat_extensions := insert ''vector'' (cat_extensions c)\<rparr>)
     else Inl (DatabaseError ''FeatureNotSupportedError''))"
  using assms by (auto simp: vector_index_ddl_def type_exists_def bindE_def insert_absorb)

lemma initial_created:
  assumes "without_schema c"
  shows "run_ddl available initial_ddl c = (if ''vector'' \<in> available \<union> cat_extensions c
    then Inr (with_schema c) else Inl (DatabaseError ''FeatureNotSupportedError''))"
  using absent_names [OF assms]
  by (simp add: initial_ddl_def run_ddl_append bindE_def run_records_text run_facts_text run_audit_text run_traces_text
      run_vector_text with_schema_def del: table_of.simps index_of.simps)

text \<open>The drops, on any catalogue.\<close>

definition without_tables :: "string set \<Rightarrow> catalogue \<Rightarrow> catalogue" where
  "without_tables ns c = c\<lparr>cat_tables := (\<lambda>n. if n \<in> ns then None else cat_tables c n),
     cat_indexes := (\<lambda>i. case cat_indexes c i of None \<Rightarrow> None | Some d \<Rightarrow> if ix_table d \<in> ns then None else Some d),
     cat_triggers := (\<lambda>(t, g). if t \<in> ns then None else cat_triggers c (t, g))\<rparr>"

lemma drop_table_run: "run_statement available (Drop_Table n) c = Inr (without_tables {n} c)"
  by (simp add: without_tables_def fun_upd_def cong: option.case_cong)

lemma without_tables_Un: "without_tables ns (without_tables ms c) = without_tables (ms \<union> ns) c"
  by (auto simp: without_tables_def fun_eq_iff split: option.splits)

lemma own_tables: "without_schema c \<Longrightarrow> cat_tables c n = Some tb \<Longrightarrow> n \<notin> schema_tables"
  by (auto simp: without_schema_def)

lemma own_index: "cat_wf c \<Longrightarrow> without_schema c \<Longrightarrow> cat_indexes c i = Some d \<Longrightarrow> ix_table d \<notin> schema_tables \<and> i \<notin> schema_indexes"
  unfolding cat_wf_def using own_tables absent(2) by (metis option.distinct(1))

lemma own_trigger:
  "cat_wf c \<Longrightarrow> without_schema c \<Longrightarrow> cat_triggers c (t, g) = Some f \<Longrightarrow> t \<notin> schema_tables \<and> f \<noteq> ''audit_log_immutable''"
  unfolding cat_wf_def using own_tables by (metis not_None_eq without_schema_def)

lemma downgrade_run: "run_ddl available alembic_downgrade c =
    Inr (let u = without_tables {''vector_index'', ''memory_traces'', ''audit_log''} c in
      without_tables {''facts'', ''memory_records''} (u\<lparr>cat_functions := cat_functions u - {''audit_log_immutable''},
        cat_triggers := (\<lambda>k. if cat_triggers u k = Some ''audit_log_immutable'' then None else cat_triggers u k)\<rparr>))"
proof -
  have "(cat_triggers (without_tables ns c))((''audit_log'', ''trg_audit_log_immutable'') := None) =
      cat_triggers (without_tables ns c)" if "''audit_log'' \<in> ns" for ns
    using that by (auto simp: without_tables_def fun_eq_iff)
  then show ?thesis
    by (simp add: alembic_downgrade_def drop_table_run without_tables_Un bindE_def Let_def insert_commute
        del: run_statement.simps(7))
qed

lemma with_schema_tables: "n \<notin> schema_tables \<Longrightarrow> cat_tables (with_schema c) n = cat_tables c n"
  by (simp add: with_schema_def schema_tables_def del: table_of.simps)

lemma with_schema_indexes:
  "i \<notin> schema_indexes \<Longrightarrow> cat_indexes (with_schema c) i = cat_indexes c i"
  "i \<in> schema_indexes \<Longrightarrow> \<exists>d. cat_indexes (with_schema c) i = Some d \<and> ix_table d \<in> schema_tables"
  by (auto simp: with_schema_def schema_indexes_def schema_tables_def ddl_texts)

lemma with_schema_triggers: "cat_triggers (with_schema c) k =
    (if k = (''audit_log'', ''trg_audit_log_immutable'') then Some ''audit_log_immutable'' else cat_triggers c k)"
  by (simp add: with_schema_def)

lemma without_all: "run_ddl available alembic_downgrade c = Inr (without_tables schema_tables
    (c\<lparr>cat_functions := cat_functions c - {''audit_log_immutable''},
      cat_triggers := (\<lambda>k. if cat_triggers c k = Some ''audit_log_immutable'' then None else cat_triggers c k)\<rparr>))"
  unfolding downgrade_run Let_def
  by (auto simp: without_tables_def schema_tables_def fun_eq_iff split: option.splits)

lemma downgrade_restores:
  assumes "cat_wf c" "without_schema c"
  shows "run_ddl available alembic_downgrade (with_schema c) = Inr (c\<lparr>cat_extensions := insert ''vector'' (cat_extensions c)\<rparr>)"
proof -
  let ?w = "with_schema c"
  have tables: "(\<lambda>n. if n \<in> schema_tables then None else cat_tables ?w n) = cat_tables c"
    using absent(1) [OF assms(2)] by (auto simp: with_schema_tables fun_eq_iff)
  have indexes: "(\<lambda>i. case cat_indexes ?w i of None \<Rightarrow> None | Some d \<Rightarrow> if ix_table d \<in> schema_tables then None else Some d) =
      cat_indexes c"
  proof
    fix i
    show "(case cat_indexes ?w i of None \<Rightarrow> None | Some d \<Rightarrow> if ix_table d \<in> schema_tables then None else Some d) = cat_indexes c i"
    proof (cases "i \<in> schema_indexes")
      case True
      from with_schema_indexes(2) [OF this, of c] absent(2) [OF assms(2) True] show ?thesis by auto
    next
      case False
      then show ?thesis using own_index [OF assms, of i] by (auto simp: with_schema_indexes(1) split: option.split)
    qed
  qed
  have triggers: "(\<lambda>(t, g). if t \<in> schema_tables then None
      else if cat_triggers ?w (t, g) = Some ''audit_log_immutable'' then None else cat_triggers ?w (t, g)) = cat_triggers c"
    using own_trigger [OF assms] by (fastforce simp: with_schema_triggers fun_eq_iff schema_tables_def)
  have funs: "cat_functions ?w - {''audit_log_immutable''} = cat_functions c"
    using assms(2) by (auto simp: with_schema_def without_schema_def)
  have "cat_extensions ?w = insert ''vector'' (cat_extensions c)" by (simp add: with_schema_def)
  with tables indexes triggers funs show ?thesis
    by (simp add: without_all without_tables_def) (rule catalogue.equality, simp_all cong: if_cong)
qed

subsection \<open>The vector index on its own\<close>

definition register_codec :: "catalogue \<Rightarrow> exn + unit" where
  \<comment> \<open>registering the codec looks the type up in the catalogue\<close>
  "register_codec c = (if ''vector'' \<in> cat_extensions c then Inr () else Inl (ValueError ''unknown type: public.vector''))"

definition vector_ensure_schema :: "string set \<Rightarrow> (catalogue, unit) action" where
  \<comment> \<open>\<open>PgvectorVectorIndex.ensure_schema\<close>\<close>
  "vector_ensure_schema available c = (case register_codec c of
       Inl e \<Rightarrow> (Inl e, c)
     | Inr _ \<Rightarrow> (case run_ddl available vector_index_ddl c of Inl e \<Rightarrow> (Inl e, c) | Inr c' \<Rightarrow> (Inr (), c')))"

text \<open>It can be called at every startup, but not at the first: the codec is registered before the
  statement that installs the extension, so that without the extension it raises and changes
  nothing; with it, the table and its indexes are there afterwards and a second call changes nothing.\<close>

theorem vector_ensure_schema_spec:
  assumes "without_schema c"
  shows "if ''vector'' \<in> cat_extensions c
    then \<exists>c'. vector_ensure_schema available c = (Inr (), c') \<and> cat_tables c' ''vector_index'' \<noteq> None \<and>
      vector_ensure_schema available c' = (Inr (), c')
    else vector_ensure_schema available c = (Inl (ValueError ''unknown type: public.vector''), c)"
proof (cases "''vector'' \<in> cat_extensions c")
  case True
  then obtain c' where run: "run_ddl available vector_index_ddl c = Inr c'" "cat_tables c' ''vector_index'' \<noteq> None"
      "''vector'' \<in> cat_extensions c'"
    using run_vector_text [of c available] absent_names [OF assms] by simp
  have adds: "list_all adds_only vector_index_ddl" by (simp add: vector_index_ddl_def adds_only_def)
  have "run_ddl available vector_index_ddl c' = Inr c'"
  proof (rule made_all_again)
    fix x
    assume x: "x \<in> set vector_index_ddl"
    then have "adds_only x \<and> (case x of Create_Trigger _ _ _ \<Rightarrow> False | Drop_Trigger _ _ \<Rightarrow> False | _ \<Rightarrow> True)"
      by (auto simp: vector_index_ddl_def adds_only_def)
    with ddl_made [OF adds run(1) x]
    show "made x c' \<and> adds_only x \<and> (case x of Create_Trigger _ _ _ \<Rightarrow> False | Drop_Trigger _ _ \<Rightarrow> False | _ \<Rightarrow> True)"
      by blast
  qed
  with True run show ?thesis by (simp add: vector_ensure_schema_def register_codec_def)
qed (simp add: vector_ensure_schema_def register_codec_def)

subsection \<open>The migrator over the catalogue\<close>

text \<open>Executing a text runs its statements (\<open>statements\<close> reads them off it); in one call of the
  driver they are one transaction.\<close>

definition execute_text :: "string set \<Rightarrow> (string \<Rightarrow> ddl list) \<Rightarrow> string \<Rightarrow> (catalogue pg_schema, unit) action" where
  "execute_text available statements sql d = (case run_ddl available (statements sql) (ps_tables d) of
       Inl e \<Rightarrow> (Inl e, d) | Inr c \<Rightarrow> (Inr (), d\<lparr>ps_tables := c\<rparr>))"

definition schema_migrations :: "string \<Rightarrow> (string \<times> string) list" where
  "schema_migrations initial_text = [(''0001_initial'', initial_text)]"

subsection \<open>Properties\<close>

text \<open>C39. The migrator and the Alembic revision make the same schema: from a database without it, a
  run of the migrator adds exactly the tables, indexes, function and trigger of the five texts (the
  idempotency keys of a tenant under a unique index, the audit log under its immutability trigger)
  and records its version, and the upgrade of the revision makes the same catalogue of the same
  database; a second run of the migrator skips, and the upgrade over the finished schema changes
  nothing.  Where the vector extension cannot be installed both fail, and the migrator leaves the
  tables as they were with no version recorded.\<close>

theorem pg_schema_migrated:
  assumes "statements initial_text = initial_ddl" "\<forall>e u. snd (emit e u) = u" "without_schema (ps_tables d)"
    and "pg_versions d = []" "pg_run (execute_text available statements) emit t (schema_migrations initial_text) d = (x, d')"
  shows "if ''vector'' \<in> available \<union> cat_extensions (ps_tables d)
    then ps_tables d' = with_schema (ps_tables d) \<and> pg_versions d' = [''0001_initial''] \<and>
      pg_run (execute_text available statements) emit t (schema_migrations initial_text) d' =
        (Inr \<lparr>mg_applied = [], mg_skipped = [''0001_initial'']\<rparr>, d') \<and>
      run_ddl available alembic_upgrade (ps_tables d) = Inr (ps_tables d') \<and>
      run_ddl available alembic_upgrade (ps_tables d') = Inr (ps_tables d') \<and>
      cat_indexes (ps_tables d') ''idx_memory_records_idempotency'' =
        Some \<lparr>ix_table = ''memory_records'', ix_columns = [''tenant_id'', ''idempotency_key''], ix_unique = True\<rparr> \<and>
      cat_triggers (ps_tables d') (''audit_log'', ''trg_audit_log_immutable'') = Some ''audit_log_immutable''
    else x = Inl (DatabaseError ''FeatureNotSupportedError'') \<and> ps_tables d' = ps_tables d \<and> pg_versions d' = [] \<and>
      run_ddl available alembic_upgrade (ps_tables d) = Inl (DatabaseError ''FeatureNotSupportedError'')"
proof -
  obtain d1 where e: "ensure_migrations_table d = (Inr (), d1)" "ps_versions d1 = Some []" "ps_tables d1 = ps_tables d"
    using assms(4) by (auto simp: ensure_migrations_table_def monad_simps pg_versions_def split: option.splits)
  note run = assms(5) [unfolded pg_run_def schema_migrations_def bindM_def e(1)]
  note created = initial_created [OF assms(3), of available]
  show ?thesis
  proof (cases "''vector'' \<in> available \<union> cat_extensions (ps_tables d)")
    case True
    let ?d2 = "d1\<lparr>ps_tables := with_schema (ps_tables d), ps_versions := Some [''0001_initial'']\<rparr>"
    have "transaction (bindM (getM pg_versions) (\<lambda>vs. if ''0001_initial'' \<in> set vs then returnM False
        else bindM (pg_apply (execute_text available statements) ''0001_initial'' initial_text) (\<lambda>_. returnM True))) d1 = (Inr True, ?d2)"
      using e(2,3) created True assms(1)
      by (simp add: transaction_def bindM_def monad_simps pg_versions_def pg_apply_def execute_text_def pg_insert_version_def)
    moreover have quiet: "emit e u = (y, u') \<Longrightarrow> u' = u" for e u y u' using assms(2) by (metis snd_conv)
    ultimately have d': "d' = ?d2"
      using run by (auto simp: pg_step_def bindM_def monad_simps split: prod.splits sum.splits dest: quiet)
    have "run_ddl available alembic_upgrade (with_schema (ps_tables d)) = Inr (with_schema (ps_tables d))"
      unfolding initial_parts(2) using initial_again [of available "ps_tables d"] created True by simp
    moreover have "pg_run (execute_text available statements) emit t (schema_migrations initial_text) ?d2 =
        (Inr \<lparr>mg_applied = [], mg_skipped = [''0001_initial'']\<rparr>, ?d2)"
      by (simp add: pg_run_def schema_migrations_def ensure_migrations_table_def pg_step_def transaction_def bindM_def
          monad_simps pg_versions_def)
    moreover have "run_ddl available alembic_upgrade (ps_tables d) = Inr (with_schema (ps_tables d))"
      unfolding initial_parts(2) using created True by simp
    moreover have "cat_indexes (with_schema (ps_tables d)) ''idx_memory_records_idempotency'' =
        Some \<lparr>ix_table = ''memory_records'', ix_columns = [''tenant_id'', ''idempotency_key''], ix_unique = True\<rparr>"
      by (simp add: with_schema_def memory_records_ddl_def)
    ultimately show ?thesis using d' True by (simp add: pg_versions_def with_schema_triggers)
  next
    case False
    have "transaction (bindM (getM pg_versions) (\<lambda>vs. if ''0001_initial'' \<in> set vs then returnM False
        else bindM (pg_apply (execute_text available statements) ''0001_initial'' initial_text) (\<lambda>_. returnM True))) d1 =
        (Inl (DatabaseError ''FeatureNotSupportedError''), d1)"
      using e(2,3) created False assms(1)
      by (simp add: transaction_def bindM_def monad_simps pg_versions_def pg_apply_def execute_text_def)
    with run False e(2,3) created show ?thesis
      by (auto simp: pg_step_def bindM_def pg_versions_def initial_parts(2))
  qed
qed

lemma empty_without_schema: "without_schema \<lparr>cat_tables = Map.empty, cat_indexes = Map.empty, cat_functions = {},
    cat_triggers = Map.empty, cat_extensions = es\<rparr>"
  by (simp add: without_schema_def)

lemma pg_schema_migrated_witness:
  "\<exists>x d'. pg_run (execute_text {''vector''} (\<lambda>_. initial_ddl)) (\<lambda>_. returnM ()) ''system'' (schema_migrations ''sql'')
      \<lparr>ps_versions = None, ps_tables = \<lparr>cat_tables = Map.empty, cat_indexes = Map.empty, cat_functions = {},
        cat_triggers = Map.empty, cat_extensions = {}\<rparr>\<rparr> = (x, d') \<and>
    pg_versions d' = [''0001_initial''] \<and> cat_triggers (ps_tables d') (''audit_log'', ''trg_audit_log_immutable'') =
      Some ''audit_log_immutable''"
proof -
  let ?c = "\<lparr>cat_tables = Map.empty, cat_indexes = Map.empty, cat_functions = {}, cat_triggers = Map.empty, cat_extensions = {}\<rparr>"
  let ?d = "\<lparr>ps_versions = None, ps_tables = ?c\<rparr>"
  obtain x d' where r: "pg_run (execute_text {''vector''} (\<lambda>_. initial_ddl)) (\<lambda>_. returnM ()) ''system''
      (schema_migrations ''sql'') ?d = (x, d')" by fastforce
  have "\<forall>e u. snd ((\<lambda>_. returnM () :: (catalogue pg_schema, unit) action) e u) = u" by (simp add: returnM_def)
  moreover have "without_schema (ps_tables ?d)" using empty_without_schema by simp
  moreover have "pg_versions ?d = []" by (simp add: pg_versions_def)
  ultimately have "pg_versions d' = [''0001_initial''] \<and> ps_tables d' = with_schema (ps_tables ?d)"
    using pg_schema_migrated [OF refl _ _ _ r] by simp
  with r show ?thesis by (intro exI [of _ x] exI [of _ d']) (simp add: with_schema_triggers)
qed

text \<open>The downgrade of the revision undoes its upgrade: on a consistent database without the schema,
  the upgrade followed by the downgrade gives back every table, index, function and trigger; only
  the vector extension stays installed.\<close>

theorem alembic_roundtrip:
  assumes "cat_wf c" "without_schema c" "''vector'' \<in> available \<union> cat_extensions c"
  shows "\<exists>c1. run_ddl available alembic_upgrade c = Inr c1 \<and> cat_wf c1 \<and>
    run_ddl available alembic_downgrade c1 = Inr (c\<lparr>cat_extensions := insert ''vector'' (cat_extensions c)\<rparr>)"
proof -
  have up: "run_ddl available alembic_upgrade c = Inr (with_schema c)"
    using initial_created [OF assms(2), of available] assms(3) by (simp add: initial_parts(2))
  from ddl_wf [OF assms(1) up] up downgrade_restores [OF assms(1,2)] show ?thesis by blast
qed

theorem alembic_roundtrip_witness:
  "\<exists>c1. run_ddl {''vector''} alembic_upgrade
      \<lparr>cat_tables = Map.empty, cat_indexes = Map.empty, cat_functions = {}, cat_triggers = Map.empty, cat_extensions = {}\<rparr> = Inr c1 \<and>
    run_ddl {''vector''} alembic_downgrade c1 =
      Inr \<lparr>cat_tables = Map.empty, cat_indexes = Map.empty, cat_functions = {}, cat_triggers = Map.empty, cat_extensions = {''vector''}\<rparr>"
proof -
  let ?c = "\<lparr>cat_tables = Map.empty, cat_indexes = Map.empty, cat_functions = {}, cat_triggers = Map.empty, cat_extensions = {}\<rparr>"
  have "cat_wf ?c" by (simp add: cat_wf_def)
  from alembic_roundtrip [OF this empty_without_schema, of "{''vector''}"] show ?thesis by auto
qed

end
