(* ===== verification/Vector_Contract.thy ===== *)
theory Vector_Contract
  imports Ports
begin

text \<open>
  The vector index port of \<^verbatim>\<open>ports/outbound.py\<close> with its filters, and what a provider promises: a
  document is stored under its tenant and the key the provider makes of its id (\<open>norm\<close>, as much of it
  as the provider keeps), and a search finds stored documents of the tenant that pass the filters.
  A call that raises may have taken effect or not.  A \<open>vector_store\<close> also promises that a removal it
  acknowledges has been done.
\<close>

text \<open>The two keys of the filter dictionary the server adapters read.\<close>

record vector_filters =
  vf_lifecycle_states :: "lifecycle_state list option"
  vf_sectors :: "memory_sector list option"

definition no_filters :: vector_filters where
  "no_filters = \<lparr>vf_lifecycle_states = None, vf_sectors = None\<rparr>"

definition filter_states :: "vector_filters \<Rightarrow> lifecycle_state list" where
  "filter_states f = (case vf_lifecycle_states f of Some (s # ss) \<Rightarrow> s # ss | _ \<Rightarrow> [ACTIVE, CONSOLIDATED])"

definition filter_sectors :: "vector_filters \<Rightarrow> memory_sector list option" where
  \<comment> \<open>the sectors, when the filter is present and not empty\<close>
  "filter_sectors f = (case vf_sectors f of Some (s # ss) \<Rightarrow> Some (s # ss) | _ \<Rightarrow> None)"

definition admits :: "vector_filters \<Rightarrow> vector_document \<Rightarrow> bool" where
  "admits f doc \<longleftrightarrow> vd_lifecycle_state doc \<in> set (filter_states f) \<and>
     (case filter_sectors f of None \<Rightarrow> True | Some ss \<Rightarrow> vd_sector doc \<in> set ss)"

text \<open>The same, written out.\<close>

lemma admits_iff: "admits f doc \<longleftrightarrow>
    (case vf_lifecycle_states f of Some (x # xs) \<Rightarrow> vd_lifecycle_state doc \<in> set (x # xs)
     | _ \<Rightarrow> vd_lifecycle_state doc \<in> {ACTIVE, CONSOLIDATED}) \<and>
    (case vf_sectors f of Some (x # xs) \<Rightarrow> vd_sector doc \<in> set (x # xs) | _ \<Rightarrow> True)"
  by (auto simp: admits_def filter_states_def filter_sectors_def split: option.splits list.splits)

lemma no_filters_simps [simp]:
  "filter_states no_filters = [ACTIVE, CONSOLIDATED]" "filter_sectors no_filters = None"
  by (simp_all add: no_filters_def filter_states_def filter_sectors_def)

locale vector_index =
  fixes upsert :: "vector_document \<Rightarrow> ('s, unit) action"
    and search :: "rat list \<Rightarrow> tenant_id \<Rightarrow> int \<Rightarrow> vector_filters \<Rightarrow> ('s, vector_search_result list) action"
    and remove :: "memory_id \<Rightarrow> tenant_id \<Rightarrow> ('s, unit) action"
    and inv :: "'s \<Rightarrow> bool"
    and docs :: "'s \<Rightarrow> tenant_id \<times> 'k \<Rightarrow> vector_document option"
    and norm :: "vector_document \<Rightarrow> vector_document"
    and key :: "memory_id \<Rightarrow> 'k"
  assumes norm_kept: "vd_content (norm doc) = vd_content doc" "vd_metadata (norm doc) = vd_metadata doc"
      "admits f (norm doc) = admits f doc"
    and upsert_inv: "keeps inv (upsert doc)"
    and upsert_ok: "inv s \<Longrightarrow> upsert doc s = (Inr (), s') \<Longrightarrow>
      docs s' = (docs s)((vd_tenant_id doc, key (vd_memory_id doc)) \<mapsto> norm doc)"
    and upsert_error: "inv s \<Longrightarrow> upsert doc s = (Inl e, s') \<Longrightarrow>
      docs s' = docs s \<or> docs s' = (docs s)((vd_tenant_id doc, key (vd_memory_id doc)) \<mapsto> norm doc)"
    and remove_inv: "keeps inv (remove m t)"
    and remove_some: "inv s \<Longrightarrow> remove m t s = (x, s') \<Longrightarrow>
      docs s' = docs s \<or> docs s' = (docs s)((t, key m) := None)"
    and search_inv: "keeps inv (search q t k f)"
    and search_docs: "docs (snd (search q t k f s)) = docs s"
    and search_ok: "inv s \<Longrightarrow> search q t k f s = (Inr hits, s') \<Longrightarrow> h \<in> set hits \<Longrightarrow>
      \<exists>doc. docs s (t, key (vr_memory_id h)) = Some doc \<and> vd_memory_id doc = vr_memory_id h \<and> admits f doc \<and>
        vr_content h = vd_content doc \<and> vr_metadata h = vd_metadata doc"
    and search_distinct: "inv s \<Longrightarrow> search q t k f s = (Inr hits, s') \<Longrightarrow> distinct (map vr_memory_id hits)"
    and search_limit: "search q t k f s = (Inr hits, s') \<Longrightarrow> 0 \<le> k \<Longrightarrow> int (length hits) \<le> k"
begin

text \<open>A document just stored is found with its new content or not at all, and one
  that the filters do not admit is not found.\<close>

lemma found_as_stored:
  assumes "inv s" "upsert doc s = (Inr (), s')" "search q (vd_tenant_id doc) k f s' = (Inr hits, u)"
    "h \<in> set hits" "vr_memory_id h = vd_memory_id doc"
  shows "admits f doc \<and> vr_content h = vd_content doc \<and> vr_metadata h = vd_metadata doc"
proof -
  have "inv s'" using keepsD_eq [OF upsert_inv] assms by blast
  from search_ok [OF this assms(3,4)] upsert_ok [OF assms(1,2)] assms(5) show ?thesis by (auto simp: norm_kept)
qed

text \<open>The writes of other tenants do not change what a search may return.\<close>

lemma other_tenant_upsert:
  "inv s \<Longrightarrow> upsert doc s = (x, s') \<Longrightarrow> vd_tenant_id doc \<noteq> t \<Longrightarrow> docs s' (t, i) = docs s (t, i)"
  using upsert_ok [of s doc s'] upsert_error [of s doc _ s'] by (cases x) auto

lemma other_tenant_remove:
  "inv s \<Longrightarrow> remove m' t' s = (x, s') \<Longrightarrow> t' \<noteq> t \<Longrightarrow> docs s' (t, i) = docs s (t, i)"
  using remove_some [of s m' t' x s'] by auto

end

locale vector_store = vector_index +
  assumes remove_ok: "inv s \<Longrightarrow> remove m t s = (Inr (), s') \<Longrightarrow> docs s' = (docs s)((t, key m) := None)"
begin

lemma not_found_after_remove:
  assumes "inv s" "remove m t s = (Inr (), s')" "search q t k f s' = (Inr hits, u)"
  shows "m \<notin> vr_memory_id ` set hits"
proof
  assume "m \<in> vr_memory_id ` set hits"
  then obtain h where h: "h \<in> set hits" "vr_memory_id h = m" by blast
  have "inv s'" using keepsD_eq [OF remove_inv] assms by blast
  from search_ok [OF this assms(3) h(1)] remove_ok [OF assms(1,2)] h(2) show False by auto
qed

end

end
