(* ===== verification/Postgres_Vector.thy ===== *)
theory Postgres_Vector
  imports Postgres_Db Vector_Contract
begin

text \<open>
  \<^verbatim>\<open>adapters/postgres/vector_index.py\<close>, \<open>PgvectorVectorIndex\<close>, over its table.  Two things belong to
  the extension and are arguments: \<open>distance\<close>, the cosine distance \<open><=>\<close> of two vectors, and \<open>scan\<close>,
  the rows an ordered scan visits for a query.  The HNSW scan is approximate: it may leave rows
  out, and the WHERE clause is applied to what it visits.
\<close>

subsection \<open>Rows\<close>

definition vector_to_row :: "vector_document \<Rightarrow> pg_vector_row" where
  "vector_to_row doc = \<lparr>pv_memory_id = vd_memory_id doc, pv_tenant_id = vd_tenant_id doc,
     pv_embedding = vd_embedding doc, pv_embedding_model_id = vd_embedding_model_id doc,
     pv_embedding_dimensions = vd_embedding_dimensions doc, pv_content = vd_content doc,
     pv_sector = sector_str (vd_sector doc), pv_lifecycle_state = lifecycle_str (vd_lifecycle_state doc),
     pv_metadata = vd_metadata doc\<rparr>"

definition row_to_vector :: "pg_vector_row \<Rightarrow> vector_document option" where
  \<comment> \<open>the document a row stands for\<close>
  "row_to_vector w = (case (sector_of (pv_sector w), lifecycle_of (pv_lifecycle_state w)) of
     (Inr sector, Inr state) \<Rightarrow> Some \<lparr>vd_memory_id = pv_memory_id w, vd_tenant_id = pv_tenant_id w,
       vd_embedding = pv_embedding w, vd_embedding_model_id = pv_embedding_model_id w,
       vd_embedding_dimensions = pv_embedding_dimensions w, vd_content = pv_content w,
       vd_sector = sector, vd_lifecycle_state = state, vd_metadata = pv_metadata w\<rparr>
   | _ \<Rightarrow> None)"

lemma row_to_vector_to_row [simp]: "row_to_vector (vector_to_row doc) = Some doc"
  by (simp add: row_to_vector_def vector_to_row_def)

subsection \<open>Operations\<close>

text \<open>The column types: \<open>vector(1536)\<close> and a four-byte \<open>INT\<close>.\<close>

definition column_dimensions :: nat where
  "column_dimensions = 1536"

definition fits_columns :: "pg_vector_row \<Rightarrow> bool" where
  "fits_columns w \<longleftrightarrow> length (pv_embedding w) = column_dimensions \<and>
     - (2 ^ 31) \<le> pv_embedding_dimensions w \<and> pv_embedding_dimensions w < 2 ^ 31"

definition same_vector :: "pg_vector_row \<Rightarrow> pg_vector_row \<Rightarrow> bool" where
  \<comment> \<open>equal primary keys\<close>
  "same_vector a b \<longleftrightarrow> pv_memory_id a = pv_memory_id b \<and> pv_tenant_id a = pv_tenant_id b"

definition pg_put_vector :: "pg_vector_row \<Rightarrow> (pg_db, unit) action" where
  "pg_put_vector w d = (if fits_columns w
     then (Inr (), d\<lparr>pg_vectors := filter (\<lambda>v. \<not> same_vector w v) (pg_vectors d) @ [w]\<rparr>)
     else (Inl (DatabaseError ''DataError''), d))"

definition register_vector :: "(pg_db, unit) action" where
  \<comment> \<open>\<^verbatim>\<open>pgvector.asyncpg.register_vector(conn)\<close>: a query of the catalogue\<close>
  "register_vector = pg_execute (returnM ())"

definition pg_vector_upsert :: "vector_document \<Rightarrow> (pg_db, unit) action" where
  "pg_vector_upsert doc = bindM register_vector (\<lambda>_. pg_execute (pg_put_vector (vector_to_row doc)))"

type_synonym vector_scan = "rat list \<Rightarrow> pg_vector_row list \<Rightarrow> exn + pg_vector_row list"

definition vector_where :: "tenant_id \<Rightarrow> vector_filters \<Rightarrow> pg_vector_row \<Rightarrow> bool" where
  "vector_where t f w \<longleftrightarrow> pv_tenant_id w = t \<and>
     pv_lifecycle_state w \<in> set (map lifecycle_str (filter_states f)) \<and>
     (case filter_sectors f of None \<Rightarrow> True | Some ss \<Rightarrow> pv_sector w \<in> set (map sector_str ss))"

definition pg_select_vectors ::
  "vector_scan \<Rightarrow> rat list \<Rightarrow> tenant_id \<Rightarrow> int \<Rightarrow> vector_filters \<Rightarrow> (pg_db, pg_vector_row list) action" where
  "pg_select_vectors scan q t k f d =
     (if k < 0 then (Inl (DatabaseError ''LIMIT must not be negative''), d)
      else (case scan q (pg_vectors d) of
          Inl e \<Rightarrow> (Inl e, d)
        | Inr visited \<Rightarrow> (Inr (take (nat k) (filter (vector_where t f) visited)), d)))"

definition pg_vector_hit :: "(rat list \<Rightarrow> rat list \<Rightarrow> rat) \<Rightarrow> rat list \<Rightarrow> pg_vector_row \<Rightarrow> vector_search_result" where
  "pg_vector_hit distance q w = \<lparr>vr_memory_id = pv_memory_id w, vr_score = 1 - distance q (pv_embedding w),
     vr_content = pv_content w, vr_metadata = pv_metadata w\<rparr>"

text \<open>\<open>SET LOCAL\<close> is a statement, and so a transaction, of its own: it changes nothing.\<close>

definition pg_vector_search ::
  "(rat list \<Rightarrow> rat list \<Rightarrow> rat) \<Rightarrow> vector_scan \<Rightarrow> rat list \<Rightarrow> tenant_id \<Rightarrow> int \<Rightarrow> vector_filters \<Rightarrow>
   (pg_db, vector_search_result list) action" where
  "pg_vector_search distance scan q t k f =
     bindM register_vector (\<lambda>_.
     bindM (pg_execute (returnM ())) (\<lambda>_.
     bindM (pg_execute (pg_select_vectors scan q t k f)) (\<lambda>rows.
     returnM (map (pg_vector_hit distance q) rows))))"

definition pg_vector_delete :: "memory_id \<Rightarrow> tenant_id \<Rightarrow> (pg_db, unit) action" where
  "pg_vector_delete m t = pg_execute (modifyM (\<lambda>d.
     d\<lparr>pg_vectors := filter (\<lambda>v. \<not> (pv_memory_id v = m \<and> pv_tenant_id v = t)) (pg_vectors d)\<rparr>))"

subsection \<open>The stored documents\<close>

definition vector_docs :: "pg_db \<Rightarrow> tenant_id \<times> memory_id \<Rightarrow> vector_document option" where
  "vector_docs d key = (case find (\<lambda>w. (pv_tenant_id w, pv_memory_id w) = key) (pg_vectors d) of
     None \<Rightarrow> None | Some w \<Rightarrow> row_to_vector w)"

definition vector_key :: "pg_vector_row \<Rightarrow> tenant_id \<times> memory_id" where
  "vector_key w = (pv_tenant_id w, pv_memory_id w)"

definition vectors_inv :: "pg_db \<Rightarrow> bool" where
  "vectors_inv d \<longleftrightarrow> distinct (map vector_key (pg_vectors d)) \<and>
     (\<forall>w \<in> set (pg_vectors d). fits_columns w \<and> row_to_vector w \<noteq> None)"

lemma vector_docs_eq: "vector_docs d key =
  (case find (\<lambda>w. vector_key w = key) (pg_vectors d) of None \<Rightarrow> None | Some w \<Rightarrow> row_to_vector w)"
  by (simp add: vector_docs_def vector_key_def)

lemma row_to_vector_Some: "row_to_vector w = Some doc \<longleftrightarrow> w = vector_to_row doc"
proof
  assume "row_to_vector w = Some doc"
  then show "w = vector_to_row doc"
    by (auto simp: row_to_vector_def vector_to_row_def sector.of_Inr_iff lifecycle.of_Inr_iff split: sum.splits)
qed simp

lemma vectors_tick [simp]: "vectors_inv (tick d) = vectors_inv d" "vector_docs (tick d) = vector_docs d"
  by (simp_all add: vectors_inv_def vector_docs_def fun_eq_iff)

lemma vector_docs_row:
  assumes "vectors_inv d" "w \<in> set (pg_vectors d)"
  shows "vector_docs d (vector_key w) = row_to_vector w"
proof -
  have "find (\<lambda>v. vector_key v = vector_key w) (pg_vectors d) = Some w"
    using assms unfolding vectors_inv_def by (metis find_unique_key)
  then show ?thesis by (simp add: vector_docs_eq)
qed

lemma register_vector_cases: "register_vector d = (x, d') \<Longrightarrow> d' = tick d"
  by (auto simp: register_vector_def pg_execute_def monad_simps split: if_splits)

lemma find_other_rows:
  assumes "\<And>w. vector_key w = key \<Longrightarrow> P w"
  shows "find (\<lambda>w. vector_key w = key) (filter P ws) = find (\<lambda>w. vector_key w = key) ws"
  using assms by (induction ws) auto

lemma find_removed_rows: "find (\<lambda>w. vector_key w = key) (filter (\<lambda>w. vector_key w \<noteq> key) ws) = None"
  by (induction ws) auto

lemma same_vector_key: "(\<lambda>v. \<not> same_vector w v) = (\<lambda>v. vector_key v \<noteq> vector_key w)"
  by (auto simp: same_vector_def vector_key_def fun_eq_iff)

lemma put_vector_docs:
  assumes "pg_put_vector (vector_to_row doc) d = (Inr (), d')"
  shows "vector_docs d' = (vector_docs d)((vd_tenant_id doc, vd_memory_id doc) \<mapsto> doc)"
proof
  fix key
  have k: "vector_key (vector_to_row doc) = (vd_tenant_id doc, vd_memory_id doc)"
    by (simp add: vector_key_def vector_to_row_def)
  have d': "pg_vectors d' = filter (\<lambda>v. vector_key v \<noteq> vector_key (vector_to_row doc)) (pg_vectors d) @ [vector_to_row doc]"
    using assms by (simp add: pg_put_vector_def same_vector_key split: if_splits) auto
  show "vector_docs d' key = ((vector_docs d)((vd_tenant_id doc, vd_memory_id doc) \<mapsto> doc)) key"
  proof (cases "key = vector_key (vector_to_row doc)")
    case True
    then show ?thesis by (simp add: vector_docs_eq d' find_append find_removed_rows k)
  next
    case False
    then have "find (\<lambda>w. vector_key w = key) (pg_vectors d') = find (\<lambda>w. vector_key w = key) (pg_vectors d)"
      unfolding d' find_append by (subst find_other_rows) (auto split: option.split)
    then show ?thesis using False by (simp add: vector_docs_eq k)
  qed
qed

lemma put_vector_inv: "vectors_inv d \<Longrightarrow> vectors_inv (snd (pg_put_vector (vector_to_row doc) d))"
  by (auto simp: vectors_inv_def pg_put_vector_def same_vector_key distinct_map_filter)

lemma vector_upsert_cases:
  assumes "pg_vector_upsert doc d = (x, d')"
  shows "(\<exists>e. x = Inl e) \<and> vector_docs d' = vector_docs d \<and> vectors_inv d' = vectors_inv d \<or>
    (\<exists>d1. vectors_inv d1 = vectors_inv d \<and> vector_docs d1 = vector_docs d \<and>
       x = Inr () \<and> pg_put_vector (vector_to_row doc) d1 = (x, d'))"
proof -
  obtain r d1 where r: "register_vector d = (r, d1)" by fastforce
  note d1 = register_vector_cases [OF r]
  show ?thesis
  proof (cases r)
    case (Inl e)
    with assms r d1 show ?thesis by (auto simp: pg_vector_upsert_def bindM_def)
  next
    case (Inr u)
    with assms r have "pg_execute (pg_put_vector (vector_to_row doc)) d1 = (x, d')"
      by (simp add: pg_vector_upsert_def bindM_def)
    from pg_execute_cases [OF this] show ?thesis
    proof
      assume "(\<exists>e. x = Inl e) \<and> d' = tick d1"
      with d1 show ?thesis by auto
    next
      assume p: "pg_put_vector (vector_to_row doc) (tick d1) = (x, d')"
      show ?thesis
      proof (cases "fits_columns (vector_to_row doc)")
        case True
        with p d1 show ?thesis by (intro disjI2 exI [of _ "tick d1"]) (auto simp: pg_put_vector_def)
      next
        case False
        with p d1 show ?thesis by (auto simp: pg_put_vector_def)
      qed
    qed
  qed
qed

subsection \<open>The contract\<close>

locale ordered_scan =
  fixes distance :: "rat list \<Rightarrow> rat list \<Rightarrow> rat"
    and scan :: vector_scan
  assumes visits_rows: "scan q rows = Inr vs \<Longrightarrow> set vs \<subseteq> set rows"
    and visits_once: "scan q rows = Inr vs \<Longrightarrow> distinct rows \<Longrightarrow> distinct vs"
    and visits_nearest: "scan q rows = Inr vs \<Longrightarrow>
      sorted_wrt (\<lambda>a b. distance q (pv_embedding a) \<le> distance q (pv_embedding b)) vs"

lemma vector_search_Inr:
  assumes "pg_vector_search distance scan q t k f d = (Inr hits, d')"
  shows "0 \<le> k \<and> (\<exists>vs. scan q (pg_vectors d) = Inr vs \<and>
    hits = map (pg_vector_hit distance q) (take (nat k) (filter (vector_where t f) vs)))"
  using assms by (auto simp: pg_vector_search_def register_vector_def pg_select_vectors_def result_iff monad_simps
      split: if_splits sum.splits dest!: pg_execute_Inr)

lemma vector_search_state:
  "pg_vector_search distance scan q t k f d = (x, d') \<Longrightarrow> d' \<in> {tick d, tick (tick d), tick (tick (tick d))}"
  by (auto simp: pg_vector_search_def register_vector_def pg_select_vectors_def bindM_def pg_execute_def monad_simps
      split: if_splits sum.splits)

lemma vector_search_keeps:
  "pg_vector_search distance scan q t k f d = (x, d') \<Longrightarrow>
   vectors_inv d' = vectors_inv d \<and> vector_docs d' = vector_docs d"
  by (auto dest!: vector_search_state)

lemma where_admits: "vector_where t f (vector_to_row doc) \<longleftrightarrow> vd_tenant_id doc = t \<and> admits f doc"
  by (auto simp: vector_where_def vector_to_row_def admits_def image_iff dest!: sector.value_inj lifecycle.value_inj
      split: option.splits)

lemma vector_delete_cases:
  assumes "pg_vector_delete m t d = (x, d')"
  shows "(\<exists>e. x = Inl e) \<and> d' = tick d \<or> x = Inr () \<and>
    pg_vectors d' = filter (\<lambda>v. vector_key v \<noteq> (t, m)) (pg_vectors d)"
proof -
  have "(\<lambda>v. pv_memory_id v = m \<longrightarrow> pv_tenant_id v \<noteq> t) = (\<lambda>v. vector_key v \<noteq> (t, m))"
    by (auto simp: vector_key_def fun_eq_iff)
  with assms show ?thesis
    by (auto simp: pg_vector_delete_def pg_execute_def monad_simps split: if_splits)
qed

lemma vector_delete_docs:
  assumes "pg_vector_delete m t d = (Inr (), d')"
  shows "vector_docs d' = (vector_docs d)((t, m) := None)"
proof
  fix key
  from assms vector_delete_cases [OF assms]
  have d': "pg_vectors d' = filter (\<lambda>v. vector_key v \<noteq> (t, m)) (pg_vectors d)" by simp
  show "vector_docs d' key = ((vector_docs d)((t, m) := None)) key"
  proof (cases "key = (t, m)")
    case True
    then show ?thesis by (simp add: vector_docs_eq d' find_removed_rows)
  next
    case False
    then show ?thesis by (simp add: vector_docs_eq d') (subst find_other_rows, auto)
  qed
qed

lemma vector_delete_inv: "keeps vectors_inv (pg_vector_delete m t)"
proof (rule keepsI)
  fix d
  assume "vectors_inv d"
  obtain x d' where r: "pg_vector_delete m t d = (x, d')" by fastforce
  from vector_delete_cases [OF this] \<open>vectors_inv d\<close> have "vectors_inv d'"
    by (auto simp: vectors_inv_def distinct_map_filter)
  with r show "vectors_inv (snd (pg_vector_delete m t d))" by simp
qed

sublocale ordered_scan \<subseteq> pgvector: vector_store pg_vector_upsert "pg_vector_search distance scan" pg_vector_delete
  vectors_inv vector_docs id "\<lambda>m. m"
proof (unfold_locales, goal_cases)
  case (1 doc)
  show ?case by simp
next
  case (2 doc)
  show ?case by simp
next
  case (3 f doc)
  show ?case by simp
next
  case (4 doc)
  show ?case
  proof (rule keepsI)
    fix d
    assume inv: "vectors_inv d"
    obtain x d' where r: "pg_vector_upsert doc d = (x, d')" by fastforce
    from vector_upsert_cases [OF this] show "vectors_inv (snd (pg_vector_upsert doc d))"
      using inv r put_vector_inv [of _ doc] by (metis snd_conv)
  qed
next
  case (5 d doc d')
  from vector_upsert_cases [OF this(2)] show ?case using put_vector_docs [of doc] by auto
next
  case (6 d doc e d')
  from vector_upsert_cases [OF this(2)] show ?case by auto
next
  case (7 m t)
  show ?case by (rule vector_delete_inv)
next
  case (8 d m t x d')
  from vector_delete_cases [OF this(2)] vector_delete_docs [of m t d d'] this(2) show ?case by auto
next
  case (9 q t k f)
  show ?case
    by (rule keepsI) (metis vector_search_keeps prod.collapse)
next
  case (10 q t k f d)
  show ?case by (metis vector_search_keeps prod.collapse)
next
  case (11 d q t k f hits d' h)
  from vector_search_Inr [OF 11(2)] obtain vs where vs: "scan q (pg_vectors d) = Inr vs"
    "hits = map (pg_vector_hit distance q) (take (nat k) (filter (vector_where t f) vs))" by blast
  with 11(3) obtain w where w: "w \<in> set vs" "vector_where t f w" "h = pg_vector_hit distance q w"
    by (auto dest!: in_set_takeD)
  with visits_rows [OF vs(1)] have row: "w \<in> set (pg_vectors d)" by blast
  then obtain doc where doc: "row_to_vector w = Some doc" using 11(1) by (auto simp: vectors_inv_def)
  then have eq: "w = vector_to_row doc" by (simp add: row_to_vector_Some)
  then have "vd_tenant_id doc = t" "admits f doc" using w(2) where_admits by blast+
  moreover have "vector_docs d (vd_tenant_id doc, vd_memory_id doc) = Some doc"
    using vector_docs_row [OF 11(1) row] doc eq by (simp add: vector_key_def vector_to_row_def)
  ultimately show ?case using w(3) eq
    by (intro exI [of _ doc]) (simp add: pg_vector_hit_def vector_to_row_def)
next
  case (12 d q t k f hits d')
  from vector_search_Inr [OF 12(2)] obtain vs where vs: "scan q (pg_vectors d) = Inr vs"
    "hits = map (pg_vector_hit distance q) (take (nat k) (filter (vector_where t f) vs))" by blast
  have "distinct (map vector_key (pg_vectors d))" using 12(1) by (simp add: vectors_inv_def)
  then have inj: "inj_on vector_key (set vs)" "distinct vs"
    using visits_rows [OF vs(1)] visits_once [OF vs(1)] by (auto simp: distinct_map intro: inj_on_subset)
  have "inj_on pv_memory_id (set (filter (vector_where t f) vs))"
    using inj(1) by (auto simp: inj_on_def vector_key_def vector_where_def)
  moreover have "set (take (nat k) (filter (vector_where t f) vs)) \<subseteq> set (filter (vector_where t f) vs)"
    by (rule set_take_subset)
  ultimately have "distinct (map pv_memory_id (take (nat k) (filter (vector_where t f) vs)))"
    using inj(2) by (auto simp: distinct_map intro: inj_on_subset)
  moreover have "map vr_memory_id hits = map pv_memory_id (take (nat k) (filter (vector_where t f) vs))"
    by (simp add: vs(2) pg_vector_hit_def)
  ultimately show ?case by simp
next
  case (13 q t k f d hits d')
  from vector_search_Inr [OF 13(1)] show ?case by auto
next
  case (14 d m t d')
  then show ?case by (simp add: vector_delete_docs)
qed

context ordered_scan
begin

lemma hit_document: "vectors_inv d \<Longrightarrow> pg_vector_search distance scan q t k f d = (Inr hits, d') \<Longrightarrow> h \<in> set hits \<Longrightarrow>
    \<exists>doc. vector_docs d (t, vr_memory_id h) = Some doc \<and> admits f doc \<and>
      vr_content h = vd_content doc \<and> vr_metadata h = vd_metadata doc"
  using pgvector.search_ok by blast

lemma hits_once: "vectors_inv d \<Longrightarrow> pg_vector_search distance scan q t k f d = (Inr hits, d') \<Longrightarrow>
    distinct (map vr_memory_id hits)"
  by (rule pgvector.search_distinct)

lemma hits_ranked:
  assumes "pg_vector_search distance scan q t k f d = (Inr hits, d')"
  shows "sorted_wrt (\<lambda>a b. vr_score a \<ge> vr_score b) hits \<and> int (length hits) \<le> k"
proof -
  from vector_search_Inr [OF assms] obtain vs where k: "0 \<le> k" and vs: "scan q (pg_vectors d) = Inr vs"
    "hits = map (pg_vector_hit distance q) (take (nat k) (filter (vector_where t f) vs))" by blast
  have "sorted_wrt (\<lambda>a b. distance q (pv_embedding a) \<le> distance q (pv_embedding b)) (filter (vector_where t f) vs)"
    by (rule sorted_wrt_filter [OF visits_nearest [OF vs(1)]])
  then have "sorted_wrt (\<lambda>a b. distance q (pv_embedding a) \<le> distance q (pv_embedding b))
      (take (nat k) (filter (vector_where t f) vs))"
    by (rule sorted_wrt_take)
  then show ?thesis
    using pgvector.search_limit [OF assms k] by (simp add: vs(2) sorted_wrt_map pg_vector_hit_def)
qed

text \<open>A removed document is not found again.\<close>

lemmas gone_after_delete = pgvector.not_found_after_remove

end

text \<open>The exact scan, which the planner may choose as well, sorts every row by its distance.\<close>

definition exact_scan :: "(rat list \<Rightarrow> rat list \<Rightarrow> rat) \<Rightarrow> vector_scan" where
  "exact_scan distance q rows = Inr (sort_key (\<lambda>w. distance q (pv_embedding w)) rows)"

interpretation exact: ordered_scan distance "exact_scan distance" for distance
proof (unfold_locales, goal_cases)
  case (3 q rows vs)
  then show ?case
    using sorted_sort_key [of "\<lambda>w. distance q (pv_embedding w)" rows] by (auto simp: exact_scan_def sorted_map)
qed (auto simp: exact_scan_def)

subsection \<open>Properties\<close>

text \<open>C29. A search of the pgvector index, over any scan that visits rows of the table once and nearest
  first, returns stored documents of the tenant only, in the lifecycle states and sectors of the
  filters (ACTIVE and CONSOLIDATED when none are given), each document at most once with its own
  content and metadata, at most \<open>k\<close> of them, by falling score; it changes no document.\<close>

theorem pg_vector_search_spec:
  assumes scan: "ordered_scan distance scan" and inv: "vectors_inv d"
    and run: "pg_vector_search distance scan q t k f d = (Inr hits, d')"
  shows "(\<forall>h \<in> set hits. \<exists>doc. vector_docs d (t, vr_memory_id h) = Some doc \<and> admits f doc \<and>
        vr_content h = vd_content doc \<and> vr_metadata h = vd_metadata doc) \<and>
      distinct (map vr_memory_id hits) \<and> int (length hits) \<le> k \<and>
      sorted_wrt (\<lambda>a b. vr_score a \<ge> vr_score b) hits \<and> vector_docs d' = vector_docs d"
  using ordered_scan.hit_document [OF scan inv run] ordered_scan.hits_once [OF scan inv run]
    ordered_scan.hits_ranked [OF scan run] vector_search_keeps [OF run] by blast

text \<open>The documents of the pgvector index are a map from tenant and memory: a successful upsert
  replaces the document under its own key and no other, a successful delete removes the one it
  names, a failed call changes none of them, and every call keeps one row per key, each of 1536
  components, in the table.\<close>

theorem pg_vector_store_spec:
  assumes "vectors_inv d" "pg_vector_upsert doc d = (x, d1)" "pg_vector_delete m t d = (y, d2)"
  shows "vectors_inv d1 \<and> vectors_inv d2 \<and>
    vector_docs d1 = (if x = Inr () then (vector_docs d)((vd_tenant_id doc, vd_memory_id doc) \<mapsto> doc) else vector_docs d) \<and>
    vector_docs d2 = (if y = Inr () then (vector_docs d)((t, m) := None) else vector_docs d)"
proof (intro conjI)
  show "vectors_inv d1" by (rule keepsD_eq [OF exact.pgvector.upsert_inv assms(1,2)])
  show "vectors_inv d2" by (rule keepsD_eq [OF exact.pgvector.remove_inv assms(1,3)])
  show "vector_docs d1 = (if x = Inr () then (vector_docs d)((vd_tenant_id doc, vd_memory_id doc) \<mapsto> doc)
      else vector_docs d)"
  proof (cases x)
    case (Inl e)
    then show ?thesis using vector_upsert_cases [OF assms(2)] by auto
  next
    case (Inr u)
    then show ?thesis using exact.pgvector.upsert_ok [OF assms(1)] assms(2) by simp
  qed
  show "vector_docs d2 = (if y = Inr () then (vector_docs d)((t, m) := None) else vector_docs d)"
  proof (cases y)
    case (Inl e)
    then show ?thesis using vector_delete_cases [OF assms(3)] by auto
  next
    case (Inr u)
    then show ?thesis using exact.pgvector.remove_ok [OF assms(1)] assms(3) by simp
  qed
qed

definition vector_a :: vector_document where
  "vector_a = \<lparr>vd_memory_id = ''m1'', vd_tenant_id = ''acme'', vd_embedding = replicate 1536 0,
     vd_embedding_model_id = ''e'', vd_embedding_dimensions = 1536, vd_content = ''likes tea'',
     vd_sector = SEMANTIC, vd_lifecycle_state = ACTIVE, vd_metadata = []\<rparr>"

definition with_vector :: pg_db where
  "with_vector = (empty_pg (\<lambda>_. False))\<lparr>pg_vectors := [vector_to_row vector_a]\<rparr>"

lemma with_vector_inv: "vectors_inv with_vector"
  by (simp add: vectors_inv_def with_vector_def)
    (simp add: fits_columns_def column_dimensions_def vector_to_row_def vector_a_def)

lemma with_vector_search:
  "\<exists>d'. pg_vector_search (\<lambda>_ _. 0) (exact_scan (\<lambda>_ _. 0)) [] ''acme'' 5 no_filters with_vector =
     (Inr [pg_vector_hit (\<lambda>_ _. 0) [] (vector_to_row vector_a)], d')"
  by (simp add: pg_vector_search_def register_vector_def pg_execute_def bindM_def monad_simps with_vector_def
      empty_pg_def tick_def pg_select_vectors_def exact_scan_def where_admits admits_def)
    (simp add: vector_a_def)

lemma pg_vector_search_spec_witness:
  "\<exists>hits d'. pg_vector_search (\<lambda>_ _. 0) (exact_scan (\<lambda>_ _. 0)) [] ''acme'' 5 no_filters with_vector = (Inr hits, d') \<and>
     hits \<noteq> [] \<and> (\<forall>h \<in> set hits. \<exists>doc. vector_docs with_vector (''acme'', vr_memory_id h) = Some doc \<and>
        admits no_filters doc \<and> vr_content h = vd_content doc \<and> vr_metadata h = vd_metadata doc)"
proof -
  obtain d' where r: "pg_vector_search (\<lambda>_ _. 0) (exact_scan (\<lambda>_ _. 0)) [] ''acme'' 5 no_filters with_vector =
     (Inr [pg_vector_hit (\<lambda>_ _. 0) [] (vector_to_row vector_a)], d')" using with_vector_search by blast
  from pg_vector_search_spec [OF exact.ordered_scan_axioms with_vector_inv r] r show ?thesis by blast
qed

lemma pg_vector_store_spec_witness:
  "\<exists>d1 d2. pg_vector_upsert vector_a with_vector = (Inr (), d1) \<and>
     pg_vector_delete ''m1'' ''acme'' with_vector = (Inr (), d2) \<and>
     vector_docs d1 (''acme'', ''m1'') = Some vector_a \<and> vector_docs d2 (''acme'', ''m1'') = None"
proof -
  have fits: "fits_columns (vector_to_row vector_a)"
    using with_vector_inv by (simp add: vectors_inv_def with_vector_def)
  obtain d1 where u: "pg_vector_upsert vector_a with_vector = (Inr (), d1)"
    using fits by (simp add: pg_vector_upsert_def register_vector_def pg_execute_def bindM_def monad_simps
        with_vector_def empty_pg_def tick_def pg_put_vector_def)
  obtain d2 where v: "pg_vector_delete ''m1'' ''acme'' with_vector = (Inr (), d2)"
    by (simp add: pg_vector_delete_def pg_execute_def monad_simps with_vector_def empty_pg_def tick_def)
  have key: "vd_tenant_id vector_a = ''acme''" "vd_memory_id vector_a = ''m1''" by (simp_all add: vector_a_def)
  have "vector_docs d1 (''acme'', ''m1'') = Some vector_a" "vector_docs d2 (''acme'', ''m1'') = None"
    using pg_vector_store_spec [OF with_vector_inv u v] unfolding key by simp_all
  with u v show ?thesis by blast
qed

end
