(* ===== verification/Qdrant_Vector.thy ===== *)
theory Qdrant_Vector
  imports Fixtures Vector_Contract "HOL-Library.AList"
begin

text \<open>
  \<^verbatim>\<open>adapters/qdrant/vector_index.py\<close>, \<open>QdrantVectorIndex\<close>, over the asynchronous client, a record of
  operations, and over the UUID5 of a memory id.  The index keeps the names of the collections it
  has ensured, beside the client's state.  The client raises \<open>UnexpectedResponse\<close> for every answer
  that is not a success.
\<close>

subsection \<open>The client\<close>

text \<open>A point's payload, as far as the index writes and reads it; a key may be missing.\<close>

record qpayload =
  qy_tenant_id :: "string option"
  qy_sector :: "string option"
  qy_lifecycle_state :: "string option"
  qy_content :: "string option"
  qy_metadata :: "json_dict option"
  qy_memory_id :: "string option"

record qpoint =
  qp_id :: string
  qp_vector :: "rat list"
  qp_payload :: qpayload

record qhit =
  qh_id :: string
  qh_score :: rat
  qh_payload :: "qpayload option"

datatype qcondition = Lifecycle_Any "string list" | Sector_Any "string list"

record 's qdrant =
  qd_get_collections :: "('s, string list) action"
  qd_create_collection :: "string \<Rightarrow> int \<Rightarrow> ('s, unit) action"
  qd_upsert :: "string \<Rightarrow> qpoint \<Rightarrow> ('s, unit) action"
  qd_search :: "string \<Rightarrow> rat list \<Rightarrow> qcondition list \<Rightarrow> int \<Rightarrow> ('s, qhit list) action"
  qd_delete :: "string \<Rightarrow> string \<Rightarrow> ('s, unit) action"

type_synonym 's qdrant_state = "'s \<times> string list"

definition on_qdrant :: "('s, 'a) action \<Rightarrow> ('s qdrant_state, 'a) action" where
  "on_qdrant m s = (case m (fst s) of (x, c) \<Rightarrow> (x, (c, snd s)))"

subsection \<open>Operations\<close>

definition qdrant_collection :: "tenant_id \<Rightarrow> string" where
  "qdrant_collection t = ''memory_layer_'' @ t"

definition ensure_collection :: "'s qdrant \<Rightarrow> tenant_id \<Rightarrow> int \<Rightarrow> ('s qdrant_state, unit) action" where
  "ensure_collection client t dimensions = (let collection = qdrant_collection t in
     bindM (getM snd) (\<lambda>ensured.
     if collection \<in> set ensured then returnM ()
     else
       bindM (on_qdrant (qd_get_collections client)) (\<lambda>existing.
       bindM (if collection \<notin> set existing then on_qdrant (qd_create_collection client collection dimensions)
          else returnM ()) (\<lambda>_.
       modifyM (\<lambda>(c, names). (c, names @ [collection]))))))"

definition payload_of_doc :: "vector_document \<Rightarrow> qpayload" where
  "payload_of_doc doc = \<lparr>qy_tenant_id = Some (vd_tenant_id doc), qy_sector = Some (sector_str (vd_sector doc)),
     qy_lifecycle_state = Some (lifecycle_str (vd_lifecycle_state doc)), qy_content = Some (vd_content doc),
     qy_metadata = Some (vd_metadata doc), qy_memory_id = Some (vd_memory_id doc)\<rparr>"

definition qdrant_upsert ::
  "'s qdrant \<Rightarrow> (string \<Rightarrow> string) \<Rightarrow> vector_document \<Rightarrow> ('s qdrant_state, unit) action" where
  "qdrant_upsert client point_id doc =
     bindM (ensure_collection client (vd_tenant_id doc) (vd_embedding_dimensions doc)) (\<lambda>_.
     on_qdrant (qd_upsert client (qdrant_collection (vd_tenant_id doc))
       \<lparr>qp_id = point_id (vd_memory_id doc), qp_vector = vd_embedding doc, qp_payload = payload_of_doc doc\<rparr>))"

definition qdrant_conditions :: "vector_filters \<Rightarrow> qcondition list" where
  "qdrant_conditions f = Lifecycle_Any (map lifecycle_str (filter_states f)) #
     (case filter_sectors f of None \<Rightarrow> [] | Some ss \<Rightarrow> [Sector_Any (map sector_str ss)])"

definition payload_get :: "'a option \<Rightarrow> 'a \<Rightarrow> 'a" where
  \<comment> \<open>\<^verbatim>\<open>payload.get(key, default)\<close>\<close>
  "payload_get v d = (case v of None \<Rightarrow> d | Some x \<Rightarrow> x)"

lemma payload_get_simps [simp]: "payload_get None d = d" "payload_get (Some x) d = x"
  by (simp_all add: payload_get_def)

definition qdrant_hit :: "qhit \<Rightarrow> vector_search_result" where
  "qdrant_hit h = (case qh_payload h of
     None \<Rightarrow> \<lparr>vr_memory_id = [], vr_score = qh_score h, vr_content = [], vr_metadata = []\<rparr>
   | Some p \<Rightarrow> \<lparr>vr_memory_id = payload_get (qy_memory_id p) [], vr_score = qh_score h,
       vr_content = payload_get (qy_content p) [], vr_metadata = payload_get (qy_metadata p) []\<rparr>)"

definition except_unexpected :: "('s, 'a) action \<Rightarrow> 'a \<Rightarrow> ('s, 'a) action" where
  \<comment> \<open>\<^verbatim>\<open>except UnexpectedResponse\<close>\<close>
  "except_unexpected m x = tryM m (\<lambda>e. case e of UnexpectedResponse _ \<Rightarrow> returnM x | _ \<Rightarrow> raiseM e)"

definition qdrant_search ::
  "'s qdrant \<Rightarrow> rat list \<Rightarrow> tenant_id \<Rightarrow> int \<Rightarrow> vector_filters \<Rightarrow> ('s qdrant_state, vector_search_result list) action" where
  "qdrant_search client q t k f =
     bindM (except_unexpected (on_qdrant (qd_search client (qdrant_collection t) q (qdrant_conditions f) k)) [])
       (\<lambda>hits. returnM (map qdrant_hit hits))"

definition qdrant_delete ::
  "'s qdrant \<Rightarrow> (string \<Rightarrow> string) \<Rightarrow> memory_id \<Rightarrow> tenant_id \<Rightarrow> ('s qdrant_state, unit) action" where
  "qdrant_delete client point_id m t =
     except_unexpected (on_qdrant (qd_delete client (qdrant_collection t) (point_id m))) ()"

subsection \<open>Stored documents\<close>

fun satisfies_condition :: "qpayload \<Rightarrow> qcondition \<Rightarrow> bool" where
  "satisfies_condition p (Lifecycle_Any ss) = (case qy_lifecycle_state p of None \<Rightarrow> False | Some s \<Rightarrow> s \<in> set ss)"
| "satisfies_condition p (Sector_Any ss) = (case qy_sector p of None \<Rightarrow> False | Some s \<Rightarrow> s \<in> set ss)"

definition qdrant_norm :: "vector_document \<Rightarrow> vector_document" where
  \<comment> \<open>what the payload keeps of a document\<close>
  "qdrant_norm doc = doc\<lparr>vd_embedding := [], vd_embedding_model_id := [], vd_embedding_dimensions := 0\<rparr>"

definition payload_doc :: "qpayload \<Rightarrow> vector_document option" where
  "payload_doc p = (case (qy_tenant_id p, qy_memory_id p, qy_content p, qy_metadata p) of
     (Some t, Some m, Some c, Some j) \<Rightarrow>
       (case (sector_of (opt_str (qy_sector p)), lifecycle_of (opt_str (qy_lifecycle_state p))) of
          (Inr sector, Inr state) \<Rightarrow> Some \<lparr>vd_memory_id = m, vd_tenant_id = t, vd_embedding = [],
            vd_embedding_model_id = [], vd_embedding_dimensions = 0, vd_content = c, vd_sector = sector,
            vd_lifecycle_state = state, vd_metadata = j\<rparr>
        | _ \<Rightarrow> None)
   | _ \<Rightarrow> None)"

lemma payload_doc_of_doc [simp]: "payload_doc (payload_of_doc doc) = Some (qdrant_norm doc)"
  by (cases doc) (simp add: payload_doc_def payload_of_doc_def qdrant_norm_def)

lemma norm_simps [simp]:
  "vd_content (qdrant_norm doc) = vd_content doc" "vd_memory_id (qdrant_norm doc) = vd_memory_id doc" "vd_metadata (qdrant_norm doc) = vd_metadata doc"
  "admits f (qdrant_norm doc) = admits f doc"
  by (simp_all add: qdrant_norm_def admits_def split: option.split)

lemma conditions_admit:
  "(\<forall>c \<in> set (qdrant_conditions f). satisfies_condition (payload_of_doc doc) c) \<longleftrightarrow> admits f doc"
  by (auto simp: qdrant_conditions_def payload_of_doc_def admits_def image_iff
      dest!: sector.value_inj lifecycle.value_inj split: option.splits)

lemma collection_inj [simp]: "qdrant_collection t = qdrant_collection t' \<longleftrightarrow> t = t'"
  by (simp add: qdrant_collection_def)

text \<open>
  What the index relies on: of the points of a server, by collection and id, only the payload matters
  here.  Creating a collection adds no point; an upsert replaces one point, a delete removes one, a
  search finds points that satisfy the conditions.  A call that is refused or fails may have taken
  effect or not.  Nothing is assumed of the point ids: memory ids whose UUIDs agree share a point.
\<close>

locale qdrant_server =
  fixes client :: "'s qdrant"
    and point_id :: "string \<Rightarrow> string"
    and points :: "'s \<Rightarrow> string \<times> string \<Rightarrow> qpayload option"
  assumes list_points: "points (snd (qd_get_collections client s)) = points s"
    and create_points: "points (snd (qd_create_collection client n dims s)) = points s"
    and put_ok: "qd_upsert client n p s = (Inr (), s') \<Longrightarrow> points s' = (points s)((n, qp_id p) \<mapsto> qp_payload p)"
    and put_error: "qd_upsert client n p s = (Inl e, s') \<Longrightarrow>
      points s' = points s \<or> points s' = (points s)((n, qp_id p) \<mapsto> qp_payload p)"
    and drop_ok: "qd_delete client n i s = (Inr (), s') \<Longrightarrow> points s' = (points s)((n, i) := None)"
    and drop_error: "qd_delete client n i s = (Inl e, s') \<Longrightarrow>
      points s' = points s \<or> points s' = (points s)((n, i) := None)"
    and find_points: "points (snd (qd_search client n q cs k s)) = points s"
    and find_ok: "qd_search client n q cs k s = (Inr hits, s') \<Longrightarrow> h \<in> set hits \<Longrightarrow>
      \<exists>p. qh_payload h = Some p \<and> points s (n, qh_id h) = Some p \<and> (\<forall>c \<in> set cs. satisfies_condition p c)"
    and find_distinct: "qd_search client n q cs k s = (Inr hits, s') \<Longrightarrow> distinct (map qh_id hits)"
    and find_limit: "qd_search client n q cs k s = (Inr hits, s') \<Longrightarrow> 0 \<le> k \<Longrightarrow> int (length hits) \<le> k"

text \<open>The stored documents, by tenant and point.\<close>

definition qdrant_docs :: "('s \<Rightarrow> string \<times> string \<Rightarrow> qpayload option) \<Rightarrow> 's qdrant_state \<Rightarrow>
    tenant_id \<times> string \<Rightarrow> vector_document option" where
  "qdrant_docs points s key =
     (case points (fst s) (qdrant_collection (fst key), snd key) of None \<Rightarrow> None | Some p \<Rightarrow> payload_doc p)"

definition qdrant_inv :: "('s \<Rightarrow> string \<times> string \<Rightarrow> qpayload option) \<Rightarrow> (string \<Rightarrow> string) \<Rightarrow> 's qdrant_state \<Rightarrow> bool" where
  \<comment> \<open>the points of the tenants' collections are those the index wrote\<close>
  "qdrant_inv points point_id s \<longleftrightarrow> (\<forall>t i p. points (fst s) (qdrant_collection t, i) = Some p \<longrightarrow>
     (\<exists>doc. p = payload_of_doc doc \<and> vd_tenant_id doc = t \<and> point_id (vd_memory_id doc) = i))"

lemma on_qdrant_eq: "on_qdrant m s = (x, s') \<longleftrightarrow> m (fst s) = (x, fst s') \<and> snd s' = snd s"
  by (auto simp: on_qdrant_def split: prod.splits) (metis prod.collapse)+

lemma except_unexpected_cases:
  assumes "except_unexpected m y s = (x, s')"
  shows "m s = (x, s') \<or> (\<exists>msg. m s = (Inl (UnexpectedResponse msg), s') \<and> x = Inr y)"
  using assms by (auto simp: except_unexpected_def tryM_def monad_simps split: prod.splits sum.splits exn.splits)

context qdrant_server
begin

abbreviation docs :: "'s qdrant_state \<Rightarrow> tenant_id \<times> string \<Rightarrow> vector_document option" where
  "docs \<equiv> qdrant_docs points"

abbreviation inv :: "'s qdrant_state \<Rightarrow> bool" where
  "inv \<equiv> qdrant_inv points point_id"

lemma list_keeps: "qd_get_collections client c = (x, c') \<Longrightarrow> points c' = points c"
  by (metis list_points snd_conv)

lemma create_keeps: "qd_create_collection client n dims c = (x, c') \<Longrightarrow> points c' = points c"
  by (metis create_points snd_conv)

lemma ensure_points:
  assumes "ensure_collection client t dims s = (x, s')"
  shows "points (fst s') = points (fst s)"
proof -
  have "keeps (\<lambda>u. points (fst u) = points (fst s)) (ensure_collection client t dims)"
    unfolding ensure_collection_def Let_def
    by (intro keeps_bindM keeps_pure keeps_if keeps_modifyM keepsI)
      (auto simp: on_qdrant_def split: prod.splits dest: list_keeps create_keeps)
  then show ?thesis using assms by (auto dest: keepsD_eq)
qed

lemma points_docs: "points (fst s') = points (fst s) \<Longrightarrow> docs s' = docs s"
  by (simp add: qdrant_docs_def fun_eq_iff)

lemma points_inv: "points (fst s') = points (fst s) \<Longrightarrow> inv s' = inv s"
  by (simp add: qdrant_inv_def)

lemma put_docs:
  assumes "points (fst s') = (points (fst s))((qdrant_collection (vd_tenant_id doc), point_id (vd_memory_id doc)) \<mapsto> payload_of_doc doc)"
  shows "docs s' = (docs s)((vd_tenant_id doc, point_id (vd_memory_id doc)) \<mapsto> qdrant_norm doc)" "inv s \<Longrightarrow> inv s'"
  using assms by (auto simp: qdrant_docs_def qdrant_inv_def fun_eq_iff)

lemma drop_docs:
  assumes "points (fst s') = (points (fst s))((qdrant_collection t, point_id m) := None)"
  shows "docs s' = (docs s)((t, point_id m) := None)" "inv s \<Longrightarrow> inv s'"
  using assms by (auto simp: qdrant_docs_def qdrant_inv_def fun_eq_iff)

lemma find_keeps: "qd_search client n q cs k c = (x, c') \<Longrightarrow> points c' = points c"
  by (metis find_points snd_conv)

lemma search_raw:
  assumes "qdrant_search client q t k f s = (Inr hits, s')"
  shows "hits = [] \<or> (\<exists>hs. qd_search client (qdrant_collection t) q (qdrant_conditions f) k (fst s) = (Inr hs, fst s') \<and>
    hits = map qdrant_hit hs)"
proof -
  from assms obtain hs where r: "except_unexpected (on_qdrant
      (qd_search client (qdrant_collection t) q (qdrant_conditions f) k)) [] s = (Inr hs, s')"
    and h: "hits = map qdrant_hit hs"
    by (auto simp: qdrant_search_def result_iff monad_simps)
  from except_unexpected_cases [OF r] h show ?thesis by (auto simp: on_qdrant_eq)
qed

text \<open>A raw hit of the tenant's collection is a point the index wrote for a document.\<close>

lemma raw_hit:
  assumes "inv s" "qd_search client (qdrant_collection t) q (qdrant_conditions f) k (fst s) = (Inr hs, c)" "h \<in> set hs"
  shows "\<exists>doc. qh_payload h = Some (payload_of_doc doc) \<and> qh_id h = point_id (vd_memory_id doc) \<and>
    vd_tenant_id doc = t \<and> admits f doc \<and> docs s (t, point_id (vd_memory_id doc)) = Some (qdrant_norm doc)"
proof -
  from find_ok [OF assms(2,3)] obtain p where p: "qh_payload h = Some p"
    "points (fst s) (qdrant_collection t, qh_id h) = Some p"
    "\<forall>c \<in> set (qdrant_conditions f). satisfies_condition p c" by blast
  from assms(1) p(2) obtain doc where doc: "p = payload_of_doc doc" "vd_tenant_id doc = t"
    "point_id (vd_memory_id doc) = qh_id h" unfolding qdrant_inv_def by blast
  with p conditions_admit [of f doc] show ?thesis by (intro exI [of _ doc]) (simp add: qdrant_docs_def)
qed

lemma hit_of_doc:
  "qh_payload h = Some (payload_of_doc doc) \<Longrightarrow>
   vr_memory_id (qdrant_hit h) = vd_memory_id doc \<and> vr_content (qdrant_hit h) = vd_content doc \<and>
   vr_metadata (qdrant_hit h) = vd_metadata doc"
  by (simp add: qdrant_hit_def payload_of_doc_def)

lemma search_hit:
  assumes "inv s" "qdrant_search client q t k f s = (Inr hits, s')" "h \<in> set hits"
  shows "\<exists>doc. docs s (t, point_id (vr_memory_id h)) = Some doc \<and> vd_memory_id doc = vr_memory_id h \<and> admits f doc \<and>
    vr_content h = vd_content doc \<and> vr_metadata h = vd_metadata doc"
proof -
  from search_raw [OF assms(2)] assms(3) obtain hs r where
    raw: "qd_search client (qdrant_collection t) q (qdrant_conditions f) k (fst s) = (Inr hs, fst s')"
    and r: "r \<in> set hs" "h = qdrant_hit r" by auto
  from raw_hit [OF assms(1) raw r(1)] obtain doc where doc: "qh_payload r = Some (payload_of_doc doc)"
    "admits f doc" "docs s (t, point_id (vd_memory_id doc)) = Some (qdrant_norm doc)" by blast
  with hit_of_doc [OF doc(1)] r(2) show ?thesis by (intro exI [of _ "qdrant_norm doc"]) simp
qed

lemma search_ids:
  assumes "inv s" "qdrant_search client q t k f s = (Inr hits, s')"
  shows "distinct (map vr_memory_id hits)"
  using search_raw [OF assms(2)]
proof (elim disjE exE conjE)
  fix hs
  assume raw: "qd_search client (qdrant_collection t) q (qdrant_conditions f) k (fst s) = (Inr hs, fst s')"
    and hits: "hits = map qdrant_hit hs"
  have id: "qh_id h = point_id (vr_memory_id (qdrant_hit h))" if "h \<in> set hs" for h
    using raw_hit [OF assms(1) raw that] hit_of_doc by metis
  have "map qh_id hs = map (point_id \<circ> vr_memory_id) hits" using id by (simp add: hits)
  with find_distinct [OF raw] have "distinct (map point_id (map vr_memory_id hits))" by simp
  then show ?thesis by (auto simp: distinct_map inj_on_def)
qed simp

lemma upsert_points:
  assumes "qdrant_upsert client point_id doc s = (x, s')"
  shows "(\<exists>e. x = Inl e) \<and> points (fst s') = points (fst s) \<or>
    points (fst s') = (points (fst s))((qdrant_collection (vd_tenant_id doc), point_id (vd_memory_id doc)) \<mapsto> payload_of_doc doc)"
proof -
  obtain r s1 where r: "ensure_collection client (vd_tenant_id doc) (vd_embedding_dimensions doc) s = (r, s1)"
    using prod.exhaust by blast
  note same = ensure_points [OF r]
  show ?thesis
  proof (cases r)
    case (Inl e)
    with assms r same show ?thesis by (auto simp: qdrant_upsert_def bindM_def)
  next
    case (Inr u)
    with assms r have "qd_upsert client (qdrant_collection (vd_tenant_id doc))
       \<lparr>qp_id = point_id (vd_memory_id doc), qp_vector = vd_embedding doc, qp_payload = payload_of_doc doc\<rparr>
       (fst s1) = (x, fst s')"
      by (simp add: qdrant_upsert_def bindM_def on_qdrant_eq)
    then show ?thesis using same put_ok put_error by (cases x) fastforce+
  qed
qed

lemma delete_points:
  assumes "qdrant_delete client point_id m t s = (x, s')"
  shows "fst (qd_delete client (qdrant_collection t) (point_id m) (fst s)) \<noteq> Inr () \<and> points (fst s') = points (fst s) \<or>
    points (fst s') = (points (fst s))((qdrant_collection t, point_id m) := None)"
  using except_unexpected_cases [OF assms [unfolded qdrant_delete_def]]
proof
  assume "on_qdrant (qd_delete client (qdrant_collection t) (point_id m)) s = (x, s')"
  then show ?thesis using drop_ok drop_error by (cases x) (fastforce simp: on_qdrant_eq)+
next
  assume "\<exists>msg. on_qdrant (qd_delete client (qdrant_collection t) (point_id m)) s =
    (Inl (UnexpectedResponse msg), s') \<and> x = Inr ()"
  then obtain msg where "qd_delete client (qdrant_collection t) (point_id m) (fst s) = (Inl (UnexpectedResponse msg), fst s')"
    by (auto simp: on_qdrant_eq)
  from drop_error [OF this] this show ?thesis by auto
qed

lemma search_points:
  assumes "qdrant_search client q t k f s = (x, s')"
  shows "points (fst s') = points (fst s)"
proof -
  have "keeps (\<lambda>u. points (fst u) = points (fst s)) (qdrant_search client q t k f)"
    unfolding qdrant_search_def except_unexpected_def
    by (intro keeps_bindM keeps_tryM keeps_pure keepsI)
      (auto simp: on_qdrant_def monad_simps split: prod.splits exn.splits dest: find_keeps)
  then show ?thesis using assms by (auto dest: keepsD_eq)
qed

lemma upsert_keeps: "keeps inv (qdrant_upsert client point_id doc)"
proof (rule keepsI)
  fix s
  assume i: "inv s"
  obtain x s' where r: "qdrant_upsert client point_id doc s = (x, s')" using prod.exhaust by blast
  from upsert_points [OF r] i have "inv s'" using put_docs(2) points_inv by blast
  with r show "inv (snd (qdrant_upsert client point_id doc s))" by simp
qed

lemma delete_keeps: "keeps inv (qdrant_delete client point_id m t)"
proof (rule keepsI)
  fix s
  assume i: "inv s"
  obtain x s' where r: "qdrant_delete client point_id m t s = (x, s')" using prod.exhaust by blast
  from delete_points [OF r] i have "inv s'" using drop_docs(2) points_inv by blast
  with r show "inv (snd (qdrant_delete client point_id m t s))" by simp
qed

end

sublocale qdrant_server \<subseteq> served: vector_index "qdrant_upsert client point_id" "qdrant_search client"
  "qdrant_delete client point_id" "qdrant_inv points point_id" "qdrant_docs points" qdrant_norm point_id
proof (unfold_locales, goal_cases)
  case (4 doc)
  show ?case by (rule upsert_keeps)
next
  case (5 s doc s')
  from upsert_points [OF this(2)] show ?case using put_docs(1) by blast
next
  case (6 s doc e s')
  from upsert_points [OF this(2)] show ?case using put_docs(1) points_docs by blast
next
  case (7 m t)
  show ?case by (rule delete_keeps)
next
  case (8 s m t x s')
  from delete_points [OF this(2)] show ?case using drop_docs(1) points_docs by blast
next
  case (9 q t k f)
  show ?case by (rule keepsI) (metis search_points points_inv prod.collapse)
next
  case (10 q t k f s)
  show ?case by (metis search_points points_docs prod.collapse)
next
  case (11 s q t k f hits s' h)
  from search_hit [OF 11] show ?case .
next
  case (12 s q t k f hits s')
  from search_ids [OF 12] show ?case .
next
  case (13 q t k f s hits s')
  from search_raw [OF 13(1)] find_limit 13(2) show ?case by fastforce
qed simp_all

context qdrant_server
begin

lemma upsert_outcome:
  assumes "inv s" "qdrant_upsert client point_id doc s = (x, s1)"
  shows "inv s1 \<and> (docs s1 = (docs s)((vd_tenant_id doc, point_id (vd_memory_id doc)) \<mapsto> qdrant_norm doc) \<or>
      x \<noteq> Inr () \<and> docs s1 = docs s) \<and>
    (qdrant_collection (vd_tenant_id doc) \<in> set (snd s) \<longrightarrow>
      x = fst (qd_upsert client (qdrant_collection (vd_tenant_id doc))
        \<lparr>qp_id = point_id (vd_memory_id doc), qp_vector = vd_embedding doc, qp_payload = payload_of_doc doc\<rparr> (fst s)))"
proof -
  have "x = fst (qd_upsert client (qdrant_collection (vd_tenant_id doc))
      \<lparr>qp_id = point_id (vd_memory_id doc), qp_vector = vd_embedding doc, qp_payload = payload_of_doc doc\<rparr> (fst s))"
    if "qdrant_collection (vd_tenant_id doc) \<in> set (snd s)"
  proof -
    have "ensure_collection client (vd_tenant_id doc) (vd_embedding_dimensions doc) s = (Inr (), s)"
      using that by (simp add: ensure_collection_def Let_def bindM_def monad_simps)
    with assms(2) show ?thesis by (auto simp: qdrant_upsert_def bindM_def on_qdrant_eq)
  qed
  then show ?thesis
    using keepsD_eq [OF upsert_keeps assms] upsert_points [OF assms(2)] put_docs(1) points_docs by blast
qed

lemma delete_outcome:
  assumes "inv s" "qdrant_delete client point_id m t s = (x, s1)"
  shows "inv s1 \<and> (docs s1 = (docs s)((t, point_id m) := None) \<or>
      fst (qd_delete client (qdrant_collection t) (point_id m) (fst s)) \<noteq> Inr () \<and> docs s1 = docs s) \<and>
    (fst (qd_delete client (qdrant_collection t) (point_id m) (fst s)) = Inr () \<longrightarrow> x = Inr ())"
proof -
  have "x = Inr ()" if "fst (qd_delete client (qdrant_collection t) (point_id m) (fst s)) = Inr ()"
  proof -
    from that obtain c where "qd_delete client (qdrant_collection t) (point_id m) (fst s) = (Inr (), c)"
      by (metis prod.collapse)
    with assms(2) show ?thesis by (simp add: qdrant_delete_def except_unexpected_def tryM_def on_qdrant_def)
  qed
  then show ?thesis
    using keepsD_eq [OF delete_keeps assms] delete_points [OF assms(2)] drop_docs(1) points_docs by blast
qed

lemma search_refused:
  assumes "qd_search client (qdrant_collection t) q (qdrant_conditions f) k (fst s) = (Inl e, c)"
  shows "fst (qdrant_search client q t k f s) = (if \<exists>msg. e = UnexpectedResponse msg then Inr [] else Inl e)"
  using assms
  by (cases e) (simp_all add: qdrant_search_def except_unexpected_def tryM_def bindM_def on_qdrant_def monad_simps)

lemma hits_of_raw:
  assumes "inv s" "qd_search client (qdrant_collection t) q (qdrant_conditions f) k (fst s) = (Inr hs, c)"
  shows "qdrant_search client q t k f s = (Inr (map qdrant_hit hs), (c, snd s)) \<and>
    map (point_id \<circ> vr_memory_id) (map qdrant_hit hs) = map qh_id hs \<and> map vr_score (map qdrant_hit hs) = map qh_score hs"
proof -
  have "point_id (vr_memory_id (qdrant_hit h)) = qh_id h" if "h \<in> set hs" for h
    using raw_hit [OF assms that] hit_of_doc by metis
  moreover have "vr_score (qdrant_hit h) = qh_score h" for h by (simp add: qdrant_hit_def split: option.split)
  ultimately show ?thesis
    by (simp add: qdrant_search_def except_unexpected_def tryM_def bindM_def on_qdrant_def monad_simps assms(2))
qed

lemma search_outcome:
  assumes "inv s" "qdrant_search client q t k f s = (x, s1)"
  shows "inv s1 \<and> docs s1 = docs s \<and>
    (\<forall>hits. x = Inr hits \<longrightarrow> distinct (map vr_memory_id hits) \<and> (0 \<le> k \<longrightarrow> int (length hits) \<le> k) \<and>
      (\<forall>h \<in> set hits. \<exists>y. docs s (t, point_id (vr_memory_id h)) = Some y \<and>
         vd_memory_id y = vr_memory_id h \<and> vr_content h = vd_content y \<and> vr_metadata h = vd_metadata y \<and>
         (case vf_lifecycle_states f of Some (u # us) \<Rightarrow> vd_lifecycle_state y \<in> set (u # us)
          | _ \<Rightarrow> vd_lifecycle_state y \<in> {ACTIVE, CONSOLIDATED}) \<and>
         (case vf_sectors f of Some (u # us) \<Rightarrow> vd_sector y \<in> set (u # us) | _ \<Rightarrow> True))) \<and>
    (\<forall>hs c. qd_search client (qdrant_collection t) q (qdrant_conditions f) k (fst s) = (Inr hs, c) \<longrightarrow>
      (\<exists>hits. x = Inr hits \<and> map (point_id \<circ> vr_memory_id) hits = map qh_id hs \<and> map vr_score hits = map qh_score hs)) \<and>
    (\<forall>e c. qd_search client (qdrant_collection t) q (qdrant_conditions f) k (fst s) = (Inl e, c) \<longrightarrow>
      x = (if \<exists>msg. e = UnexpectedResponse msg then Inr [] else Inl e))"
proof (intro conjI allI impI ballI)
  note same = search_points [OF assms(2)]
  show "inv s1" "docs s1 = docs s" using assms(1) points_inv [OF same] points_docs [OF same] by simp_all
next
  fix hits
  assume x: "x = Inr hits"
  note run = assms(2) [unfolded x]
  show "distinct (map vr_memory_id hits)" by (rule search_ids [OF assms(1) run])
  show "int (length hits) \<le> k" if "0 \<le> k" by (rule served.search_limit [OF run that])
  fix h
  assume "h \<in> set hits"
  from search_hit [OF assms(1) run this] obtain y where "docs s (t, point_id (vr_memory_id h)) = Some y"
    "vd_memory_id y = vr_memory_id h" "vr_content h = vd_content y" "vr_metadata h = vd_metadata y" "admits f y" by blast
  then show "\<exists>y. docs s (t, point_id (vr_memory_id h)) = Some y \<and>
      vd_memory_id y = vr_memory_id h \<and> vr_content h = vd_content y \<and> vr_metadata h = vd_metadata y \<and>
      (case vf_lifecycle_states f of Some (u # us) \<Rightarrow> vd_lifecycle_state y \<in> set (u # us)
       | _ \<Rightarrow> vd_lifecycle_state y \<in> {ACTIVE, CONSOLIDATED}) \<and>
      (case vf_sectors f of Some (u # us) \<Rightarrow> vd_sector y \<in> set (u # us) | _ \<Rightarrow> True)"
    unfolding admits_iff by (intro exI [of _ y] conjI; elim conjE)
next
  fix hs c
  assume "qd_search client (qdrant_collection t) q (qdrant_conditions f) k (fst s) = (Inr hs, c)"
  from hits_of_raw [OF assms(1) this] assms(2)
  show "\<exists>hits. x = Inr hits \<and> map (point_id \<circ> vr_memory_id) hits = map qh_id hs \<and> map vr_score hits = map qh_score hs"
    by (intro exI [of _ "map qdrant_hit hs"]) simp
next
  fix e c
  assume "qd_search client (qdrant_collection t) q (qdrant_conditions f) k (fst s) = (Inl e, c)"
  from search_refused [OF this] assms(2) show "x = (if \<exists>msg. e = UnexpectedResponse msg then Inr [] else Inl e)" by simp
qed

end

subsection \<open>A server in memory\<close>

definition memory_qdrant :: "((string \<times> string) \<times> qpayload) list qdrant" where
  "memory_qdrant = \<lparr>
     qd_get_collections = getM (map (\<lambda>((n, i), p). n)),
     qd_create_collection = (\<lambda>_ _. returnM ()),
     qd_upsert = (\<lambda>n p. modifyM (AList.update (n, qp_id p) (qp_payload p))),
     qd_search = (\<lambda>n q cs k. getM (\<lambda>s. take (nat k) (map (\<lambda>((c, i), p). \<lparr>qh_id = i, qh_score = 1, qh_payload = Some p\<rparr>)
        (filter (\<lambda>((c, i), p). c = n \<and> (\<forall>x \<in> set cs. satisfies_condition p x)) (AList.clearjunk s))))),
     qd_delete = (\<lambda>n i. modifyM (AList.delete (n, i)))\<rparr>"

lemma distinct_ids: "distinct (map fst s) \<Longrightarrow>
   distinct (map (\<lambda>((c, i), p). i) (filter (\<lambda>((c, i), p). c = n \<and> P p) s))"
  by (induction s) force+

interpretation memory_server: qdrant_server memory_qdrant point_id map_of for point_id
proof (unfold_locales, goal_cases)
  case (8 n q cs k s hits s' h)
  then have "\<exists>i p. ((n, i), p) \<in> set (AList.clearjunk s) \<and> h = \<lparr>qh_id = i, qh_score = 1, qh_payload = Some p\<rparr> \<and>
      (\<forall>x \<in> set cs. satisfies_condition p x)"
    by (force simp: memory_qdrant_def monad_simps dest!: in_set_takeD)
  then show ?case
    by (metis (no_types, lifting) distinct_clearjunk map_of_clearjunk map_of_eq_Some_iff qhit.select_convs(1,3))
next
  case (9 n q cs k s hits s')
  have "qh_id \<circ> (\<lambda>((c, i), p). \<lparr>qh_id = i, qh_score = 1, qh_payload = Some p\<rparr>) = (\<lambda>((c :: string, i), p). i)"
    by (auto simp: fun_eq_iff)
  with 9 show ?case using distinct_ids [where n = n and P = "\<lambda>p. \<forall>x \<in> set cs. satisfies_condition p x", OF distinct_clearjunk [of s]]
    by (auto simp: memory_qdrant_def monad_simps take_map [symmetric] intro!: distinct_take)
qed (auto simp: memory_qdrant_def monad_simps update_conv delete_conv fun_eq_iff)

lemma memory_qdrant_calls:
  "qd_get_collections memory_qdrant c = (Inr (map (\<lambda>((n, i), p). n) c), c)"
  "qd_create_collection memory_qdrant n dims c = (Inr (), c)"
  "qd_upsert memory_qdrant n p c = (Inr (), AList.update (n, qp_id p) (qp_payload p) c)"
  by (simp_all add: memory_qdrant_def monad_simps)

subsection \<open>Properties\<close>

text \<open>C31. Over a server whose collections hold the points they were given, and whatever the point ids
  are, the Qdrant index keeps the documents by tenant and point.  An upsert stores the document under
  its own key and touches no other; only one that raises may have stored nothing, and where the collection
  is known it raises exactly what the client raises for the point with the vector and the payload of
  the document.  A deletion removes the document of its key and no other, and returns having done so
  when the server accepts it.  A search changes nothing and returns stored documents of the searched
  tenant only, in the lifecycle states and sectors of the filters (ACTIVE and CONSOLIDATED when no
  states are given), each once and at most \<open>k\<close>, with the content and the metadata stored for its id;
  it returns every point the server answers, in the order and with the scores of the answer, nothing
  when the server answers with an error status, and raises every other exception of the client.\<close>

theorem qdrant_index_spec:
  assumes "qdrant_server client points" "qdrant_inv points point_id s"
  shows "(case qdrant_upsert client point_id doc s of (x, s1) \<Rightarrow> qdrant_inv points point_id s1 \<and>
      (qdrant_docs points s1 =
         (qdrant_docs points s)((vd_tenant_id doc, point_id (vd_memory_id doc)) \<mapsto> qdrant_norm doc) \<or>
       x \<noteq> Inr () \<and> qdrant_docs points s1 = qdrant_docs points s) \<and>
      (qdrant_collection (vd_tenant_id doc) \<in> set (snd s) \<longrightarrow>
        x = fst (qd_upsert client (qdrant_collection (vd_tenant_id doc))
          \<lparr>qp_id = point_id (vd_memory_id doc), qp_vector = vd_embedding doc, qp_payload = payload_of_doc doc\<rparr> (fst s)))) \<and>
    (case qdrant_delete client point_id m t s of (x, s1) \<Rightarrow> qdrant_inv points point_id s1 \<and>
      (qdrant_docs points s1 = (qdrant_docs points s)((t, point_id m) := None) \<or>
       fst (qd_delete client (qdrant_collection t) (point_id m) (fst s)) \<noteq> Inr () \<and>
       qdrant_docs points s1 = qdrant_docs points s) \<and>
      (fst (qd_delete client (qdrant_collection t) (point_id m) (fst s)) = Inr () \<longrightarrow> x = Inr ())) \<and>
    (case qdrant_search client q t k f s of (x, s1) \<Rightarrow> qdrant_inv points point_id s1 \<and>
      qdrant_docs points s1 = qdrant_docs points s \<and>
      (\<forall>hits. x = Inr hits \<longrightarrow> distinct (map vr_memory_id hits) \<and> (0 \<le> k \<longrightarrow> int (length hits) \<le> k) \<and>
        (\<forall>h \<in> set hits. \<exists>y. qdrant_docs points s (t, point_id (vr_memory_id h)) = Some y \<and>
           vd_memory_id y = vr_memory_id h \<and> vr_content h = vd_content y \<and> vr_metadata h = vd_metadata y \<and>
           (case vf_lifecycle_states f of Some (u # us) \<Rightarrow> vd_lifecycle_state y \<in> set (u # us)
            | _ \<Rightarrow> vd_lifecycle_state y \<in> {ACTIVE, CONSOLIDATED}) \<and>
           (case vf_sectors f of Some (u # us) \<Rightarrow> vd_sector y \<in> set (u # us) | _ \<Rightarrow> True))) \<and>
      (\<forall>hs c. qd_search client (qdrant_collection t) q (qdrant_conditions f) k (fst s) = (Inr hs, c) \<longrightarrow>
        (\<exists>hits. x = Inr hits \<and> map (point_id \<circ> vr_memory_id) hits = map qh_id hs \<and>
           map vr_score hits = map qh_score hs)) \<and>
      (\<forall>e c. qd_search client (qdrant_collection t) q (qdrant_conditions f) k (fst s) = (Inl e, c) \<longrightarrow>
        x = (if \<exists>msg. e = UnexpectedResponse msg then Inr [] else Inl e)))"
proof -
  obtain x s1 where u: "qdrant_upsert client point_id doc s = (x, s1)" using prod.exhaust by blast
  obtain y s2 where d: "qdrant_delete client point_id m t s = (y, s2)" using prod.exhaust by blast
  obtain z s3 where f: "qdrant_search client q t k f s = (z, s3)" using prod.exhaust by blast
  note stored = qdrant_server.upsert_outcome [OF assms u]
    and removed = qdrant_server.delete_outcome [OF assms d] and found = qdrant_server.search_outcome [OF assms f]
  show ?thesis unfolding u d f prod.case by (rule conjI [OF stored conjI [OF removed found]])
qed

definition qdrant_doc :: vector_document where
  "qdrant_doc = \<lparr>vd_memory_id = ''m1'', vd_tenant_id = ''acme'', vd_embedding = [1],
     vd_embedding_model_id = ''e'', vd_embedding_dimensions = 1, vd_content = ''likes tea'',
     vd_sector = SEMANTIC, vd_lifecycle_state = ACTIVE, vd_metadata = []\<rparr>"

definition with_point :: "((string \<times> string) \<times> qpayload) list qdrant_state" where
  "with_point = ([((''memory_layer_acme'', ''m1''), payload_of_doc qdrant_doc)], [''memory_layer_acme''])"

lemma upsert_with_point: "qdrant_upsert memory_qdrant (take 16) qdrant_doc ([], []) = (Inr (), with_point)"
  by (simp add: qdrant_upsert_def ensure_collection_def Let_def qdrant_collection_def bindM_def monad_simps
      on_qdrant_def memory_qdrant_calls with_point_def) (simp add: qdrant_doc_def)

lemma admitted_point: "\<forall>c \<in> set (qdrant_conditions no_filters). satisfies_condition (payload_of_doc qdrant_doc) c"
  by (simp add: conditions_admit) (simp add: admits_def qdrant_doc_def)

lemma search_with_point: "qd_search memory_qdrant (qdrant_collection ''acme'') [1] (qdrant_conditions no_filters) 3 (fst with_point) =
    (Inr [\<lparr>qh_id = ''m1'', qh_score = 1, qh_payload = Some (payload_of_doc qdrant_doc)\<rparr>], fst with_point)"
  using admitted_point by (simp add: memory_qdrant_def monad_simps qdrant_collection_def with_point_def)

lemma inv_with_point: "qdrant_inv map_of (take 16) with_point"
  by (auto simp: qdrant_inv_def with_point_def qdrant_collection_def qdrant_doc_def
      intro!: exI [of _ qdrant_doc] split: if_splits)

lemma qdrant_index_spec_witness:
  "qdrant_docs map_of with_point (''acme'', ''m1'') = Some (qdrant_norm qdrant_doc) \<and>
   (\<exists>hits s. qdrant_search memory_qdrant [1] ''acme'' 3 no_filters with_point = (Inr hits, s) \<and>
     map (take 16 \<circ> vr_memory_id) hits = [''m1''])"
proof -
  have inv: "qdrant_inv map_of (take 16) ([], [])" by (simp add: qdrant_inv_def)
  have "vd_tenant_id qdrant_doc = ''acme''" "take 16 (vd_memory_id qdrant_doc) = ''m1''" by (simp_all add: qdrant_doc_def)
  with qdrant_index_spec [OF memory_server.qdrant_server_axioms inv, of qdrant_doc]
  have "qdrant_docs map_of with_point (''acme'', ''m1'') = Some (qdrant_norm qdrant_doc)"
    by (simp add: upsert_with_point)
  moreover obtain x s where run: "qdrant_search memory_qdrant [1] ''acme'' 3 no_filters with_point = (x, s)" using prod.exhaust by blast
  ultimately show ?thesis
    using qdrant_index_spec [OF memory_server.qdrant_server_axioms inv_with_point,
        where q = "[1]" and t = "''acme''" and k = 3 and f = no_filters] search_with_point by (simp add: run) blast
qed

text \<open>C32. A deletion the server does not carry out: when it answers with an error status, whatever the
  reason, the deletion is acknowledged all the same, and a search that reaches the point afterwards
  still returns the memory with its content.  Every other exception of the client reaches the caller.\<close>

theorem qdrant_refused_delete:
  assumes "qdrant_server client points" "qdrant_inv points point_id s"
    and "qdrant_docs points s (t, point_id m) = Some doc"
    and "qd_delete client (qdrant_collection t) (point_id m) (fst s) = (Inl e, c)" "points c = points (fst s)"
    and "qd_search client (qdrant_collection t) q (qdrant_conditions f) k c = (Inr hs, c2)" "point_id m \<in> qh_id ` set hs"
  shows "if \<exists>msg. e = UnexpectedResponse msg
    then qdrant_delete client point_id m t s = (Inr (), (c, snd s)) \<and>
      (\<exists>hits h. qdrant_search client q t k f (c, snd s) = (Inr hits, (c2, snd s)) \<and> h \<in> set hits \<and>
         vr_memory_id h = vd_memory_id doc \<and> vr_content h = vd_content doc)
    else qdrant_delete client point_id m t s = (Inl e, (c, snd s))"
proof (cases "\<exists>msg. e = UnexpectedResponse msg")
  case False
  with assms(4) show ?thesis
    by (cases e) (simp_all add: qdrant_delete_def except_unexpected_def tryM_def on_qdrant_def monad_simps)
next
  case True
  then have del: "qdrant_delete client point_id m t s = (Inr (), (c, snd s))"
    using assms(4) by (auto simp: qdrant_delete_def except_unexpected_def tryM_def on_qdrant_def monad_simps)
  have inv: "qdrant_inv points point_id (c, snd s)" using assms(2,5) by (simp add: qdrant_inv_def)
  have docs: "qdrant_docs points (c, snd s) = qdrant_docs points s" using assms(5) by (simp add: qdrant_docs_def fun_eq_iff)
  from assms(6) have raw: "qd_search client (qdrant_collection t) q (qdrant_conditions f) k (fst (c, snd s)) = (Inr hs, c2)"
    by simp
  note hits = qdrant_server.hits_of_raw [OF assms(1) inv raw]
  from assms(7) obtain r where r: "r \<in> set hs" "qh_id r = point_id m" by auto
  then have id: "point_id (vr_memory_id (qdrant_hit r)) = point_id m" using hits by auto
  have "qdrant_hit r \<in> set (map qdrant_hit hs)" using r(1) by simp
  from qdrant_server.search_hit [OF assms(1) inv conjunct1 [OF hits] this] id assms(3)
  have "vr_memory_id (qdrant_hit r) = vd_memory_id doc \<and> vr_content (qdrant_hit r) = vd_content doc"
    by (auto simp: docs)
  with del hits r(1) True show ?thesis by auto
qed

definition refusing_qdrant :: "((string \<times> string) \<times> qpayload) list qdrant" where
  \<comment> \<open>a server that lets its caller read but not write\<close>
  "refusing_qdrant = memory_qdrant\<lparr>qd_upsert := (\<lambda>_ _. raiseM (UnexpectedResponse ''403'')),
     qd_delete := (\<lambda>_ _. raiseM (UnexpectedResponse ''403''))\<rparr>"

lemma refusing_calls [simp]:
  "qd_get_collections refusing_qdrant = qd_get_collections memory_qdrant"
  "qd_create_collection refusing_qdrant = qd_create_collection memory_qdrant"
  "qd_search refusing_qdrant = qd_search memory_qdrant"
  "qd_upsert refusing_qdrant n p c = (Inl (UnexpectedResponse ''403''), c)"
  "qd_delete refusing_qdrant n i c = (Inl (UnexpectedResponse ''403''), c)"
  by (simp_all add: refusing_qdrant_def monad_simps)

interpretation refusing_server: qdrant_server refusing_qdrant point_id map_of for point_id
  using memory_server.list_points memory_server.create_points memory_server.find_points memory_server.find_ok
    memory_server.find_distinct memory_server.find_limit
  by unfold_locales simp_all

lemma qdrant_refused_delete_witness:
  "\<exists>hits h s. qdrant_delete refusing_qdrant (take 16) ''m1'' ''acme'' with_point = (Inr (), with_point) \<and>
     qdrant_search refusing_qdrant [1] ''acme'' 3 no_filters with_point = (Inr hits, s) \<and> h \<in> set hits \<and>
     vr_memory_id h = ''m1'' \<and> vr_content h = ''likes tea''"
proof -
  have doc: "qdrant_docs map_of with_point (''acme'', take 16 ''m1'') = Some (qdrant_norm qdrant_doc)"
    by (simp add: qdrant_docs_def with_point_def qdrant_collection_def)
  have fields: "vd_memory_id qdrant_doc = ''m1''" "vd_content qdrant_doc = ''likes tea''" by (simp_all add: qdrant_doc_def)
  have del: "qd_delete refusing_qdrant (qdrant_collection ''acme'') (take 16 ''m1'') (fst with_point) =
      (Inl (UnexpectedResponse ''403''), fst with_point)" by simp
  have found: "qd_search refusing_qdrant (qdrant_collection ''acme'') [1] (qdrant_conditions no_filters) 3 (fst with_point) =
      (Inr [\<lparr>qh_id = ''m1'', qh_score = 1, qh_payload = Some (payload_of_doc qdrant_doc)\<rparr>], fst with_point)"
    by (simp add: search_with_point)
  from qdrant_refused_delete [OF refusing_server.qdrant_server_axioms inv_with_point doc del refl found]
  show ?thesis using fields by auto
qed

text \<open>A tenant's collection is ensured once: a later call makes no request.\<close>

lemma ensure_once:
  assumes "ensure_collection client t dims s = (Inr (), s1)"
  shows "ensure_collection client t dims' s1 = (Inr (), s1)"
proof -
  have "qdrant_collection t \<in> set (snd s1)"
    using assms by (auto simp: ensure_collection_def Let_def result_iff monad_simps split: if_splits)
  then show ?thesis by (simp add: ensure_collection_def Let_def monad_simps)
qed

end
