(* ===== verification/Vector_Retrieval.thy ===== *)
theory Vector_Retrieval
  imports Retrieval Postgres_Vector Qdrant_Vector
begin

text \<open>
  Semantic retrieval over a vector index: the retrieval service of \<^verbatim>\<open>engine/retrieval.py\<close> passes no
  filters to the index it is given, here any provider of the contract, and then the two server
  adapters.
\<close>

lemma assign_hits_found:
  "m \<in> fst ` set hits \<Longrightarrow> \<exists>h \<in> set hits. fst h = m \<and> assign_hits f hits d m = Some (f h)"
  by (induction hits rule: rev_induct) (auto simp: assign_hits_def)

lemma semantic_items:
  "i \<in> set (result_items p (Some hits) None) \<Longrightarrow>
   \<exists>h \<in> set hits. si_memory_id i = fst h \<and> si_content i = fst (snd h)"
proof -
  assume "i \<in> set (result_items p (Some hits) None)"
  then obtain x where x: "x \<in> set (merge_hits p (Some hits) None)"
    "i = to_item (hit_map (fst \<circ> snd) (Some hits) None) x"
    using set_py_take by (fastforce simp: result_items_def)
  then have "fst x \<in> fst ` set hits" by (force simp: merge_hits_def hit_ids_def)
  from assign_hits_found [OF this, of "fst \<circ> snd" Map.empty] obtain h where
    h: "h \<in> set hits" "fst h = fst x" "assign_hits (fst \<circ> snd) hits Map.empty (fst x) = Some (fst (snd h))" by auto
  with x(2) have "si_memory_id i = fst h \<and> si_content i = fst (snd h)"
    by (simp add: to_item_def hit_map_def get_or_def)
  with h(1) show ?thesis by blast
qed

lemma semantic_retrieval_steps:
  assumes "qp_targets p = [VECTOR]" "retrieve rt emb vs fs g request p s = (Inr r, s')"
  shows "\<exists>e es s1 rs s2. emb [sr_query request] s = (Inr (e # es), s1) \<and>
    vs e (sr_tenant_id request) (qp_k_per_index p) s1 = (Inr rs, s2) \<and>
    ss_items r = result_items p (Some (map (\<lambda>r. (vr_memory_id r, vr_content r, vr_score r)) rs)) None"
  using assms by (auto simp: Let_def retrieve_def index_tasks_def result_iff case_first_iff monad_simps vector_task_Inr
      split: if_splits sum.splits prod.splits)

context vector_index
begin

lemma semantic_retrieval:
  assumes "inv s" "undisturbed inv docs (emb [sr_query request])" "qp_targets p = [VECTOR]"
    and "retrieve rt emb (\<lambda>e t k. search e t k no_filters) fs g request p s = (Inr r, s')" "i \<in> set (ss_items r)"
  shows "\<exists>doc. docs s (sr_tenant_id request, key (si_memory_id i)) = Some doc \<and>
    vd_lifecycle_state doc \<in> {ACTIVE, CONSOLIDATED} \<and> si_content i = vd_content doc"
proof -
  from semantic_retrieval_steps [OF assms(3,4)] obtain e es s1 rs s2 where
    emb: "emb [sr_query request] s = (Inr (e # es), s1)"
    and found: "search e (sr_tenant_id request) (qp_k_per_index p) no_filters s1 = (Inr rs, s2)"
    and items: "ss_items r = result_items p (Some (map (\<lambda>r. (vr_memory_id r, vr_content r, vr_score r)) rs)) None"
    by blast
  have s1: "inv s1" "docs s1 = docs s" using undisturbedD [OF assms(2) emb assms(1)] by simp_all
  from semantic_items [OF assms(5) [unfolded items]] obtain h where
    "h \<in> set rs" "si_memory_id i = vr_memory_id h" "si_content i = vr_content h" by auto
  with search_ok [OF s1(1) found] s1(2) show ?thesis by (fastforce simp: admits_def)
qed

end

context ordered_scan
begin

lemma semantic_retrieval:
  assumes "vectors_inv d" "undisturbed vectors_inv vector_docs (emb [sr_query request])" "qp_targets p = [VECTOR]"
    and "retrieve rt emb (\<lambda>e t k. pg_vector_search distance scan e t k no_filters) fs g request p d = (Inr r, d')"
    and "i \<in> set (ss_items r)"
  shows "\<exists>doc. vector_docs d (sr_tenant_id request, si_memory_id i) = Some doc \<and>
    vd_lifecycle_state doc \<in> {ACTIVE, CONSOLIDATED} \<and> si_content i = vd_content doc"
  by (rule pgvector.semantic_retrieval [OF assms])

end

context qdrant_server
begin

lemma semantic_retrieval:
  assumes "inv s" "undisturbed inv docs (emb [sr_query request])" "qp_targets p = [VECTOR]"
    and "retrieve rt emb (\<lambda>e t k. qdrant_search client e t k no_filters) fs g request p s = (Inr r, s')"
    and "i \<in> set (ss_items r)"
  shows "\<exists>doc. docs s (sr_tenant_id request, point_id (si_memory_id i)) = Some doc \<and>
    vd_lifecycle_state doc \<in> {ACTIVE, CONSOLIDATED} \<and> si_content i = vd_content doc"
  by (rule served.semantic_retrieval [OF assms])

end

subsection \<open>Properties\<close>

text \<open>C30. A retrieval by a semantic plan over the pgvector index, whatever the embedding provider and
  the index scan answer, returns only documents stored for the tenant of the request, in the states
  ACTIVE and CONSOLIDATED, each with the content stored for it; so an item is reported as active
  although its document may be consolidated.\<close>

theorem pg_semantic_retrieval:
  assumes "ordered_scan distance scan" "vectors_inv d" "undisturbed vectors_inv vector_docs (emb [sr_query request])"
    and "qp_targets p = [VECTOR]"
    and "retrieve rt emb (\<lambda>e t k. pg_vector_search distance scan e t k no_filters) fs g request p d = (Inr r, d')"
  shows "\<forall>i \<in> set (ss_items r). \<exists>doc. vector_docs d (sr_tenant_id request, si_memory_id i) = Some doc \<and>
    vd_lifecycle_state doc \<in> {ACTIVE, CONSOLIDATED} \<and> si_content i = vd_content doc \<and> si_lifecycle_state i = ACTIVE"
proof
  fix i
  assume i: "i \<in> set (ss_items r)"
  from retrieve_items [OF assms(5)] obtain vec fts where "ss_items r = result_items p vec fts" .
  with i have "si_lifecycle_state i = ACTIVE" by (auto simp: result_items_def to_item_def)
  with ordered_scan.semantic_retrieval [OF assms i]
  show "\<exists>doc. vector_docs d (sr_tenant_id request, si_memory_id i) = Some doc \<and>
    vd_lifecycle_state doc \<in> {ACTIVE, CONSOLIDATED} \<and> si_content i = vd_content doc \<and> si_lifecycle_state i = ACTIVE"
    by blast
qed

definition semantic_plan :: query_plan where
  "semantic_plan = \<lparr>qp_mode = MODE_SEMANTIC, qp_targets = [VECTOR], qp_weights = [], qp_use_llm_rerank = False,
     qp_temporal_filter = None, qp_k_per_index = 5, qp_final_k = 1, qp_explanation = []\<rparr>"

lemma with_vector_retrieval:
  "\<exists>r d'. retrieve still_runtime (\<lambda>_. returnM [[]])
      (\<lambda>e t k. pg_vector_search (\<lambda>_ _. 0) (exact_scan (\<lambda>_ _. 0)) e t k no_filters)
      (\<lambda>_ _ _. returnM []) False search_a semantic_plan with_vector = (Inr r, d') \<and> ss_items r \<noteq> []"
proof -
  obtain d' where r: "pg_vector_search (\<lambda>_ _. 0) (exact_scan (\<lambda>_ _. 0)) [] ''acme'' 5 no_filters with_vector =
     (Inr [pg_vector_hit (\<lambda>_ _. 0) [] (vector_to_row vector_a)], d')" using with_vector_search by blast
  have t: "sr_tenant_id search_a = ''acme''" by (simp add: search_a_def)
  show ?thesis
    by (simp add: retrieve_def index_tasks_def semantic_plan_def Let_def bindM_def monad_simps vector_task_def t r
        result_items_def merge_hits_def hit_ids_def py_take_def)
qed

theorem pg_semantic_retrieval_witness:
  "\<exists>r d'. retrieve still_runtime (\<lambda>_. returnM [[]])
      (\<lambda>e t k. pg_vector_search (\<lambda>_ _. 0) (exact_scan (\<lambda>_ _. 0)) e t k no_filters)
      (\<lambda>_ _ _. returnM []) False search_a semantic_plan with_vector = (Inr r, d') \<and> ss_items r \<noteq> [] \<and>
    (\<forall>i \<in> set (ss_items r). \<exists>doc. vector_docs with_vector (''acme'', si_memory_id i) = Some doc)"
proof -
  obtain r d' where r: "retrieve still_runtime (\<lambda>_. returnM [[]])
      (\<lambda>e t k. pg_vector_search (\<lambda>_ _. 0) (exact_scan (\<lambda>_ _. 0)) e t k no_filters)
      (\<lambda>_ _ _. returnM []) False search_a semantic_plan with_vector = (Inr r, d')" "ss_items r \<noteq> []"
    using with_vector_retrieval by blast
  have e: "undisturbed vectors_inv vector_docs (returnM [[]])" by (simp add: undisturbed_def monad_simps)
  have p: "qp_targets semantic_plan = [VECTOR]" by (simp add: semantic_plan_def)
  have t: "sr_tenant_id search_a = ''acme''" by (simp add: search_a_def)
  from pg_semantic_retrieval [OF exact.ordered_scan_axioms with_vector_inv e p r(1)] r show ?thesis
    unfolding t by blast
qed

text \<open>The same of the Qdrant adapter over a server that keeps its contract.\<close>

theorem qdrant_semantic_retrieval:
  assumes "qdrant_server client points" "qdrant_inv points point_id s"
    and "undisturbed (qdrant_inv points point_id) (qdrant_docs points) (emb [sr_query request])"
    and "qp_targets p = [VECTOR]"
    and "retrieve rt emb (\<lambda>e t k. qdrant_search client e t k no_filters) fs g request p s = (Inr r, s')"
    and "i \<in> set (ss_items r)"
  shows "\<exists>doc. qdrant_docs points s (sr_tenant_id request, point_id (si_memory_id i)) = Some doc \<and>
    vd_lifecycle_state doc \<in> {ACTIVE, CONSOLIDATED} \<and> si_content i = vd_content doc"
  by (rule qdrant_server.semantic_retrieval [OF assms])

end
