(* ===== verification/Api_Schemas.thy ===== *)
theory Api_Schemas
  imports Recall
begin

text \<open>
  \<^verbatim>\<open>api/schemas.py\<close>: the request and response models of the HTTP API, a record each, with the
  field defaults of a request model in a definition of its own.  Parsing a JSON body into a
  request model and printing a response model is done by pydantic and left out.
\<close>

subsection \<open>Request models\<close>

record scope_model =
  sm_principal_id :: string
  sm_principal_type :: principal_type
  sm_workspace_id :: "string option"
  sm_session_id :: "string option"
  sm_run_id :: "string option"

record temporal_filter_model =
  tm_as_of :: "datetime option"
  tm_from_dt :: "datetime option"
  tm_until_dt :: "datetime option"

record write_model =
  wm_scope :: scope_model
  wm_raw_payload :: string
  wm_payload_type :: payload_type
  wm_sector :: "memory_sector option"
  wm_idempotency_key :: "string option"
  wm_extract :: bool
  wm_wait_for_enrichment :: bool
  wm_metadata :: json_dict

record search_model =
  hm_scope :: scope_model
  hm_query :: string
  hm_mode :: search_mode
  hm_sectors :: "memory_sector list option"
  hm_lifecycle_states :: "lifecycle_state list"
  hm_temporal_filter :: "temporal_filter_model option"
  hm_k :: int

record recall_model =
  lm_scope :: scope_model
  lm_query :: string
  lm_max_tokens :: "int option"
  lm_max_items :: int
  lm_sectors :: "memory_sector list option"
  lm_include_facts :: bool
  lm_include_verbatim :: bool
  lm_mode :: search_mode

record session_end_model =
  em_scope :: scope_model

text \<open>The models with only their required fields given.\<close>

definition default_scope_model :: "string \<Rightarrow> scope_model" where
  "default_scope_model principal_id = \<lparr>sm_principal_id = principal_id, sm_principal_type = USER,
     sm_workspace_id = None, sm_session_id = None, sm_run_id = None\<rparr>"

definition default_write_model :: "scope_model \<Rightarrow> string \<Rightarrow> payload_type \<Rightarrow> write_model" where
  "default_write_model sc raw_payload payload_type = \<lparr>wm_scope = sc, wm_raw_payload = raw_payload,
     wm_payload_type = payload_type, wm_sector = None, wm_idempotency_key = None, wm_extract = True,
     wm_wait_for_enrichment = False, wm_metadata = []\<rparr>"

definition default_search_model :: "scope_model \<Rightarrow> string \<Rightarrow> search_model" where
  "default_search_model sc query = \<lparr>hm_scope = sc, hm_query = query, hm_mode = MODE_HYBRID,
     hm_sectors = None, hm_lifecycle_states = [ACTIVE], hm_temporal_filter = None, hm_k = 10\<rparr>"

definition default_recall_model :: "scope_model \<Rightarrow> string \<Rightarrow> recall_model" where
  "default_recall_model sc query = \<lparr>lm_scope = sc, lm_query = query, lm_max_tokens = Some 4000,
     lm_max_items = 10, lm_sectors = None, lm_include_facts = True, lm_include_verbatim = True,
     lm_mode = MODE_HYBRID\<rparr>"

subsection \<open>Response models\<close>

record write_response =
  wp_memory_id :: string
  wp_pipeline_status :: pipeline_status
  wp_accepted_at :: datetime
  wp_idempotent :: bool

record search_item_model =
  im_memory_id :: string
  im_content :: string
  im_sector :: memory_sector
  im_score :: rat
  im_pipeline_status :: pipeline_status
  im_lifecycle_state :: lifecycle_state
  im_signals :: json_dict
  im_effective_from :: "datetime option"

record search_response =
  sp_items :: "search_item_model list"
  sp_total :: int
  sp_searched_at :: datetime

record recall_item_model =
  rm_memory_id :: string
  rm_content :: string
  rm_sector :: memory_sector
  rm_lifecycle_state :: lifecycle_state
  rm_pipeline_status :: pipeline_status
  rm_effective_from :: "datetime option"
  rm_signals :: json_dict
  rm_explanation :: string
  rm_trace_id :: "string option"

record recall_response =
  rp_status :: recall_status
  rp_no_match_reason :: "string option"
  rp_items :: "recall_item_model list"
  rp_total_tokens_estimate :: int
  rp_recall_strategy :: string
  rp_recalled_at :: datetime

record trace_step_model =
  tp_memory_id :: string
  tp_rank :: int
  tp_score :: rat
  tp_signals :: json_dict
  tp_explanation :: string
  tp_record_available :: bool

record explain_response =
  xp_trace_id :: string
  xp_tenant_id :: string
  xp_query :: string
  xp_mode :: string
  xp_steps :: "trace_step_model list"
  xp_created_at :: datetime

record decay_response =
  dp_tenant_id :: string
  dp_transitions :: int

record consolidate_response =
  np_tenant_id :: string
  np_records_processed :: int

record error_model =
  er_error_code :: string
  er_message :: string
  er_details :: json_dict
  er_trace_id :: "string option"

text \<open>A response: its status and what its JSON body prints.\<close>

datatype body =
    Write_Body write_response
  | Search_Body search_response
  | Recall_Body recall_response
  | Explain_Body explain_response
  | Decay_Body decay_response
  | Consolidate_Body consolidate_response
  | Error_Body error_model
  | Json_Body json
  | Empty_Body

record response =
  status_code :: nat
  content :: body

end
