(* ===== verification/Api_Errors.thy ===== *)
theory Api_Errors
  imports Api_Schemas Py_Values
begin

text \<open>
  \<^verbatim>\<open>api/errors.py\<close>: which response an exception becomes; \<^verbatim>\<open>api/tenant.py\<close> and
  \<^verbatim>\<open>api/middleware.py\<close>: the tenant of a request.

  Starlette calls the handler of the first class in an exception's MRO that has one.  That
  lookup is a parameter; \<open>first_by_mro\<close> states what it is documented to do.
\<close>

subsection \<open>Exceptions a request can end in\<close>

datatype api_exn =
    Raised exn
  | RequestValidationError json
  | PydanticValidationError json
  | NotImplementedError string
  | HTTPException nat string

fun api_str :: "api_exn \<Rightarrow> string" where
  "api_str (Raised e) = exn_str e"
| "api_str (RequestValidationError _) = ''''"
| "api_str (PydanticValidationError _) = ''''"
| "api_str (NotImplementedError m) = m"
| "api_str (HTTPException _ detail) = detail"

datatype exn_class =
    Cls_MemoryNotFoundError | Cls_TenantIsolationViolation | Cls_CapabilityNotAvailableError
  | Cls_RequestValidationError | Cls_PydanticValidationError | Cls_MemoryLayerError
  | Cls_HTTPException | Cls_Exception

text \<open>The classes a handler could be registered for, most specific first.\<close>

fun mro :: "api_exn \<Rightarrow> exn_class list" where
  "mro (Raised e) = (case e of
       MemoryNotFoundError _ \<Rightarrow> [Cls_MemoryNotFoundError]
     | TenantIsolationViolation _ _ \<Rightarrow> [Cls_TenantIsolationViolation]
     | CapabilityNotAvailableError _ \<Rightarrow> [Cls_CapabilityNotAvailableError]
     | _ \<Rightarrow> []) @ (if is_memory_layer_error e then [Cls_MemoryLayerError] else []) @ [Cls_Exception]"
| "mro (RequestValidationError _) = [Cls_RequestValidationError, Cls_Exception]"
| "mro (PydanticValidationError _) = [Cls_PydanticValidationError, Cls_Exception]"
| "mro (NotImplementedError _) = [Cls_Exception]"
| "mro (HTTPException _ _) = [Cls_HTTPException, Cls_Exception]"

subsection \<open>The handlers\<close>

definition error_response :: "nat \<Rightarrow> string \<Rightarrow> string \<Rightarrow> json_dict option \<Rightarrow> response" where
  "error_response status error_code message details = \<lparr>status_code = status,
     content = Error_Body \<lparr>er_error_code = error_code, er_message = message,
       er_details = (case details of None \<Rightarrow> [] | Some d \<Rightarrow> d), er_trace_id = None\<rparr>\<rparr>"

text \<open>The attributes the handlers read off the exception of their class.\<close>

fun exc_memory_id :: "api_exn \<Rightarrow> string" where
  "exc_memory_id (Raised (MemoryNotFoundError m)) = m"
| "exc_memory_id _ = ''''"

fun exc_tenants :: "api_exn \<Rightarrow> string \<times> string" where
  "exc_tenants (Raised (TenantIsolationViolation a r)) = (a, r)"
| "exc_tenants _ = ('''', '''')"

fun exc_capability :: "api_exn \<Rightarrow> string" where
  "exc_capability (Raised (CapabilityNotAvailableError c)) = c"
| "exc_capability _ = ''''"

fun exc_errors :: "api_exn \<Rightarrow> json" where
  "exc_errors (RequestValidationError errs) = errs"
| "exc_errors (PydanticValidationError errs) = errs"
| "exc_errors _ = JArr []"

definition memory_not_found_handler :: "api_exn \<Rightarrow> response" where
  "memory_not_found_handler exc = error_response 404 ''MEMORY_NOT_FOUND'' (api_str exc)
     (Some [(''memory_id'', JStr (exc_memory_id exc))])"

definition tenant_isolation_handler :: "api_exn \<Rightarrow> response" where
  "tenant_isolation_handler exc = error_response 403 ''TENANT_ISOLATION_VIOLATION'' (api_str exc)
     (Some [(''actor'', JStr (fst (exc_tenants exc))),
            (''requested_tenant_id'', JStr (snd (exc_tenants exc)))])"

definition capability_not_available_handler :: "api_exn \<Rightarrow> response" where
  "capability_not_available_handler exc = error_response 409 ''CAPABILITY_NOT_AVAILABLE'' (api_str exc)
     (Some [(''capability'', JStr (exc_capability exc))])"

definition pydantic_validation_handler :: "api_exn \<Rightarrow> response" where
  "pydantic_validation_handler exc = error_response 400 ''VALIDATION_ERROR'' ''Request validation failed.''
     (Some [(''errors'', exc_errors exc)])"

definition request_validation_handler :: "api_exn \<Rightarrow> response" where
  "request_validation_handler exc = error_response 400 ''VALIDATION_ERROR'' ''Request validation failed.''
     (Some [(''errors'', exc_errors exc)])"

definition memory_layer_error_handler :: "api_exn \<Rightarrow> response" where
  "memory_layer_error_handler exc = error_response 400 ''DOMAIN_ERROR'' (api_str exc) None"

definition generic_exception_handler :: "api_exn \<Rightarrow> response" where
  "generic_exception_handler exc =
     error_response 500 ''INTERNAL_SERVER_ERROR'' ''An unexpected error occurred.'' None"

type_synonym handler = "api_exn \<Rightarrow> response"

definition exception_handlers :: "(exn_class \<times> handler) list" where
  "exception_handlers =
     [(Cls_MemoryNotFoundError, memory_not_found_handler),
      (Cls_TenantIsolationViolation, tenant_isolation_handler),
      (Cls_CapabilityNotAvailableError, capability_not_available_handler),
      (Cls_RequestValidationError, request_validation_handler),
      (Cls_PydanticValidationError, pydantic_validation_handler),
      (Cls_MemoryLayerError, memory_layer_error_handler),
      (Cls_Exception, generic_exception_handler)]"

type_synonym handler_lookup = "(exn_class \<times> handler) list \<Rightarrow> exn_class list \<Rightarrow> handler option"

definition first_by_mro :: "handler_lookup \<Rightarrow> bool" where
  \<comment> \<open>what \<^verbatim>\<open>_lookup_exception_handler\<close> is documented to do: the handler of the nearest class\<close>
  "first_by_mro look \<longleftrightarrow> (\<forall>hs c cs. look hs [] = None \<and>
     look hs (c # cs) = (case map_of hs c of Some h \<Rightarrow> Some h | None \<Rightarrow> look hs cs))"

fun mro_lookup :: handler_lookup where
  "mro_lookup hs [] = None"
| "mro_lookup hs (c # cs) = (case map_of hs c of Some h \<Rightarrow> Some h | None \<Rightarrow> mro_lookup hs cs)"

lemma first_by_mro_lookup: "first_by_mro mro_lookup"
  by (simp add: first_by_mro_def)

lemma first_by_mro_eq: "first_by_mro look \<Longrightarrow> look hs cs = mro_lookup hs cs"
  by (induction cs) (auto simp: first_by_mro_def split: option.splits)

definition handle :: "handler_lookup \<Rightarrow> (nat \<Rightarrow> string \<Rightarrow> response) \<Rightarrow> api_exn \<Rightarrow> response" where
  \<comment> \<open>an \<open>HTTPException\<close> has a handler of the framework's own, registered before these\<close>
  "handle look http exc = (case exc of
       HTTPException status detail \<Rightarrow> http status detail
     | _ \<Rightarrow> (case look exception_handlers (mro exc) of Some h \<Rightarrow> h exc | None \<Rightarrow> generic_exception_handler exc))"

lemma handle_simps:
  assumes "first_by_mro look"
  shows "handle look http (Raised (MemoryNotFoundError m)) = error_response 404 ''MEMORY_NOT_FOUND''
      (''Memory not found: '' @ m) (Some [(''memory_id'', JStr m)])"
    and "handle look http (Raised (TenantIsolationViolation a r)) = error_response 403 ''TENANT_ISOLATION_VIOLATION''
      (''Tenant isolation violation: actor='' @ a @ '', requested='' @ r)
      (Some [(''actor'', JStr a), (''requested_tenant_id'', JStr r)])"
    and "handle look http (Raised (CapabilityNotAvailableError c)) = error_response 409 ''CAPABILITY_NOT_AVAILABLE''
      (''Capability not available: '' @ c) (Some [(''capability'', JStr c)])"
    and "handle look http (RequestValidationError j) = request_validation_handler (RequestValidationError j)"
    and "handle look http (PydanticValidationError j) = pydantic_validation_handler (PydanticValidationError j)"
    and "handle look http (NotImplementedError e) = generic_exception_handler (NotImplementedError e)"
    and "handle look http (HTTPException n e) = http n e"
    and "\<not> is_memory_layer_error x \<Longrightarrow> handle look http (Raised x) = generic_exception_handler (Raised x)"
  using first_by_mro_eq [OF assms]
  by (auto simp: handle_def exception_handlers_def memory_not_found_handler_def tenant_isolation_handler_def
      capability_not_available_handler_def split: exn.splits)

lemma handle_domain:
  assumes "first_by_mro look" "is_memory_layer_error x"
    and "\<forall>m. x \<noteq> MemoryNotFoundError m" "\<forall>a r. x \<noteq> TenantIsolationViolation a r"
    and "\<forall>c. x \<noteq> CapabilityNotAvailableError c"
  shows "handle look http (Raised x) = error_response 400 ''DOMAIN_ERROR'' (exn_str x) None"
  using assms first_by_mro_eq [OF assms(1)]
  by (auto simp: handle_def exception_handlers_def memory_layer_error_handler_def split: exn.splits)

end
