(* ===== verification/Ingestion.thy ===== *)
theory Ingestion
  imports Record_Contract Audit_Contract
begin

text \<open>
  \<^verbatim>\<open>engine/ingestion.py\<close>, \<open>WriteMemoryService\<close>: the write pipeline (idempotency check,
  durable write, audit entry, event, enrichment) and the enrichment of a record.
\<close>

fun sector_by_payload :: "payload_type \<Rightarrow> memory_sector" where
  "sector_by_payload CONVERSATION_TURN = EPISODIC"
| "sector_by_payload DOCUMENT = SEMANTIC"
| "sector_by_payload TOOL_OUTPUT = PROCEDURAL"
| "sector_by_payload EVENT = EPISODIC"
| "sector_by_payload STRUCTURED = SEMANTIC"

definition infer_sector :: "write_request \<Rightarrow> memory_sector" where
  "infer_sector request = (case wr_sector request of Some se \<Rightarrow> se
     | None \<Rightarrow> sector_by_payload (wr_payload_type request))"

definition enrich ::
  "'s record_repo \<Rightarrow> 's observer_port \<Rightarrow> 's extraction_port \<Rightarrow> memory_record \<Rightarrow> ('s, unit) action" where
  "enrich repo observer extraction record =
     tryM
       (bindM (extraction record) (\<lambda>result.
        bindM (rr_update_pipeline_status repo (mr_id record) (mr_tenant_id record) ENRICHED) (\<lambda>_.
        ob_emit observer (event (mr_tenant_id record)
          (MemoryEnrichedEvent (mr_id record) (mr_scope record)
            (int (length (er_facts result))) (int (length (er_entities result))))))))
       (\<lambda>exc.
        bindM (rr_update_pipeline_status repo (mr_id record) (mr_tenant_id record)
          PARTIAL_ENRICHMENT_FAILED) (\<lambda>_.
        ob_emit observer (event (mr_tenant_id record)
          (EnrichmentFailedEvent (mr_id record) (mr_scope record) (exn_str exc)))))"

definition initial_status :: "write_request \<Rightarrow> 's extraction_port option \<Rightarrow> pipeline_status" where
  "initial_status request extraction =
     (if wr_extract request \<and> extraction = None then ENRICHMENT_SKIPPED else PENDING)"

definition new_record ::
  "write_request \<Rightarrow> pipeline_status \<Rightarrow> memory_id \<Rightarrow> datetime \<Rightarrow> memory_record" where
  "new_record request status memory_id accepted_at =
     \<lparr>mr_id = memory_id, mr_tenant_id = wr_tenant_id request, mr_scope = wr_scope request,
      mr_raw_payload = wr_raw_payload request, mr_payload_type = wr_payload_type request,
      mr_sector = infer_sector request, mr_lifecycle_state = ACTIVE, mr_pipeline_status = status,
      mr_recorded_at = accepted_at, mr_idempotency_key = wr_idempotency_key request,
      mr_metadata = wr_metadata request\<rparr>"

definition write_entry :: "write_request \<Rightarrow> audit_id \<Rightarrow> memory_id \<Rightarrow> datetime \<Rightarrow> audit_entry" where
  "write_entry request audit_id memory_id accepted_at =
     \<lparr>ae_id = audit_id, ae_tenant_id = wr_tenant_id request, ae_scope = wr_scope request,
      ae_operation = WRITE, ae_memory_id = Some memory_id, ae_actor = ''system'',
      ae_timestamp = accepted_at, ae_outcome = SUCCESS, ae_detail = []\<rparr>"

definition start_enrichment ::
  "'s runtime \<Rightarrow> 's record_repo \<Rightarrow> 's observer_port \<Rightarrow> 's extraction_port option \<Rightarrow> write_request \<Rightarrow>
   memory_record \<Rightarrow> ('s, unit) action" where
  "start_enrichment rt repo observer extraction request record =
     (case extraction of
        None \<Rightarrow> returnM ()
      | Some x \<Rightarrow>
          if \<not> wr_extract request then returnM ()
          else if wr_wait_for_enrichment request then enrich repo observer x record
          else run_create_task rt record)"

definition write_new ::
  "'s runtime \<Rightarrow> 's record_repo \<Rightarrow> 's audit_log_port \<Rightarrow> 's observer_port \<Rightarrow> 's extraction_port option \<Rightarrow>
   write_request \<Rightarrow> ('s, write_result) action" where
  "write_new rt repo audit observer extraction request =
     (let status = initial_status request extraction in
     bindM (run_uuid4 rt) (\<lambda>memory_id.
     bindM (run_utcnow rt) (\<lambda>accepted_at.
     let record = new_record request status memory_id accepted_at in
     bindM (rr_save repo record) (\<lambda>_.
     bindM (run_uuid4 rt) (\<lambda>audit_id.
     bindM (al_append audit (Append_Entry (write_entry request audit_id memory_id accepted_at))) (\<lambda>_.
     bindM (ob_emit observer (event (wr_tenant_id request)
       (MemoryWrittenEvent memory_id (wr_scope request) (mr_sector record) status))) (\<lambda>_.
     bindM (start_enrichment rt repo observer extraction request record) (\<lambda>_.
     bindM (run_metric rt (Inc ''memory_writes_total'' [(''tenant_id'', wr_tenant_id request),
       (''sector'', sector_str (mr_sector record)), (''status'', ''success'')] 1)) (\<lambda>_.
     returnM \<lparr>res_memory_id = memory_id, res_scope = wr_scope request, res_pipeline_status = status,
       res_accepted_at = accepted_at, res_idempotent = False\<rparr>)))))))))"

definition write_execute ::
  "'s runtime \<Rightarrow> 's record_repo \<Rightarrow> 's audit_log_port \<Rightarrow> 's observer_port \<Rightarrow> 's extraction_port option \<Rightarrow>
   write_request \<Rightarrow> ('s, write_result) action" where
  "write_execute rt repo audit observer extraction request =
     bindM (case wr_idempotency_key request of
         None \<Rightarrow> returnM None
       | Some key \<Rightarrow> rr_get_by_idempotency_key repo key (wr_tenant_id request)) (\<lambda>existing.
     case existing of
       Some r \<Rightarrow>
         bindM (run_metric rt (Inc ''memory_writes_total'' [(''tenant_id'', wr_tenant_id request),
           (''sector'', sector_str (mr_sector r)), (''status'', ''idempotent'')] 1)) (\<lambda>_.
         returnM \<lparr>res_memory_id = mr_id r, res_scope = mr_scope r,
           res_pipeline_status = mr_pipeline_status r, res_accepted_at = mr_recorded_at r,
           res_idempotent = True\<rparr>)
     | None \<Rightarrow> write_new rt repo audit observer extraction request)"

subsection \<open>Changes of the pipeline status\<close>

text \<open>A record's status was changed, some number of times, and nothing else was.\<close>

definition status_changed :: "tenant_id \<Rightarrow> memory_id \<Rightarrow> store_view \<Rightarrow> store_view \<Rightarrow> bool" where
  "status_changed t m v v' \<longleftrightarrow> v' = v \<or> (\<exists>st. v' = v_update t m (set_status st) v)"

lemma v_update_twice: "v_update t m (set_status a) (v_update t m (set_status b) v) = v_update t m (set_status a) v"
proof -
  have "set_status a \<circ> set_status b = set_status a" by (simp add: set_status_def fun_eq_iff)
  then show ?thesis by (simp add: v_update_def option.map_comp)
qed

lemma status_changed_trans: "status_changed t m u v \<Longrightarrow> status_changed t m v w \<Longrightarrow> status_changed t m u w"
  by (auto simp: status_changed_def v_update_twice)

lemma status_changed_refl [simp]: "status_changed t m v v"
  by (simp add: status_changed_def)

lemma status_changed_keeps:
  assumes "status_changed t m v v'"
  shows "lifecycles v' = lifecycles v" "v_keys v' = v_keys v"
    "p \<noteq> (t, m) \<Longrightarrow> v_records v' p = v_records v p"
    "map_option mr_raw_payload (v_records v' p) = map_option mr_raw_payload (v_records v p)"
  using assms
  by (cases "p = (t, m)"; force simp: status_changed_def set_status_def option.map_comp o_def)+

lemma status_changed_record:
  assumes "status_changed t m v v'" "v_records v (t, m) = Some x"
  obtains st where "v_records v' (t, m) = Some (set_status st x)"
proof -
  have "set_status (mr_pipeline_status x) x = x" by (simp add: set_status_def)
  then show ?thesis
    using assms that [of "mr_pipeline_status x"] that by (auto simp: status_changed_def)
qed

subsection \<open>Writing against the contract of the record repository\<close>

locale write_service = record_repository +
  fixes rt :: "'s runtime"
    and audit :: "'s audit_log_port"
    and observer :: "'s observer_port"
    and extraction :: "'s extraction_port option"
    and fresh :: "'s \<Rightarrow> bool"
  assumes now_quiet: "undisturbed inv view (run_utcnow rt)"
    and now_valid: "inv s \<Longrightarrow> run_utcnow rt s = (Inr d, s') \<Longrightarrow> valid_datetime d"
    and uuid_quiet: "undisturbed inv view (run_uuid4 rt)"
    and uuid_fresh: "inv s \<Longrightarrow> fresh s \<Longrightarrow> run_uuid4 rt s = (Inr i, s') \<Longrightarrow>
      v_records (view s) (t, i) = None"
    and metric_quiet: "undisturbed inv view (run_metric rt x)"
    and task_quiet: "undisturbed inv view (run_create_task rt r)"
    and append_quiet: "undisturbed inv view (al_append audit c)"
    and emit_quiet: "undisturbed inv view (ob_emit observer e)"
    and extraction_quiet: "extraction = Some f \<Longrightarrow> undisturbed inv view (f r)"
    and lookup_fresh: "keeps fresh (rr_get_by_idempotency_key repo k t)"
    and typed_storable: "valid_datetime (mr_recorded_at r) \<Longrightarrow>
      scope_principal_type (mr_scope r) \<noteq> None \<Longrightarrow> storable r"
    and norm_fields: "mr_id (norm r) = mr_id r" "mr_tenant_id (norm r) = mr_tenant_id r"
      "mr_raw_payload (norm r) = mr_raw_payload r" "mr_sector (norm r) = mr_sector r"
      "mr_lifecycle_state (norm r) = mr_lifecycle_state r"
      "mr_pipeline_status (norm r) = mr_pipeline_status r"
begin

lemma update_status:
  assumes "inv s" "rr_update_pipeline_status repo m t st s = (x, s')"
  shows "inv s' \<and> view s' = (case x of Inl _ \<Rightarrow> view s | Inr _ \<Rightarrow> v_update t m (set_status st) (view s))"
  using assms keepsD_eq [OF status_inv] status_ok [of s m t st s'] status_error [of m t st s _ s']
  by (cases x) auto

text \<open>Enrichment changes the pipeline status of its record, and nothing else of any record.\<close>

lemma enrich_status:
  assumes "inv s" "undisturbed inv view (f r)" "enrich repo observer f r s = (x, s')"
  shows "inv s' \<and> status_changed (mr_tenant_id r) (mr_id r) (view s) (view s')"
proof -
  let ?ch = "status_changed (mr_tenant_id r) (mr_id r)"
  let ?upd = "\<lambda>st. rr_update_pipeline_status repo (mr_id r) (mr_tenant_id r) st"
  have step: "inv u' \<and> ?ch (view u) (view u')"
    if "inv u" "bindM (?upd st) (\<lambda>_. ob_emit observer e) u = (y, u')" for st e y u u'
  proof -
    obtain z u1 where z: "?upd st u = (z, u1)" by fastforce
    from update_status [OF that(1) z] have u1: "inv u1" "?ch (view u) (view u1)"
      by (auto simp: status_changed_def split: sum.splits)
    show ?thesis
    proof (cases z)
      case (Inl err)
      with that(2) z u1 show ?thesis by (simp add: bindM_def)
    next
      case (Inr v)
      with that(2) z have "ob_emit observer e u1 = (y, u')" by (simp add: bindM_def)
      from undisturbedD [OF emit_quiet this u1(1)] u1(2) show ?thesis by simp
    qed
  qed
  obtain res s1 where f: "f r s = (res, s1)" by fastforce
  from undisturbedD [OF assms(2) f assms(1)] have s1: "inv s1" "view s1 = view s" by auto
  show ?thesis
  proof (cases res)
    case (Inl exc)
    with assms(3) f have "bindM (?upd PARTIAL_ENRICHMENT_FAILED) (\<lambda>_. ob_emit observer
        (event (mr_tenant_id r) (EnrichmentFailedEvent (mr_id r) (mr_scope r) (exn_str exc)))) s1 = (x, s')"
      by (simp add: enrich_def tryM_def bindM_def)
    from step [OF s1(1) this] s1(2) show ?thesis by simp
  next
    case (Inr result)
    let ?ok = "bindM (?upd ENRICHED) (\<lambda>_. ob_emit observer (event (mr_tenant_id r)
        (MemoryEnrichedEvent (mr_id r) (mr_scope r) (int (length (er_facts result)))
          (int (length (er_entities result))))))"
    obtain y s2 where ok: "?ok s1 = (y, s2)" by fastforce
    from step [OF s1(1) ok] s1(2) have s2: "inv s2" "?ch (view s) (view s2)" by auto
    show ?thesis
    proof (cases y)
      case (Inl exc)
      with assms(3) f Inr ok have "bindM (?upd PARTIAL_ENRICHMENT_FAILED) (\<lambda>_. ob_emit observer
          (event (mr_tenant_id r) (EnrichmentFailedEvent (mr_id r) (mr_scope r) (exn_str exc)))) s2 = (x, s')"
        by (simp add: enrich_def tryM_def bindM_def)
      from step [OF s2(1) this] s2(2) show ?thesis by (auto intro: status_changed_trans)
    next
      case r: (Inr u)
      with assms(3) f Inr ok have "s' = s2" by (simp add: enrich_def tryM_def bindM_def)
      with s2 show ?thesis by simp
    qed
  qed
qed

lemma start_enrichment_status:
  assumes "inv s" "start_enrichment rt repo observer extraction request r s = (x, s')"
  shows "inv s' \<and> status_changed (mr_tenant_id r) (mr_id r) (view s) (view s')"
proof (cases extraction)
  case (Some f)
  with assms enrich_status [OF assms(1) extraction_quiet [OF Some]] undisturbedD [OF task_quiet _ assms(1)]
  show ?thesis by (auto simp: start_enrichment_def returnM_def split: if_splits)
qed (use assms in \<open>simp add: start_enrichment_def returnM_def\<close>)

text \<open>A write that returns stored one new record, and touched no other.\<close>

lemma write_new_view:
  assumes inv: "inv s" and new: "fresh s"
    and key: "\<And>k. wr_idempotency_key request = Some k \<Longrightarrow> v_keys (view s) (wr_tenant_id request, k) = None"
    and typed: "scope_principal_type (wr_scope request) \<noteq> None"
    and run: "write_new rt repo audit observer extraction request s = (Inr res, s')"
  shows "\<exists>r. r = new_record request (initial_status request extraction) (res_memory_id res) (res_accepted_at res) \<and>
    inv s' \<and> v_fresh r (view s) \<and>
    status_changed (wr_tenant_id request) (res_memory_id res) (v_save r (norm r) (view s)) (view s') \<and>
    \<not> res_idempotent res \<and> res_pipeline_status res = initial_status request extraction"
proof -
  let ?st = "initial_status request extraction"
  from run obtain i s1 d s2 s3 a s4 s5 s6 s7 where uuid: "run_uuid4 rt s = (Inr i, s1)"
    and now: "run_utcnow rt s1 = (Inr d, s2)"
    and save: "rr_save repo (new_record request ?st i d) s2 = (Inr (), s3)"
    and rest: "run_uuid4 rt s3 = (Inr a, s4)"
      "al_append audit (Append_Entry (write_entry request a i d)) s4 = (Inr (), s5)"
      "ob_emit observer (event (wr_tenant_id request) (MemoryWrittenEvent i (wr_scope request)
        (mr_sector (new_record request ?st i d)) ?st)) s5 = (Inr (), s6)"
    and enr: "start_enrichment rt repo observer extraction request (new_record request ?st i d) s6 = (Inr (), s7)"
    and met: "run_metric rt (Inc ''memory_writes_total'' [(''tenant_id'', wr_tenant_id request),
        (''sector'', sector_str (mr_sector (new_record request ?st i d))), (''status'', ''success'')] 1) s7 = (Inr (), s')"
    and res: "res = \<lparr>res_memory_id = i, res_scope = wr_scope request, res_pipeline_status = ?st,
      res_accepted_at = d, res_idempotent = False\<rparr>"
    by (auto simp: write_new_def result_iff Let_def monad_simps)
  define r where "r = new_record request ?st i d"
  have s1: "inv s1" "view s1 = view s" using undisturbedD [OF uuid_quiet uuid inv] by auto
  have s2: "inv s2" "view s2 = view s" using undisturbedD [OF now_quiet now s1(1)] s1(2) by auto
  have ok: "storable r"
    using now_valid [OF s1(1) now] typed by (intro typed_storable) (simp_all add: r_def new_record_def)
  have fr: "v_fresh r (view s)"
    using uuid_fresh [OF inv new uuid] key by (simp add: v_fresh_def r_def new_record_def)
  have s3: "inv s3" "view s3 = v_save r (norm r) (view s)"
    using keepsD_eq [OF save_inv [OF ok] s2(1)] save_ok [OF s2(1) ok] save fr s2(2) by (auto simp: r_def)
  have s4: "inv s4" "view s4 = view s3" using undisturbedD [OF uuid_quiet rest(1) s3(1)] by auto
  have s5: "inv s5" "view s5 = view s3" using undisturbedD [OF append_quiet rest(2) s4(1)] s4(2) by auto
  have s6: "inv s6" "view s6 = view s3" using undisturbedD [OF emit_quiet rest(3) s5(1)] s5(2) by auto
  have s7: "inv s7" "status_changed (wr_tenant_id request) i (view s3) (view s7)"
    using start_enrichment_status [OF s6(1) enr] s6(2) by (simp_all add: new_record_def)
  have s': "inv s'" "view s' = view s7" using undisturbedD [OF metric_quiet met s7(1)] by auto
  show ?thesis
    using fr s3(2) s7(2) s' by (intro exI [of _ r]) (simp add: res r_def)
qed

text \<open>A replay: the key is known, the record behind it is answered, and nothing is stored.\<close>

lemma write_idempotent:
  assumes inv: "inv s" and run: "write_execute rt repo audit observer extraction request s = (Inr res, s')"
    and key: "wr_idempotency_key request = Some k" "v_keys (view s) (wr_tenant_id request, k) = Some m"
  shows "res_memory_id res = m \<and> res_idempotent res \<and> inv s' \<and> view s' = view s"
proof -
  from run key(1) obtain x s1 where get: "rr_get_by_idempotency_key repo k (wr_tenant_id request) s = (Inr x, s1)"
    by (auto simp: write_execute_def result_iff)
  from get_by_key_ok [OF inv get] key(2) obtain r where x: "x = Some r" "mr_id r = m"
    by (cases x) auto
  have s1: "inv s1" "view s1 = view s"
    using keepsD_eq [OF get_by_key_inv inv get] view_read(1) [OF get] by auto
  from run key(1) get x show ?thesis
    using undisturbedD [OF metric_quiet _ s1(1)] s1(2)
    by (auto simp: write_execute_def bindM_def monad_simps split: prod.splits sum.splits)
qed

lemma write_execute_view:
  assumes inv: "inv s" and new: "fresh s"
    and typed: "scope_principal_type (wr_scope request) \<noteq> None"
    and run: "write_execute rt repo audit observer extraction request s = (Inr res, s')"
    and fresh_write: "\<not> res_idempotent res"
  shows "\<exists>r. r = new_record request (initial_status request extraction) (res_memory_id res) (res_accepted_at res) \<and>
    inv s' \<and> v_fresh r (view s) \<and>
    status_changed (wr_tenant_id request) (res_memory_id res) (v_save r (norm r) (view s)) (view s') \<and>
    res_pipeline_status res = initial_status request extraction"
proof (cases "wr_idempotency_key request")
  case None
  with run have "write_new rt repo audit observer extraction request s = (Inr res, s')"
    by (simp add: write_execute_def)
  from write_new_view [OF inv new _ typed this] None show ?thesis by auto
next
  case (Some k)
  with run obtain x s1 where get: "rr_get_by_idempotency_key repo k (wr_tenant_id request) s = (Inr x, s1)"
    by (auto simp: write_execute_def result_iff)
  have s1: "inv s1" "view s1 = view s" "fresh s1"
    using keepsD_eq [OF get_by_key_inv inv get] view_read(1) [OF get] keepsD_eq [OF lookup_fresh new get]
    by auto
  have x: "x = None"
    using get_by_key_ok [OF inv get] write_idempotent [OF inv run Some] fresh_write by (cases x) auto
  with run get Some have "write_new rt repo audit observer extraction request s1 = (Inr res, s')"
    by (simp add: write_execute_def bindM_def)
  from write_new_view [OF s1(1,3) _ typed this] get_by_key_ok [OF inv get] x Some s1(2)
  show ?thesis by auto
qed

text \<open>Hence: a request's key leads every later write with it to the same record.\<close>

lemma written_key:
  assumes "inv s" "fresh s" "scope_principal_type (wr_scope request) \<noteq> None"
    and run: "write_execute rt repo audit observer extraction request s = (Inr res, s')"
    and key: "wr_idempotency_key request = Some k"
  shows "inv s' \<and> v_keys (view s') (wr_tenant_id request, k) = Some (res_memory_id res)"
proof (cases "v_keys (view s) (wr_tenant_id request, k)")
  case (Some m)
  with write_idempotent [OF assms(1) run key] show ?thesis by simp
next
  case None
  have "\<not> res_idempotent res"
  proof
    assume idem: "res_idempotent res"
    from run key obtain x s1 where get: "rr_get_by_idempotency_key repo k (wr_tenant_id request) s = (Inr x, s1)"
      by (auto simp: write_execute_def result_iff)
    with get_by_key_ok [OF assms(1) get] None have "x = None" by simp
    with run get key have "write_new rt repo audit observer extraction request s1 = (Inr res, s')"
      by (simp add: write_execute_def bindM_def)
    with idem show False by (auto simp: write_new_def result_iff Let_def monad_simps)
  qed
  from write_execute_view [OF assms(1-3) run this]
  obtain r where "r = new_record request (initial_status request extraction) (res_memory_id res) (res_accepted_at res)"
    "inv s'" "status_changed (wr_tenant_id request) (res_memory_id res) (v_save r (norm r) (view s)) (view s')"
    by auto
  with status_changed_keeps(2) [OF this(3)] key v_save_simps(3) [of r k "norm r" "view s"] show ?thesis
    by (simp add: new_record_def)
qed

end

subsection \<open>Writing against the contract of the audit log\<close>

locale audited_write = audit_trail +
  fixes rt :: "'s runtime"
    and repo :: "'s record_repo"
    and observer :: "'s observer_port"
    and extraction :: "'s extraction_port option"
  assumes now_quiet: "undisturbed inv entries (run_utcnow rt)"
    and now_valid: "inv s \<Longrightarrow> run_utcnow rt s = (Inr d, s') \<Longrightarrow> valid_datetime d"
    and uuid_quiet: "undisturbed inv entries (run_uuid4 rt)"
    and metric_quiet: "undisturbed inv entries (run_metric rt x)"
    and task_quiet: "undisturbed inv entries (run_create_task rt r)"
    and emit_quiet: "undisturbed inv entries (ob_emit observer e)"
    and save_quiet: "undisturbed inv entries (rr_save repo r)"
    and lookup_quiet: "undisturbed inv entries (rr_get_by_idempotency_key repo k t)"
    and status_quiet: "undisturbed inv entries (rr_update_pipeline_status repo m t st)"
    and extraction_quiet: "extraction = Some f \<Longrightarrow> undisturbed inv entries (f r)"
    and timed_storable: "valid_datetime (ae_timestamp en) \<Longrightarrow> storable en"
begin

lemma enrich_quiet: "undisturbed inv entries (f r) \<Longrightarrow> undisturbed inv entries (enrich repo observer f r)"
  unfolding enrich_def by (intro quiet_intro status_quiet emit_quiet)

lemma start_enrichment_quiet:
  "undisturbed inv entries (start_enrichment rt repo observer extraction request r)"
  using enrich_quiet extraction_quiet task_quiet
  by (auto simp: start_enrichment_def split: option.split)

text \<open>Each accepted write appends its own entry, a replay none.\<close>

lemma write_new_audited:
  assumes inv: "inv s"
    and run: "write_new rt repo log observer extraction request s = (Inr res, s')"
  shows "inv s' \<and> \<not> res_idempotent res \<and> (\<exists>i. entries s' = entries s @
    [norm (write_entry request i (res_memory_id res) (res_accepted_at res))])"
proof -
  let ?st = "initial_status request extraction"
  from run obtain i s1 d s2 s3 a s4 s5 s6 s7 where uuid: "run_uuid4 rt s = (Inr i, s1)"
    and now: "run_utcnow rt s1 = (Inr d, s2)"
    and save: "rr_save repo (new_record request ?st i d) s2 = (Inr (), s3)"
    and uuid2: "run_uuid4 rt s3 = (Inr a, s4)"
    and app: "al_append log (Append_Entry (write_entry request a i d)) s4 = (Inr (), s5)"
    and em: "ob_emit observer (event (wr_tenant_id request) (MemoryWrittenEvent i (wr_scope request)
        (mr_sector (new_record request ?st i d)) ?st)) s5 = (Inr (), s6)"
    and enr: "start_enrichment rt repo observer extraction request (new_record request ?st i d) s6 = (Inr (), s7)"
    and met: "run_metric rt (Inc ''memory_writes_total'' [(''tenant_id'', wr_tenant_id request),
        (''sector'', sector_str (mr_sector (new_record request ?st i d))), (''status'', ''success'')] 1) s7 = (Inr (), s')"
    and res: "res = \<lparr>res_memory_id = i, res_scope = wr_scope request, res_pipeline_status = ?st,
      res_accepted_at = d, res_idempotent = False\<rparr>"
    by (auto simp: write_new_def result_iff Let_def monad_simps)
  let ?e = "write_entry request a i d"
  have s1: "inv s1" "entries s1 = entries s" using undisturbedD [OF uuid_quiet uuid inv] by auto
  have s2: "inv s2" "entries s2 = entries s" using undisturbedD [OF now_quiet now s1(1)] s1 by auto
  have s3: "inv s3" "entries s3 = entries s" using undisturbedD [OF save_quiet save s2(1)] s2 by auto
  have s4: "inv s4" "entries s4 = entries s" using undisturbedD [OF uuid_quiet uuid2 s3(1)] s3 by auto
  have ok: "storable ?e"
    using now_valid [OF s1(1) now] by (intro timed_storable) (simp add: write_entry_def)
  have s5: "inv s5" "entries s5 = entries s @ [norm ?e]"
    using keepsD_eq [OF append_inv [OF ok] s4(1) app] append_ok [OF s4(1) ok app] s4(2) by auto
  have s6: "inv s6" "entries s6 = entries s5" using undisturbedD [OF emit_quiet em s5(1)] by auto
  have s7: "inv s7" "entries s7 = entries s5"
    using undisturbedD [OF start_enrichment_quiet enr s6(1)] s6(2) by auto
  have "inv s'" "entries s' = entries s5" using undisturbedD [OF metric_quiet met s7(1)] s7(2) by auto
  with s5(2) show ?thesis by (auto simp: res)
qed

lemma write_audited:
  assumes inv: "inv s"
    and run: "write_execute rt repo log observer extraction request s = (Inr res, s')"
  shows "inv s' \<and> (if res_idempotent res then entries s' = entries s
    else \<exists>i. entries s' = entries s @
      [norm (write_entry request i (res_memory_id res) (res_accepted_at res))])"
proof -
  let ?get = "case wr_idempotency_key request of None \<Rightarrow> returnM None
    | Some key \<Rightarrow> rr_get_by_idempotency_key repo key (wr_tenant_id request)"
  from run obtain x s1 where get: "?get s = (Inr x, s1)"
    and rest: "(case x of Some r \<Rightarrow>
         bindM (run_metric rt (Inc ''memory_writes_total'' [(''tenant_id'', wr_tenant_id request),
           (''sector'', sector_str (mr_sector r)), (''status'', ''idempotent'')] 1)) (\<lambda>_.
         returnM \<lparr>res_memory_id = mr_id r, res_scope = mr_scope r,
           res_pipeline_status = mr_pipeline_status r, res_accepted_at = mr_recorded_at r,
           res_idempotent = True\<rparr>)
       | None \<Rightarrow> write_new rt repo log observer extraction request) s1 = (Inr res, s')"
    by (auto simp: write_execute_def bindM_Inr_iff)
  have "undisturbed inv entries ?get" using lookup_quiet by (auto split: option.split)
  from undisturbedD [OF this get inv] have s1: "inv s1" "entries s1 = entries s" by auto
  show ?thesis
  proof (cases x)
    case None
    with write_new_audited [OF s1(1)] rest s1(2) show ?thesis by auto
  next
    case (Some r)
    with rest undisturbedD [OF metric_quiet _ s1(1)] s1(2) show ?thesis
      by (auto simp: result_iff monad_simps)
  qed
qed

end

end
