(* ===== verification/Consolidation.thy ===== *)
theory Consolidation
  imports Ingestion
begin

text \<open>
  \<^verbatim>\<open>engine/consolidation.py\<close>, \<open>ConsolidationService\<close>.  The LLM client here is an optional
  function of one prompt.
\<close>

definition newline :: string where
  "newline = [char_of (10 :: nat)]"

definition summarise :: "(string \<Rightarrow> ('s, string) action) option \<Rightarrow> string list \<Rightarrow> ('s, string) action" where
  "summarise llm payloads = (case llm of
       None \<Rightarrow> returnM (join newline payloads)
     | Some ask \<Rightarrow> tryM (ask (join newline payloads))
         (\<lambda>_. returnM (join newline payloads)))"

definition consolidated_record ::
  "tenant_id \<Rightarrow> memory_sector \<Rightarrow> scope \<Rightarrow> string \<Rightarrow> memory_id \<Rightarrow> datetime \<Rightarrow> memory_record" where
  "consolidated_record tenant_id sector sc payload memory_id now =
     \<lparr>mr_id = memory_id, mr_tenant_id = tenant_id, mr_scope = sc, mr_raw_payload = payload,
      mr_payload_type = CONVERSATION_TURN, mr_sector = sector, mr_lifecycle_state = CONSOLIDATED,
      mr_pipeline_status = ENRICHED, mr_recorded_at = as_utc now, mr_idempotency_key = None,
      mr_metadata = []\<rparr>"

definition retire ::
  "'s record_repo \<Rightarrow> 's audit_log_port \<Rightarrow> 's observer_port \<Rightarrow> tenant_id \<Rightarrow> memory_record \<Rightarrow> ('s, unit) action" where
  \<comment> \<open>the body of the loop over the batch\<close>
  "retire repo audit observer tenant_id record =
     bindM (rr_update_lifecycle repo (mr_id record) tenant_id CONSOLIDATED ''consolidation-service'') (\<lambda>_.
     bindM (al_append audit (Append_Kwargs tenant_id ''MEMORY_CONSOLIDATED'' (mr_id record)
       ''consolidation-service'')) (\<lambda>_.
     ob_emit observer (event tenant_id (MemoryConsolidatedEvent (mr_id record) None ACTIVE))))"

definition consolidate_batch ::
  "'s runtime \<Rightarrow> 's record_repo \<Rightarrow> 's audit_log_port \<Rightarrow> 's observer_port \<Rightarrow>
   (string \<Rightarrow> ('s, string) action) option \<Rightarrow> tenant_id \<Rightarrow> memory_sector \<Rightarrow> memory_record list \<Rightarrow> ('s, int) action" where
  "consolidate_batch rt repo audit observer llm tenant_id sector batch =
     bindM (ob_emit observer (event tenant_id (ConsolidationJobStartedEvent [] [] []))) (\<lambda>_.
     bindM (summarise llm (map mr_raw_payload batch)) (\<lambda>raw_payload.
     case batch of
       [] \<Rightarrow> raiseM IndexError
     | first # _ \<Rightarrow>
         bindM (run_uuid4 rt) (\<lambda>i.
         bindM (run_utcnow rt) (\<lambda>now.
         bindM (rr_save repo (consolidated_record tenant_id sector (mr_scope first) raw_payload i now)) (\<lambda>_.
         bindM (forM batch (retire repo audit observer tenant_id)) (\<lambda>_.
         bindM (ob_emit observer (event tenant_id
           (ConsolidationJobCompletedEvent [] (int (length batch)) 0))) (\<lambda>_.
         returnM (int (length batch)))))))))"

definition run_scope :: "tenant_id \<Rightarrow> scope option \<Rightarrow> scope" where
  "run_scope tenant_id sc = (case sc of Some s \<Rightarrow> s | None \<Rightarrow> Scope tenant_id None None)"

definition run_sector ::
  "'s runtime \<Rightarrow> 's record_repo \<Rightarrow> 's audit_log_port \<Rightarrow> 's observer_port \<Rightarrow>
   (string \<Rightarrow> ('s, string) action) option \<Rightarrow> tenant_id \<Rightarrow> scope option \<Rightarrow> consolidation_policy \<Rightarrow>
   memory_sector \<Rightarrow> ('s, int) action" where
  "run_sector rt repo audit observer llm tenant_id sc policy sector =
     bindM (rr_list_by_scope repo (run_scope tenant_id sc) [ACTIVE] default_limit) (\<lambda>records.
     let sector_records = filter (\<lambda>r. mr_sector r = sector) records in
     if int (length sector_records) < cp_threshold_record_count policy then returnM 0
     else consolidate_batch rt repo audit observer llm tenant_id sector
       (py_take (cp_max_items_per_run policy) sector_records))"

definition consolidation_execute ::
  "'s runtime \<Rightarrow> 's record_repo \<Rightarrow> 's audit_log_port \<Rightarrow> 's observer_port \<Rightarrow> 's policy_repo \<Rightarrow>
   (string \<Rightarrow> ('s, string) action) option \<Rightarrow> tenant_id \<Rightarrow> scope option \<Rightarrow> ('s, int) action" where
  "consolidation_execute rt repo audit observer policy_repo llm tenant_id sc =
     bindM (pr_get policy_repo tenant_id) (\<lambda>policies.
     let policy = tp_consolidation policies in
     if \<not> cp_enabled policy then returnM 0
     else
       bindM (forM (cp_sectors policy) (run_sector rt repo audit observer llm tenant_id sc policy)) (\<lambda>counts.
       bindM (run_metric rt (Inc ''memory_consolidations_total'' [(''tenant_id'', tenant_id)] (sum_list counts))) (\<lambda>_.
       returnM (sum_list counts))))"

subsection \<open>Over an audit log that keeps its protocol\<close>

text \<open>
  \<open>append\<close> is called with keyword arguments the protocol does not have, so no batch is ever
  completed.
\<close>

context audit_trail
begin

lemma retire_raises: "\<exists>e s'. retire repo log observer t r s = (Inl e, s')"
proof -
  obtain x s1 where u: "rr_update_lifecycle repo (mr_id r) t CONSOLIDATED ''consolidation-service'' s = (x, s1)"
    by fastforce
  obtain e where "al_append log (Append_Kwargs t ''MEMORY_CONSOLIDATED'' (mr_id r) ''consolidation-service'') s1 = (Inl e, s1)"
    using append_kwargs by blast
  with u show ?thesis by (cases x) (auto simp: retire_def bindM_def)
qed

lemma batch_raises: "consolidate_batch rt repo log observer llm t se batch s \<noteq> (Inr n, s')"
proof -
  have no: "retire repo log observer t r u \<noteq> (Inr (), u')" for r u u'
    using retire_raises [of repo observer t r u] by auto
  show ?thesis
    by (cases batch) (auto simp: consolidate_batch_def result_iff monad_simps no)
qed

lemma sector_processes_none:
  "run_sector rt repo log observer llm t sc policy se s = (Inr n, s') \<Longrightarrow> n = 0"
  using batch_raises by (auto simp: run_sector_def result_iff Let_def monad_simps split: if_splits)

lemma consolidation_processes_none:
  assumes "consolidation_execute rt repo log observer pol llm t sc s = (Inr n, s')"
  shows "n = 0"
proof -
  have all: "forM ss (run_sector rt repo log observer llm t sc policy) u = (Inr counts, u') \<Longrightarrow>
      sum_list counts = 0" for ss policy u counts u'
  proof (induction ss arbitrary: u counts)
    case (Cons se ss)
    then show ?case by (auto simp: result_iff monad_simps dest: sector_processes_none)
  qed simp
  from assms show ?thesis
    by (auto simp: consolidation_execute_def result_iff Let_def monad_simps all split: if_splits)
qed

end

subsection \<open>Over the contract of the record repository\<close>

text \<open>What a pass may do to the records: add or turn active records into consolidated ones.\<close>

definition consolidates :: "tenant_id \<Rightarrow> store_view \<Rightarrow> store_view \<Rightarrow> bool" where
  "consolidates t v v' \<longleftrightarrow> (\<forall>p. lifecycles v' p = lifecycles v p \<or>
     fst p = t \<and> lifecycles v' p = Some CONSOLIDATED \<and>
     (lifecycles v p = Some ACTIVE \<or> lifecycles v p = None))"

lemma consolidates_refl [simp]: "consolidates t v v"
  by (simp add: consolidates_def)

lemma consolidates_update:
  assumes "consolidates t v w" "lifecycles v (t, m) = Some ACTIVE"
  shows "consolidates t v (v_update t m (set_lifecycle CONSOLIDATED) w)"
  unfolding consolidates_def
proof
  fix p
  show "lifecycles (v_update t m (set_lifecycle CONSOLIDATED) w) p = lifecycles v p \<or>
    fst p = t \<and> lifecycles (v_update t m (set_lifecycle CONSOLIDATED) w) p = Some CONSOLIDATED \<and>
    (lifecycles v p = Some ACTIVE \<or> lifecycles v p = None)"
  proof (cases "p = (t, m)")
    case True
    from assms have "lifecycles w (t, m) \<noteq> None" unfolding consolidates_def by (metis option.distinct(1))
    then obtain r where "v_records w (t, m) = Some r" by (auto simp: lifecycles_def)
    with True assms(2) show ?thesis by (simp add: lifecycles_def set_lifecycle_def)
  next
    case False
    then have "lifecycles (v_update t m (set_lifecycle CONSOLIDATED) w) p = lifecycles w p"
      by (simp add: lifecycles_def)
    with assms(1) [unfolded consolidates_def, rule_format, of p] show ?thesis by simp
  qed
qed

lemma consolidates_save:
  assumes "v_records v (mr_tenant_id r, mr_id r) = None" "mr_lifecycle_state x = CONSOLIDATED"
  shows "consolidates (mr_tenant_id r) v (v_save r x v)"
  using assms by (auto simp: consolidates_def lifecycles_def v_save_def)

text \<open>A policy whose threshold exceeds the default listing limit never starts a batch.\<close>

context record_repository
begin

lemma sector_below_threshold:
  assumes "default_limit < cp_threshold_record_count policy"
    and "run_sector rt repo audit observer llm t sc policy se s = (x, s')"
  shows "s' = snd (rr_list_by_scope repo (run_scope t sc) [ACTIVE] default_limit s) \<and> view s' = view s \<and>
    (x = Inr 0 \<or> (\<exists>e. x = Inl e))"
proof -
  obtain y s1 where l: "rr_list_by_scope repo (run_scope t sc) [ACTIVE] default_limit s = (y, s1)" by fastforce
  show ?thesis
  proof (cases y)
    case (Inl e)
    with assms(2) l view_read(3) [OF l] show ?thesis by (auto simp: run_sector_def bindM_def)
  next
    case (Inr rs)
    have "length (filter (\<lambda>r. mr_sector r = se) rs) \<le> length rs" by (rule length_filter_le)
    moreover have "int (length rs) \<le> default_limit"
      using list_limit [OF _ l [unfolded Inr]] by (simp add: default_limit_def)
    ultimately have "int (length (filter (\<lambda>r. mr_sector r = se) rs)) < cp_threshold_record_count policy"
      using assms(1) by linarith
    with assms(2) l Inr view_read(3) [OF l] show ?thesis
      by (auto simp: run_sector_def bindM_def Let_def monad_simps)
  qed
qed

end

lemma undisturbed_keeps: "undisturbed P view m \<Longrightarrow> keeps (\<lambda>u. P u \<and> Q (view u)) m"
  by (auto simp: undisturbed_def keeps_def)

lemma undisturbed_with:
  "undisturbed P view m \<Longrightarrow> keeps Q m \<Longrightarrow> keeps (\<lambda>u. (P u \<and> view u = v) \<and> Q u) m"
  by (auto simp: undisturbed_def keeps_def)

locale consolidation_service = write_service +
  assumes list_fresh: "keeps fresh (rr_list_by_scope repo sc sts n)"
    and emit_fresh: "keeps fresh (ob_emit observer e)"
    and list_typed: "rr_list_by_scope repo sc sts n s = (Inr rs, s') \<Longrightarrow> x \<in> set rs \<Longrightarrow>
      scope_principal_type (mr_scope x) \<noteq> None"
begin

lemma retire_keeps:
  assumes "lifecycles v (t, mr_id r) = Some ACTIVE"
  shows "keeps (\<lambda>u. inv u \<and> consolidates t v (view u)) (retire repo audit observer t r)"
proof -
  let ?P = "\<lambda>u. inv u \<and> consolidates t v (view u)"
  have "keeps ?P
      (rr_update_lifecycle repo (mr_id r) t CONSOLIDATED ''consolidation-service'')"
  proof (rule keepsI)
    fix u assume "inv u \<and> consolidates t v (view u)"
    then have u: "inv u" "consolidates t v (view u)" by auto
    obtain x u' where run: "rr_update_lifecycle repo (mr_id r) t CONSOLIDATED ''consolidation-service'' u = (x, u')"
      by fastforce
    have "inv u'" using keepsD_eq [OF lifecycle_inv u(1) run] .
    moreover have "consolidates t v (view u')"
    proof (cases x)
      case (Inl e)
      with lifecycle_error run u(2) show ?thesis by auto
    next
      case (Inr z)
      with lifecycle_ok [OF u(1)] run have "view u' = v_update t (mr_id r) (set_lifecycle CONSOLIDATED) (view u)"
        by simp
      with consolidates_update [OF u(2) assms] show ?thesis by simp
    qed
    ultimately show "inv (snd (rr_update_lifecycle repo (mr_id r) t CONSOLIDATED ''consolidation-service'' u)) \<and>
        consolidates t v (view (snd (rr_update_lifecycle repo (mr_id r) t CONSOLIDATED ''consolidation-service'' u)))"
      by (simp add: run)
  qed
  moreover have "keeps ?P (al_append audit c)" for c
    by (rule undisturbed_keeps [OF append_quiet])
  moreover have "keeps ?P (ob_emit observer e)" for e
    by (rule undisturbed_keeps [OF emit_quiet])
  ultimately show ?thesis unfolding retire_def by (intro keeps_intro)
qed

lemma save_consolidated:
  assumes "inv s" "view s = v" "v_records v (t, i) = None" "valid_datetime now"
    and "v_fresh (consolidated_record t se sc p i now) v" "scope_principal_type sc \<noteq> None"
    and run: "rr_save repo (consolidated_record t se sc p i now) s = (x, s')"
  shows "inv s' \<and> consolidates t v (view s')"
proof -
  let ?r = "consolidated_record t se sc p i now"
  have ok: "storable ?r" using assms(4,6) by (intro typed_storable) (simp_all add: consolidated_record_def)
  have "inv s'" using keepsD_eq [OF save_inv [OF ok] assms(1) run] .
  moreover have "consolidates t v (view s')"
  proof (cases x)
    case (Inl e)
    with save_error run assms(2) show ?thesis by auto
  next
    case (Inr z)
    with save_ok [OF assms(1) ok] run assms(2,5) have "view s' = v_save ?r (norm ?r) v" by simp
    with consolidates_save [of v ?r "norm ?r"] assms(3) norm_fields(5) [of ?r] show ?thesis
      by (simp add: consolidated_record_def)
  qed
  ultimately show ?thesis ..
qed

lemma sector_consolidates:
  assumes inv: "inv s" and new: "fresh s" and sc: "scope_tenant_id (run_scope t sc) = t"
    and llm: "\<And>ask p. llm = Some ask \<Longrightarrow> undisturbed inv view (ask p) \<and> keeps fresh (ask p)"
    and run: "run_sector rt repo audit observer llm t sc policy se s = (x, s')"
  shows "inv s' \<and> consolidates t (view s) (view s')"
proof -
  let ?v = "view s"
  let ?P = "\<lambda>u. inv u \<and> consolidates t ?v (view u)"
  let ?K = "\<lambda>u. (inv u \<and> view u = ?v) \<and> fresh u"
  obtain y s1 where l: "rr_list_by_scope repo (run_scope t sc) [ACTIVE] default_limit s = (y, s1)" by fastforce
  have s1: "inv s1" "view s1 = ?v" "fresh s1"
    using keepsD_eq [OF list_inv inv l] view_read(3) [OF l] keepsD_eq [OF list_fresh new l] by auto
  have summary: "keeps ?K (summarise llm ps)" for ps
  proof (cases llm)
    case None
    then show ?thesis by (simp add: summarise_def keeps_pure)
  next
    case (Some ask)
    have "keeps ?K (ask p)" for p using llm [OF Some] by (intro undisturbed_with) auto
    with Some show ?thesis by (simp add: summarise_def keeps_tryM keeps_pure)
  qed
  show ?thesis
  proof (cases y)
    case (Inl e)
    with run l s1 show ?thesis by (simp add: run_sector_def bindM_def)
  next
    case (Inr records)
    define batch where "batch = py_take (cp_max_items_per_run policy) (filter (\<lambda>r. mr_sector r = se) records)"
    have member: "lifecycles ?v (t, mr_id r) = Some ACTIVE \<and> scope_principal_type (mr_scope r) \<noteq> None"
      if "r \<in> set batch" for r
    proof -
      from that have r: "r \<in> set records"
        using set_py_take [of "cp_max_items_per_run policy" "filter (\<lambda>r. mr_sector r = se) records"]
        by (auto simp: batch_def)
      from list_ok [OF inv l [unfolded Inr] r] list_typed [OF l [unfolded Inr] r] sc show ?thesis
        by (auto simp: lifecycles_def)
    qed
    have rest: "keeps ?P (bindM (forM batch (retire repo audit observer t)) (\<lambda>_.
        bindM (ob_emit observer e) (\<lambda>_. returnM n)))" for e n
      by (intro keeps_intro retire_keeps undisturbed_keeps [OF emit_quiet]) (use member in blast)
    have save: "?P (snd (bindM (run_uuid4 rt) (\<lambda>i. bindM (run_utcnow rt) (\<lambda>now.
        bindM (rr_save repo (consolidated_record t se (mr_scope first) p i now)) (\<lambda>_.
        bindM (forM batch (retire repo audit observer t)) (\<lambda>_.
        bindM (ob_emit observer e) (\<lambda>_. returnM n))))) u))"
      if u: "?K u" and first: "first \<in> set batch" for u p first e n
    proof -
      obtain a u1 where a: "run_uuid4 rt u = (a, u1)" by fastforce
      have u1: "inv u1" "view u1 = ?v" using undisturbedD [OF uuid_quiet a] u by auto
      obtain b u2 where b: "run_utcnow rt u1 = (b, u2)" by fastforce
      have u2: "inv u2" "view u2 = ?v" using undisturbedD [OF now_quiet b] u1 by auto
      show ?thesis
      proof (cases "(\<exists>i. a = Inr i) \<and> (\<exists>now. b = Inr now)")
        case True
        then obtain i now where ab: "a = Inr i" "b = Inr now" by auto
        have none: "v_records ?v (t', i) = None" for t'
          using uuid_fresh [of u i u1 t'] u a ab by simp
        then have fr: "v_fresh (consolidated_record t se (mr_scope first) p i now) ?v"
          by (simp add: v_fresh_def consolidated_record_def)
        obtain c u3 where c: "rr_save repo (consolidated_record t se (mr_scope first) p i now) u2 = (c, u3)"
          by fastforce
        have now: "valid_datetime now" using now_valid [of u1 now u2] u1(1) b ab(2) by simp
        have u3: "?P u3"
          by (rule save_consolidated [OF u2 none now fr _ c]) (use member [OF first] in simp)
        show ?thesis
          using keepsD [OF rest u3] u3 a b c ab by (cases c) (simp_all add: bindM_def)
      next
        case False
        with a b u1 u2 show ?thesis by (cases a; cases b) (auto simp: bindM_def)
      qed
    qed
    have whole: "?P (snd (consolidate_batch rt repo audit observer llm t se batch s1))"
    proof -
      let ?start = "event t (ConsolidationJobStartedEvent [] [] [])"
      obtain a u where a: "ob_emit observer ?start s1 = (a, u)" by fastforce
      have u: "?K u" using keepsD_eq [OF undisturbed_with [OF emit_quiet emit_fresh] _ a] s1 by blast
      obtain b w where b: "summarise llm (map mr_raw_payload batch) u = (b, w)" by fastforce
      have w: "?K w" using keepsD_eq [OF summary u b] .
      show ?thesis
      proof (cases "(\<exists>z. a = Inr z) \<and> (\<exists>p. b = Inr p) \<and> batch \<noteq> []")
        case True
        then obtain z p first more where "a = Inr z" "b = Inr p" and batch: "batch = first # more"
          by (cases batch) auto
        then have "consolidate_batch rt repo audit observer llm t se batch s1 =
          (bindM (run_uuid4 rt) (\<lambda>i. bindM (run_utcnow rt) (\<lambda>now.
            bindM (rr_save repo (consolidated_record t se (mr_scope first) p i now)) (\<lambda>_.
            bindM (forM batch (retire repo audit observer t)) (\<lambda>_.
            bindM (ob_emit observer (event t (ConsolidationJobCompletedEvent [] (int (length batch)) 0))) (\<lambda>_.
            returnM (int (length batch))))))) w)"
          using a b by (simp add: consolidate_batch_def bindM_def batch)
        with save [OF w, of first] batch show ?thesis by simp
      next
        case False
        with a b u w show ?thesis
          by (cases a; cases b; cases batch) (auto simp: consolidate_batch_def bindM_def monad_simps)
      qed
    qed
    show ?thesis
      using run l Inr s1 whole
      by (auto simp: run_sector_def bindM_def Let_def batch_def monad_simps split: if_splits)
  qed
qed

end

end
