(* ===== verification/Lifecycle_Services.thy ===== *)
theory Lifecycle_Services
  imports Consolidation
begin

text \<open>
  The services that run over the stored records: \<^verbatim>\<open>engine/decay.py\<close>, \<^verbatim>\<open>engine/session.py\<close>
  and \<^verbatim>\<open>engine/explain.py\<close>.
\<close>

subsection \<open>Decay\<close>

definition default_decay_days :: int where
  "default_decay_days = 30"

definition decay_entry :: "tenant_id \<Rightarrow> memory_record \<Rightarrow> audit_id \<Rightarrow> datetime \<Rightarrow> audit_entry" where
  "decay_entry tenant_id record audit_id now =
     \<lparr>ae_id = audit_id, ae_tenant_id = tenant_id, ae_scope = mr_scope record, ae_operation = DECAY,
      ae_memory_id = Some (mr_id record), ae_actor = ''system'', ae_timestamp = now,
      ae_outcome = SUCCESS, ae_detail = []\<rparr>"

definition decay_one ::
  "'s runtime \<Rightarrow> 's record_repo \<Rightarrow> 's audit_log_port \<Rightarrow> tenant_id \<Rightarrow> memory_record \<Rightarrow> ('s, unit) action" where
  "decay_one rt repo audit tenant_id record =
     bindM (rr_update_lifecycle_state repo (mr_id record) tenant_id DECAYED) (\<lambda>_.
     bindM (run_uuid4 rt) (\<lambda>i.
     bindM (run_utcnow rt) (\<lambda>now.
     al_append audit (Append_Entry (decay_entry tenant_id record i now)))))"

definition decay_execute ::
  "'s runtime \<Rightarrow> 's record_repo \<Rightarrow> 's audit_log_port \<Rightarrow> int \<Rightarrow> tenant_id \<Rightarrow> ('s, int) action" where
  "decay_execute rt repo audit decay_days tenant_id =
     bindM (run_utcnow rt) (\<lambda>now.
     bindM (liftM (sub_days now decay_days)) (\<lambda>cutoff.
     bindM (rr_list_active_older_than repo tenant_id cutoff) (\<lambda>records.
     bindM (forM records (decay_one rt repo audit tenant_id)) (\<lambda>decayed.
     bindM (run_metric rt (Inc ''memory_decays_total'' [(''tenant_id'', tenant_id)] (int (length decayed)))) (\<lambda>_.
     returnM (int (length decayed)))))))"

subsection \<open>End of a session\<close>

definition session_end ::
  "'s record_repo \<Rightarrow> 's policy_repo \<Rightarrow> 's observer_port \<Rightarrow>
   (tenant_id \<Rightarrow> scope option \<Rightarrow> ('s, int) action) \<Rightarrow> tenant_id \<Rightarrow> session_id \<Rightarrow> scope \<Rightarrow> ('s, unit) action" where
  "session_end repo policy_repo observer consolidation tenant_id session_id sc =
     bindM (rr_list_by_scope repo sc [ACTIVE] 10000) (\<lambda>records.
     bindM (ob_emit observer (event tenant_id
       (SessionEndedEvent session_id sc (int (length records))))) (\<lambda>_.
     bindM (pr_get policy_repo tenant_id) (\<lambda>policies.
     let policy = tp_consolidation policies in
     if cp_trigger policy = SESSION_END \<and> cp_enabled policy
     then bindM (consolidation tenant_id (Some sc)) (\<lambda>_. returnM ())
     else returnM ())))"

subsection \<open>Explaining a recall\<close>

definition explain_step ::
  "'s record_repo \<Rightarrow> tenant_id \<Rightarrow> trace_step \<Rightarrow> ('s, trace_step) action" where
  "explain_step repo tenant_id step =
     bindM (rr_get_by_id repo (ts_memory_id step) tenant_id) (\<lambda>record.
     returnM (step\<lparr>ts_record_available := (record \<noteq> None)\<rparr>))"

definition explain_execute ::
  "'s trace_repo \<Rightarrow> 's record_repo \<Rightarrow> trace_id \<Rightarrow> tenant_id \<Rightarrow> ('s, recall_trace) action" where
  "explain_execute traces repo trace_id tenant_id =
     bindM (tr_get_by_trace_id traces trace_id tenant_id) (\<lambda>found.
     case found of
       None \<Rightarrow> raiseM (MemoryNotFoundError (''Trace '' @ trace_id @ '' not found''))
     | Some trace \<Rightarrow>
         bindM (forM (rt_steps trace) (explain_step repo tenant_id)) (\<lambda>steps.
         returnM (trace\<lparr>rt_steps := steps\<rparr>)))"

lemma decay_Inr:
  assumes "decay_execute rt repo audit days t s = (Inr n, s')"
  obtains now s1 cutoff records s2 where "run_utcnow rt s = (Inr now, s1)" "sub_days now days = Inr cutoff"
    "rr_list_active_older_than repo t cutoff s1 = (Inr records, s2)" "n = int (length records)"
  using assms by (auto simp: decay_execute_def bindM_Inr_iff liftM_def returnM_def dest!: forM_length)

end
