(* ===== verification/Api_App.thy ===== *)
theory Api_App
  imports Api_Errors Lifecycle_Services "HOL-Library.Sublist"
begin

text \<open>
  \<^verbatim>\<open>api/tenant.py\<close>, \<^verbatim>\<open>api/middleware.py\<close> and \<^verbatim>\<open>api/app.py\<close>: the tenant of a request, the
  middleware around the application, and one definition per endpoint, run against the use
  cases its dependencies provide.

  FastAPI matches a request to an endpoint and reads its parameters; that is the parameter
  \<open>router\<close>.  A body that did not validate reaches the endpoint as the list of its errors,
  because the framework reports it only after the dependencies have been resolved.
\<close>

subsection \<open>The tenant of a request\<close>

record request =
  req_path :: string
  req_header :: "string \<Rightarrow> string option"
  state_tenant_id :: "tenant_id option"

definition tenant_header :: string where
  "tenant_header = ''x-tenant-id''"

definition resolve_tenant_id :: "request \<Rightarrow> exn + tenant_id" where
  "resolve_tenant_id req =
     (let violation = Inl (TenantIsolationViolation ''<unauthenticated>'' ''<unknown>'') in
      case req_header req tenant_header of
        None \<Rightarrow> violation
      | Some raw \<Rightarrow> if py_strip raw = [] then violation else Inr (py_strip raw))"

definition assert_tenant_match :: "tenant_id \<Rightarrow> tenant_id \<Rightarrow> exn + unit" where
  "assert_tenant_match request_tenant_id target_tenant_id =
     (if request_tenant_id \<noteq> target_tenant_id
      then Inl (TenantIsolationViolation request_tenant_id target_tenant_id) else Inr ())"

definition get_request_tenant_id :: "request \<Rightarrow> api_exn + tenant_id" where
  "get_request_tenant_id req = (case state_tenant_id req of
       None \<Rightarrow> Inl (Raised (AttributeError
         (py_repr ''State'' @ '' object has no attribute '' @ py_repr ''tenant_id'')))
     | Some t \<Rightarrow> Inr t)"

subsection \<open>The middleware\<close>

type_synonym 's app = "request \<Rightarrow> 's \<Rightarrow> response \<times> 's"

definition bypasses_tenant :: "string \<Rightarrow> bool" where
  "bypasses_tenant path \<longleftrightarrow> \<not> prefix ''/v1/'' path \<or> prefix ''/v1/admin/'' path"

definition refusal :: "exn \<Rightarrow> response" where
  "refusal exc = \<lparr>status_code = 403, content = Error_Body
     \<lparr>er_error_code = ''TENANT_ISOLATION_VIOLATION'', er_message = exn_str exc,
      er_details = [(''actor'', JStr (actor_of exc)), (''requested_tenant_id'', JStr (requested_of exc))],
      er_trace_id = None\<rparr>\<rparr>"

definition dispatch :: "'s app \<Rightarrow> 's app" where
  "dispatch call_next req s =
     (if bypasses_tenant (req_path req) then call_next req s
      else (case resolve_tenant_id req of
          Inl exc \<Rightarrow> (refusal exc, s)
        | Inr t \<Rightarrow> call_next (req\<lparr>state_tenant_id := Some t\<rparr>) s))"

subsection \<open>Use cases and their providers\<close>

text \<open>
  A provider that was not overridden raises \<open>NotImplementedError\<close>.  What an explain use case
  returns is a \<open>MemoryTrace\<close> by its protocol and a \<open>RecallTrace\<close> by the engine's service.
\<close>

datatype trace_value = Memory_Trace memory_trace | Recall_Trace recall_trace

record 's use_cases =
  uc_write :: "(write_request \<Rightarrow> ('s, write_result) action) option"
  uc_search :: "(search_request \<Rightarrow> ('s, search_result) action) option"
  uc_recall :: "(recall_request \<Rightarrow> ('s, recall_result) action) option"
  uc_get :: "(memory_id \<times> tenant_id \<Rightarrow> ('s, memory_record) action) option"
  uc_delete :: "(memory_id \<times> tenant_id \<times> string \<Rightarrow> ('s, unit) action) option"
  uc_explain :: "(trace_id \<times> tenant_id \<Rightarrow> ('s, trace_value) action) option"
  uc_session_ended :: "(tenant_id \<times> session_id \<times> scope \<Rightarrow> ('s, unit) action) option"
  uc_decay :: "(tenant_id \<Rightarrow> ('s, int) action) option"
  uc_consolidate :: "(tenant_id \<Rightarrow> ('s, int) action) option"
  uc_migrator :: "('s, json_dict) action option"

type_synonym ('s, 'a) api_action = "(api_exn, 's, 'a) comp"

definition provider :: "string \<Rightarrow> 'u option \<Rightarrow> ('s, 'u) api_action" where
  "provider name u = (case u of
       None \<Rightarrow> raiseM (NotImplementedError (name @ '' provider not configured.''))
     | Some f \<Rightarrow> returnM f)"

definition runM :: "('s, 'a) action \<Rightarrow> ('s, 'a) api_action" where
  "runM m s = (case m s of (Inl e, s') \<Rightarrow> (Inl (Raised e), s') | (Inr x, s') \<Rightarrow> (Inr x, s'))"

definition validated :: "json + 'm \<Rightarrow> ('s, 'm) api_action" where
  "validated b = (case b of Inl errs \<Rightarrow> raiseM (RequestValidationError errs) | Inr m \<Rightarrow> returnM m)"

definition ok :: "nat \<Rightarrow> body \<Rightarrow> response" where
  "ok n b = \<lparr>status_code = n, content = b\<rparr>"

subsection \<open>The endpoints\<close>

definition scope_from_model :: "tenant_id \<Rightarrow> scope_model \<Rightarrow> scope" where
  "scope_from_model t m = \<lparr>scope_tenant_id = t, scope_principal_id = Some (sm_principal_id m),
     scope_principal_type = Some (sm_principal_type m), scope_workspace_id = or_none (sm_workspace_id m),
     scope_session_id = or_none (sm_session_id m), scope_run_id = or_none (sm_run_id m)\<rparr>"

text \<open>The dependencies of an endpoint below the tenant middleware, then its body.\<close>

definition with_tenant ::
  "request \<Rightarrow> string \<Rightarrow> 'u option \<Rightarrow> (tenant_id \<Rightarrow> 'u \<Rightarrow> ('s, response) api_action) \<Rightarrow> ('s, response) api_action" where
  "with_tenant req name u f =
     bindM (liftM (get_request_tenant_id req)) (\<lambda>t. bindM (provider name u) (\<lambda>use_case. f t use_case))"

definition write_memory :: "'s use_cases \<Rightarrow> request \<Rightarrow> json + write_model \<Rightarrow> ('s, response) api_action" where
  "write_memory ucs req body = with_tenant req ''WriteMemoryUseCase'' (uc_write ucs) (\<lambda>t use_case.
     bindM (validated body) (\<lambda>m.
     bindM (runM (use_case \<lparr>wr_tenant_id = t, wr_scope = scope_from_model t (wm_scope m),
       wr_raw_payload = wm_raw_payload m, wr_payload_type = wm_payload_type m, wr_sector = wm_sector m,
       wr_idempotency_key = wm_idempotency_key m, wr_extract = wm_extract m,
       wr_wait_for_enrichment = wm_wait_for_enrichment m, wr_metadata = wm_metadata m\<rparr>)) (\<lambda>result.
     returnM (ok 200 (Write_Body \<lparr>wp_memory_id = res_memory_id result,
       wp_pipeline_status = res_pipeline_status result, wp_accepted_at = res_accepted_at result,
       wp_idempotent = res_idempotent result\<rparr>)))))"

definition search_item :: "search_result_item \<Rightarrow> search_item_model" where
  "search_item i = \<lparr>im_memory_id = si_memory_id i, im_content = si_content i, im_sector = si_sector i,
     im_score = si_score i, im_pipeline_status = si_pipeline_status i,
     im_lifecycle_state = si_lifecycle_state i, im_signals = si_signals i,
     im_effective_from = si_effective_from i\<rparr>"

definition search_memories :: "'s use_cases \<Rightarrow> request \<Rightarrow> json + search_model \<Rightarrow> ('s, response) api_action" where
  "search_memories ucs req body = with_tenant req ''SearchMemoryUseCase'' (uc_search ucs) (\<lambda>t use_case.
     bindM (validated body) (\<lambda>m.
     bindM (runM (use_case \<lparr>sr_tenant_id = t, sr_scope = scope_from_model t (hm_scope m),
       sr_query = hm_query m, sr_mode = hm_mode m, sr_sectors = hm_sectors m,
       sr_lifecycle_states = hm_lifecycle_states m,
       sr_temporal_filter = map_option (\<lambda>tf. \<lparr>as_of = tm_as_of tf, from_dt = tm_from_dt tf,
         until_dt = tm_until_dt tf\<rparr>) (hm_temporal_filter m),
       sr_k = hm_k m\<rparr>)) (\<lambda>result.
     returnM (ok 200 (Search_Body \<lparr>sp_items = map search_item (ss_items result),
       sp_total = ss_total result, sp_searched_at = ss_searched_at result\<rparr>)))))"

definition recall_item_of :: "recall_item \<Rightarrow> recall_item_model" where
  "recall_item_of i = \<lparr>rm_memory_id = ri_memory_id i, rm_content = ri_content i, rm_sector = ri_sector i,
     rm_lifecycle_state = ri_lifecycle_state i, rm_pipeline_status = ri_pipeline_status i,
     rm_effective_from = ri_effective_from i, rm_signals = ri_signals i,
     rm_explanation = ri_explanation i, rm_trace_id = or_none (ri_trace_id i)\<rparr>"

definition recall_memories :: "'s use_cases \<Rightarrow> request \<Rightarrow> json + recall_model \<Rightarrow> ('s, response) api_action" where
  "recall_memories ucs req body = with_tenant req ''RecallMemoryUseCase'' (uc_recall ucs) (\<lambda>t use_case.
     bindM (validated body) (\<lambda>m.
     bindM (runM (use_case \<lparr>rq_tenant_id = t, rq_scope = scope_from_model t (lm_scope m),
       rq_query = lm_query m, rq_max_tokens = lm_max_tokens m, rq_max_items = lm_max_items m,
       rq_sectors = lm_sectors m, rq_include_facts = lm_include_facts m,
       rq_include_verbatim = lm_include_verbatim m, rq_mode = lm_mode m\<rparr>)) (\<lambda>result.
     returnM (ok 200 (Recall_Body \<lparr>rp_status = rl_status result,
       rp_no_match_reason = rl_no_match_reason result, rp_items = map recall_item_of (rl_items result),
       rp_total_tokens_estimate = rl_total_tokens_estimate result,
       rp_recall_strategy = rl_recall_strategy result, rp_recalled_at = rl_recalled_at result\<rparr>)))))"

definition get_memory :: "'s use_cases \<Rightarrow> request \<Rightarrow> memory_id \<Rightarrow> ('s, response) api_action" where
  "get_memory ucs req memory_id = with_tenant req ''GetMemoryUseCase'' (uc_get ucs) (\<lambda>t use_case.
     bindM (runM (use_case (memory_id, t))) (\<lambda>r.
     returnM (ok 200 (Json_Body (JObj [(''memory_id'', JStr (mr_id r)),
       (''sector'', JStr (sector_str (mr_sector r))),
       (''lifecycle_state'', JStr (lifecycle_str (mr_lifecycle_state r))),
       (''pipeline_status'', JStr (pipeline_str (mr_pipeline_status r))),
       (''recorded_at'', JStr (isoformat (mr_recorded_at r))),
       (''raw_payload'', JStr (mr_raw_payload r))])))))"

definition delete_memory :: "'s use_cases \<Rightarrow> request \<Rightarrow> memory_id \<Rightarrow> string \<Rightarrow> ('s, response) api_action" where
  "delete_memory ucs req memory_id actor = with_tenant req ''DeleteMemoryUseCase'' (uc_delete ucs)
     (\<lambda>t use_case. bindM (runM (use_case (memory_id, t, actor))) (\<lambda>_. returnM (ok 204 Empty_Body)))"

text \<open>
  The trace endpoint reads \<open>trace.scope\<close>, \<open>trace.memory_id\<close> and \<open>trace.constructed_at\<close>, which a
  \<open>MemoryTrace\<close> has and a \<open>RecallTrace\<close> has not.
\<close>

definition explain_body :: "trace_value \<Rightarrow> exn + body" where
  "explain_body trace = (case trace of
       Recall_Trace _ \<Rightarrow> Inl (AttributeError
         (py_repr ''RecallTrace'' @ '' object has no attribute '' @ py_repr ''scope''))
     | Memory_Trace m \<Rightarrow> Inr (Explain_Body \<lparr>xp_trace_id = mt_trace_id m,
         xp_tenant_id = scope_tenant_id (mt_scope m), xp_query = mt_trace_id m, xp_mode = ''provenance'',
         xp_steps = [\<lparr>tp_memory_id = mt_memory_id m, tp_rank = 0, tp_score = 1, tp_signals = [],
           tp_explanation = '''', tp_record_available = True\<rparr>],
         xp_created_at = mt_constructed_at m\<rparr>))"

definition explain_recall :: "'s use_cases \<Rightarrow> request \<Rightarrow> trace_id \<Rightarrow> ('s, response) api_action" where
  "explain_recall ucs req trace_id = with_tenant req ''ExplainRecallUseCase'' (uc_explain ucs) (\<lambda>t use_case.
     bindM (runM (use_case (trace_id, t))) (\<lambda>trace.
     bindM (runM (liftM (explain_body trace))) (\<lambda>b. returnM (ok 200 b))))"

definition end_session ::
  "'s use_cases \<Rightarrow> request \<Rightarrow> session_id \<Rightarrow> json + session_end_model \<Rightarrow> ('s, response) api_action" where
  "end_session ucs req session_id body =
     with_tenant req ''NotifySessionEndedUseCase'' (uc_session_ended ucs) (\<lambda>t use_case.
     bindM (validated body) (\<lambda>m.
     bindM (runM (use_case (t, session_id, scope_from_model t (em_scope m)))) (\<lambda>_.
     returnM (ok 202 (Json_Body (JObj [(''status'', JStr ''accepted'')]))))))"

definition admin_decay :: "'s use_cases \<Rightarrow> tenant_id \<Rightarrow> ('s, response) api_action" where
  "admin_decay ucs tenant_id = bindM (provider ''DecayUseCase'' (uc_decay ucs)) (\<lambda>use_case.
     bindM (runM (use_case tenant_id)) (\<lambda>count.
     returnM (ok 200 (Decay_Body \<lparr>dp_tenant_id = tenant_id, dp_transitions = count\<rparr>))))"

definition admin_consolidate :: "'s use_cases \<Rightarrow> tenant_id \<Rightarrow> ('s, response) api_action" where
  "admin_consolidate ucs tenant_id = bindM (provider ''ConsolidateUseCase'' (uc_consolidate ucs)) (\<lambda>use_case.
     bindM (runM (use_case tenant_id)) (\<lambda>count.
     returnM (ok 200 (Consolidate_Body \<lparr>np_tenant_id = tenant_id, np_records_processed = count\<rparr>))))"

text \<open>\<open>expected\<close> is the environment variable, the empty string when it is not set.\<close>

definition require_admin_key :: "string \<Rightarrow> request \<Rightarrow> api_exn + unit" where
  "require_admin_key expected req =
     (if expected \<noteq> [] \<and> req_header req ''x-admin-key'' \<noteq> Some expected
      then Inl (HTTPException 401 ''Invalid or missing MEMORY_LAYER_ADMIN_KEY header.'') else Inr ())"

definition admin_run_migrations :: "string \<Rightarrow> 's use_cases \<Rightarrow> request \<Rightarrow> ('s, response) api_action" where
  "admin_run_migrations expected ucs req =
     bindM (liftM (require_admin_key expected req)) (\<lambda>_.
     bindM (provider ''SchemaMigrator'' (uc_migrator ucs)) (\<lambda>run.
     bindM (runM run) (\<lambda>result. returnM (ok 200 (Json_Body (JObj result))))))"

subsection \<open>The application\<close>

datatype endpoint_call =
    Write_Memory "json + write_model"
  | Search_Memories "json + search_model"
  | Recall_Memories "json + recall_model"
  | Get_Memory memory_id
  | Delete_Memory memory_id string
  | Explain_Recall trace_id
  | Session_End session_id "json + session_end_model"
  | Admin_Decay tenant_id
  | Admin_Consolidate tenant_id
  | Admin_Run_Migrations

text \<open>The path of the decorator of an endpoint, its parameters filled in.\<close>

fun endpoint_path :: "endpoint_call \<Rightarrow> string" where
  "endpoint_path (Write_Memory _) = ''/v1/memories:write''"
| "endpoint_path (Search_Memories _) = ''/v1/memories:search''"
| "endpoint_path (Recall_Memories _) = ''/v1/memories:recall''"
| "endpoint_path (Get_Memory m) = ''/v1/memories/'' @ m"
| "endpoint_path (Delete_Memory m _) = ''/v1/memories/'' @ m"
| "endpoint_path (Explain_Recall t) = ''/v1/traces/'' @ t"
| "endpoint_path (Session_End s _) = ''/v1/sessions/'' @ s @ '':end''"
| "endpoint_path (Admin_Decay t) = ''/v1/admin/tenants/'' @ t @ '':decay''"
| "endpoint_path (Admin_Consolidate t) = ''/v1/admin/tenants/'' @ t @ '':consolidate''"
| "endpoint_path Admin_Run_Migrations = ''/v1/admin/migrations:run''"

fun run_endpoint :: "string \<Rightarrow> 's use_cases \<Rightarrow> request \<Rightarrow> endpoint_call \<Rightarrow> ('s, response) api_action" where
  "run_endpoint key ucs req (Write_Memory b) = write_memory ucs req b"
| "run_endpoint key ucs req (Search_Memories b) = search_memories ucs req b"
| "run_endpoint key ucs req (Recall_Memories b) = recall_memories ucs req b"
| "run_endpoint key ucs req (Get_Memory m) = get_memory ucs req m"
| "run_endpoint key ucs req (Delete_Memory m a) = delete_memory ucs req m a"
| "run_endpoint key ucs req (Explain_Recall t) = explain_recall ucs req t"
| "run_endpoint key ucs req (Session_End s b) = end_session ucs req s b"
| "run_endpoint key ucs req (Admin_Decay t) = admin_decay ucs t"
| "run_endpoint key ucs req (Admin_Consolidate t) = admin_consolidate ucs t"
| "run_endpoint key ucs req Admin_Run_Migrations = admin_run_migrations key ucs req"

text \<open>
  What the framework contributes: which endpoint a request is for (or the exception it raises
  itself, such as 404), the lookup of exception handlers, and its handler for
  \<open>HTTPException\<close>.
\<close>

record framework =
  fw_router :: "request \<Rightarrow> api_exn + endpoint_call"
  fw_lookup :: handler_lookup
  fw_http_exception :: "nat \<Rightarrow> string \<Rightarrow> response"

definition routes_by_path :: "framework \<Rightarrow> bool" where
  \<comment> \<open>documented routing: an endpoint is reached only by a path that matches its template\<close>
  "routes_by_path fw \<longleftrightarrow> (\<forall>req call. fw_router fw req = Inr call \<longrightarrow> req_path req = endpoint_path call)"

definition endpoints :: "framework \<Rightarrow> string \<Rightarrow> 's use_cases \<Rightarrow> 's app" where
  "endpoints fw key ucs req s = (case fw_router fw req of
       Inl e \<Rightarrow> (handle (fw_lookup fw) (fw_http_exception fw) e, s)
     | Inr call \<Rightarrow> (case run_endpoint key ucs req call s of
         (Inl e, s') \<Rightarrow> (handle (fw_lookup fw) (fw_http_exception fw) e, s')
       | (Inr r, s') \<Rightarrow> (r, s')))"

definition app :: "framework \<Rightarrow> string \<Rightarrow> 's use_cases \<Rightarrow> 's app" where
  "app fw key ucs = dispatch (endpoints fw key ucs)"

subsection \<open>Only calls of the request's own tenant\<close>

text \<open>
  Two sets of use cases that cannot be told apart by calls of tenant \<open>t\<close>; nothing is said of
  the administrative ones.
\<close>

definition agree_on :: "('q \<Rightarrow> bool) \<Rightarrow> ('q \<Rightarrow> 'm) option \<Rightarrow> ('q \<Rightarrow> 'm) option \<Rightarrow> bool" where
  "agree_on P u v \<longleftrightarrow> rel_option (\<lambda>f g. \<forall>q. P q \<longrightarrow> f q = g q) u v"

definition same_for_tenant :: "tenant_id \<Rightarrow> 's use_cases \<Rightarrow> 's use_cases \<Rightarrow> bool" where
  "same_for_tenant t u v \<longleftrightarrow>
     agree_on (\<lambda>q. wr_tenant_id q = t \<and> scope_tenant_id (wr_scope q) = t) (uc_write u) (uc_write v) \<and>
     agree_on (\<lambda>q. sr_tenant_id q = t \<and> scope_tenant_id (sr_scope q) = t) (uc_search u) (uc_search v) \<and>
     agree_on (\<lambda>q. rq_tenant_id q = t \<and> scope_tenant_id (rq_scope q) = t) (uc_recall u) (uc_recall v) \<and>
     agree_on (\<lambda>(_, x). x = t) (uc_get u) (uc_get v) \<and>
     agree_on (\<lambda>(_, x, _). x = t) (uc_delete u) (uc_delete v) \<and>
     agree_on (\<lambda>(_, x). x = t) (uc_explain u) (uc_explain v) \<and>
     agree_on (\<lambda>(x, _, sc). x = t \<and> scope_tenant_id sc = t) (uc_session_ended u) (uc_session_ended v)"

lemma with_tenant_cong:
  assumes "agree_on P u v" "state_tenant_id req = Some t"
    and "\<And>f g. (\<forall>q. P q \<longrightarrow> f q = g q) \<Longrightarrow> F t f = F t g"
  shows "with_tenant req name u F = with_tenant req name v F"
  using assms by (auto simp: with_tenant_def agree_on_def get_request_tenant_id_def bindM_def monad_simps
      provider_def fun_eq_iff elim!: option.rel_cases split: option.splits)

lemma scope_from_model_tenant [simp]: "scope_tenant_id (scope_from_model t m) = t"
  by (simp add: scope_from_model_def)

lemma endpoint_tenant_only:
  assumes "same_for_tenant t u v" "state_tenant_id req = Some t" "\<not> prefix ''/v1/admin/'' (endpoint_path call)"
  shows "run_endpoint key u req call = run_endpoint key v req call"
proof -
  note same = assms(1) [unfolded same_for_tenant_def]
  show ?thesis
  proof (cases call)
    case (Write_Memory b)
    with same assms(2) show ?thesis by (auto simp: write_memory_def intro!: with_tenant_cong)
  next
    case (Search_Memories b)
    with same assms(2) show ?thesis by (auto simp: search_memories_def intro!: with_tenant_cong)
  next
    case (Recall_Memories b)
    with same assms(2) show ?thesis by (auto simp: recall_memories_def intro!: with_tenant_cong)
  next
    case (Get_Memory m)
    with same assms(2) show ?thesis by (auto simp: get_memory_def intro!: with_tenant_cong)
  next
    case (Delete_Memory m a)
    with same assms(2) show ?thesis by (auto simp: delete_memory_def intro!: with_tenant_cong)
  next
    case (Explain_Recall x)
    with same assms(2) show ?thesis by (auto simp: explain_recall_def intro!: with_tenant_cong)
  next
    case (Session_End x b)
    with same assms(2) show ?thesis by (auto simp: end_session_def intro!: with_tenant_cong)
  qed (use assms(3) in simp_all)
qed

subsection \<open>What a request can do\<close>

lemma app_tenant:
  assumes "\<not> bypasses_tenant (req_path req)" "resolve_tenant_id req = Inr t"
  shows "app fw key ucs req s = endpoints fw key ucs (req\<lparr>state_tenant_id := Some t\<rparr>) s"
  using assms by (simp add: app_def dispatch_def)

lemma resolve_Inr_iff:
  "resolve_tenant_id req = Inr t \<longleftrightarrow>
     (\<exists>raw. req_header req tenant_header = Some raw \<and> py_strip raw \<noteq> [] \<and> t = py_strip raw)"
  by (auto simp: resolve_tenant_id_def Let_def split: option.splits)

lemma resolve_Inl:
  "resolve_tenant_id req = Inl e \<Longrightarrow> e = TenantIsolationViolation ''<unauthenticated>'' ''<unknown>''"
  by (auto simp: resolve_tenant_id_def Let_def split: option.splits if_splits)

text \<open>C8. Tenant isolation of the HTTP API.  What a request on a tenant route does and answers
  depends on the use cases only through their calls for the tenant that its header names, the
  blanks around it stripped: any two sets of use cases that agree on those calls (tenant and
  scope both of that tenant), whatever they do for other tenants and for the administrative
  operations, leave the same response and the same state.\<close>

theorem api_tenant_isolation:
  assumes "routes_by_path fw" "prefix ''/v1/'' (req_path req)" "\<not> prefix ''/v1/admin/'' (req_path req)"
    and "req_header req ''x-tenant-id'' = Some raw" "py_strip raw \<noteq> []"
    and "same_for_tenant (py_strip raw) u v"
  shows "app fw key u req s = app fw key v req s"
proof -
  let ?r = "req\<lparr>state_tenant_id := Some (py_strip raw)\<rparr>"
  have t: "resolve_tenant_id req = Inr (py_strip raw)"
    using assms(4,5) by (simp add: resolve_Inr_iff tenant_header_def)
  have path: "\<not> prefix ''/v1/admin/'' (endpoint_path call)" if "fw_router fw ?r = Inr call" for call
    using assms(1) [unfolded routes_by_path_def, rule_format, OF that] assms(3) by simp
  have "endpoints fw key u ?r s = endpoints fw key v ?r s"
    using endpoint_tenant_only [OF assms(6), of ?r] path
    by (auto simp: endpoints_def split: sum.splits)
  with t assms(2,3) show ?thesis by (simp add: app_tenant bypasses_tenant_def)
qed

text \<open>Without a tenant nothing runs: a request on a tenant route whose tenant header is missing
  or blank is answered 403 with the code \<open>TENANT_ISOLATION_VIOLATION\<close>, and the state is left
  as it was.\<close>

theorem api_missing_tenant_refused:
  assumes "prefix ''/v1/'' (req_path req)" "\<not> prefix ''/v1/admin/'' (req_path req)"
    and "\<forall>raw. req_header req ''x-tenant-id'' = Some raw \<longrightarrow> py_strip raw = []"
  shows "app fw key ucs req s =
    (error_response 403 ''TENANT_ISOLATION_VIOLATION''
       ''Tenant isolation violation: actor=<unauthenticated>, requested=<unknown>''
       (Some [(''actor'', JStr ''<unauthenticated>''), (''requested_tenant_id'', JStr ''<unknown>'')]), s)"
proof -
  have "resolve_tenant_id req = Inl (TenantIsolationViolation ''<unauthenticated>'' ''<unknown>'')"
    using assms(3) by (auto simp: resolve_tenant_id_def tenant_header_def Let_def split: option.splits)
  with assms(1,2) show ?thesis
    by (simp add: app_def dispatch_def bypasses_tenant_def refusal_def error_response_def)
qed

text \<open>C36. The administrative routes check no tenant.  Decay and consolidation run for the tenant in
  the path whatever the headers are, the administrator's key included; the migrations run only
  when that key is not configured or is the one the request carries, and are refused otherwise
  with nothing changed.\<close>

theorem api_admin_routes:
  assumes "routes_by_path fw"
  shows "(fw_router fw req = Inr (Admin_Decay t) \<and> uc_decay ucs = Some decay \<and> decay t s = (Inr n, s') \<longrightarrow>
       app fw key ucs req s = (ok 200 (Decay_Body \<lparr>dp_tenant_id = t, dp_transitions = n\<rparr>), s')) \<and>
     (fw_router fw req = Inr (Admin_Consolidate t) \<and> uc_consolidate ucs = Some consolidate \<and>
       consolidate t s = (Inr n, s') \<longrightarrow>
       app fw key ucs req s = (ok 200 (Consolidate_Body \<lparr>np_tenant_id = t, np_records_processed = n\<rparr>), s')) \<and>
     (fw_router fw req = Inr Admin_Run_Migrations \<and> uc_migrator ucs = Some migrate \<and> migrate s = (Inr d, s') \<longrightarrow>
       app fw key ucs req s =
         (if key = [] \<or> req_header req ''x-admin-key'' = Some key then (ok 200 (Json_Body (JObj d)), s')
          else (fw_http_exception fw 401 ''Invalid or missing MEMORY_LAYER_ADMIN_KEY header.'', s)))"
    (is "?decay \<and> ?consolidate \<and> ?migrations")
proof -
  have skip: "app fw key ucs req s = endpoints fw key ucs req s"
    if "fw_router fw req = Inr call" "prefix ''/v1/admin/'' (endpoint_path call)" for call
    using assms that by (auto simp: app_def dispatch_def bypasses_tenant_def routes_by_path_def)
  note defs = endpoints_def admin_decay_def admin_consolidate_def admin_run_migrations_def provider_def
    runM_def bindM_def monad_simps require_admin_key_def handle_def
  have ?decay by (intro impI, subst skip) (auto simp: defs)
  moreover have ?consolidate by (intro impI, subst skip) (auto simp: defs)
  moreover have ?migrations by (intro impI, subst skip) (auto simp: defs)
  ultimately show ?thesis by blast
qed

subsection \<open>Errors\<close>

text \<open>C35. The response of a failing endpoint.  Whatever exception the use case of a tenant route
  raises, the response is the one of its class: 404 with the memory id, 403 with both tenants,
  409 with the capability, 400 with the message for the other domain errors, and one fixed
  500 body, which shows nothing of the exception, for everything else.  The changes the use case
  had made stay.\<close>

theorem api_errors_spec:
  assumes "first_by_mro (fw_lookup fw)" "\<not> bypasses_tenant (req_path req)" "resolve_tenant_id req = Inr t"
    and "fw_router fw (req\<lparr>state_tenant_id := Some t\<rparr>) = Inr call"
    and "run_endpoint key ucs (req\<lparr>state_tenant_id := Some t\<rparr>) call s = (Inl (Raised e), s')"
  shows "app fw key ucs req s = (case e of
       MemoryNotFoundError m \<Rightarrow> error_response 404 ''MEMORY_NOT_FOUND'' (exn_str e) (Some [(''memory_id'', JStr m)])
     | TenantIsolationViolation a r \<Rightarrow> error_response 403 ''TENANT_ISOLATION_VIOLATION'' (exn_str e)
         (Some [(''actor'', JStr a), (''requested_tenant_id'', JStr r)])
     | CapabilityNotAvailableError c \<Rightarrow> error_response 409 ''CAPABILITY_NOT_AVAILABLE'' (exn_str e)
         (Some [(''capability'', JStr c)])
     | _ \<Rightarrow> if is_memory_layer_error e then error_response 400 ''DOMAIN_ERROR'' (exn_str e) None
         else error_response 500 ''INTERNAL_SERVER_ERROR'' ''An unexpected error occurred.'' None, s')"
proof -
  have "app fw key ucs req s = (handle (fw_lookup fw) (fw_http_exception fw) (Raised e), s')"
    using assms by (simp add: app_tenant endpoints_def)
  then show ?thesis
    by (cases e) (simp_all add: handle_simps [OF assms(1)] handle_domain [OF assms(1)]
        generic_exception_handler_def)
qed

definition explain_use_case ::
  "'s trace_repo \<Rightarrow> 's record_repo \<Rightarrow> trace_id \<times> tenant_id \<Rightarrow> ('s, trace_value) action" where
  "explain_use_case traces repo q = (case q of (i, t) \<Rightarrow>
     bindM (explain_execute traces repo i t) (\<lambda>trace. returnM (Recall_Trace trace)))"

text \<open>C37. Explaining a recall over HTTP never succeeds.  With the engine's explain service as the use
  case, a trace that is found is answered 500 whatever it holds, and one that is not found 404:
  the endpoint reads attributes that a \<open>RecallTrace\<close> does not have.\<close>

theorem api_explain_fails:
  assumes "first_by_mro (fw_lookup fw)" "\<not> bypasses_tenant (req_path req)" "resolve_tenant_id req = Inr t"
    and "fw_router fw (req\<lparr>state_tenant_id := Some t\<rparr>) = Inr (Explain_Recall i)"
    and "uc_explain ucs = Some (explain_use_case traces repo)"
  shows "(explain_execute traces repo i t s = (Inr trace, s') \<longrightarrow> app fw key ucs req s =
       (error_response 500 ''INTERNAL_SERVER_ERROR'' ''An unexpected error occurred.'' None, s')) \<and>
     (explain_execute traces repo i t s = (Inl (MemoryNotFoundError m), s') \<longrightarrow> app fw key ucs req s =
       (error_response 404 ''MEMORY_NOT_FOUND'' (''Memory not found: '' @ m) (Some [(''memory_id'', JStr m)]), s')) \<and>
     status_code (fst (app fw key ucs req s)) \<noteq> 200"
proof -
  let ?r = "req\<lparr>state_tenant_id := Some t\<rparr>"
  have run: "run_endpoint key ucs ?r (Explain_Recall i) s = (case explain_execute traces repo i t s of
      (Inr _, s') \<Rightarrow> (Inl (Raised (AttributeError
         (py_repr ''RecallTrace'' @ '' object has no attribute '' @ py_repr ''scope''))), s')
    | (Inl e, s') \<Rightarrow> (Inl (Raised e), s'))"
    by (auto simp: explain_recall_def with_tenant_def get_request_tenant_id_def provider_def assms(5)
        explain_use_case_def explain_body_def runM_def bindM_def monad_simps split: prod.splits sum.splits)
  obtain y s2 where y: "explain_execute traces repo i t s = (y, s2)" by fastforce
  show ?thesis
  proof (cases y)
    case (Inl e)
    then have "run_endpoint key ucs ?r (Explain_Recall i) s = (Inl (Raised e), s2)"
      by (simp add: run y del: run_endpoint.simps)
    then have "app fw key ucs req s = (handle (fw_lookup fw) (fw_http_exception fw) (Raised e), s2)"
      using assms(2-4) by (simp add: app_tenant endpoints_def del: run_endpoint.simps)
    moreover have "status_code (handle (fw_lookup fw) (fw_http_exception fw) (Raised e)) \<noteq> 200"
      by (cases e) (simp_all add: handle_simps [OF assms(1)] handle_domain [OF assms(1)]
          generic_exception_handler_def error_response_def)
    ultimately show ?thesis using y Inl by (auto simp: handle_simps [OF assms(1)])
  next
    case (Inr r)
    then have "app fw key ucs req s = (error_response 500 ''INTERNAL_SERVER_ERROR'' ''An unexpected error occurred.'' None, s2)"
      using assms(2-4) y
      by (simp add: app_tenant endpoints_def run handle_simps [OF assms(1)] generic_exception_handler_def
          del: run_endpoint.simps)
    then show ?thesis using y Inr by (auto simp: error_response_def)
  qed
qed

subsection \<open>Examples\<close>

text \<open>A framework with one route, and use cases that record the tenants they are called for.\<close>

definition one_route :: "endpoint_call \<Rightarrow> framework" where
  "one_route call = \<lparr>
     fw_router = (\<lambda>req. if req_path req = endpoint_path call then Inr call else Inl (HTTPException 404 ''Not Found'')),
     fw_lookup = mro_lookup,
     fw_http_exception = (\<lambda>n d. ok n (Json_Body (JObj [(''detail'', JStr d)])))\<rparr>"

lemma one_route_simps [simp]:
  "routes_by_path (one_route call)" "fw_lookup (one_route call) = mro_lookup"
  "req_path req = endpoint_path call \<Longrightarrow> fw_router (one_route call) req = Inr call"
  by (simp_all add: one_route_def routes_by_path_def)

definition request_of :: "string \<Rightarrow> (string \<times> string) list \<Rightarrow> request" where
  "request_of path headers = \<lparr>req_path = path, req_header = map_of headers, state_tenant_id = None\<rparr>"

definition no_use_cases :: "'s use_cases" where
  "no_use_cases = \<lparr>uc_write = None, uc_search = None, uc_recall = None, uc_get = None, uc_delete = None,
     uc_explain = None, uc_session_ended = None, uc_decay = None, uc_consolidate = None, uc_migrator = None\<rparr>"

definition recording :: "tenant_id list use_cases" where
  "recording = no_use_cases\<lparr>
     uc_get := Some (\<lambda>(m, t) log. (if m = ''m1'' then Inr record_a else Inl (MemoryNotFoundError m), log @ [t])),
     uc_decay := Some (\<lambda>t log. (Inr 0, log @ [t]))\<rparr>"

definition careless :: "tenant_id list use_cases" where
  "careless = recording\<lparr>
     uc_get := Some (\<lambda>(m, t) log. (if m = ''m1'' \<or> t \<noteq> ''acme'' then Inr record_a else Inl (MemoryNotFoundError m), log @ [t])),
     uc_decay := Some (\<lambda>t log. (Inr 7, []))\<rparr>"

lemma strip_acme [simp]: "py_strip '' acme'' = ''acme''"
  by code_simp

lemma api_tenant_isolation_witness:
  "app (one_route (Get_Memory ''m2'')) [] recording (request_of ''/v1/memories/m2'' [(''x-tenant-id'', '' acme'')]) [] =
   app (one_route (Get_Memory ''m2'')) [] careless (request_of ''/v1/memories/m2'' [(''x-tenant-id'', '' acme'')]) []"
  by (rule api_tenant_isolation [where raw = "'' acme''"])
    (simp_all add: request_of_def same_for_tenant_def agree_on_def recording_def careless_def no_use_cases_def)

lemma api_missing_tenant_refused_witness:
  "app (one_route (Get_Memory ''m1'')) [] recording (request_of ''/v1/memories/m1'' []) [] =
    (error_response 403 ''TENANT_ISOLATION_VIOLATION''
       ''Tenant isolation violation: actor=<unauthenticated>, requested=<unknown>''
       (Some [(''actor'', JStr ''<unauthenticated>''), (''requested_tenant_id'', JStr ''<unknown>'')]), [])"
  by (rule api_missing_tenant_refused) (simp_all add: request_of_def)

lemma api_admin_routes_witness:
  "app (one_route (Admin_Decay ''globex'')) ''secret'' recording
     (request_of ''/v1/admin/tenants/globex:decay'' [(''x-tenant-id'', ''acme'')]) [] =
   (ok 200 (Decay_Body \<lparr>dp_tenant_id = ''globex'', dp_transitions = 0\<rparr>), [''globex''])"
proof -
  let ?r = "request_of ''/v1/admin/tenants/globex:decay'' [(''x-tenant-id'', ''acme'')]"
  have "fw_router (one_route (Admin_Decay ''globex'')) ?r = Inr (Admin_Decay ''globex'')"
    by (simp add: request_of_def)
  moreover have "uc_decay recording = Some (\<lambda>t log. (Inr 0, log @ [t]))" by (simp add: recording_def)
  ultimately show ?thesis
    using api_admin_routes [of "one_route (Admin_Decay ''globex'')" ?r "''globex''" recording
        "\<lambda>t log. (Inr 0, log @ [t])" "[]" 0 "[''globex'']" "''secret''"] by simp
qed

lemma api_errors_spec_witness:
  "app (one_route (Get_Memory ''m2'')) [] recording (request_of ''/v1/memories/m2'' [(''x-tenant-id'', '' acme'')]) [] =
   (error_response 404 ''MEMORY_NOT_FOUND'' ''Memory not found: m2'' (Some [(''memory_id'', JStr ''m2'')]), [''acme''])"
proof -
  let ?r = "request_of ''/v1/memories/m2'' [(''x-tenant-id'', '' acme'')]"
  have run: "run_endpoint [] recording (?r\<lparr>state_tenant_id := Some ''acme''\<rparr>) (Get_Memory ''m2'') [] =
      (Inl (Raised (MemoryNotFoundError ''m2'')), [''acme''])"
    by (simp add: get_memory_def with_tenant_def get_request_tenant_id_def provider_def recording_def
        runM_def bindM_def monad_simps)
  have "resolve_tenant_id ?r = Inr ''acme''"
    by (simp add: resolve_Inr_iff tenant_header_def request_of_def)
  then show ?thesis
    using api_errors_spec [where fw = "one_route (Get_Memory ''m2'')" and req = ?r and t = "''acme''", OF _ _ _ _ run]
    by (simp add: first_by_mro_lookup bypasses_tenant_def request_of_def)
qed

definition trace_a :: recall_trace where
  "trace_a = \<lparr>rt_trace_id = ''t1'', rt_tenant_id = ''acme'', rt_query = ''tea'', rt_mode = ''HYBRID'',
     rt_steps = [], rt_query_plan = None, rt_created_at = t0\<rparr>"

definition one_trace :: "unit trace_repo" where
  "one_trace = \<lparr>tr_save = (\<lambda>_. returnM ()),
     tr_get_by_trace_id = (\<lambda>i t. returnM (if i = ''t1'' \<and> t = ''acme'' then Some trace_a else None))\<rparr>"

definition no_records :: "unit record_repo" where
  "no_records = \<lparr>rr_save = (\<lambda>_. returnM ()), rr_get_by_id = (\<lambda>_ _. returnM None),
     rr_update_lifecycle = (\<lambda>_ _ _ _. returnM ()), rr_update_pipeline_status = (\<lambda>_ _ _. returnM ()),
     rr_list_by_scope = (\<lambda>_ _ _. returnM []), rr_get_by_idempotency_key = (\<lambda>_ _. returnM None),
     rr_list_active_older_than = (\<lambda>_ _. returnM []), rr_update_lifecycle_state = (\<lambda>_ _ _. returnM ())\<rparr>"

lemma api_explain_fails_witness:
  "app (one_route (Explain_Recall ''t1'')) [] (no_use_cases\<lparr>uc_explain := Some (explain_use_case one_trace no_records)\<rparr>)
     (request_of ''/v1/traces/t1'' [(''x-tenant-id'', '' acme'')]) () =
   (error_response 500 ''INTERNAL_SERVER_ERROR'' ''An unexpected error occurred.'' None, ())"
proof -
  let ?r = "request_of ''/v1/traces/t1'' [(''x-tenant-id'', '' acme'')]"
  let ?ucs = "no_use_cases\<lparr>uc_explain := Some (explain_use_case one_trace no_records)\<rparr>"
  have "explain_execute one_trace no_records ''t1'' ''acme'' () = (Inr trace_a, ())"
    by (simp add: explain_execute_def one_trace_def trace_a_def bindM_def monad_simps)
  moreover have "resolve_tenant_id ?r = Inr ''acme''"
    by (simp add: resolve_Inr_iff tenant_header_def request_of_def)
  ultimately show ?thesis
    using api_explain_fails [where fw = "one_route (Explain_Recall ''t1'')" and req = ?r and t = "''acme''"
        and i = "''t1''" and ucs = ?ucs and traces = one_trace and repo = no_records and s = "()" and s' = "()"
        and trace = trace_a and key = "[]"]
    by (simp add: first_by_mro_lookup bypasses_tenant_def request_of_def)
qed

end
