(* ===== verification/Api_Health.thy ===== *)
theory Api_Health
  imports Api_App
begin

text \<open>
  \<^verbatim>\<open>api/health.py\<close> and the two health endpoints of \<^verbatim>\<open>api/app.py\<close>.  \<open>latency t1 t2\<close> is the
  rounded number of milliseconds between two readings of the performance counter.
\<close>

datatype health = Health_Ok | Degraded | Down

fun health_str :: "health \<Rightarrow> string" where
  "health_str Health_Ok = ''ok''"
| "health_str Degraded = ''degraded''"
| "health_str Down = ''down''"

record component_health =
  ch_name :: string
  ch_status :: health
  ch_latency_ms :: "rat option"
  ch_detail :: "string option"

record health_report =
  hr_status :: health
  hr_version :: string
  hr_components :: "component_health list"
  hr_checked_at :: datetime

record 's health_checker =
  hc_version :: string
  hc_probes :: "(string \<times> ('s, component_health) action) list"

definition new_health_checker :: "string \<Rightarrow> 's health_checker" where
  "new_health_checker version = \<lparr>hc_version = version, hc_probes = []\<rparr>"

definition register_probe :: "string \<Rightarrow> ('s, component_health) action \<Rightarrow> 's health_checker \<Rightarrow> 's health_checker" where
  "register_probe name probe c = c\<lparr>hc_probes := hc_probes c @ [(name, probe)]\<rparr>"

definition overall :: "component_health list \<Rightarrow> health" where
  "overall results =
     (if \<exists>c \<in> set results. ch_status c = Down then Down
      else if \<exists>c \<in> set results. ch_status c = Degraded then Degraded
      else Health_Ok)"

text \<open>The probes run concurrently; \<open>gather\<close> of theory Retrieval runs them in order.\<close>

definition check :: "('s, datetime) action \<Rightarrow> 's health_checker \<Rightarrow> ('s, health_report) action" where
  "check utcnow c =
     bindM (gather (map snd (hc_probes c))) (\<lambda>results.
     bindM utcnow (\<lambda>now.
     returnM \<lparr>hr_status = overall results, hr_version = hc_version c, hr_components = results,
       hr_checked_at = now\<rparr>))"

subsection \<open>Probes\<close>

definition probe :: "('s, rat) action \<Rightarrow> (rat \<Rightarrow> rat \<Rightarrow> rat) \<Rightarrow> string \<Rightarrow> ('s, 'a) action \<Rightarrow> ('s, component_health) action" where
  \<comment> \<open>the common shape of the three built-in probes\<close>
  "probe perf_counter latency name call =
     bindM perf_counter (\<lambda>start.
     tryM (bindM call (\<lambda>_. bindM perf_counter (\<lambda>end.
       returnM \<lparr>ch_name = name, ch_status = Health_Ok, ch_latency_ms = Some (latency start end), ch_detail = None\<rparr>)))
     (\<lambda>exc. bindM perf_counter (\<lambda>end.
       returnM \<lparr>ch_name = name, ch_status = Down, ch_latency_ms = Some (latency start end),
         ch_detail = Some (exn_str exc)\<rparr>)))"

definition probe_id :: string where
  "probe_id = ''__health_probe__''"

definition probe_record_repo ::
  "('s, rat) action \<Rightarrow> (rat \<Rightarrow> rat \<Rightarrow> rat) \<Rightarrow> 's record_repo \<Rightarrow> ('s, component_health) action" where
  "probe_record_repo perf_counter latency repo =
     probe perf_counter latency ''record_repo'' (rr_get_by_id repo probe_id probe_id)"

definition probe_vector_index ::
  "('s, rat) action \<Rightarrow> (rat \<Rightarrow> rat \<Rightarrow> rat) \<Rightarrow> 's vector_search \<Rightarrow> ('s, component_health) action" where
  "probe_vector_index perf_counter latency search =
     probe perf_counter latency ''vector_index'' (search [0] probe_id 1)"

definition probe_full_text_index ::
  "('s, rat) action \<Rightarrow> (rat \<Rightarrow> rat \<Rightarrow> rat) \<Rightarrow> 's full_text_search \<Rightarrow> ('s, component_health) action" where
  "probe_full_text_index perf_counter latency search =
     probe perf_counter latency ''full_text_index'' (search probe_id probe_id 1)"

subsection \<open>Endpoints\<close>

definition health_json :: "health_report \<Rightarrow> json" where
  \<comment> \<open>\<open>asdict(report)\<close>, the response of both endpoints\<close>
  "health_json r = JObj [(''status'', JStr (health_str (hr_status r))), (''version'', JStr (hr_version r)),
     (''components'', JArr (map (\<lambda>c. JObj [(''name'', JStr (ch_name c)),
       (''status'', JStr (health_str (ch_status c))),
       (''latency_ms'', case ch_latency_ms c of None \<Rightarrow> JNull | Some x \<Rightarrow> JFloat x),
       (''detail'', case ch_detail c of None \<Rightarrow> JNull | Some x \<Rightarrow> JStr x)]) (hr_components r))),
     (''checked_at'', JStr (isoformat (hr_checked_at r)))]"

definition healthz :: "('s, datetime) action \<Rightarrow> 's health_checker \<Rightarrow> ('s, response) api_action" where
  "healthz utcnow c = bindM (runM (check utcnow c)) (\<lambda>report. returnM (ok 200 (Json_Body (health_json report))))"

definition readyz :: "('s, datetime) action \<Rightarrow> 's health_checker \<Rightarrow> ('s, response) api_action" where
  "readyz utcnow c = bindM (runM (check utcnow c)) (\<lambda>report.
     returnM (ok (if hr_status report \<noteq> Health_Ok then 503 else 200) (Json_Body (health_json report))))"

subsection \<open>What the probes report\<close>

lemma overall_ok: "overall cs = Health_Ok \<longleftrightarrow> (\<forall>c \<in> set cs. ch_status c = Health_Ok)"
proof -
  have "overall cs = Health_Ok \<longleftrightarrow> (\<forall>c \<in> set cs. ch_status c \<noteq> Down \<and> ch_status c \<noteq> Degraded)"
    by (auto simp: overall_def)
  also have "\<dots> \<longleftrightarrow> (\<forall>c \<in> set cs. ch_status c = Health_Ok)" by (metis health.exhaust health.distinct)
  finally show ?thesis .
qed

text \<open>What a checker may be given: a port for each built-in probe, or a probe of one's own that reports
  what it likes.  \<open>call_port\<close> is the call by which the port is probed, \<open>reported\<close> what is to be said of
  it in a state, and \<open>reports\<close> what is to be said of several probed one after the other.\<close>

datatype 's port =
    Record_Port "'s record_repo"
  | Vector_Port "'s vector_search"
  | Text_Port "'s full_text_search"
  | Own_Probe component_health

fun probe_of :: "('s, rat) action \<Rightarrow> (rat \<Rightarrow> rat \<Rightarrow> rat) \<Rightarrow> 's port \<Rightarrow> ('s, component_health) action" where
  "probe_of perf_counter latency (Record_Port repo) = probe_record_repo perf_counter latency repo"
| "probe_of perf_counter latency (Vector_Port search) = probe_vector_index perf_counter latency search"
| "probe_of perf_counter latency (Text_Port search) = probe_full_text_index perf_counter latency search"
| "probe_of perf_counter latency (Own_Probe h) = returnM h"

fun call_port :: "'s port \<Rightarrow> ('s, unit) action" where
  "call_port (Record_Port repo) = bindM (rr_get_by_id repo ''__health_probe__'' ''__health_probe__'') (\<lambda>_. returnM ())"
| "call_port (Vector_Port search) = bindM (search [0] ''__health_probe__'' 1) (\<lambda>_. returnM ())"
| "call_port (Text_Port search) = bindM (search ''__health_probe__'' ''__health_probe__'' 1) (\<lambda>_. returnM ())"
| "call_port (Own_Probe h) = returnM ()"

definition outcome :: "string \<Rightarrow> exn + unit \<Rightarrow> string \<times> health \<times> string option" where
  "outcome name x = (name, case x of Inr _ \<Rightarrow> (Health_Ok, None) | Inl e \<Rightarrow> (Down, Some (exn_str e)))"

definition reported :: "'s port \<Rightarrow> 's \<Rightarrow> string \<times> health \<times> string option" where
  "reported p s = (case p of
       Record_Port _ \<Rightarrow> outcome ''record_repo'' (fst (call_port p s))
     | Vector_Port _ \<Rightarrow> outcome ''vector_index'' (fst (call_port p s))
     | Text_Port _ \<Rightarrow> outcome ''full_text_index'' (fst (call_port p s))
     | Own_Probe h \<Rightarrow> (ch_name h, ch_status h, ch_detail h))"

fun reports :: "'s port list \<Rightarrow> 's \<Rightarrow> (string \<times> health \<times> string option) list" where
  "reports [] s = []"
| "reports (p # ps) s = reported p s # reports ps (snd (call_port p s))"

definition entry_of :: "component_health \<Rightarrow> string \<times> health \<times> string option" where
  "entry_of h = (ch_name h, ch_status h, ch_detail h)"

lemma probe_outcome:
  assumes "\<forall>s. \<exists>x. perf_counter s = (Inr x, s)"
  shows "\<exists>h. probe perf_counter latency name call s = (Inr h, snd (bindM call (\<lambda>_. returnM ()) s)) \<and>
    entry_of h = outcome name (fst (bindM call (\<lambda>_. returnM ()) s))"
proof -
  obtain r s1 where c: "call s = (r, s1)" using prod.exhaust by blast
  obtain t t1 where "perf_counter s = (Inr t, s)" "perf_counter s1 = (Inr t1, s1)" using assms by blast
  with c show ?thesis
    by (cases r) (simp_all add: probe_def bindM_def tryM_def monad_simps entry_of_def outcome_def)
qed

lemma probe_reports:
  assumes "\<forall>s. \<exists>x. perf_counter s = (Inr x, s)"
  shows "\<exists>h. probe_of perf_counter latency p s = (Inr h, snd (call_port p s)) \<and> entry_of h = reported p s"
proof (cases p)
  case (Record_Port repo)
  then show ?thesis using probe_outcome [OF assms, of latency "''record_repo''" "rr_get_by_id repo probe_id probe_id" s]
    by (simp add: probe_record_repo_def probe_id_def reported_def)
next
  case (Vector_Port search)
  then show ?thesis using probe_outcome [OF assms, of latency "''vector_index''" "search [0] probe_id 1" s]
    by (simp add: probe_vector_index_def probe_id_def reported_def)
next
  case (Text_Port search)
  then show ?thesis using probe_outcome [OF assms, of latency "''full_text_index''" "search probe_id probe_id 1" s]
    by (simp add: probe_full_text_index_def probe_id_def reported_def)
next
  case (Own_Probe h)
  then show ?thesis by (simp add: reported_def entry_of_def monad_simps)
qed

lemma gather_reports:
  assumes "\<forall>s. \<exists>x. perf_counter s = (Inr x, s)"
  shows "\<exists>hs s'. gather (map (probe_of perf_counter latency) ps) s = (Inr hs, s') \<and> map entry_of hs = reports ps s"
proof (induction ps arbitrary: s)
  case (Cons p ps)
  from probe_reports [OF assms] obtain h where
    h: "probe_of perf_counter latency p s = (Inr h, snd (call_port p s))" "entry_of h = reported p s" by blast
  from Cons.IH [of "snd (call_port p s)"] obtain hs s' where
    "gather (map (probe_of perf_counter latency) ps) (snd (call_port p s)) = (Inr hs, s')"
    "map entry_of hs = reports ps (snd (call_port p s))" by blast
  with h show ?case by simp
qed simp

subsection \<open>Properties\<close>

text \<open>C34. Over any list of probed ports and probes of one's own, and given clocks that can be read, the
  health endpoints always answer.  Every port is called with the sentinel, and its component is ok
  when the call returns and down, with the text of the exception, when it raises; the overall status
  is \<open>down\<close> when some component is, else \<open>degraded\<close> when some is, else \<open>ok\<close>.  Readiness is 200 when
  every component is ok and 503 otherwise, for a degraded one as well; liveness is always 200, with
  the same body.\<close>

theorem readiness_spec:
  assumes clock: "\<forall>s. \<exists>x. perf_counter s = (Inr x, s)" and now: "\<forall>s. \<exists>x s'. utcnow s = (Inr x, s')"
    and probes: "map snd (hc_probes c) = map (probe_of perf_counter latency) ps"
  shows "\<exists>report s'. map (\<lambda>h. (ch_name h, ch_status h, ch_detail h)) (hr_components report) = reports ps s \<and>
      hr_status report = (if Down \<in> fst ` snd ` set (reports ps s) then Down
        else if Degraded \<in> fst ` snd ` set (reports ps s) then Degraded else Health_Ok) \<and>
      readyz utcnow c s = (Inr (ok (if \<forall>(name, status, detail) \<in> set (reports ps s). status = Health_Ok
        then 200 else 503) (Json_Body (health_json report))), s') \<and>
      healthz utcnow c s = (Inr (ok 200 (Json_Body (health_json report))), s')"
proof -
  from gather_reports [OF clock] obtain hs s1 where g: "gather (map snd (hc_probes c)) s = (Inr hs, s1)"
    and hs: "map entry_of hs = reports ps s" unfolding probes by blast
  obtain t s2 where n: "utcnow s1 = (Inr t, s2)" using now by blast
  let ?r = "\<lparr>hr_status = overall hs, hr_version = hc_version c, hr_components = hs, hr_checked_at = t\<rparr>"
  have check: "check utcnow c s = (Inr ?r, s2)" by (simp add: check_def bindM_def g n monad_simps)
  have status: "fst ` snd ` set (reports ps s) = ch_status ` set hs"
    by (simp add: hs [symmetric] image_image entry_of_def)
  have worst: "overall hs = (if Down \<in> fst ` snd ` set (reports ps s) then Down
      else if Degraded \<in> fst ` snd ` set (reports ps s) then Degraded else Health_Ok)"
    unfolding status by (auto simp: overall_def intro: rev_image_eqI)
  have all: "overall hs = Health_Ok \<longleftrightarrow> (\<forall>(name, status, detail) \<in> set (reports ps s). status = Health_Ok)"
    by (simp add: hs [symmetric] entry_of_def overall_ok)
  have list: "map (\<lambda>h. (ch_name h, ch_status h, ch_detail h)) hs = reports ps s"
    using hs unfolding entry_of_def [abs_def] by simp
  have "readyz utcnow c s = (Inr (ok (if overall hs = Health_Ok then 200 else 503) (Json_Body (health_json ?r))), s2)"
    "healthz utcnow c s = (Inr (ok 200 (Json_Body (health_json ?r))), s2)"
    by (simp_all add: readyz_def healthz_def bindM_def runM_def monad_simps check)
  with worst list show ?thesis unfolding all
    by (intro exI [of _ ?r] exI [of _ s2] conjI) simp_all
qed

definition checker_a :: "unit health_checker" where
  "checker_a = register_probe ''own'' (returnM \<lparr>ch_name = ''own'', ch_status = Degraded, ch_latency_ms = None, ch_detail = None\<rparr>)
     (register_probe ''vector'' (probe_vector_index (returnM 0) (\<lambda>_ _. 0) (\<lambda>_ _ _. raiseM (StorageError ''gone'')))
     (register_probe ''records'' (probe_record_repo (returnM 0) (\<lambda>_ _. 0) no_records) (new_health_checker ''0.1.0'')))"

lemma readiness_spec_witness:
  "\<exists>report s'. readyz (returnM t0) checker_a () = (Inr (ok 503 (Json_Body (health_json report))), s') \<and>
     hr_status report = Down \<and>
     (''vector_index'', Down, Some ''gone'') \<in> set (map (\<lambda>h. (ch_name h, ch_status h, ch_detail h)) (hr_components report))"
proof -
  let ?own = "\<lparr>ch_name = ''own'', ch_status = Degraded, ch_latency_ms = None, ch_detail = None\<rparr>"
  let ?ps = "[Record_Port no_records, Vector_Port (\<lambda>_ _ _. raiseM (StorageError ''gone'')), Own_Probe ?own] :: unit port list"
  have probes: "map snd (hc_probes checker_a) = map (probe_of (returnM 0) (\<lambda>_ _. 0)) ?ps"
    by (simp add: checker_a_def register_probe_def new_health_checker_def)
  have entry: "(''vector_index'', Down, Some ''gone'') \<in> set (reports ?ps ())"
    by (simp add: reported_def outcome_def bindM_def monad_simps)
  have "\<forall>s. \<exists>x. returnM (0 :: rat) s = (Inr x, s)" "\<forall>s. \<exists>x s'. returnM t0 s = (Inr x, s')" by (simp_all add: monad_simps)
  from readiness_spec [OF this probes, of "()"] obtain report s' where
    r: "map (\<lambda>h. (ch_name h, ch_status h, ch_detail h)) (hr_components report) = reports ?ps ()"
      "hr_status report = (if Down \<in> fst ` snd ` set (reports ?ps ()) then Down
        else if Degraded \<in> fst ` snd ` set (reports ?ps ()) then Degraded else Health_Ok)"
      "readyz (returnM t0) checker_a () = (Inr (ok (if \<forall>(name, status, detail) \<in> set (reports ?ps ()). status = Health_Ok
        then 200 else 503) (Json_Body (health_json report))), s')" by blast
  have "Down \<in> fst ` snd ` set (reports ?ps ())" using imageI [OF imageI [OF entry, of snd], of fst] by simp
  moreover have "\<not> (\<forall>(name, status, detail) \<in> set (reports ?ps ()). status = Health_Ok)" using entry by (auto dest: bspec)
  ultimately show ?thesis using r(2,3) entry
    by (intro exI [of _ report] exI [of _ s'] conjI) (simp_all only: r(1) if_True if_False)
qed

end
