(* ===== verification/Sdk_Client.thy ===== *)
theory Sdk_Client
  imports Api_App
begin

text \<open>
  \<^verbatim>\<open>sdk/client.py\<close>, \<^verbatim>\<open>sdk/errors.py\<close> and \<^verbatim>\<open>sdk/models.py\<close>: the HTTP client.  The httpx client is the
  function that sends a request with the tenant header; what it raises is either an
  \<open>httpx.HTTPError\<close> or another exception.  The fields of a response object are the JSON values of
  the server's answer: the dataclasses check nothing.
\<close>

subsection \<open>Errors and responses\<close>

datatype http_exn = HTTP_Error string | Other_Error exn

datatype sdk_exn =
    MemoryLayerHTTPError (he_status_code: nat) (he_error_code: json) (he_message: json) (he_details: json)
  | MemoryLayerTransportError string
  | Sdk_Raised exn

definition sdk_http_error :: "nat \<Rightarrow> json \<Rightarrow> json \<Rightarrow> json \<Rightarrow> sdk_exn" where
  \<comment> \<open>the constructor: \<^verbatim>\<open>details or {}\<close>\<close>
  "sdk_http_error status error_code message details =
     MemoryLayerHTTPError status error_code message (if py_bool details then details else JObj [])"

record http_response =
  hs_status :: nat
  hs_text :: string
  hs_json :: "exn + json"

type_synonym 's http_send =
  "string \<Rightarrow> string \<Rightarrow> string \<Rightarrow> (string \<times> string) list \<Rightarrow> json option \<Rightarrow> (http_exn, 's, http_response) comp"

record 's sdk_client =
  cl_tenant_id :: string
  cl_send :: "'s http_send"

type_synonym ('s, 'a) sdk_action = "(sdk_exn, 's, 'a) comp"

definition new_client :: "'s http_send \<Rightarrow> string \<Rightarrow> 's sdk_client" where
  "new_client send tenant_id = \<lparr>cl_tenant_id = tenant_id, cl_send = send\<rparr>"

subsection \<open>Values of an answer\<close>

text \<open>\<open>data[key]\<close> and \<open>data.get(key, default)\<close> on whatever JSON value the server sent, iteration over
  one, and the two date parsers.\<close>

definition json_item :: "json \<Rightarrow> string \<Rightarrow> exn + json" where
  "json_item j key = (case j of JObj d \<Rightarrow> subscript d key
     | _ \<Rightarrow> Inl (TypeError (py_repr (json_type j) @ '' is not subscriptable by a string'')))"

definition json_get :: "json \<Rightarrow> string \<Rightarrow> json \<Rightarrow> exn + json" where
  "json_get j key dflt = (case j of JObj d \<Rightarrow> Inr (dict_get_or d key dflt)
     | _ \<Rightarrow> Inl (AttributeError (py_repr (json_type j) @ '' object has no attribute '' @ py_repr ''get'')))"

definition json_iter :: "json \<Rightarrow> exn + json list" where
  "json_iter j = (case j of JArr xs \<Rightarrow> Inr xs | JObj d \<Rightarrow> Inr (map (JStr \<circ> fst) d)
     | JStr s \<Rightarrow> Inr (map (\<lambda>c. JStr [c]) s)
     | _ \<Rightarrow> Inl (TypeError (py_repr (json_type j) @ '' object is not iterable'')))"

definition json_dict_of :: "json \<Rightarrow> exn + json_dict" where
  \<comment> \<open>\<open>dict(j)\<close>; a list of pairs, which also makes a dict, is not an answer of the server\<close>
  "json_dict_of j = (case j of JObj d \<Rightarrow> Inr d
     | _ \<Rightarrow> Inl (TypeError (''cannot convert '' @ json_type j @ '' to a dictionary'')))"

definition require_dt :: "json \<Rightarrow> exn + datetime" where
  "require_dt j = (case j of JStr s \<Rightarrow> fromisoformat s
     | _ \<Rightarrow> Inl (TypeError ''fromisoformat: argument must be str''))"

definition parse_dt :: "json \<Rightarrow> exn + datetime option" where
  "parse_dt j = (if j = JNull then Inr None else bindE (require_dt j) (\<lambda>d. Inr (Some d)))"

subsection \<open>Sending\<close>

definition raise_http_error :: "http_response \<Rightarrow> sdk_exn" where
  "raise_http_error r = (let body = (case hs_json r of Inl _ \<Rightarrow> JObj [] | Inr j \<Rightarrow> j) in
     case body of
       JObj d \<Rightarrow> sdk_http_error (hs_status r) (dict_get_or d ''error_code'' (JStr ''UNKNOWN''))
         (dict_get_or d ''message'' (JStr (hs_text r))) (dict_get_or d ''details'' JNull)
     | _ \<Rightarrow> Sdk_Raised (AttributeError (py_repr (json_type body) @ '' object has no attribute '' @ py_repr ''get'')))"

definition sdk_request ::
  "'s sdk_client \<Rightarrow> string \<Rightarrow> string \<Rightarrow> (string \<times> string) list \<Rightarrow> json option \<Rightarrow> ('s, http_response) sdk_action" where
  "sdk_request c meth path params body s = (case cl_send c (cl_tenant_id c) meth path params body s of
     (Inl (HTTP_Error m), s') \<Rightarrow> (Inl (MemoryLayerTransportError
        (''Transport error calling '' @ meth @ '' '' @ path @ '': '' @ m)), s')
   | (Inl (Other_Error e), s') \<Rightarrow> (Inl (Sdk_Raised e), s')
   | (Inr r, s') \<Rightarrow> if 200 \<le> hs_status r \<and> hs_status r \<le> 299 then (Inr r, s')
       else (Inl (raise_http_error r), s'))"

definition pureM :: "exn + 'a \<Rightarrow> ('s, 'a) sdk_action" where
  "pureM r = (case r of Inl e \<Rightarrow> raiseM (Sdk_Raised e) | Inr x \<Rightarrow> returnM x)"

definition sdk_json ::
  "'s sdk_client \<Rightarrow> string \<Rightarrow> string \<Rightarrow> json option \<Rightarrow> ('s, json) sdk_action" where
  \<comment> \<open>a request and \<open>resp.json()\<close>\<close>
  "sdk_json c meth path body = bindM (sdk_request c meth path [] body) (\<lambda>r. pureM (hs_json r))"

subsection \<open>Requests\<close>

text \<open>The dataclasses of the requests check nothing either: their fields are JSON values, None the null.\<close>

record sdk_scope =
  sq_principal_id :: json
  sq_principal_type :: json
  sq_workspace_id :: json
  sq_session_id :: json
  sq_run_id :: json

record sdk_write_request = sdk_scope +
  qw_raw_payload :: json
  qw_payload_type :: json
  qw_sector :: json
  qw_idempotency_key :: json
  qw_extract :: json
  qw_wait_for_enrichment :: json
  qw_metadata :: json

record sdk_search_request = sdk_scope +
  qs_query :: json
  qs_mode :: json
  qs_sectors :: json
  qs_lifecycle_states :: json
  qs_k :: json

record sdk_recall_request = sdk_scope +
  ql_query :: json
  ql_max_tokens :: json
  ql_max_items :: json
  ql_sectors :: json
  ql_include_facts :: json
  ql_include_verbatim :: json
  ql_mode :: json

text \<open>The requests with only their required fields given.\<close>

definition new_write_request :: "json \<Rightarrow> json \<Rightarrow> json \<Rightarrow> sdk_write_request" where
  "new_write_request principal_id raw_payload payload_type = \<lparr>sq_principal_id = principal_id,
     sq_principal_type = JStr ''USER'', sq_workspace_id = JNull, sq_session_id = JNull, sq_run_id = JNull,
     qw_raw_payload = raw_payload, qw_payload_type = payload_type, qw_sector = JNull,
     qw_idempotency_key = JNull, qw_extract = JBool True, qw_wait_for_enrichment = JBool False,
     qw_metadata = JObj []\<rparr>"

definition new_search_request :: "json \<Rightarrow> json \<Rightarrow> sdk_search_request" where
  "new_search_request principal_id query = \<lparr>sq_principal_id = principal_id,
     sq_principal_type = JStr ''USER'', sq_workspace_id = JNull, sq_session_id = JNull, sq_run_id = JNull,
     qs_query = query, qs_mode = JStr ''HYBRID'', qs_sectors = JNull,
     qs_lifecycle_states = JArr [JStr ''ACTIVE''], qs_k = JInt 10\<rparr>"

definition new_recall_request :: "json \<Rightarrow> json \<Rightarrow> sdk_recall_request" where
  "new_recall_request principal_id query = \<lparr>sq_principal_id = principal_id,
     sq_principal_type = JStr ''USER'', sq_workspace_id = JNull, sq_session_id = JNull, sq_run_id = JNull,
     ql_query = query, ql_max_tokens = JInt 4000, ql_max_items = JInt 10, ql_sectors = JNull,
     ql_include_facts = JBool True, ql_include_verbatim = JBool True, ql_mode = JStr ''HYBRID''\<rparr>"

definition opt_entry :: "string \<Rightarrow> json \<Rightarrow> json_dict" where
  \<comment> \<open>an entry that is there when the value is not None\<close>
  "opt_entry k v = (if v = JNull then [] else [(k, v)])"

definition scope_payload :: "'a sdk_scope_scheme \<Rightarrow> json" where
  "scope_payload req = JObj (filter (\<lambda>(k, v). v \<noteq> JNull)
     [(''principal_id'', sq_principal_id req), (''principal_type'', sq_principal_type req),
      (''workspace_id'', sq_workspace_id req), (''session_id'', sq_session_id req), (''run_id'', sq_run_id req)])"

definition write_payload :: "sdk_write_request \<Rightarrow> json" where
  "write_payload req = JObj ([(''scope'', scope_payload req), (''raw_payload'', qw_raw_payload req),
     (''payload_type'', qw_payload_type req), (''extract'', qw_extract req),
     (''wait_for_enrichment'', qw_wait_for_enrichment req), (''metadata'', qw_metadata req)] @
     opt_entry ''sector'' (qw_sector req) @ opt_entry ''idempotency_key'' (qw_idempotency_key req))"

definition search_payload :: "sdk_search_request \<Rightarrow> json" where
  "search_payload req = JObj ([(''scope'', scope_payload req), (''query'', qs_query req),
     (''mode'', qs_mode req), (''lifecycle_states'', qs_lifecycle_states req), (''k'', qs_k req)] @
     opt_entry ''sectors'' (qs_sectors req))"

definition recall_payload :: "sdk_recall_request \<Rightarrow> json" where
  "recall_payload req = JObj ([(''scope'', scope_payload req), (''query'', ql_query req),
     (''max_tokens'', ql_max_tokens req), (''max_items'', ql_max_items req),
     (''include_facts'', ql_include_facts req), (''include_verbatim'', ql_include_verbatim req),
     (''mode'', ql_mode req)] @ opt_entry ''sectors'' (ql_sectors req))"

subsection \<open>Answers\<close>

record sdk_write_response =
  ow_memory_id :: json
  ow_pipeline_status :: json
  ow_accepted_at :: datetime
  ow_idempotent :: json

record sdk_search_item =
  as_memory_id :: json
  as_content :: json
  as_sector :: json
  as_score :: json
  as_pipeline_status :: json
  as_lifecycle_state :: json
  as_signals :: json
  as_effective_from :: "datetime option"

record sdk_search_response =
  as_items :: "sdk_search_item list"
  as_total :: json
  as_searched_at :: datetime

record sdk_recall_item =
  al_memory_id :: json
  al_content :: json
  al_sector :: json
  al_lifecycle_state :: json
  al_pipeline_status :: json
  al_effective_from :: "datetime option"
  al_signals :: json
  al_explanation :: json
  al_trace_id :: json

record sdk_recall_response =
  al_status :: json
  al_items :: "sdk_recall_item list"
  al_total_tokens_estimate :: json
  al_recall_strategy :: json
  al_recalled_at :: datetime
  al_no_match_reason :: json

record sdk_trace_step =
  at_memory_id :: json
  at_rank :: json
  at_score :: json
  at_signals :: json
  at_explanation :: json
  at_record_available :: json

record sdk_memory_trace =
  at_trace_id :: json
  at_tenant_id :: json
  at_query :: json
  at_mode :: json
  at_steps :: "sdk_trace_step list"
  at_created_at :: datetime

definition read_write_response :: "json \<Rightarrow> exn + sdk_write_response" where
  "read_write_response data =
     bindE (json_item data ''memory_id'') (\<lambda>memory_id.
     bindE (json_item data ''pipeline_status'') (\<lambda>pipeline_status.
     bindE (bindE (json_item data ''accepted_at'') require_dt) (\<lambda>accepted_at.
     bindE (json_get data ''idempotent'' (JBool False)) (\<lambda>idempotent.
     Inr \<lparr>ow_memory_id = memory_id, ow_pipeline_status = pipeline_status, ow_accepted_at = accepted_at,
       ow_idempotent = idempotent\<rparr>))))"

definition read_search_item :: "json \<Rightarrow> exn + sdk_search_item" where
  "read_search_item i =
     bindE (json_item i ''memory_id'') (\<lambda>memory_id.
     bindE (json_item i ''content'') (\<lambda>content.
     bindE (json_item i ''sector'') (\<lambda>sector.
     bindE (json_item i ''score'') (\<lambda>score.
     bindE (json_item i ''pipeline_status'') (\<lambda>pipeline_status.
     bindE (json_item i ''lifecycle_state'') (\<lambda>lifecycle_state.
     bindE (json_get i ''signals'' (JObj [])) (\<lambda>signals.
     bindE (bindE (json_get i ''effective_from'' JNull) parse_dt) (\<lambda>effective_from.
     Inr \<lparr>as_memory_id = memory_id, as_content = content, as_sector = sector, as_score = score,
       as_pipeline_status = pipeline_status, as_lifecycle_state = lifecycle_state, as_signals = signals,
       as_effective_from = effective_from\<rparr>))))))))"

definition read_search_response :: "json \<Rightarrow> exn + sdk_search_response" where
  "read_search_response data =
     bindE (bindE (bindE (json_get data ''items'' (JArr [])) json_iter) (mapE read_search_item)) (\<lambda>items.
     bindE (json_item data ''total'') (\<lambda>total.
     bindE (bindE (json_item data ''searched_at'') require_dt) (\<lambda>searched_at.
     Inr \<lparr>as_items = items, as_total = total, as_searched_at = searched_at\<rparr>)))"

definition read_recall_item :: "json \<Rightarrow> exn + sdk_recall_item" where
  "read_recall_item i =
     bindE (json_item i ''memory_id'') (\<lambda>memory_id.
     bindE (json_item i ''content'') (\<lambda>content.
     bindE (json_item i ''sector'') (\<lambda>sector.
     bindE (json_item i ''lifecycle_state'') (\<lambda>lifecycle_state.
     bindE (json_item i ''pipeline_status'') (\<lambda>pipeline_status.
     bindE (bindE (json_get i ''effective_from'' JNull) parse_dt) (\<lambda>effective_from.
     bindE (json_get i ''signals'' (JObj [])) (\<lambda>signals.
     bindE (json_get i ''explanation'' (JStr [])) (\<lambda>explanation.
     bindE (json_get i ''trace_id'' JNull) (\<lambda>trace_id.
     Inr \<lparr>al_memory_id = memory_id, al_content = content, al_sector = sector,
       al_lifecycle_state = lifecycle_state, al_pipeline_status = pipeline_status,
       al_effective_from = effective_from, al_signals = signals, al_explanation = explanation,
       al_trace_id = trace_id\<rparr>)))))))))"

definition read_recall_response :: "json \<Rightarrow> exn + sdk_recall_response" where
  "read_recall_response data =
     bindE (bindE (bindE (json_get data ''items'' (JArr [])) json_iter) (mapE read_recall_item)) (\<lambda>items.
     bindE (json_item data ''status'') (\<lambda>status.
     bindE (json_get data ''total_tokens_estimate'' (JInt 0)) (\<lambda>total_tokens_estimate.
     bindE (json_get data ''recall_strategy'' (JStr [])) (\<lambda>recall_strategy.
     bindE (bindE (json_item data ''recalled_at'') require_dt) (\<lambda>recalled_at.
     bindE (json_get data ''no_match_reason'' JNull) (\<lambda>no_match_reason.
     Inr \<lparr>al_status = status, al_items = items, al_total_tokens_estimate = total_tokens_estimate,
       al_recall_strategy = recall_strategy, al_recalled_at = recalled_at,
       al_no_match_reason = no_match_reason\<rparr>))))))"

definition read_trace_step :: "json \<Rightarrow> exn + sdk_trace_step" where
  "read_trace_step x =
     bindE (json_item x ''memory_id'') (\<lambda>memory_id.
     bindE (json_item x ''rank'') (\<lambda>rank.
     bindE (json_item x ''score'') (\<lambda>score.
     bindE (json_get x ''signals'' (JObj [])) (\<lambda>signals.
     bindE (json_get x ''explanation'' (JStr [])) (\<lambda>explanation.
     bindE (json_get x ''record_available'' (JBool True)) (\<lambda>record_available.
     Inr \<lparr>at_memory_id = memory_id, at_rank = rank, at_score = score, at_signals = signals,
       at_explanation = explanation, at_record_available = record_available\<rparr>))))))"

definition read_memory_trace :: "json \<Rightarrow> exn + sdk_memory_trace" where
  "read_memory_trace data =
     bindE (bindE (bindE (json_get data ''steps'' (JArr [])) json_iter) (mapE read_trace_step)) (\<lambda>steps.
     bindE (json_item data ''trace_id'') (\<lambda>trace_id.
     bindE (json_item data ''tenant_id'') (\<lambda>tenant_id.
     bindE (json_item data ''query'') (\<lambda>query.
     bindE (json_item data ''mode'') (\<lambda>mode.
     bindE (bindE (json_item data ''created_at'') require_dt) (\<lambda>created_at.
     Inr \<lparr>at_trace_id = trace_id, at_tenant_id = tenant_id, at_query = query, at_mode = mode,
       at_steps = steps, at_created_at = created_at\<rparr>))))))"

subsection \<open>The operations\<close>

definition sdk_healthz :: "'s sdk_client \<Rightarrow> ('s, json_dict) sdk_action" where
  "sdk_healthz c = bindM (sdk_json c ''GET'' ''/healthz'' None) (\<lambda>j. pureM (json_dict_of j))"

definition sdk_write :: "'s sdk_client \<Rightarrow> sdk_write_request \<Rightarrow> ('s, sdk_write_response) sdk_action" where
  "sdk_write c req = bindM (sdk_json c ''POST'' ''/v1/memories:write'' (Some (write_payload req)))
     (\<lambda>data. pureM (read_write_response data))"

definition sdk_search :: "'s sdk_client \<Rightarrow> sdk_search_request \<Rightarrow> ('s, sdk_search_response) sdk_action" where
  "sdk_search c req = bindM (sdk_json c ''POST'' ''/v1/memories:search'' (Some (search_payload req)))
     (\<lambda>data. pureM (read_search_response data))"

definition sdk_recall :: "'s sdk_client \<Rightarrow> sdk_recall_request \<Rightarrow> ('s, sdk_recall_response) sdk_action" where
  "sdk_recall c req = bindM (sdk_json c ''POST'' ''/v1/memories:recall'' (Some (recall_payload req)))
     (\<lambda>data. pureM (read_recall_response data))"

definition sdk_get_memory :: "'s sdk_client \<Rightarrow> string \<Rightarrow> ('s, json_dict) sdk_action" where
  "sdk_get_memory c memory_id = bindM (sdk_json c ''GET'' (''/v1/memories/'' @ memory_id) None)
     (\<lambda>j. pureM (json_dict_of j))"

definition sdk_delete_memory :: "'s sdk_client \<Rightarrow> string \<Rightarrow> string \<Rightarrow> ('s, unit) sdk_action" where
  "sdk_delete_memory c memory_id actor =
     bindM (sdk_request c ''DELETE'' (''/v1/memories/'' @ memory_id) [(''actor'', actor)] None) (\<lambda>_. returnM ())"

definition sdk_explain :: "'s sdk_client \<Rightarrow> string \<Rightarrow> ('s, sdk_memory_trace) sdk_action" where
  "sdk_explain c trace_id = bindM (sdk_json c ''GET'' (''/v1/traces/'' @ trace_id) None)
     (\<lambda>data. pureM (read_memory_trace data))"

definition sdk_end_session :: "'s sdk_client \<Rightarrow> string \<Rightarrow> json_dict \<Rightarrow> ('s, unit) sdk_action" where
  "sdk_end_session c session_id sc =
     bindM (sdk_request c ''POST'' (''/v1/sessions/'' @ session_id @ '':end'') [] (Some (JObj [(''scope'', JObj sc)])))
       (\<lambda>_. returnM ())"

end
