(* ===== verification/Sdk_Server.thy ===== *)
theory Sdk_Server
  imports Sdk_Client
begin

text \<open>
  The SDK client against the HTTP application.  What lies between them is FastAPI and pydantic:
  \<open>fw\<close> routes a call with its body, \<open>parse\<close> validates a write body, \<open>print\<close> is the text and the JSON
  of a response body.  \<open>write_model_of\<close> reads a JSON object by the types the schema declares; pydantic
  is documented to accept it with that result, and may coerce more.
\<close>

subsection \<open>The declared types of a write\<close>

fun json_str :: "json \<Rightarrow> string option" where
  "json_str (JStr s) = Some s"
| "json_str _ = None"

fun json_bool :: "json \<Rightarrow> bool option" where
  "json_bool (JBool b) = Some b"
| "json_bool _ = None"

fun json_object :: "json \<Rightarrow> json_dict option" where
  "json_object (JObj d) = Some d"
| "json_object _ = None"

definition json_enum :: "(string \<Rightarrow> exn + 'a) \<Rightarrow> json \<Rightarrow> 'a option" where
  "json_enum member j = (case json_str j of None \<Rightarrow> None
     | Some s \<Rightarrow> (case member s of Inl _ \<Rightarrow> None | Inr x \<Rightarrow> Some x))"

definition nullable :: "(json \<Rightarrow> 'a option) \<Rightarrow> json \<Rightarrow> 'a option option" where
  "nullable f j = (if j = JNull then Some None else map_option Some (f j))"

definition field_or :: "json_dict \<Rightarrow> string \<Rightarrow> (json \<Rightarrow> 'a option) \<Rightarrow> 'a \<Rightarrow> 'a option" where
  \<comment> \<open>a field with a default\<close>
  "field_or d k f x = (case dict_get d k of None \<Rightarrow> Some x | Some j \<Rightarrow> f j)"

definition field :: "json_dict \<Rightarrow> string \<Rightarrow> (json \<Rightarrow> 'a option) \<Rightarrow> 'a option" where
  "field d k f = Option.bind (dict_get d k) f"

definition only_keys :: "json_dict \<Rightarrow> string list \<Rightarrow> unit option" where
  \<comment> \<open>\<^verbatim>\<open>extra="forbid"\<close>\<close>
  "only_keys d ks = (if set (map fst d) \<subseteq> set ks then Some () else None)"

definition scope_model_of :: "json \<Rightarrow> scope_model option" where
  "scope_model_of j =
     Option.bind (json_object j) (\<lambda>d.
     Option.bind (only_keys d [''principal_id'', ''principal_type'', ''workspace_id'', ''session_id'', ''run_id'']) (\<lambda>_.
     Option.bind (field d ''principal_id'' json_str) (\<lambda>principal_id.
     Option.bind (field_or d ''principal_type'' (json_enum principal_of) USER) (\<lambda>principal_type.
     Option.bind (field_or d ''workspace_id'' (nullable json_str) None) (\<lambda>workspace_id.
     Option.bind (field_or d ''session_id'' (nullable json_str) None) (\<lambda>session_id.
     Option.bind (field_or d ''run_id'' (nullable json_str) None) (\<lambda>run_id.
     Some \<lparr>sm_principal_id = principal_id, sm_principal_type = principal_type,
       sm_workspace_id = workspace_id, sm_session_id = session_id, sm_run_id = run_id\<rparr>)))))))"

definition write_model_of :: "json \<Rightarrow> write_model option" where
  "write_model_of j =
     Option.bind (json_object j) (\<lambda>d.
     Option.bind (only_keys d [''scope'', ''raw_payload'', ''payload_type'', ''sector'', ''idempotency_key'', ''extract'',
       ''wait_for_enrichment'', ''metadata'']) (\<lambda>_.
     Option.bind (field d ''scope'' scope_model_of) (\<lambda>sc.
     Option.bind (field d ''raw_payload'' json_str) (\<lambda>raw_payload.
     Option.bind (field d ''payload_type'' (json_enum payload_of)) (\<lambda>payload_type.
     Option.bind (field_or d ''sector'' (nullable (json_enum sector_of)) None) (\<lambda>sector.
     Option.bind (field_or d ''idempotency_key'' (nullable json_str) None) (\<lambda>idempotency_key.
     Option.bind (field_or d ''extract'' json_bool True) (\<lambda>extract.
     Option.bind (field_or d ''wait_for_enrichment'' json_bool False) (\<lambda>wait_for_enrichment.
     Option.bind (field_or d ''metadata'' json_object []) (\<lambda>metadata.
     Some \<lparr>wm_scope = sc, wm_raw_payload = raw_payload, wm_payload_type = payload_type, wm_sector = sector,
       wm_idempotency_key = idempotency_key, wm_extract = extract,
       wm_wait_for_enrichment = wait_for_enrichment, wm_metadata = metadata\<rparr>))))))))))"

text \<open>The SDK request with the values of a write model, and its way back.\<close>

definition opt_json :: "string option \<Rightarrow> json" where
  "opt_json v = (case v of None \<Rightarrow> JNull | Some x \<Rightarrow> JStr x)"

definition sdk_request_for :: "write_model \<Rightarrow> sdk_write_request" where
  "sdk_request_for m = (let sc = wm_scope m in
     \<lparr>sq_principal_id = JStr (sm_principal_id sc), sq_principal_type = JStr (principal_str (sm_principal_type sc)),
      sq_workspace_id = opt_json (sm_workspace_id sc), sq_session_id = opt_json (sm_session_id sc),
      sq_run_id = opt_json (sm_run_id sc), qw_raw_payload = JStr (wm_raw_payload m),
      qw_payload_type = JStr (payload_str (wm_payload_type m)),
      qw_sector = opt_json (map_option sector_str (wm_sector m)),
      qw_idempotency_key = opt_json (wm_idempotency_key m), qw_extract = JBool (wm_extract m),
      qw_wait_for_enrichment = JBool (wm_wait_for_enrichment m), qw_metadata = JObj (wm_metadata m)\<rparr>)"

lemmas field_readers = only_keys_def field_def field_or_def dict_get_def json_enum_def nullable_def

lemma scope_model_of_payload: "scope_model_of (scope_payload (sdk_request_for m)) = Some (wm_scope m)"
proof -
  obtain p pt ws ses run where sc: "wm_scope m = \<lparr>sm_principal_id = p, sm_principal_type = pt,
     sm_workspace_id = ws, sm_session_id = ses, sm_run_id = run\<rparr>"
    by (metis scope_model.surjective old.unit.exhaust)
  show ?thesis
    by (cases ws; cases ses; cases run)
      (simp_all add: scope_model_of_def scope_payload_def sdk_request_for_def opt_json_def sc field_readers)
qed

lemma write_model_of_payload: "write_model_of (write_payload (sdk_request_for m)) = Some m"
proof -
  have fields: "qw_raw_payload (sdk_request_for m) = JStr (wm_raw_payload m)"
    "qw_payload_type (sdk_request_for m) = JStr (payload_str (wm_payload_type m))"
    "qw_sector (sdk_request_for m) = opt_json (map_option sector_str (wm_sector m))"
    "qw_idempotency_key (sdk_request_for m) = opt_json (wm_idempotency_key m)"
    "qw_extract (sdk_request_for m) = JBool (wm_extract m)"
    "qw_wait_for_enrichment (sdk_request_for m) = JBool (wm_wait_for_enrichment m)"
    "qw_metadata (sdk_request_for m) = JObj (wm_metadata m)"
    by (simp_all add: sdk_request_for_def Let_def)
  show ?thesis
    by (cases "wm_sector m"; cases "wm_idempotency_key m")
      (simp_all add: write_model_of_def write_payload_def opt_entry_def opt_json_def fields field_readers
        scope_model_of_payload)
qed

subsection \<open>A client connected to the application\<close>

definition http_request :: "string \<Rightarrow> string \<Rightarrow> request" where
  "http_request path tenant_id = \<lparr>req_path = path, req_header = [tenant_header \<mapsto> tenant_id], state_tenant_id = None\<rparr>"

type_synonym call_framework = "string \<Rightarrow> string \<Rightarrow> (string \<times> string) list \<Rightarrow> json option \<Rightarrow> framework"

type_synonym printer = "body \<Rightarrow> string \<times> (exn + json)"

definition server_send :: "call_framework \<Rightarrow> printer \<Rightarrow> string \<Rightarrow> 's use_cases \<Rightarrow> 's http_send" where
  "server_send fw printed key ucs tenant_id meth path params body s =
     (case app (fw meth path params body) key ucs (http_request path tenant_id) s of
        (r, s') \<Rightarrow> (Inr \<lparr>hs_status = status_code r, hs_text = fst (printed (content r)),
          hs_json = snd (printed (content r))\<rparr>, s'))"

definition routes_writes :: "call_framework \<Rightarrow> (json \<Rightarrow> json + write_model) \<Rightarrow> bool" where
  \<comment> \<open>documented routing of the decorated path\<close>
  "routes_writes fw parse \<longleftrightarrow> (\<forall>j r. req_path r = ''/v1/memories:write'' \<longrightarrow>
     fw_router (fw ''POST'' ''/v1/memories:write'' [] (Some j)) r = Inr (Write_Memory (parse j)))"

definition validates_writes :: "(json \<Rightarrow> json + write_model) \<Rightarrow> bool" where
  \<comment> \<open>documented validation: a value of the declared types is accepted as it is\<close>
  "validates_writes parse \<longleftrightarrow> (\<forall>j m. write_model_of j = Some m \<longrightarrow> parse j = Inr m)"

definition prints_writes :: "printer \<Rightarrow> bool" where
  \<comment> \<open>documented serialisation: an object of the model's fields, enums by value, times in ISO format\<close>
  "prints_writes printed \<longleftrightarrow> (\<forall>w. \<exists>ts. snd (printed (Write_Body w)) = Inr (JObj
     [(''memory_id'', JStr (wp_memory_id w)), (''pipeline_status'', JStr (pipeline_str (wp_pipeline_status w))),
      (''accepted_at'', JStr ts), (''idempotent'', JBool (wp_idempotent w))]) \<and>
     (valid_datetime (wp_accepted_at w) \<longrightarrow> fromisoformat ts = Inr (wp_accepted_at w)))"

definition prints_errors :: "printer \<Rightarrow> bool" where
  "prints_errors printed \<longleftrightarrow> (\<forall>e. snd (printed (Error_Body e)) = Inr (JObj
     [(''error_code'', JStr (er_error_code e)), (''message'', JStr (er_message e)),
      (''details'', JObj (er_details e)), (''trace_id'', case er_trace_id e of None \<Rightarrow> JNull | Some t \<Rightarrow> JStr t)]))"

definition write_request_for :: "write_model \<Rightarrow> tenant_id \<Rightarrow> write_request" where
  "write_request_for m t = \<lparr>wr_tenant_id = t,
     wr_scope = \<lparr>scope_tenant_id = t, scope_principal_id = Some (sm_principal_id (wm_scope m)),
       scope_principal_type = Some (sm_principal_type (wm_scope m)),
       scope_workspace_id = or_none (sm_workspace_id (wm_scope m)),
       scope_session_id = or_none (sm_session_id (wm_scope m)), scope_run_id = or_none (sm_run_id (wm_scope m))\<rparr>,
     wr_raw_payload = wm_raw_payload m, wr_payload_type = wm_payload_type m, wr_sector = wm_sector m,
     wr_idempotency_key = wm_idempotency_key m, wr_extract = wm_extract m,
     wr_wait_for_enrichment = wm_wait_for_enrichment m, wr_metadata = wm_metadata m\<rparr>"

lemma write_call:
  assumes "routes_writes fw parse" "validates_writes parse"
    and "py_strip tenant = t" "t \<noteq> []" "uc_write ucs = Some use_case"
    and call: "use_case (write_request_for m t) s = (r, s')"
    and body: "j = write_payload (sdk_request_for m)"
  shows "app (fw ''POST'' ''/v1/memories:write'' [] (Some j)) key ucs (http_request ''/v1/memories:write'' tenant) s =
    (case r of
       Inl e \<Rightarrow> handle (fw_lookup (fw ''POST'' ''/v1/memories:write'' [] (Some j)))
         (fw_http_exception (fw ''POST'' ''/v1/memories:write'' [] (Some j))) (Raised e)
     | Inr result \<Rightarrow> ok 200 (Write_Body \<lparr>wp_memory_id = res_memory_id result,
       wp_pipeline_status = res_pipeline_status result, wp_accepted_at = res_accepted_at result,
       wp_idempotent = res_idempotent result\<rparr>), s')"
proof -
  let ?req = "http_request ''/v1/memories:write'' tenant"
  have "resolve_tenant_id ?req = Inr t"
    using assms(3,4) by (auto simp: resolve_Inr_iff http_request_def)
  moreover have "\<not> bypasses_tenant (req_path ?req)" by (simp add: bypasses_tenant_def http_request_def)
  moreover have "fw_router (fw ''POST'' ''/v1/memories:write'' [] (Some j)) (?req\<lparr>state_tenant_id := Some t\<rparr>) =
      Inr (Write_Memory (Inr m))"
    using assms(1,2) write_model_of_payload [of m] by (simp add: routes_writes_def validates_writes_def http_request_def body)
  moreover have "write_memory ucs (?req\<lparr>state_tenant_id := Some t\<rparr>) (Inr m) s =
      (case r of Inl e \<Rightarrow> Inl (Raised e) | Inr result \<Rightarrow> Inr (ok 200 (Write_Body \<lparr>wp_memory_id = res_memory_id result,
       wp_pipeline_status = res_pipeline_status result, wp_accepted_at = res_accepted_at result,
       wp_idempotent = res_idempotent result\<rparr>)), s')"
    using call assms(5) by (cases r)
      (simp_all add: write_memory_def with_tenant_def get_request_tenant_id_def provider_def validated_def
        scope_from_model_def write_request_for_def bindM_def runM_def monad_simps)
  ultimately show ?thesis by (cases r) (simp_all add: app_tenant endpoints_def)
qed

lemma sdk_write_returned:
  assumes "routes_writes fw parse" "validates_writes parse" "prints_writes printed"
    and "py_strip tenant = t" "t \<noteq> []" "uc_write ucs = Some use_case"
    and "use_case (write_request_for m t) s = (Inr result, s')" "valid_datetime (res_accepted_at result)"
  shows "sdk_write (new_client (server_send fw printed key ucs) tenant) (sdk_request_for m) s =
    (Inr \<lparr>ow_memory_id = JStr (res_memory_id result),
       ow_pipeline_status = JStr (pipeline_str (res_pipeline_status result)),
       ow_accepted_at = res_accepted_at result, ow_idempotent = JBool (res_idempotent result)\<rparr>, s')"
proof -
  let ?w = "\<lparr>wp_memory_id = res_memory_id result, wp_pipeline_status = res_pipeline_status result,
    wp_accepted_at = res_accepted_at result, wp_idempotent = res_idempotent result\<rparr>"
  from assms(3) [unfolded prints_writes_def, rule_format, of ?w] assms(8) obtain ts where
    "snd (printed (Write_Body ?w)) = Inr (JObj [(''memory_id'', JStr (res_memory_id result)),
      (''pipeline_status'', JStr (pipeline_str (res_pipeline_status result))), (''accepted_at'', JStr ts),
      (''idempotent'', JBool (res_idempotent result))])" "fromisoformat ts = Inr (res_accepted_at result)" by auto
  with write_call [OF assms(1,2,4-7) refl, of key] show ?thesis
    by (simp add: sdk_write_def sdk_json_def sdk_request_def server_send_def new_client_def bindM_def pureM_def
        ok_def monad_simps read_write_response_def json_item_def json_get_def subscript_def dict_get_def
        dict_get_or_def require_dt_def)
qed

text \<open>C4. A write of the SDK client reaches the write use case as it was asked for: over the HTTP
  application and a framework that routes, validates and prints as documented, a request with the
  values of a write model calls the use case with the client's tenant, a scope of that tenant and
  the request's own fields, and the client returns what the use case answered.\<close>

theorem sdk_write_end_to_end:
  assumes "routes_writes fw parse" "validates_writes parse" "prints_writes printed"
    and "py_strip tenant = t" "t \<noteq> []" "uc_write ucs = Some use_case"
    and "use_case (write_request_for m t) s = (Inr result, s')" "valid_datetime (res_accepted_at result)"
  shows "sdk_write (new_client (server_send fw printed key ucs) tenant) (sdk_request_for m) s =
    (Inr \<lparr>ow_memory_id = JStr (res_memory_id result),
       ow_pipeline_status = JStr (pipeline_str (res_pipeline_status result)),
       ow_accepted_at = res_accepted_at result, ow_idempotent = JBool (res_idempotent result)\<rparr>, s')"
  by (rule sdk_write_returned [OF assms])

subsection \<open>Errors\<close>

fun sdk_error_of :: "exn \<Rightarrow> sdk_exn" where
  \<comment> \<open>what the client raises for an exception of a use case\<close>
  "sdk_error_of (MemoryNotFoundError m) = MemoryLayerHTTPError 404 (JStr ''MEMORY_NOT_FOUND'')
     (JStr (''Memory not found: '' @ m)) (JObj [(''memory_id'', JStr m)])"
| "sdk_error_of (TenantIsolationViolation a r) = MemoryLayerHTTPError 403 (JStr ''TENANT_ISOLATION_VIOLATION'')
     (JStr (''Tenant isolation violation: actor='' @ a @ '', requested='' @ r))
     (JObj [(''actor'', JStr a), (''requested_tenant_id'', JStr r)])"
| "sdk_error_of (CapabilityNotAvailableError c) = MemoryLayerHTTPError 409 (JStr ''CAPABILITY_NOT_AVAILABLE'')
     (JStr (''Capability not available: '' @ c)) (JObj [(''capability'', JStr c)])"
| "sdk_error_of e = (if is_memory_layer_error e
     then MemoryLayerHTTPError 400 (JStr ''DOMAIN_ERROR'') (JStr (exn_str e)) (JObj [])
     else MemoryLayerHTTPError 500 (JStr ''INTERNAL_SERVER_ERROR'') (JStr ''An unexpected error occurred.'') (JObj []))"

lemma sdk_error_of_domain:
  assumes "\<forall>m. x \<noteq> MemoryNotFoundError m" "\<forall>a r. x \<noteq> TenantIsolationViolation a r"
    "\<forall>c. x \<noteq> CapabilityNotAvailableError c"
  shows "sdk_error_of x = (if is_memory_layer_error x
     then MemoryLayerHTTPError 400 (JStr ''DOMAIN_ERROR'') (JStr (exn_str x)) (JObj [])
     else MemoryLayerHTTPError 500 (JStr ''INTERNAL_SERVER_ERROR'') (JStr ''An unexpected error occurred.'') (JObj []))"
  using assms by (cases x) simp_all

lemma raise_error_response:
  assumes "prints_errors printed"
  shows "raise_http_error \<lparr>hs_status = n, hs_text = tx, hs_json = snd (printed (content (error_response m code msg details)))\<rparr> =
    MemoryLayerHTTPError n (JStr code) (JStr msg) (JObj (case details of None \<Rightarrow> [] | Some d \<Rightarrow> d))"
  using assms [unfolded prints_errors_def, rule_format,
      of "\<lparr>er_error_code = code, er_message = msg, er_details = (case details of None \<Rightarrow> [] | Some d \<Rightarrow> d), er_trace_id = None\<rparr>"]
  by (simp add: raise_http_error_def error_response_def sdk_http_error_def dict_get_or_def dict_get_def py_bool_def)

lemma status_error_response [simp]: "status_code (error_response n code msg details) = n"
  by (simp add: error_response_def)

lemma raised_response:
  assumes "prints_errors printed" "first_by_mro look"
  shows "raise_http_error \<lparr>hs_status = status_code (handle look http (Raised e)), hs_text = tx,
      hs_json = snd (printed (content (handle look http (Raised e))))\<rparr> = sdk_error_of e \<and>
    \<not> (200 \<le> status_code (handle look http (Raised e)) \<and> status_code (handle look http (Raised e)) \<le> 299)"
proof (cases "(\<exists>m. e = MemoryNotFoundError m) \<or> (\<exists>a r. e = TenantIsolationViolation a r) \<or>
    (\<exists>c. e = CapabilityNotAvailableError c)")
  case True
  then show ?thesis
    by (auto simp: handle_simps [OF assms(2)] raise_error_response [OF assms(1)])
next
  case False
  then show ?thesis
    using handle_domain [OF assms(2), of e http] handle_simps(8) [OF assms(2), of e http]
    by (cases "is_memory_layer_error e")
      (simp_all add: sdk_error_of_domain raise_error_response [OF assms(1)] generic_exception_handler_def)
qed

text \<open>A write that returned to the caller is one the use case accepted.\<close>

lemma sdk_write_accepted:
  assumes "routes_writes fw parse" "validates_writes parse" "prints_writes printed" "prints_errors printed"
    and "\<forall>meth path params body. first_by_mro (fw_lookup (fw meth path params body))"
    and "py_strip tenant = t" "t \<noteq> []" "uc_write ucs = Some use_case"
    and run: "sdk_write (new_client (server_send fw printed key ucs) tenant) (sdk_request_for m) s = (Inr a, s')"
  shows "\<exists>result. use_case (write_request_for m t) s = (Inr result, s') \<and>
    ow_memory_id a = JStr (res_memory_id result) \<and> ow_idempotent a = JBool (res_idempotent result)"
proof -
  let ?fw = "fw ''POST'' ''/v1/memories:write'' [] (Some (write_payload (sdk_request_for m)))"
  obtain r s1 where u: "use_case (write_request_for m t) s = (r, s1)" by fastforce
  note call = write_call [OF assms(1,2,6-8) u refl, of key]
  show ?thesis
  proof (cases r)
    case (Inl e)
    with call have "app ?fw key ucs (http_request ''/v1/memories:write'' tenant) s =
      (handle (fw_lookup ?fw) (fw_http_exception ?fw) (Raised e), s1)" by simp
    with raised_response [OF assms(4) assms(5) [rule_format], where e = e and http = "fw_http_exception ?fw"] run
    show ?thesis
      by (auto simp: sdk_write_def sdk_json_def sdk_request_def server_send_def new_client_def bindM_def split: if_splits)
  next
    case (Inr result)
    let ?w = "\<lparr>wp_memory_id = res_memory_id result, wp_pipeline_status = res_pipeline_status result,
      wp_accepted_at = res_accepted_at result, wp_idempotent = res_idempotent result\<rparr>"
    from assms(3) [unfolded prints_writes_def, rule_format, of ?w] obtain ts where
      "snd (printed (Write_Body ?w)) = Inr (JObj [(''memory_id'', JStr (res_memory_id result)),
        (''pipeline_status'', JStr (pipeline_str (res_pipeline_status result))), (''accepted_at'', JStr ts),
        (''idempotent'', JBool (res_idempotent result))])" by auto
    with call Inr u run show ?thesis
      by (auto simp: sdk_write_def sdk_json_def sdk_request_def server_send_def new_client_def bindM_def pureM_def
          ok_def monad_simps read_write_response_def json_item_def json_get_def subscript_def dict_get_def
          dict_get_or_def require_dt_def bindE_Inr_iff split: sum.splits)
  qed
qed

text \<open>C7. The exception of a use case reaches the SDK caller as a \<open>MemoryLayerHTTPError\<close> of its class,
  with the status, the code, the message and the details of the handler that answered: over a
  framework that routes, validates, looks up handlers and prints as documented, a write whose use
  case raises makes the client raise exactly that error, and never return.\<close>

theorem sdk_write_errors:
  assumes "routes_writes fw parse" "validates_writes parse" "prints_errors printed"
    and "\<forall>meth path params body. first_by_mro (fw_lookup (fw meth path params body))"
    and "py_strip tenant = t" "t \<noteq> []" "uc_write ucs = Some use_case"
    and "use_case (write_request_for m t) s = (Inl e, s')"
  shows "sdk_write (new_client (server_send fw printed key ucs) tenant) (sdk_request_for m) s = (Inl (sdk_error_of e), s')"
proof -
  let ?fw = "fw ''POST'' ''/v1/memories:write'' [] (Some (write_payload (sdk_request_for m)))"
  note call = write_call [OF assms(1,2,5-8) refl, of key]
  note err = raised_response [OF assms(3) assms(4) [rule_format], where e = e and http = "fw_http_exception ?fw"]
  from call have "app ?fw key ucs (http_request ''/v1/memories:write'' tenant) s =
    (handle (fw_lookup ?fw) (fw_http_exception ?fw) (Raised e), s')" by simp
  with err show ?thesis
    by (auto simp: sdk_write_def sdk_json_def sdk_request_def server_send_def new_client_def bindM_def)
qed

subsection \<open>A server for the examples\<close>

definition strict_parse :: "json \<Rightarrow> json + write_model" where
  "strict_parse j = (case write_model_of j of None \<Rightarrow> Inl (JArr []) | Some m \<Rightarrow> Inr m)"

definition write_framework :: call_framework where
  "write_framework meth path params body =
     one_route (Write_Memory (strict_parse (case body of None \<Rightarrow> JNull | Some j \<Rightarrow> j)))"

fun print_body :: printer where
  "print_body (Write_Body w) = ([], Inr (JObj [(''memory_id'', JStr (wp_memory_id w)),
     (''pipeline_status'', JStr (pipeline_str (wp_pipeline_status w))),
     (''accepted_at'', JStr (isoformat (wp_accepted_at w))), (''idempotent'', JBool (wp_idempotent w))]))"
| "print_body (Error_Body e) = ([], Inr (JObj [(''error_code'', JStr (er_error_code e)),
     (''message'', JStr (er_message e)), (''details'', JObj (er_details e)),
     (''trace_id'', case er_trace_id e of None \<Rightarrow> JNull | Some t \<Rightarrow> JStr t)]))"
| "print_body (Json_Body j) = ([], Inr j)"
| "print_body _ = ([], Inl (ValueError ''Expecting value''))"

lemma write_framework_ok:
  "routes_writes write_framework strict_parse" "validates_writes strict_parse" "prints_writes print_body"
  "prints_errors print_body" "first_by_mro (fw_lookup (write_framework meth path params body))"
  by (simp_all add: routes_writes_def write_framework_def validates_writes_def strict_parse_def prints_writes_def
      prints_errors_def first_by_mro_lookup fromisoformat_isoformat)

definition write_model_a :: write_model where
  "write_model_a = (default_write_model (default_scope_model ''alice'') ''likes tea'' CONVERSATION_TURN)
     \<lparr>wm_idempotency_key := Some ''k''\<rparr>"

definition accepting :: "write_request \<Rightarrow> (tenant_id list, write_result) action" where
  \<comment> \<open>a use case that records the tenant it is called for\<close>
  "accepting q s = (Inr \<lparr>res_memory_id = ''m1'', res_scope = wr_scope q, res_pipeline_status = PENDING,
     res_accepted_at = t0, res_idempotent = False\<rparr>, wr_tenant_id q # s)"

definition missing :: "write_request \<Rightarrow> (unit, write_result) action" where
  "missing q s = (Inl (MemoryNotFoundError ''m7''), s)"

lemma sdk_write_end_to_end_witness:
  "sdk_write (new_client (server_send write_framework print_body [] (no_use_cases\<lparr>uc_write := Some accepting\<rparr>)) '' acme'')
     (sdk_request_for write_model_a) [] =
   (Inr \<lparr>ow_memory_id = JStr ''m1'', ow_pipeline_status = JStr ''PENDING'', ow_accepted_at = t0,
      ow_idempotent = JBool False\<rparr>, [''acme''])"
  by (subst sdk_write_end_to_end [OF write_framework_ok(1-3) strip_acme, where use_case = accepting
        and result = "\<lparr>res_memory_id = ''m1'',
          res_scope = wr_scope (write_request_for write_model_a ''acme''),
          res_pipeline_status = PENDING, res_accepted_at = t0, res_idempotent = False\<rparr>" and s' = "[''acme'']"])
    (simp_all add: accepting_def write_request_for_def)

lemma sdk_write_errors_witness:
  "sdk_write (new_client (server_send write_framework print_body [] (no_use_cases\<lparr>uc_write := Some missing\<rparr>)) '' acme'')
     (sdk_request_for write_model_a) () =
   (Inl (MemoryLayerHTTPError 404 (JStr ''MEMORY_NOT_FOUND'') (JStr ''Memory not found: m7'')
      (JObj [(''memory_id'', JStr ''m7'')])), ())"
  by (subst sdk_write_errors [OF write_framework_ok(1,2,4) _ strip_acme, where use_case = missing
        and e = "MemoryNotFoundError ''m7''" and s' = "()"])
    (simp_all add: write_framework_ok missing_def)

end
