(* ===== verification/Sqlite_Db.thy ===== *)
theory Sqlite_Db
  imports Fixtures
begin

text \<open>
  The SQLite database the repositories of \<^verbatim>\<open>storage/sqlite\<close> share, with the tables of the
  migrated schema (\<^verbatim>\<open>V1__initial_schema.sql\<close>, \<^verbatim>\<open>V2__drop_facts_memory_record_fk.sql\<close>).

  A table is the list of its rows in \<open>rowid\<close> order: an insertion appends, an update is in
  place, \<^verbatim>\<open>INSERT OR REPLACE\<close> first deletes every row that conflicts on a unique key.  A
  TEXT column is a string (an option where NULL is allowed); a column written by
  \<^verbatim>\<open>json.dumps\<close> holds the value the text denotes.

  A statement may fail in the driver (disk, lock, connection).  \<open>io_fails n\<close> says whether
  the \<open>n\<close>-th statement does, for an arbitrary \<open>io_fails\<close>, so every failure point of an
  operation is a branch of the model.
\<close>

record record_row =
  rw_id :: string
  rw_tenant_id :: string
  rw_principal_id :: string
  rw_principal_type :: string
  rw_workspace_id :: "string option"
  rw_session_id :: "string option"
  rw_run_id :: "string option"
  rw_raw_payload :: string
  rw_payload_type :: string
  rw_sector :: string
  rw_lifecycle_state :: string
  rw_pipeline_status :: string
  rw_recorded_at :: string
  rw_idempotency_key :: "string option"
  rw_metadata :: json_dict

record fact_row =
  fw_id :: string
  fw_memory_record_id :: string
  fw_tenant_id :: string
  fw_principal_id :: string
  fw_subject_entity_id :: string
  fw_predicate :: string
  fw_predicate_group :: string
  fw_object_value :: string
  fw_effective_from :: string
  fw_effective_to :: "string option"
  fw_recorded_at :: string
  fw_supersedes :: "string option"
  fw_confidence :: rat
  fw_sector :: string
  fw_lifecycle_state :: string

record audit_row =
  aw_id :: string
  aw_tenant_id :: string
  aw_principal_id :: string
  aw_operation :: string
  aw_memory_id :: "string option"
  aw_actor :: string
  aw_timestamp :: string
  aw_outcome :: string
  aw_detail :: json_dict

record policy_row =
  pw_tenant_id :: string
  pw_policies :: json

record db =
  memory_records :: "record_row list"
  facts :: "fact_row list"
  audit_log :: "audit_row list"
  tenant_policies_tbl :: "policy_row list"
  io_fails :: "nat \<Rightarrow> bool"
  io_count :: nat

definition empty_db :: "(nat \<Rightarrow> bool) \<Rightarrow> db" where
  "empty_db fails = \<lparr>memory_records = [], facts = [], audit_log = [], tenant_policies_tbl = [],
     io_fails = fails, io_count = 0\<rparr>"

subsection \<open>Statements and transactions\<close>

definition statement :: "(db, unit) action" where
  "statement d =
     (if io_fails d (io_count d) then (Inl (DatabaseError ''disk I/O error''), d\<lparr>io_count := Suc (io_count d)\<rparr>)
      else (Inr (), d\<lparr>io_count := Suc (io_count d)\<rparr>))"

definition rollback_to :: "db \<Rightarrow> db \<Rightarrow> db" where
  \<comment> \<open>what an uncommitted connection leaves behind\<close>
  "rollback_to d d' = d\<lparr>io_count := io_count d'\<rparr>"

text \<open>
  \<^verbatim>\<open>try: async with aiosqlite.connect(...) as db: ...; await db.commit()\<close>
  \<^verbatim>\<open>except Exception as exc: raise StorageError(msg)\<close>: all or nothing.
\<close>

definition db_transaction :: "string \<Rightarrow> (db, 'a) action \<Rightarrow> (db, 'a) action" where
  "db_transaction msg m d = (case m d of
     (Inl e, d') \<Rightarrow> (Inl (StorageError (msg @ '': '' @ exn_str e)), rollback_to d d')
   | (Inr x, d') \<Rightarrow> (Inr x, d'))"

text \<open>One statement that reads, and one that writes.\<close>

definition query :: "string \<Rightarrow> (db \<Rightarrow> 'a) \<Rightarrow> (db, 'a) action" where
  "query msg f = db_transaction msg (bindM statement (\<lambda>_. getM f))"

definition exec_update :: "string \<Rightarrow> (db \<Rightarrow> db) \<Rightarrow> (db, unit) action" where
  "exec_update msg f = db_transaction msg (bindM statement (\<lambda>_. modifyM f))"

text \<open>The contents of a database, without the fault bookkeeping.\<close>

definition same_tables :: "db \<Rightarrow> db \<Rightarrow> bool" where
  "same_tables d d' \<longleftrightarrow> d' = d\<lparr>io_count := io_count d'\<rparr>"

subsection \<open>Clauses\<close>

definition sql_limit :: "int \<Rightarrow> 'a list \<Rightarrow> 'a list" where
  \<comment> \<open>a negative LIMIT is no limit\<close>
  "sql_limit n xs = (if n < 0 then xs else take (nat n) xs)"

text \<open>
  \<^verbatim>\<open>ORDER BY key ASC\<close> and \<^verbatim>\<open>DESC\<close> on a TEXT column (compared as text).  Rows with equal keys
  stay in \<open>rowid\<close> order here; SQL leaves their order open, and no property below depends
  on it.
\<close>

definition order_asc :: "('a \<Rightarrow> string) \<Rightarrow> 'a list \<Rightarrow> 'a list" where
  "order_asc key xs = sort_key key xs"

definition order_desc :: "('a \<Rightarrow> string) \<Rightarrow> 'a list \<Rightarrow> 'a list" where
  "order_desc key xs = rev (sort_key key (rev xs))"

lemma set_order [simp]: "set (order_asc key xs) = set xs" "set (order_desc key xs) = set xs"
  by (simp_all add: order_asc_def order_desc_def)

lemma length_order [simp]: "length (order_asc key xs) = length xs" "length (order_desc key xs) = length xs"
  by (simp_all add: order_asc_def order_desc_def)

lemma sorted_order_asc: "sorted (map key (order_asc key xs))"
  by (simp add: order_asc_def)

lemma sorted_order_desc: "sorted_wrt (\<lambda>a b. key b \<le> key a) (order_desc key xs)"
proof -
  have "sorted_wrt (\<lambda>a b. key a \<le> key b) (sort_key key (rev xs))"
    using sorted_sort_key [of key "rev xs"] by (simp add: sorted_map)
  then show ?thesis by (simp add: order_desc_def sorted_wrt_rev)
qed

lemma set_sql_limit: "set (sql_limit n xs) \<subseteq> set xs"
  by (simp add: sql_limit_def set_take_subset)

lemma length_sql_limit: "0 \<le> n \<Longrightarrow> int (length (sql_limit n xs)) \<le> n"
  by (simp add: sql_limit_def)

lemma sorted_wrt_sql_limit: "sorted_wrt P xs \<Longrightarrow> sorted_wrt P (sql_limit n xs)"
  by (simp add: sql_limit_def sorted_wrt_take)

lemma length_sql_limit_eq: "length (sql_limit n xs) = (if n < 0 then length xs else min (nat n) (length xs))"
  by (simp add: sql_limit_def min.commute)

lemma sql_limit_top:
  assumes "sorted_wrt P xs" "x \<in> set (sql_limit n xs)" "y \<in> set xs" "y \<notin> set (sql_limit n xs)"
  shows "P x y"
proof -
  from assms(2-4) have n: "0 \<le> n" by (auto simp: sql_limit_def split: if_splits)
  have "sorted_wrt P (take (nat n) xs @ drop (nat n) xs)" using assms(1) by simp
  then have "\<forall>a \<in> set (take (nat n) xs). \<forall>b \<in> set (drop (nat n) xs). P a b" unfolding sorted_wrt_append by blast
  moreover have "y \<in> set (drop (nat n) xs)"
    using assms(3,4) n set_append [of "take (nat n) xs" "drop (nat n) xs"] by (auto simp: sql_limit_def)
  ultimately show ?thesis using assms(2) n by (simp add: sql_limit_def)
qed

subsection \<open>What a query and an update do\<close>

lemma same_tables_refl [simp]: "same_tables d d"
  by (simp add: same_tables_def)

lemma same_tables_trans: "same_tables a b \<Longrightarrow> same_tables b c \<Longrightarrow> same_tables a c"
  by (simp add: same_tables_def) (metis db.surjective db.update_convs(6))

lemma same_tables_fields:
  assumes "same_tables d d'"
  shows "memory_records d' = memory_records d" "facts d' = facts d" "audit_log d' = audit_log d"
    "tenant_policies_tbl d' = tenant_policies_tbl d" "io_fails d' = io_fails d"
  using assms unfolding same_tables_def
  by (metis db.select_convs db.surjective db.update_convs(6))+

lemma statement_tables: "same_tables d (snd (statement d))"
  by (simp add: statement_def same_tables_def)

lemma rollback_tables [simp]: "same_tables d (rollback_to d d')"
  by (simp add: rollback_to_def same_tables_def)

lemma query_cases:
  "query msg f d =
     (if io_fails d (io_count d)
      then (Inl (StorageError (msg @ '': disk I/O error'')), d\<lparr>io_count := Suc (io_count d)\<rparr>)
      else (Inr (f (d\<lparr>io_count := Suc (io_count d)\<rparr>)), d\<lparr>io_count := Suc (io_count d)\<rparr>))"
  by (simp add: query_def db_transaction_def statement_def bindM_def getM_def rollback_to_def)

lemma exec_update_cases:
  "exec_update msg f d =
     (if io_fails d (io_count d)
      then (Inl (StorageError (msg @ '': disk I/O error'')), d\<lparr>io_count := Suc (io_count d)\<rparr>)
      else (Inr (), f (d\<lparr>io_count := Suc (io_count d)\<rparr>)))"
  by (simp add: exec_update_def db_transaction_def statement_def bindM_def modifyM_def rollback_to_def)

lemma query_tables: "query msg f d = (r, d') \<Longrightarrow> same_tables d d'"
  by (auto simp: query_cases same_tables_def split: if_splits)

lemma exec_update_error: "exec_update msg f d = (Inl e, d') \<Longrightarrow> same_tables d d'"
  by (auto simp: exec_update_cases same_tables_def split: if_splits)

subsection \<open>Tables an operation leaves alone\<close>

text \<open>A table, as opposed to the fault bookkeeping.\<close>

definition table :: "(db \<Rightarrow> 'a) \<Rightarrow> bool" where
  "table g \<longleftrightarrow> (\<forall>d c. g (d\<lparr>io_count := c\<rparr>) = g d)"

abbreviation untouched :: "(db \<Rightarrow> 'a) \<Rightarrow> (db, 'b) action \<Rightarrow> bool" where
  "untouched g m \<equiv> undisturbed (\<lambda>_. True) g m"

lemma tables [simp]: "table memory_records" "table facts" "table audit_log" "table tenant_policies_tbl"
  by (simp_all add: table_def)

lemma untouched_statement [quiet_intro]: "table g \<Longrightarrow> untouched g statement"
  by (simp add: undisturbed_def statement_def table_def)

lemma untouched_modifyM: "(\<And>d. g (f d) = g d) \<Longrightarrow> untouched g (modifyM f)"
  by (simp add: undisturbed_def modifyM_def)

lemma untouched_transaction [quiet_intro]: "table g \<Longrightarrow> untouched g m \<Longrightarrow> untouched g (db_transaction msg m)"
  by (auto simp: undisturbed_def db_transaction_def table_def rollback_to_def split: prod.splits sum.splits)
    (metis snd_conv)

lemma untouched_query [quiet_intro]: "table g \<Longrightarrow> untouched g (query msg f)"
  unfolding query_def by (intro quiet_intro)

lemma untouched_exec_update: "table g \<Longrightarrow> (\<And>d. g (f d) = g d) \<Longrightarrow> untouched g (exec_update msg f)"
  unfolding exec_update_def by (intro quiet_intro untouched_modifyM)

subsection \<open>Timestamps as text\<close>

text \<open>A timestamp survives its text: what \<open>_dt_to_str\<close> writes, \<open>_str_to_dt\<close> reads back, a
  naive value as the same wall clock in UTC and an aware one unchanged, its offset kept; the text
  of a stored value never changes again.\<close>

theorem timestamp_roundtrip:
  assumes "valid_datetime d"
  shows "str_to_dt (dt_to_str d) = Inr (as_utc d) \<and> dt_to_str (as_utc d) = dt_to_str d \<and>
    (\<forall>z. utc_offset d = Some z \<longrightarrow> as_utc d = d)"
  using str_to_dt_to_str [OF assms] by (simp add: dt_to_str_def as_utc_def)

theorem timestamp_roundtrip_witness:
  "str_to_dt (dt_to_str t1) = Inr (t1\<lparr>utc_offset := Some 0\<rparr>)"
  using timestamp_roundtrip [of t1] by (simp add: as_utc_def)

text \<open>SQLite orders the timestamps of a table as text; for values in UTC, naive ones among
  them, that is the order of time, although \<open>isoformat\<close> leaves out a zero microsecond field.\<close>

theorem timestamp_order:
  assumes "valid_datetime a" "valid_datetime b" "utc_offset a \<in> {None, Some 0}" "utc_offset b \<in> {None, Some 0}"
  shows "dt_to_str a < dt_to_str b \<longleftrightarrow> time_key a < time_key b"
proof -
  have utc: "utc_offset (as_utc c) = Some 0" if "utc_offset c \<in> {None, Some 0}" for c
    using that by (auto simp: as_utc_def)
  have "time_key (as_utc c) = time_key c" for c by (simp add: time_key_def as_utc_def)
  with isoformat_less [of "as_utc a" "as_utc b"] assms(1,2) utc [OF assms(3)] utc [OF assms(4)]
  show ?thesis by (simp add: dt_to_str_def)
qed

theorem timestamp_order_witness: "dt_to_str t0 < dt_to_str t1"
  using timestamp_order [of t0 t1] by (simp add: t0_before_t1)

end
