(* ===== verification/Sqlite_Records.thy ===== *)
theory Sqlite_Records
  imports Sqlite_Db Record_Contract
begin

text \<open>
  \<^verbatim>\<open>storage/sqlite/record_repo.py\<close>, \<open>SqliteMemoryRecordRepository\<close>: the row mapping and the
  six operations, the tenant checks included.  \<open>sqlite_record_repo\<close> is the adapter as a
  port; it lacks the two methods only the decay service calls.
\<close>

subsection \<open>Row mapping\<close>

definition record_to_row :: "memory_record \<Rightarrow> record_row" where
  "record_to_row r = (let sc = mr_scope r in
     \<lparr>rw_id = mr_id r,
      rw_tenant_id = mr_tenant_id r,
      rw_principal_id = opt_str (scope_principal_id sc),
      rw_principal_type = opt_str (map_option principal_str (scope_principal_type sc)),
      rw_workspace_id = or_none (scope_workspace_id sc),
      rw_session_id = or_none (scope_session_id sc),
      rw_run_id = or_none (scope_run_id sc),
      rw_raw_payload = mr_raw_payload r,
      rw_payload_type = payload_str (mr_payload_type r),
      rw_sector = sector_str (mr_sector r),
      rw_lifecycle_state = lifecycle_str (mr_lifecycle_state r),
      rw_pipeline_status = pipeline_str (mr_pipeline_status r),
      rw_recorded_at = dt_to_str (mr_recorded_at r),
      rw_idempotency_key = mr_idempotency_key r,
      rw_metadata = mr_metadata r\<rparr>)"

definition row_to_record :: "record_row \<Rightarrow> exn + memory_record" where
  "row_to_record w =
     bindE (principal_of (rw_principal_type w)) (\<lambda>pt.
     bindE (payload_of (rw_payload_type w)) (\<lambda>pl.
     bindE (sector_of (rw_sector w)) (\<lambda>se.
     bindE (lifecycle_of (rw_lifecycle_state w)) (\<lambda>ls.
     bindE (pipeline_of (rw_pipeline_status w)) (\<lambda>ps.
     bindE (str_to_dt (rw_recorded_at w)) (\<lambda>dt.
       Inr \<lparr>mr_id = rw_id w,
            mr_tenant_id = rw_tenant_id w,
            mr_scope = \<lparr>scope_tenant_id = rw_tenant_id w,
              scope_principal_id = Some (rw_principal_id w),
              scope_principal_type = Some pt,
              scope_workspace_id = or_none (rw_workspace_id w),
              scope_session_id = or_none (rw_session_id w),
              scope_run_id = or_none (rw_run_id w)\<rparr>,
            mr_raw_payload = rw_raw_payload w,
            mr_payload_type = pl,
            mr_sector = se,
            mr_lifecycle_state = ls,
            mr_pipeline_status = ps,
            mr_recorded_at = dt,
            mr_idempotency_key = or_none (rw_idempotency_key w),
            mr_metadata = rw_metadata w\<rparr>))))))"

subsection \<open>Operations\<close>

text \<open>The two unique keys of the table: the primary key and the partial index.\<close>

definition record_conflict :: "record_row \<Rightarrow> record_row \<Rightarrow> bool" where
  "record_conflict a b \<longleftrightarrow> rw_id a = rw_id b \<or>
     rw_tenant_id a = rw_tenant_id b \<and> rw_idempotency_key a \<noteq> None \<and>
     rw_idempotency_key a = rw_idempotency_key b"

lemma record_conflict_sym: "record_conflict a b \<longleftrightarrow> record_conflict b a"
  unfolding record_conflict_def by metis

definition replace_record_row :: "record_row \<Rightarrow> db \<Rightarrow> db" where
  "replace_record_row w d =
     d\<lparr>memory_records := filter (\<lambda>v. \<not> record_conflict w v) (memory_records d) @ [w]\<rparr>"

definition record_save :: "memory_record \<Rightarrow> (db, unit) action" where
  "record_save r =
     exec_update (''save failed for memory_id='' @ mr_id r) (replace_record_row (record_to_row r))"

definition find_row :: "memory_id \<Rightarrow> db \<Rightarrow> record_row option" where
  "find_row m d = find (\<lambda>w. rw_id w = m) (memory_records d)"

definition record_get_by_id :: "memory_id \<Rightarrow> tenant_id \<Rightarrow> (db, memory_record option) action" where
  "record_get_by_id m t =
     bindM (query (''get_by_id failed for memory_id='' @ m) (find_row m)) (\<lambda>raw.
       case raw of
         None \<Rightarrow> returnM None
       | Some w \<Rightarrow>
           if rw_tenant_id w \<noteq> t then raiseM (TenantIsolationViolation t (rw_tenant_id w))
           else bindM (liftM (row_to_record w)) (\<lambda>r. returnM (Some r)))"

definition assert_belongs_to_tenant :: "memory_id \<Rightarrow> tenant_id \<Rightarrow> (db, unit) action" where
  "assert_belongs_to_tenant m t =
     bindM (query (''tenant check failed for memory_id='' @ m) (find_row m)) (\<lambda>raw.
       case raw of
         None \<Rightarrow> raiseM (StorageError (''MemoryRecord not found: '' @ m))
       | Some w \<Rightarrow>
           if rw_tenant_id w \<noteq> t then raiseM (TenantIsolationViolation t (rw_tenant_id w))
           else returnM ())"

definition update_rows :: "memory_id \<Rightarrow> tenant_id \<Rightarrow> (record_row \<Rightarrow> record_row) \<Rightarrow> db \<Rightarrow> db" where
  \<comment> \<open>\<^verbatim>\<open>UPDATE memory_records SET ... WHERE id = ? AND tenant_id = ?\<close>\<close>
  "update_rows m t f d = d\<lparr>memory_records :=
     map (\<lambda>w. if rw_id w = m \<and> rw_tenant_id w = t then f w else w) (memory_records d)\<rparr>"

definition record_update_lifecycle ::
  "memory_id \<Rightarrow> tenant_id \<Rightarrow> lifecycle_state \<Rightarrow> string \<Rightarrow> (db, unit) action" where
  "record_update_lifecycle m t state actor =
     bindM (assert_belongs_to_tenant m t) (\<lambda>_.
       exec_update (''update_lifecycle failed for memory_id='' @ m)
         (update_rows m t (\<lambda>w. w\<lparr>rw_lifecycle_state := lifecycle_str state\<rparr>)))"

definition record_update_pipeline_status ::
  "memory_id \<Rightarrow> tenant_id \<Rightarrow> pipeline_status \<Rightarrow> (db, unit) action" where
  "record_update_pipeline_status m t st =
     bindM (assert_belongs_to_tenant m t) (\<lambda>_.
       exec_update (''update_pipeline_status failed for memory_id='' @ m)
         (update_rows m t (\<lambda>w. w\<lparr>rw_pipeline_status := pipeline_str st\<rparr>)))"

definition select_by_scope :: "scope \<Rightarrow> lifecycle_state list \<Rightarrow> int \<Rightarrow> db \<Rightarrow> record_row list" where
  "select_by_scope sc states limit d =
     sql_limit limit (order_desc rw_recorded_at
       (filter (\<lambda>w. rw_tenant_id w = scope_tenant_id sc \<and>
                    rw_principal_id w = opt_str (scope_principal_id sc) \<and>
                    rw_lifecycle_state w \<in> set (map lifecycle_str states)) (memory_records d)))"

definition record_list_by_scope ::
  "scope \<Rightarrow> lifecycle_state list \<Rightarrow> int \<Rightarrow> (db, memory_record list) action" where
  "record_list_by_scope sc states limit =
     (if states = [] then returnM []
      else bindM (query ''list_by_scope failed'' (select_by_scope sc states limit)) (\<lambda>rows.
        liftM (mapE row_to_record rows)))"

definition key_row :: "string \<Rightarrow> tenant_id \<Rightarrow> db \<Rightarrow> record_row option" where
  "key_row k t d = find (\<lambda>w. rw_tenant_id w = t \<and> rw_idempotency_key w = Some k) (memory_records d)"

definition record_get_by_idempotency_key ::
  "string \<Rightarrow> tenant_id \<Rightarrow> (db, memory_record option) action" where
  "record_get_by_idempotency_key key t =
     bindM (query (''get_by_idempotency_key failed for key='' @ py_repr key) (key_row key t)) (\<lambda>raw.
       case raw of None \<Rightarrow> returnM None
       | Some w \<Rightarrow> bindM (liftM (row_to_record w)) (\<lambda>r. returnM (Some r)))"

definition sqlite_record_repo :: "db record_repo" where
  "sqlite_record_repo = \<lparr>
     rr_save = record_save,
     rr_get_by_id = record_get_by_id,
     rr_update_lifecycle = record_update_lifecycle,
     rr_update_pipeline_status = record_update_pipeline_status,
     rr_list_by_scope = record_list_by_scope,
     rr_get_by_idempotency_key = record_get_by_idempotency_key,
     rr_list_active_older_than = (\<lambda>_ _. raiseM (AttributeError ''list_active_older_than'')),
     rr_update_lifecycle_state = (\<lambda>_ _ _. raiseM (AttributeError ''update_lifecycle_state''))\<rparr>"

subsection \<open>Round trip of a record through its row\<close>

text \<open>
  What comes back: the scope takes the record's tenant, the empty optional identifiers and
  the empty idempotency key are dropped, a naive timestamp is UTC.
\<close>

definition norm_record :: "memory_record \<Rightarrow> memory_record" where
  "norm_record r = r\<lparr>
     mr_scope := \<lparr>scope_tenant_id = mr_tenant_id r,
       scope_principal_id = Some (opt_str (scope_principal_id (mr_scope r))),
       scope_principal_type = scope_principal_type (mr_scope r),
       scope_workspace_id = or_none (scope_workspace_id (mr_scope r)),
       scope_session_id = or_none (scope_session_id (mr_scope r)),
       scope_run_id = or_none (scope_run_id (mr_scope r))\<rparr>,
     mr_recorded_at := as_utc (mr_recorded_at r),
     mr_idempotency_key := or_none (mr_idempotency_key r)\<rparr>"

definition storable_record :: "memory_record \<Rightarrow> bool" where
  \<comment> \<open>values of the declared types: a real timestamp and a principal type\<close>
  "storable_record r \<longleftrightarrow> valid_datetime (mr_recorded_at r) \<and> scope_principal_type (mr_scope r) \<noteq> None"

lemma row_roundtrip: "storable_record r \<Longrightarrow> row_to_record (record_to_row r) = Inr (norm_record r)"
  by (auto simp: storable_record_def row_to_record_def record_to_row_def Let_def norm_record_def
      str_to_dt_to_str)

lemma record_to_row_simps [simp]:
  "rw_id (record_to_row r) = mr_id r"
  "rw_tenant_id (record_to_row r) = mr_tenant_id r"
  "rw_idempotency_key (record_to_row r) = mr_idempotency_key r"
  "rw_recorded_at (record_to_row r) = dt_to_str (mr_recorded_at r)"
  "rw_lifecycle_state (record_to_row r) = lifecycle_str (mr_lifecycle_state r)"
  "rw_principal_id (record_to_row r) = opt_str (scope_principal_id (mr_scope r))"
  by (simp_all add: record_to_row_def Let_def)

lemma record_to_row_update:
  "(record_to_row r)\<lparr>rw_lifecycle_state := lifecycle_str s\<rparr> = record_to_row (r\<lparr>mr_lifecycle_state := s\<rparr>)"
  "(record_to_row r)\<lparr>rw_pipeline_status := pipeline_str p\<rparr> = record_to_row (r\<lparr>mr_pipeline_status := p\<rparr>)"
  by (simp_all add: record_to_row_def Let_def)

lemma norm_record_simps [simp]:
  "mr_id (norm_record r) = mr_id r"
  "mr_tenant_id (norm_record r) = mr_tenant_id r"
  "mr_raw_payload (norm_record r) = mr_raw_payload r"
  "mr_sector (norm_record r) = mr_sector r"
  "mr_lifecycle_state (norm_record r) = mr_lifecycle_state r"
  "mr_pipeline_status (norm_record r) = mr_pipeline_status r"
  "norm_record (norm_record r) = norm_record r"
  by (simp_all add: norm_record_def)

lemma norm_record_update:
  "norm_record (r\<lparr>mr_lifecycle_state := s\<rparr>) = (norm_record r)\<lparr>mr_lifecycle_state := s\<rparr>"
  "norm_record (r\<lparr>mr_pipeline_status := p\<rparr>) = (norm_record r)\<lparr>mr_pipeline_status := p\<rparr>"
  by (simp_all add: norm_record_def)

lemma storable_update [simp]:
  "storable_record (r\<lparr>mr_lifecycle_state := s\<rparr>) = storable_record r"
  "storable_record (r\<lparr>mr_pipeline_status := p\<rparr>) = storable_record r"
  "storable_record (norm_record r) = storable_record r"
  by (simp_all add: storable_record_def norm_record_def)

subsection \<open>The table invariant and the view of the store\<close>

definition row_ok :: "record_row \<Rightarrow> bool" where
  "row_ok w \<longleftrightarrow> (\<exists>r. storable_record r \<and> w = record_to_row r)"

definition records_inv :: "db \<Rightarrow> bool" where
  \<comment> \<open>every row was written by the adapter, and no two rows conflict on a unique key\<close>
  "records_inv d \<longleftrightarrow> sorted_wrt (\<lambda>a b. \<not> record_conflict a b) (memory_records d) \<and>
     (\<forall>w \<in> set (memory_records d). row_ok w)"

definition sqlite_lookup :: "db \<Rightarrow> record_view" where
  "sqlite_lookup d = (\<lambda>(t, m). case find_row m d of None \<Rightarrow> None
     | Some w \<Rightarrow> if rw_tenant_id w \<noteq> t then None
         else (case row_to_record w of Inl _ \<Rightarrow> None | Inr r \<Rightarrow> Some r))"

definition sqlite_view :: "db \<Rightarrow> store_view" where
  "sqlite_view d = \<lparr>v_records = sqlite_lookup d,
     v_keys = (\<lambda>(t, k). map_option rw_id (key_row k t d))\<rparr>"

lemma sqlite_view_simps [simp]:
  "v_records (sqlite_view d) = sqlite_lookup d"
  "v_keys (sqlite_view d) (t, k) = map_option rw_id (key_row k t d)"
  by (simp_all add: sqlite_view_def)

lemma row_okE:
  assumes "row_ok w"
  obtains r where "storable_record r" "w = record_to_row r" "row_to_record w = Inr (norm_record r)"
  using assms row_roundtrip by (auto simp: row_ok_def)

lemma same_records_view:
  assumes "memory_records d' = memory_records d"
  shows "sqlite_view d' = sqlite_view d" "records_inv d' = records_inv d"
  using assms by (simp_all add: sqlite_view_def sqlite_lookup_def key_row_def records_inv_def find_row_def)

lemma same_tables_view:
  assumes "same_tables d d'"
  shows "sqlite_view d' = sqlite_view d" "records_inv d' = records_inv d"
  by (rule same_records_view [OF same_tables_fields(1) [OF assms]])+

lemma find_row_in: "find_row m d = Some w \<Longrightarrow> w \<in> set (memory_records d) \<and> rw_id w = m"
  by (auto simp: find_row_def find_Some_iff)

lemma find_row_unique:
  assumes "records_inv d" "w \<in> set (memory_records d)"
  shows "find_row (rw_id w) d = Some w"
proof -
  have "find (\<lambda>v. rw_id v = rw_id w) ws = Some w"
    if "sorted_wrt (\<lambda>a b. \<not> record_conflict a b) ws" "w \<in> set ws" for ws
    using that by (induction ws) (auto simp: record_conflict_def)
  then show ?thesis using assms by (simp add: find_row_def records_inv_def)
qed

lemma lookup_found:
  assumes "records_inv d" "find_row m d = Some w"
  obtains r where "storable_record r" "w = record_to_row r" "mr_id r = m"
    "sqlite_lookup d (mr_tenant_id r, m) = Some (norm_record r)"
    "\<And>t. t \<noteq> mr_tenant_id r \<Longrightarrow> sqlite_lookup d (t, m) = None"
proof -
  from assms find_row_in [OF assms(2)] have "row_ok w" "rw_id w = m" by (auto simp: records_inv_def)
  then obtain r where "storable_record r" "w = record_to_row r" "row_to_record w = Inr (norm_record r)"
    by (blast elim: row_okE)
  with that assms(2) \<open>rw_id w = m\<close> show ?thesis by (simp add: sqlite_lookup_def)
qed

lemma lookup_missing: "find_row m d = None \<Longrightarrow> sqlite_lookup d (t, m) = None"
  by (simp add: sqlite_lookup_def)

lemma lookup_None_iff:
  assumes "records_inv d"
  shows "(\<forall>t. sqlite_lookup d (t, m) = None) \<longleftrightarrow> find_row m d = None"
proof (cases "find_row m d")
  case (Some w)
  then obtain t r where "sqlite_lookup d (t, m) = Some r" by (rule lookup_found [OF assms])
  with Some show ?thesis by auto
qed (simp add: lookup_missing)

subsection \<open>Saving\<close>

lemma replace_records_inv:
  assumes "records_inv d" "row_ok w"
  shows "records_inv (replace_record_row w d)"
proof -
  have "sorted_wrt (\<lambda>a b. \<not> record_conflict a b) (filter (\<lambda>v. \<not> record_conflict w v) (memory_records d))"
    using assms(1) by (simp add: records_inv_def sorted_wrt_filter)
  then show ?thesis
    using assms record_conflict_sym
    by (auto simp: records_inv_def replace_record_row_def sorted_wrt_append)
qed

lemma record_save_inv: "storable_record r \<Longrightarrow> keeps records_inv (record_save r)"
proof (rule keepsI)
  fix d assume "storable_record r" "records_inv d"
  then have "records_inv (replace_record_row (record_to_row r) (d\<lparr>io_count := Suc (io_count d)\<rparr>))"
    by (intro replace_records_inv) (auto simp: records_inv_def row_ok_def)
  with \<open>records_inv d\<close> show "records_inv (snd (record_save r d))"
    by (auto simp: record_save_def exec_update_cases records_inv_def)
qed

lemma record_save_fresh:
  assumes "\<And>w. w \<in> set (memory_records d) \<Longrightarrow> \<not> record_conflict (record_to_row r) w"
    and "record_save r d = (Inr (), d')"
  shows "memory_records d' = memory_records d @ [record_to_row r]"
  using assms by (auto simp: record_save_def exec_update_cases replace_record_row_def split: if_splits)

lemma record_save_view:
  assumes inv: "records_inv d" and ok: "storable_record r" and new: "v_fresh r (sqlite_view d)"
    and save: "record_save r d = (Inr (), d')"
  shows "sqlite_view d' = v_save r (norm_record r) (sqlite_view d)"
proof -
  from new have none: "find_row (mr_id r) d = None"
    using lookup_None_iff [OF inv] by (simp add: v_fresh_def)
  from new have key: "key_row k (mr_tenant_id r) d = None" if "mr_idempotency_key r = Some k" for k
    using that by (simp add: v_fresh_def)
  have "\<not> record_conflict (record_to_row r) w" if w: "w \<in> set (memory_records d)" for w
  proof
    assume "record_conflict (record_to_row r) w"
    then consider "rw_id w = mr_id r" | k where "rw_tenant_id w = mr_tenant_id r"
        "mr_idempotency_key r = Some k" "rw_idempotency_key w = Some k"
      unfolding record_conflict_def record_to_row_simps by (metis not_None_eq)
    then show False
      using w none key by cases (auto simp: find_row_def key_row_def find_None_iff)
  qed
  then have rows: "memory_records d' = memory_records d @ [record_to_row r]"
    using save by (rule record_save_fresh)
  have "find_row m d' = (case find_row m d of
      None \<Rightarrow> if mr_id r = m then Some (record_to_row r) else None | Some w \<Rightarrow> Some w)" for m
    by (simp add: find_row_def rows find_append split: option.split)
  then have "sqlite_lookup d' = (sqlite_lookup d)((mr_tenant_id r, mr_id r) \<mapsto> norm_record r)"
    using none ok by (auto simp: fun_eq_iff sqlite_lookup_def row_roundtrip split: option.splits)
  moreover have "key_row k t d' = (case key_row k t d of
      None \<Rightarrow> if mr_tenant_id r = t \<and> mr_idempotency_key r = Some k then Some (record_to_row r) else None
      | Some w \<Rightarrow> Some w)" for k t
    by (simp add: key_row_def rows find_append split: option.split)
  ultimately show ?thesis
    using key by (auto simp: store_view_eqI v_save_def fun_eq_iff split: option.splits)
qed

subsection \<open>Updating\<close>

lemma assert_belongs_cases:
  "assert_belongs_to_tenant m t d = (x, d') \<Longrightarrow> same_tables d d' \<and>
     (case x of Inr _ \<Rightarrow> \<exists>w. find_row m d = Some w \<and> rw_tenant_id w = t | Inl e \<Rightarrow> True)"
  by (auto simp: assert_belongs_to_tenant_def query_cases bindM_def monad_simps same_tables_def
      find_row_def split: if_splits option.splits prod.splits sum.splits)

definition updates :: "(record_row \<Rightarrow> record_row) \<Rightarrow> (memory_record \<Rightarrow> memory_record) \<Rightarrow> bool" where
  \<comment> \<open>a column update that is the update of the record behind the row\<close>
  "updates f g \<longleftrightarrow> (\<forall>r. f (record_to_row r) = record_to_row (g r) \<and> mr_id (g r) = mr_id r \<and>
     mr_tenant_id (g r) = mr_tenant_id r \<and> mr_idempotency_key (g r) = mr_idempotency_key r \<and>
     storable_record (g r) = storable_record r \<and> norm_record (g r) = g (norm_record r))"

lemma updates_columns:
  "updates (\<lambda>w. w\<lparr>rw_lifecycle_state := lifecycle_str ls\<rparr>) (set_lifecycle ls)"
  "updates (\<lambda>w. w\<lparr>rw_pipeline_status := pipeline_str ps\<rparr>) (set_status ps)"
  by (simp_all add: updates_def record_to_row_update norm_record_update set_lifecycle_def set_status_def)

lemma update_rows_inv:
  assumes "updates f g" "records_inv d"
  shows "records_inv (update_rows m t f d)"
proof -
  define h where "h = (\<lambda>w. if rw_id w = m \<and> rw_tenant_id w = t then f w else w)"
  have keys: "rw_id (h w) = rw_id w \<and> rw_tenant_id (h w) = rw_tenant_id w \<and>
      rw_idempotency_key (h w) = rw_idempotency_key w \<and> row_ok (h w)" if "row_ok w" for w
    using assms(1) that by (auto simp: updates_def row_ok_def h_def)
  then have "record_conflict (h a) (h b) = record_conflict a b" if "row_ok a" "row_ok b" for a b
    using that by (simp add: record_conflict_def)
  then have "sorted_wrt (\<lambda>a b. \<not> record_conflict (h a) (h b)) (memory_records d)"
    using assms(2) unfolding records_inv_def by (auto intro: sorted_wrt_mono_rel [rotated])
  then show ?thesis
    using assms(2) keys
    by (auto simp: records_inv_def update_rows_def sorted_wrt_map simp flip: h_def)
qed

lemma update_rows_view:
  assumes up: "updates f g" and inv: "records_inv d"
  shows "sqlite_view (update_rows m t f d) = v_update t m g (sqlite_view d)"
proof -
  define h where "h = (\<lambda>w. if rw_id w = m \<and> rw_tenant_id w = t then f w else w)"
  have same: "rw_id (h w) = rw_id w \<and> rw_tenant_id (h w) = rw_tenant_id w \<and>
      rw_idempotency_key (h w) = rw_idempotency_key w" if "row_ok w" for w
    using that up by (auto simp: row_ok_def updates_def h_def)
  have found: "find_row i (update_rows m t f d) = map_option h (find_row i d)"
    "key_row k u (update_rows m t f d) = map_option h (key_row k u d)" for i k u
    using inv same unfolding records_inv_def
    by (auto simp: find_row_def key_row_def update_rows_def simp flip: h_def intro!: find_map_eq)
  have "sqlite_lookup (update_rows m t f d) p =
      ((sqlite_lookup d)((t, m) := map_option g (sqlite_lookup d (t, m)))) p" for p
  proof (cases p)
    case (Pair u i)
    show ?thesis
    proof (cases "find_row i d")
      case None
      then show ?thesis using found(1) [of i] by (auto simp: Pair lookup_missing)
    next
      case (Some w)
      then obtain r where r: "storable_record r" "w = record_to_row r" "mr_id r = i"
        by (rule lookup_found [OF inv])
      have "h w = record_to_row (if i = m \<and> mr_tenant_id r = t then g r else r)"
        using up r by (simp add: h_def updates_def)
      with Some r found(1) [of i] up show ?thesis
        by (cases "i = m") (auto simp: Pair sqlite_lookup_def row_roundtrip updates_def)
    qed
  qed
  moreover have "map_option rw_id (map_option h (key_row k u d)) = map_option rw_id (key_row k u d)"
    for k u
  proof (cases "key_row k u d")
    case (Some w)
    with inv have "row_ok w" by (auto simp: key_row_def find_Some_iff records_inv_def)
    with Some same show ?thesis by simp
  qed simp
  ultimately show ?thesis by (simp add: store_view_eqI v_update_def fun_eq_iff found)
qed

definition checked_update :: "memory_id \<Rightarrow> tenant_id \<Rightarrow> string \<Rightarrow> (record_row \<Rightarrow> record_row) \<Rightarrow> (db, unit) action" where
  "checked_update m t msg f =
     bindM (assert_belongs_to_tenant m t) (\<lambda>_. exec_update msg (update_rows m t f))"

lemma checked_update_cases:
  assumes "checked_update m t msg f d = (x, d')"
  shows "(\<exists>e. x = Inl e) \<and> same_tables d d' \<or>
    x = Inr () \<and> (\<exists>c. d' = update_rows m t f (d\<lparr>io_count := c\<rparr>)) \<and> find_row m d \<noteq> None"
proof -
  obtain y d1 where a: "assert_belongs_to_tenant m t d = (y, d1)" by fastforce
  from assert_belongs_cases [OF this] have s: "same_tables d d1"
    and w: "case y of Inr _ \<Rightarrow> \<exists>w. find_row m d = Some w \<and> rw_tenant_id w = t | Inl e \<Rightarrow> True" by auto
  show ?thesis
  proof (cases y)
    case (Inl e)
    with assms a s show ?thesis by (auto simp: checked_update_def bindM_def)
  next
    case (Inr u)
    with assms a have e: "exec_update msg (update_rows m t f) d1 = (x, d')"
      by (simp add: checked_update_def bindM_def)
    from s obtain c where "d1 = d\<lparr>io_count := c\<rparr>" by (auto simp: same_tables_def)
    with e w Inr show ?thesis
      by (auto simp: exec_update_cases same_tables_def split: if_splits)
  qed
qed

lemma records_inv_count [simp]: "records_inv (d\<lparr>io_count := c\<rparr>) = records_inv d"
  by (simp add: records_inv_def)

lemma sqlite_view_count [simp]: "sqlite_view (d\<lparr>io_count := c\<rparr>) = sqlite_view d"
  by (simp add: sqlite_view_def sqlite_lookup_def find_row_def key_row_def fun_eq_iff)

lemma checked_update_inv: "updates f g \<Longrightarrow> keeps records_inv (checked_update m t msg f)"
proof (rule keepsI)
  fix d assume "updates f g" "records_inv d"
  then show "records_inv (snd (checked_update m t msg f d))"
    using checked_update_cases [of m t msg f d "fst (checked_update m t msg f d)"
        "snd (checked_update m t msg f d)"] update_rows_inv [of f g]
    by (auto simp: same_tables_view)
qed

lemma checked_update_view:
  "updates f g \<Longrightarrow> records_inv d \<Longrightarrow> checked_update m t msg f d = (Inr (), d') \<Longrightarrow>
   sqlite_view d' = v_update t m g (sqlite_view d)"
  using checked_update_cases [of m t msg f d "Inr ()" d'] by (auto simp: update_rows_view)

lemma checked_update_error:
  "checked_update m t msg f d = (Inl e, d') \<Longrightarrow> sqlite_view d' = sqlite_view d"
  using checked_update_cases [of m t msg f d "Inl e" d'] by (auto simp: same_tables_view)

lemma update_checked:
  "record_update_lifecycle m t ls a =
     checked_update m t (''update_lifecycle failed for memory_id='' @ m)
       (\<lambda>w. w\<lparr>rw_lifecycle_state := lifecycle_str ls\<rparr>)"
  "record_update_pipeline_status m t ps =
     checked_update m t (''update_pipeline_status failed for memory_id='' @ m)
       (\<lambda>w. w\<lparr>rw_pipeline_status := pipeline_str ps\<rparr>)"
  by (simp_all add: record_update_lifecycle_def record_update_pipeline_status_def checked_update_def)

subsection \<open>Listing and looking up\<close>

lemma list_by_scope_rows:
  assumes "record_list_by_scope sc sts n d = (Inr rs, d')" "sts \<noteq> []"
  shows "list_all2 (\<lambda>w r. row_to_record w = Inr r) (select_by_scope sc sts n d) rs"
  using assms
  by (auto simp: record_list_by_scope_def bindM_def query_cases liftM_def mapE_Inr_iff
      select_by_scope_def split: if_splits)

lemma select_by_scope_in:
  "w \<in> set (select_by_scope sc sts n d) \<Longrightarrow> w \<in> set (memory_records d) \<and>
     rw_tenant_id w = scope_tenant_id sc \<and> rw_principal_id w = opt_str (scope_principal_id sc) \<and>
     rw_lifecycle_state w \<in> lifecycle_str ` set sts"
  using set_sql_limit unfolding select_by_scope_def by (fastforce dest: subsetD)

lemma row_to_record_fields:
  "row_to_record w = Inr r \<Longrightarrow> mr_id r = rw_id w \<and> mr_tenant_id r = rw_tenant_id w \<and>
     lifecycle_str (mr_lifecycle_state r) = rw_lifecycle_state w \<and>
     str_to_dt (rw_recorded_at w) = Inr (mr_recorded_at r)"
  by (auto simp: row_to_record_def bindE_Inr_iff lifecycle.of_Inr_iff)

lemma records_ids_distinct: "records_inv d \<Longrightarrow> distinct (map rw_id (memory_records d))"
proof -
  have "distinct (map rw_id ws)" if "sorted_wrt (\<lambda>a b. \<not> record_conflict a b) ws" for ws
    using that by (induction ws) (auto simp: record_conflict_def)
  then show "records_inv d \<Longrightarrow> ?thesis" by (simp add: records_inv_def)
qed

lemma distinct_order_desc: "distinct (map f (order_desc key xs)) = distinct (map f xs)"
  by (simp add: distinct_map order_desc_def)

lemma select_by_scope_distinct:
  "records_inv d \<Longrightarrow> distinct (map rw_id (select_by_scope sc sts n d))"
  by (simp add: select_by_scope_def sql_limit_def distinct_order_desc distinct_map_filter
      records_ids_distinct flip: take_map)

lemma lookup_of_row:
  assumes "records_inv d" "w \<in> set (memory_records d)" "row_to_record w = Inr r"
  shows "sqlite_lookup d (rw_tenant_id w, rw_id w) = Some r"
  using find_row_unique [OF assms(1,2)] assms(3) by (simp add: sqlite_lookup_def)

lemma list_by_scope_view:
  "sqlite_view (snd (record_list_by_scope sc sts n d)) = sqlite_view d"
  "keeps records_inv (record_list_by_scope sc sts n)"
proof -
  have "same_tables d (snd (record_list_by_scope sc sts n d))" for d
    by (simp add: record_list_by_scope_def bindM_def query_cases monad_simps same_tables_def)
  note view = same_tables_view [OF this]
  show "sqlite_view (snd (record_list_by_scope sc sts n d)) = sqlite_view d" by (rule view)
  show "keeps records_inv (record_list_by_scope sc sts n)" by (simp add: keeps_def view)
qed

lemma list_by_scope_member:
  assumes "records_inv d" "record_list_by_scope sc sts n d = (Inr rs, d')" "r \<in> set rs"
  shows "mr_tenant_id r = scope_tenant_id sc \<and> mr_lifecycle_state r \<in> set sts \<and>
    sqlite_lookup d (mr_tenant_id r, mr_id r) = Some r"
proof -
  have ne: "sts \<noteq> []" using assms(2,3) by (auto simp: record_list_by_scope_def returnM_def)
  from list_by_scope_rows [OF assms(2) ne] assms(3)
  obtain w where w: "w \<in> set (select_by_scope sc sts n d)" "row_to_record w = Inr r"
    by (metis (mono_tags, lifting) in_set_conv_nth list_all2_conv_all_nth)
  note in_table = select_by_scope_in [OF w(1)]
  have "sqlite_lookup d (rw_tenant_id w, rw_id w) = Some r"
    using in_table w(2) by (blast intro: lookup_of_row [OF assms(1)])
  with row_to_record_fields [OF w(2)] in_table show ?thesis by auto
qed

lemma list_by_scope_distinct:
  assumes "records_inv d" "record_list_by_scope sc sts n d = (Inr rs, d')"
  shows "distinct (map mr_id rs)"
proof (cases "sts = []")
  case True
  with assms show ?thesis by (simp add: record_list_by_scope_def returnM_def)
next
  case False
  have "map rw_id (select_by_scope sc sts n d) = map mr_id rs"
    using list_by_scope_rows [OF assms(2) False] row_to_record_fields
    by (induction rule: list_all2_induct) auto
  with select_by_scope_distinct [OF assms(1), of sc sts n] show ?thesis by simp
qed

lemma list_by_scope_length:
  assumes "0 \<le> n" "record_list_by_scope sc sts n d = (Inr rs, d')"
  shows "int (length rs) \<le> n"
proof (cases "sts = []")
  case True
  with assms show ?thesis by (simp add: record_list_by_scope_def returnM_def)
next
  case False
  have "length rs = length (select_by_scope sc sts n d)"
    using list_by_scope_rows [OF assms(2) False] by (simp add: list_all2_lengthD)
  then show ?thesis using length_sql_limit [OF assms(1)] by (simp add: select_by_scope_def)
qed

lemma get_by_id_view:
  "sqlite_view (snd (record_get_by_id m t d)) = sqlite_view d"
  "keeps records_inv (record_get_by_id m t)"
proof -
  have "same_tables d (snd (record_get_by_id m t d))" for d
    by (auto simp: record_get_by_id_def bindM_def query_cases monad_simps same_tables_def
        split: option.split sum.split prod.split)
  note view = same_tables_view [OF this]
  show "sqlite_view (snd (record_get_by_id m t d)) = sqlite_view d" by (rule view)
  show "keeps records_inv (record_get_by_id m t)" by (simp add: keeps_def view)
qed

lemma get_by_id_lookup:
  "record_get_by_id m t d = (Inr x, d') \<Longrightarrow> x = sqlite_lookup d (t, m)"
  by (auto simp: record_get_by_id_def bindM_def query_cases monad_simps sqlite_lookup_def find_row_def
      split: option.splits sum.splits if_splits prod.splits)

lemma get_by_key_tables: "same_tables d (snd (record_get_by_idempotency_key k t d))"
  by (auto simp: record_get_by_idempotency_key_def bindM_def query_cases monad_simps same_tables_def
      split: option.split sum.split prod.split)

lemma get_by_key_view:
  "sqlite_view (snd (record_get_by_idempotency_key k t d)) = sqlite_view d"
  "keeps records_inv (record_get_by_idempotency_key k t)"
proof -
  note view = same_tables_view [OF get_by_key_tables]
  show "sqlite_view (snd (record_get_by_idempotency_key k t d)) = sqlite_view d"
    by (rule view)
  show "keeps records_inv (record_get_by_idempotency_key k t)" by (simp add: keeps_def view)
qed

lemma get_by_key_ok:
  assumes inv: "records_inv d" and get: "record_get_by_idempotency_key k t d = (Inr x, d')"
  shows "v_keys (sqlite_view d) (t, k) = map_option mr_id x"
    "x = Some r \<Longrightarrow> v_records (sqlite_view d) (t, mr_id r) = Some r"
proof -
  from get have cases: "key_row k t d = None \<and> x = None \<or>
      (\<exists>w r. key_row k t d = Some w \<and> x = Some r \<and> row_to_record w = Inr r)"
    by (auto simp: record_get_by_idempotency_key_def bindM_def query_cases monad_simps key_row_def
        split: option.splits sum.splits if_splits prod.splits)
  then show "v_keys (sqlite_view d) (t, k) = map_option mr_id x"
    by (auto dest: row_to_record_fields)
  assume "x = Some r"
  with cases obtain w where w: "key_row k t d = Some w" "row_to_record w = Inr r" by auto
  then have "w \<in> set (memory_records d)" "rw_tenant_id w = t"
    by (auto simp: key_row_def find_Some_iff)
  with lookup_of_row [OF inv _ w(2)] row_to_record_fields [OF w(2)]
  show "v_records (sqlite_view d) (t, mr_id r) = Some r" by simp
qed

lemma record_save_error: "record_save r d = (Inl e, d') \<Longrightarrow> sqlite_view d' = sqlite_view d"
  unfolding record_save_def using exec_update_error same_tables_view(1) by blast

lemma sqlite_record_repo_simps [simp]:
  "rr_save sqlite_record_repo = record_save"
  "rr_get_by_id sqlite_record_repo = record_get_by_id"
  "rr_update_lifecycle sqlite_record_repo = record_update_lifecycle"
  "rr_update_pipeline_status sqlite_record_repo = record_update_pipeline_status"
  "rr_list_by_scope sqlite_record_repo = record_list_by_scope"
  "rr_get_by_idempotency_key sqlite_record_repo = record_get_by_idempotency_key"
  "rr_list_active_older_than sqlite_record_repo = (\<lambda>_ _. raiseM (AttributeError ''list_active_older_than''))"
  "rr_update_lifecycle_state sqlite_record_repo = (\<lambda>_ _ _. raiseM (AttributeError ''update_lifecycle_state''))"
  by (simp_all add: sqlite_record_repo_def)

interpretation sqlite_records: record_repository
  sqlite_record_repo records_inv sqlite_view norm_record storable_record
proof (unfold_locales, unfold sqlite_record_repo_simps update_checked, goal_cases)
  case (1 r) then show ?case by (rule record_save_inv)
next
  case (2 s r s') then show ?case by (rule record_save_view)
next
  case (3 r s e s') then show ?case by (rule record_save_error)
next
  case 4 show ?case by (rule get_by_id_view)
next
  case 5 show ?case by (rule get_by_id_view)
next
  case (6 s m t x s') then show ?case by (simp add: get_by_id_lookup)
next
  case 7 show ?case by (rule get_by_key_view)
next
  case 8 show ?case by (rule get_by_key_view)
next
  case (9 s k t x s') then show ?case using get_by_key_ok by blast
next
  case 10 show ?case by (rule checked_update_inv [OF updates_columns(2)])
next
  case 11 then show ?case by (rule checked_update_view [OF updates_columns(2)])
next
  case 12 then show ?case by (rule checked_update_error)
next
  case 13 show ?case by (rule checked_update_inv [OF updates_columns(1)])
next
  case 14 then show ?case by (rule checked_update_view [OF updates_columns(1)])
next
  case 15 then show ?case by (rule checked_update_error)
next
  case 16 show ?case by (rule list_by_scope_view)
next
  case 17 show ?case by (rule list_by_scope_view)
next
  case (18 s sc sts n rs s' r)
  then show ?case using list_by_scope_member [of s sc sts n rs s' r]
    unfolding sqlite_view_simps by blast
next
  case (19 s sc sts n rs s') then show ?case by (rule list_by_scope_distinct)
next
  case (20 n sc sts s rs s') then show ?case by (rule list_by_scope_length)
qed

subsection \<open>The other tables\<close>

lemma records_untouched:
  assumes "table g" "\<And>d xs. g (d\<lparr>memory_records := xs\<rparr>) = g d"
  shows "untouched g (record_save r)" "untouched g (record_get_by_id m t)"
    "untouched g (record_update_lifecycle m t ls a)" "untouched g (record_update_pipeline_status m t ps)"
    "untouched g (record_list_by_scope sc sts n)" "untouched g (record_get_by_idempotency_key k t)"
proof -
  have check: "untouched g (assert_belongs_to_tenant m t)"
    unfolding assert_belongs_to_tenant_def by (intro quiet_intro assms)
  show "untouched g (record_save r)"
    unfolding record_save_def by (intro untouched_exec_update assms) (simp add: replace_record_row_def assms)
  show "untouched g (record_get_by_id m t)"
    unfolding record_get_by_id_def by (intro quiet_intro assms)
  show "untouched g (record_update_lifecycle m t ls a)" "untouched g (record_update_pipeline_status m t ps)"
    unfolding record_update_lifecycle_def record_update_pipeline_status_def
    by (intro quiet_intro check untouched_exec_update assms; simp add: update_rows_def assms)+
  show "untouched g (record_list_by_scope sc sts n)"
    unfolding record_list_by_scope_def by (intro quiet_intro assms)
  show "untouched g (record_get_by_idempotency_key k t)"
    unfolding record_get_by_idempotency_key_def by (intro quiet_intro assms)
qed

subsection \<open>Properties\<close>

text \<open>C9. A record is served to its own tenant only: \<open>get_by_id\<close> never returns another
  tenant's record, and on an id that another tenant holds it raises
  \<open>TenantIsolationViolation\<close> with the two tenants (or the storage error of a failed query).\<close>

theorem record_tenant_isolation:
  assumes "record_get_by_id m t d = (x, d')"
  shows "(\<forall>r. x = Inr (Some r) \<longrightarrow> mr_tenant_id r = t \<and> mr_id r = m) \<and>
    (\<forall>w. find_row m d = Some w \<longrightarrow> rw_tenant_id w \<noteq> t \<longrightarrow>
      x = Inl (TenantIsolationViolation t (rw_tenant_id w)) \<or> io_fails d (io_count d))"
proof (intro conjI allI impI)
  fix r assume "x = Inr (Some r)"
  with assms have "sqlite_lookup d (t, m) = Some r" using get_by_id_lookup by metis
  then obtain w where "find_row m d = Some w" "rw_tenant_id w = t" "row_to_record w = Inr r"
    by (auto simp: sqlite_lookup_def split: option.splits if_splits sum.splits)
  then show "mr_tenant_id r = t" "mr_id r = m"
    using row_to_record_fields find_row_in by force+
next
  fix w assume "find_row m d = Some w" "rw_tenant_id w \<noteq> t"
  with assms show "x = Inl (TenantIsolationViolation t (rw_tenant_id w)) \<or> io_fails d (io_count d)"
    by (auto simp: record_get_by_id_def query_cases bindM_def monad_simps find_row_def split: if_splits)
qed

theorem record_tenant_isolation_witness:
  "fst (record_get_by_id ''m1'' ''other'' ((empty_db (\<lambda>_. False))\<lparr>memory_records := [record_to_row record_a]\<rparr>)) =
     Inl (TenantIsolationViolation ''other'' ''acme'')"
proof -
  let ?d = "(empty_db (\<lambda>_. False))\<lparr>memory_records := [record_to_row record_a]\<rparr>"
  have "find_row ''m1'' ?d = Some (record_to_row record_a)" "\<not> io_fails ?d 0" "io_count ?d = 0"
    "rw_tenant_id (record_to_row record_a) = ''acme''"
    by (simp_all add: find_row_def empty_db_def record_a_def)
  with record_tenant_isolation [of "''m1''" "''other''" ?d, OF surjective_pairing] show ?thesis by simp
qed

text \<open>C14. What was saved is what is read back: after a successful save the record is found
  under its id and tenant, as the row keeps it (tenant in the scope, empty identifiers
  dropped, a naive timestamp in UTC).\<close>

theorem record_save_get_roundtrip:
  assumes "storable_record r" "\<not> io_fails d (io_count d)" "\<not> io_fails d (Suc (io_count d))"
  shows "fst (bindM (record_save r) (\<lambda>_. record_get_by_id (mr_id r) (mr_tenant_id r)) d) =
    Inr (Some (norm_record r))"
proof -
  have "find (\<lambda>w. rw_id w = mr_id r) (filter (\<lambda>v. \<not> record_conflict (record_to_row r) v) ws) = None" for ws
    by (auto simp: find_None_iff record_conflict_def)
  then show ?thesis
    using assms by (simp add: record_save_def exec_update_cases bindM_def record_get_by_id_def query_cases
        monad_simps find_row_def replace_record_row_def find_append row_roundtrip)
qed

theorem record_save_get_roundtrip_witness:
  "fst (bindM (record_save record_a) (\<lambda>_. record_get_by_id ''m1'' ''acme'') (empty_db (\<lambda>_. False))) =
    Inr (Some (norm_record record_a))"
  using record_save_get_roundtrip [of record_a "empty_db (\<lambda>_. False)"]
  by (simp add: storable_record_def record_a_def empty_db_def)

text \<open>C15. Both unique keys of the table (the id, and the idempotency key within a tenant) and
  the readability of every row are kept by all six operations, whatever statement fails.\<close>

theorem record_keys_invariant:
  "(storable_record r \<longrightarrow> keeps records_inv (record_save r)) \<and> keeps records_inv (record_get_by_id m t) \<and>
   keeps records_inv (record_update_lifecycle m t ls a) \<and>
   keeps records_inv (record_update_pipeline_status m t ps) \<and>
   keeps records_inv (record_list_by_scope sc sts n) \<and>
   keeps records_inv (record_get_by_idempotency_key k t)"
  by (simp add: record_save_inv get_by_id_view update_checked checked_update_inv [OF updates_columns(1)]
      checked_update_inv [OF updates_columns(2)] list_by_scope_view get_by_key_view)

theorem record_keys_invariant_witness: "keeps records_inv (record_save record_a)"
  using record_keys_invariant [of record_a] by (simp add: storable_record_def record_a_def)

text \<open>\<open>save\<close> is INSERT OR REPLACE on both keys: saving a record under an idempotency key its
  tenant already used silently deletes the earlier record, which was acknowledged.\<close>

theorem record_save_evicts:
  assumes inv: "records_inv d" and save: "record_save r d = (Inr (), d')"
    and key: "mr_idempotency_key r = Some k" "v_keys (sqlite_view d) (mr_tenant_id r, k) = Some m"
    and other: "m \<noteq> mr_id r"
  shows "find_row m d' = None"
proof -
  from key(2) obtain v where v: "key_row k (mr_tenant_id r) d = Some v" "rw_id v = m" by auto
  then have mem: "v \<in> set (memory_records d)" "rw_tenant_id v = mr_tenant_id r" "rw_idempotency_key v = Some k"
    by (auto simp: key_row_def find_Some_iff)
  have "w = v" if "w \<in> set (memory_records d)" "rw_id w = m" for w
    using find_row_unique [OF inv that(1)] find_row_unique [OF inv mem(1)] that(2) v(2) by simp
  moreover have "record_conflict (record_to_row r) v"
    using mem key(1) by (simp add: record_conflict_def)
  moreover have "memory_records d' =
      filter (\<lambda>v. \<not> record_conflict (record_to_row r) v) (memory_records d) @ [record_to_row r]"
    using save by (auto simp: record_save_def exec_update_cases replace_record_row_def split: if_splits)
  ultimately show ?thesis using other by (auto simp: find_row_def find_None_iff)
qed

theorem record_save_evicts_witness:
  "find_row ''m1'' (snd (record_save record_b ((empty_db (\<lambda>_. False))\<lparr>memory_records := [record_to_row record_a]\<rparr>))) = None"
proof -
  let ?d = "(empty_db (\<lambda>_. False))\<lparr>memory_records := [record_to_row record_a]\<rparr>"
  have ok: "storable_record record_a" by (simp add: storable_record_def record_a_def)
  then have inv: "records_inv ?d" by (auto simp: records_inv_def row_ok_def)
  have save: "record_save record_b ?d = (Inr (), snd (record_save record_b ?d))"
    by (simp add: record_save_def exec_update_cases empty_db_def)
  show ?thesis
    by (rule record_save_evicts [OF inv save, of "''k''"])
      (simp_all add: record_b_def record_a_def key_row_def)
qed

lemma row_timestamp:
  assumes "records_inv d" "w \<in> set (memory_records d)" "row_to_record w = Inr r"
  shows "rw_recorded_at w = dt_to_str (mr_recorded_at r)"
proof -
  from assms(1,2) have "row_ok w" by (simp add: records_inv_def)
  then obtain q where "storable_record q" "w = record_to_row q" "row_to_record w = Inr (norm_record q)"
    by (rule row_okE)
  with assms(3) show ?thesis by (simp add: norm_record_def dt_to_str_def)
qed

lemma list_by_scope_sorted:
  assumes inv: "records_inv d" and run: "record_list_by_scope sc sts n d = (Inr rs, d')"
  shows "sorted_wrt (\<lambda>a b. dt_to_str (mr_recorded_at b) \<le> dt_to_str (mr_recorded_at a)) rs"
proof (cases "sts = []")
  case True
  with run show ?thesis by (simp add: record_list_by_scope_def returnM_def)
next
  case False
  note all = list_by_scope_rows [OF run False]
  have "map rw_recorded_at (select_by_scope sc sts n d) = map (dt_to_str \<circ> mr_recorded_at) rs"
  proof (rule nth_equalityI)
    show len: "length (map rw_recorded_at (select_by_scope sc sts n d)) = length (map (dt_to_str \<circ> mr_recorded_at) rs)"
      using list_all2_lengthD [OF all] by simp
    fix i assume "i < length (map rw_recorded_at (select_by_scope sc sts n d))"
    then have i: "i < length (select_by_scope sc sts n d)" by simp
    from row_timestamp [OF inv _ list_all2_nthD [OF all i]] select_by_scope_in [OF nth_mem [OF i]] i len
    show "map rw_recorded_at (select_by_scope sc sts n d) ! i = map (dt_to_str \<circ> mr_recorded_at) rs ! i"
      by simp
  qed
  moreover have "sorted_wrt (\<lambda>x y. y \<le> x) (map rw_recorded_at (select_by_scope sc sts n d))"
    unfolding select_by_scope_def sorted_wrt_map by (intro sorted_wrt_sql_limit sorted_order_desc)
  ultimately show ?thesis by (simp add: sorted_wrt_map)
qed

subsection \<open>The listing\<close>

text \<open>What a listing is about: the stored records of the scope's tenant and principal in one of the
  states.  \<open>record_of_row\<close> is the record a row of the adapter stands for.\<close>

definition in_scope :: "db \<Rightarrow> scope \<Rightarrow> lifecycle_state list \<Rightarrow> memory_record set" where
  "in_scope d sc sts = {r. sqlite_lookup d (scope_tenant_id sc, mr_id r) = Some r \<and>
     scope_principal_id (mr_scope r) = Some (opt_str (scope_principal_id sc)) \<and> mr_lifecycle_state r \<in> set sts}"

definition record_of_row :: "record_row \<Rightarrow> memory_record" where
  "record_of_row w = projr (row_to_record w)"

lemma record_of_row:
  assumes "records_inv d" "w \<in> set (memory_records d)"
  shows "row_to_record w = Inr (record_of_row w)"
proof -
  from assms have "row_ok w" by (simp add: records_inv_def)
  then obtain q where "row_to_record w = Inr (norm_record q)" by (rule row_okE)
  then show ?thesis by (simp add: record_of_row_def)
qed

lemma rows_in_scope:
  assumes inv: "records_inv d"
  shows "in_scope d sc sts = record_of_row ` set (select_by_scope sc sts (- 1) d)"
proof (intro set_eqI iffI)
  fix r
  assume "r \<in> in_scope d sc sts"
  then obtain w where w: "find_row (mr_id r) d = Some w" "rw_tenant_id w = scope_tenant_id sc"
      "row_to_record w = Inr r" "scope_principal_id (mr_scope r) = Some (opt_str (scope_principal_id sc))"
      "mr_lifecycle_state r \<in> set sts"
    by (auto simp: in_scope_def sqlite_lookup_def split: option.splits if_splits sum.splits)
  then have m: "w \<in> set (memory_records d)" by (auto simp: find_row_def find_Some_iff)
  have "rw_principal_id w = opt_str (scope_principal_id sc)"
    using w(3,4) by (auto simp: row_to_record_def bindE_Inr_iff)
  moreover have "rw_lifecycle_state w \<in> lifecycle_str ` set sts"
    using row_to_record_fields [OF w(3)] w(5) by (metis imageI)
  ultimately have "w \<in> set (select_by_scope sc sts (- 1) d)"
    using m w(2) by (simp add: select_by_scope_def sql_limit_def)
  moreover have "r = record_of_row w" using w(3) by (simp add: record_of_row_def)
  ultimately show "r \<in> record_of_row ` set (select_by_scope sc sts (- 1) d)" by blast
next
  fix r
  assume "r \<in> record_of_row ` set (select_by_scope sc sts (- 1) d)"
  then obtain w where w: "w \<in> set (select_by_scope sc sts (- 1) d)" "r = record_of_row w" by blast
  note sel = select_by_scope_in [OF w(1)]
  then have m: "w \<in> set (memory_records d)" by blast
  have row: "row_to_record w = Inr r" unfolding w(2) by (rule record_of_row [OF inv m])
  have "scope_principal_id (mr_scope r) = Some (rw_principal_id w)"
    using row by (auto simp: row_to_record_def bindE_Inr_iff)
  moreover have "mr_lifecycle_state r \<in> set sts"
    using row_to_record_fields [OF row] sel by (auto dest: lifecycle.value_inj)
  ultimately show "r \<in> in_scope d sc sts"
    using lookup_of_row [OF inv m row] row_to_record_fields [OF row] sel by (simp add: in_scope_def)
qed

lemma listing_rows:
  assumes inv: "records_inv d"
  shows "record_list_by_scope sc sts n d = (if sts \<noteq> [] \<and> io_fails d (io_count d)
      then (Inl (StorageError ''list_by_scope failed: disk I/O error''), d\<lparr>io_count := Suc (io_count d)\<rparr>)
      else (Inr (map record_of_row (select_by_scope sc sts n d)),
        if sts = [] then d else d\<lparr>io_count := Suc (io_count d)\<rparr>))"
proof -
  have all: "row_to_record w = Inr (record_of_row w)" if "w \<in> set (select_by_scope sc sts n d)" for w
    using record_of_row [OF inv] select_by_scope_in [OF that] by blast
  then have "mapE row_to_record (select_by_scope sc sts n d) = Inr (map record_of_row (select_by_scope sc sts n d))"
    by (simp add: mapE_Inr_iff list_all2_map2 list.rel_refl_strong)
  moreover have "select_by_scope sc sts n (d\<lparr>io_count := c\<rparr>) = select_by_scope sc sts n d" for c
    by (simp add: select_by_scope_def)
  moreover have "select_by_scope sc [] n d = []"
    by (simp add: select_by_scope_def sql_limit_def order_desc_def)
  ultimately show ?thesis
    by (simp add: record_list_by_scope_def bindM_def query_cases liftM_def monad_simps)
qed

lemma scope_row:
  assumes inv: "records_inv d" and w: "w \<in> set (select_by_scope sc sts n d)"
  shows "mr_id (record_of_row w) = rw_id w" "dt_to_str (mr_recorded_at (record_of_row w)) = rw_recorded_at w"
proof -
  have m: "w \<in> set (memory_records d)" using select_by_scope_in [OF w] by blast
  note row = record_of_row [OF inv m]
  show "mr_id (record_of_row w) = rw_id w" using row_to_record_fields [OF row] by simp
  show "dt_to_str (mr_recorded_at (record_of_row w)) = rw_recorded_at w" using row_timestamp [OF inv m row] by simp
qed

lemma card_in_scope:
  assumes inv: "records_inv d"
  shows "card (in_scope d sc sts) = length (select_by_scope sc sts (- 1) d)"
proof -
  let ?all = "select_by_scope sc sts (- 1) d"
  have ids: "distinct ?all" "inj_on rw_id (set ?all)"
    using select_by_scope_distinct [OF inv, of sc sts "- 1"] by (simp_all add: distinct_map)
  then have "inj_on record_of_row (set ?all)" using scope_row(1) [OF inv] by (simp add: inj_on_def) metis
  with ids(1) show ?thesis by (simp add: rows_in_scope [OF inv] card_image distinct_card)
qed

text \<open>C16. \<open>list_by_scope\<close> answers every call on a consistent database that the disk serves, and
  its answer is exact: of all stored records of the scope's tenant and principal in one of the asked
  states it holds \<open>limit\<close> many, or all when there are fewer or the limit is negative, each once, the
  newest first in the order of the stored timestamp texts, and none that was left out is newer than
  one that is listed.  The tables stay as they are.\<close>

theorem record_list_by_scope_spec:
  assumes inv: "records_inv d"
  shows "case record_list_by_scope sc sts n d of
      (Inl e, d') \<Rightarrow> io_fails d (io_count d) \<and> memory_records d' = memory_records d
    | (Inr rs, d') \<Rightarrow> set rs \<subseteq> in_scope d sc sts \<and> distinct (map mr_id rs) \<and>
        length rs = (if n < 0 then card (in_scope d sc sts) else min (nat n) (card (in_scope d sc sts))) \<and>
        sorted_wrt (\<lambda>a b. dt_to_str (mr_recorded_at b) \<le> dt_to_str (mr_recorded_at a)) rs \<and>
        (\<forall>r \<in> set rs. \<forall>x \<in> in_scope d sc sts - set rs.
          dt_to_str (mr_recorded_at x) \<le> dt_to_str (mr_recorded_at r)) \<and>
        memory_records d' = memory_records d"
proof (cases "sts \<noteq> [] \<and> io_fails d (io_count d)")
  case True
  then show ?thesis by (simp add: listing_rows [OF inv])
next
  case False
  let ?all = "select_by_scope sc sts (- 1) d"
  let ?rows = "select_by_scope sc sts n d"
  have cut: "?rows = sql_limit n ?all" by (simp add: select_by_scope_def sql_limit_def)
  obtain d' where run: "record_list_by_scope sc sts n d = (Inr (map record_of_row ?rows), d')"
    "memory_records d' = memory_records d"
    using False by (simp add: listing_rows [OF inv])
  have ordered: "sorted_wrt (\<lambda>a b. rw_recorded_at b \<le> rw_recorded_at a) ?all"
    unfolding select_by_scope_def by (intro sorted_wrt_sql_limit sorted_order_desc)
  have sub: "set ?rows \<subseteq> set ?all" unfolding cut by (rule set_sql_limit)
  have "set (map record_of_row ?rows) \<subseteq> in_scope d sc sts"
    using sub by (auto simp: rows_in_scope [OF inv])
  moreover have "distinct (map mr_id (map record_of_row ?rows))"
    by (rule list_by_scope_distinct [OF inv run(1)])
  moreover have "length (map record_of_row ?rows) =
      (if n < 0 then card (in_scope d sc sts) else min (nat n) (card (in_scope d sc sts)))"
    by (simp add: cut length_sql_limit_eq card_in_scope [OF inv])
  moreover have "\<forall>r \<in> set (map record_of_row ?rows). \<forall>x \<in> in_scope d sc sts - set (map record_of_row ?rows).
      dt_to_str (mr_recorded_at x) \<le> dt_to_str (mr_recorded_at r)"
  proof (intro ballI)
    fix r x
    assume "r \<in> set (map record_of_row ?rows)" "x \<in> in_scope d sc sts - set (map record_of_row ?rows)"
    then obtain v w where v: "v \<in> set ?rows" "r = record_of_row v"
      and w: "w \<in> set ?all" "w \<notin> set ?rows" "x = record_of_row w"
      by (auto simp: rows_in_scope [OF inv])
    have "rw_recorded_at w \<le> rw_recorded_at v"
      using sql_limit_top [OF ordered] v(1) w(1,2) unfolding cut by blast
    then show "dt_to_str (mr_recorded_at x) \<le> dt_to_str (mr_recorded_at r)"
      using scope_row(2) [OF inv, of v] scope_row(2) [OF inv, of w] v w sub by auto
  qed
  ultimately show ?thesis
    using list_by_scope_sorted [OF inv run(1)] run(2) by (simp add: run(1))
qed

theorem record_list_by_scope_spec_witness:
  "case record_list_by_scope alice [ACTIVE] 10 ((empty_db (\<lambda>_. False))\<lparr>memory_records := [record_to_row record_a]\<rparr>) of
     (Inl e, d') \<Rightarrow> False
   | (Inr rs, d') \<Rightarrow> rs = [norm_record record_a] \<and> length rs = min 10 (card (in_scope
       ((empty_db (\<lambda>_. False))\<lparr>memory_records := [record_to_row record_a]\<rparr>) alice [ACTIVE]))"
proof -
  let ?d = "(empty_db (\<lambda>_. False))\<lparr>memory_records := [record_to_row record_a]\<rparr>"
  have ok: "storable_record record_a" by (simp add: storable_record_def record_a_def)
  then have inv: "records_inv ?d" by (auto simp: records_inv_def row_ok_def)
  have run: "record_list_by_scope alice [ACTIVE] 10 ?d = (Inr [norm_record record_a], ?d\<lparr>io_count := 1\<rparr>)"
    using row_roundtrip [OF ok]
    by (simp add: record_list_by_scope_def query_cases bindM_def empty_db_def select_by_scope_def
        sql_limit_def order_desc_def monad_simps record_a_def)
  from record_list_by_scope_spec [OF inv, of alice "[ACTIVE]" 10] show ?thesis by (simp add: run)
qed

end
