(* ===== verification/Sqlite_Facts.thy ===== *)
theory Sqlite_Facts
  imports Sqlite_Db Fact_Contract
begin

text \<open>
  \<^verbatim>\<open>storage/sqlite/fact_repo.py\<close>, \<open>SqliteFactRepository\<close>: the row mapping, the five
  operations, and the transaction of \<open>close_fact\<close> statement by statement.  The table's
  foreign key (\<^verbatim>\<open>supersedes REFERENCES facts (id)\<close>) is on, so a statement that would leave a
  dangling reference fails.
\<close>

subsection \<open>Row mapping\<close>

definition fact_to_row :: "fact \<Rightarrow> fact_row" where
  "fact_to_row f =
     \<lparr>fw_id = fact_id f,
      fw_memory_record_id = fact_memory_record_id f,
      fw_tenant_id = fact_tenant_id f,
      fw_principal_id = opt_str (scope_principal_id (fact_scope f)),
      fw_subject_entity_id = fact_subject_entity_id f,
      fw_predicate = fact_predicate f,
      fw_predicate_group = fact_predicate_group f,
      fw_object_value = fact_object_value f,
      fw_effective_from = dt_to_str (fact_effective_from f),
      fw_effective_to = map_option dt_to_str (fact_effective_to f),
      fw_recorded_at = dt_to_str (fact_recorded_at f),
      fw_supersedes = or_none (fact_supersedes f),
      fw_confidence = fact_confidence f,
      fw_sector = sector_str (fact_sector f),
      fw_lifecycle_state = lifecycle_str (fact_lifecycle_state f)\<rparr>"

definition opt_str_to_dt :: "string option \<Rightarrow> exn + datetime option" where
  \<comment> \<open>\<^verbatim>\<open>_str_to_dt(v) if v else None\<close>\<close>
  "opt_str_to_dt v = (case or_none v of None \<Rightarrow> Inr None
     | Some x \<Rightarrow> bindE (str_to_dt x) (\<lambda>d. Inr (Some d)))"

definition row_to_fact :: "fact_row \<Rightarrow> exn + fact" where
  "row_to_fact w =
     bindE (str_to_dt (fw_effective_from w)) (\<lambda>efrom.
     bindE (opt_str_to_dt (fw_effective_to w)) (\<lambda>eto.
     bindE (str_to_dt (fw_recorded_at w)) (\<lambda>rec.
     bindE (sector_of (fw_sector w)) (\<lambda>se.
     bindE (lifecycle_of (fw_lifecycle_state w)) (\<lambda>ls.
       Inr \<lparr>fact_id = fw_id w,
            fact_memory_record_id = fw_memory_record_id w,
            fact_tenant_id = fw_tenant_id w,
            fact_scope = Scope (fw_tenant_id w) (Some (fw_principal_id w)) (Some USER),
            fact_subject_entity_id = fw_subject_entity_id w,
            fact_predicate = fw_predicate w,
            fact_predicate_group = fw_predicate_group w,
            fact_object_value = fw_object_value w,
            fact_effective_from = efrom,
            fact_effective_to = eto,
            fact_recorded_at = rec,
            fact_supersedes = or_none (fw_supersedes w),
            fact_confidence = fw_confidence w,
            fact_sector = se,
            fact_lifecycle_state = ls\<rparr>)))))"

subsection \<open>Operations\<close>

definition fact_ids :: "db \<Rightarrow> fact_id list" where
  "fact_ids d = map fw_id (facts d)"

definition replace_fact_row :: "fact_row \<Rightarrow> db \<Rightarrow> db" where
  "replace_fact_row w d = d\<lparr>facts := filter (\<lambda>v. fw_id v \<noteq> fw_id w) (facts d) @ [w]\<rparr>"

definition check_foreign_key :: "string option \<Rightarrow> fact_id list \<Rightarrow> exn + unit" where
  "check_foreign_key ref ids = (case ref of None \<Rightarrow> Inr ()
     | Some i \<Rightarrow> if i \<in> set ids then Inr () else Inl (DatabaseError ''FOREIGN KEY constraint failed''))"

definition fact_save :: "fact \<Rightarrow> (db, unit) action" where
  "fact_save f = (let w = fact_to_row f in
     db_transaction (''save failed for fact_id='' @ fact_id f)
       (bindM statement (\<lambda>_.
        bindM (modifyM (replace_fact_row w)) (\<lambda>_.
        bindM (getM fact_ids) (\<lambda>ids.
        liftM (check_foreign_key (fw_supersedes w) ids))))))"

definition find_fact :: "fact_id \<Rightarrow> db \<Rightarrow> fact_row option" where
  "find_fact i d = find (\<lambda>w. fw_id w = i) (facts d)"

definition fact_get_by_id :: "fact_id \<Rightarrow> tenant_id \<Rightarrow> (db, fact option) action" where
  "fact_get_by_id i t =
     bindM (query (''get_by_id failed for fact_id='' @ i) (find_fact i)) (\<lambda>raw.
       case raw of
         None \<Rightarrow> returnM None
       | Some w \<Rightarrow>
           if fw_tenant_id w \<noteq> t then raiseM (TenantIsolationViolation t (fw_tenant_id w))
           else bindM (liftM (row_to_fact w)) (\<lambda>f. returnM (Some f)))"

definition update_facts :: "fact_id \<Rightarrow> tenant_id \<Rightarrow> (fact_row \<Rightarrow> fact_row) \<Rightarrow> db \<Rightarrow> db" where
  \<comment> \<open>\<^verbatim>\<open>UPDATE facts SET ... WHERE id = ? AND tenant_id = ?\<close>\<close>
  "update_facts i t f d =
     d\<lparr>facts := map (\<lambda>w. if fw_id w = i \<and> fw_tenant_id w = t then f w else w) (facts d)\<rparr>"

definition fact_rowcount :: "fact_id \<Rightarrow> tenant_id \<Rightarrow> db \<Rightarrow> nat" where
  "fact_rowcount i t d = length (filter (\<lambda>w. fw_id w = i \<and> fw_tenant_id w = t) (facts d))"

definition with_rollback :: "(db, 'a) action \<Rightarrow> (db, 'a) action" where
  \<comment> \<open>leave the transaction, or the uncommitted connection, by an exception\<close>
  "with_rollback m d = (case m d of (Inl e, d') \<Rightarrow> (Inl e, rollback_to d d') | ok \<Rightarrow> ok)"

fun passes_close :: "exn \<Rightarrow> bool" where
  \<comment> \<open>\<^verbatim>\<open>except (FactNotFoundError, TenantIsolationViolation, StorageError): raise\<close>\<close>
  "passes_close (FactNotFoundError _) = True"
| "passes_close (TenantIsolationViolation _ _) = True"
| "passes_close (StorageError _) = True"
| "passes_close _ = False"

definition reraise_close :: "string \<Rightarrow> exn \<Rightarrow> (db, 'a) action" where
  "reraise_close msg e =
     (if passes_close e then raiseM e else raiseM (StorageError (msg @ '': '' @ exn_str e)))"

definition close_updates :: "fact_id \<Rightarrow> tenant_id \<Rightarrow> string \<Rightarrow> fact_id \<Rightarrow> (db, unit) action" where
  \<comment> \<open>between BEGIN and COMMIT\<close>
  "close_updates old t eto new =
     bindM statement (\<lambda>_.
     bindM (modifyM (update_facts old t (\<lambda>w. w\<lparr>fw_effective_to := Some eto\<rparr>))) (\<lambda>_.
     bindM statement (\<lambda>_.
     bindM (getM (fact_rowcount new t)) (\<lambda>n.
     bindM (modifyM (update_facts new t (\<lambda>w. w\<lparr>fw_supersedes := Some old\<rparr>))) (\<lambda>_.
       if n = 0 then raiseM (StorageError (''new_fact_id='' @ py_repr new @
         '' does not exist or belongs to a different tenant; rolling back close_fact''))
       else statement)))))"

definition fact_close_fact :: "fact_id \<Rightarrow> tenant_id \<Rightarrow> datetime \<Rightarrow> fact_id \<Rightarrow> (db, unit) action" where
  "fact_close_fact old t effective_to new = (let eto = dt_to_str effective_to in
     tryM (with_rollback
       (bindM statement (\<lambda>_.
        bindM (getM (find_fact old)) (\<lambda>row.
          case row of
            None \<Rightarrow> raiseM (FactNotFoundError old)
          | Some w \<Rightarrow>
              if fw_tenant_id w \<noteq> t then raiseM (TenantIsolationViolation t (fw_tenant_id w))
              else bindM statement (\<lambda>_.
                tryM (with_rollback (close_updates old t eto new))
                  (reraise_close ''close_fact failed mid-transaction''))))))
       (reraise_close (''close_fact failed for fact_id='' @ old)))"

definition fact_get_active_facts :: "entity_id \<Rightarrow> string \<Rightarrow> tenant_id \<Rightarrow> (db, fact list) action" where
  "fact_get_active_facts entity pgroup t =
     bindM (query ''get_active_facts_by_entity_predicate failed'' (\<lambda>d. order_desc fw_recorded_at
        (filter (\<lambda>w. fw_tenant_id w = t \<and> fw_subject_entity_id w = entity \<and>
             fw_predicate_group w = pgroup \<and> fw_lifecycle_state w = ''ACTIVE'' \<and>
             fw_effective_to w = None) (facts d)))) (\<lambda>rows.
       liftM (mapE row_to_fact rows))"

definition fact_list_by_memory_record :: "memory_id \<Rightarrow> tenant_id \<Rightarrow> (db, fact list) action" where
  "fact_list_by_memory_record m t =
     bindM (query (''list_by_memory_record failed for memory_record_id='' @ m) (\<lambda>d.
        order_desc fw_recorded_at
          (filter (\<lambda>w. fw_memory_record_id w = m \<and> fw_tenant_id w = t) (facts d)))) (\<lambda>rows.
       liftM (mapE row_to_fact rows))"

definition sqlite_fact_repo :: "db fact_repo" where
  "sqlite_fact_repo = \<lparr>
     fr_save = fact_save,
     fr_get_by_id = fact_get_by_id,
     fr_close_fact = fact_close_fact,
     fr_get_active_facts = fact_get_active_facts,
     fr_list_by_memory_record = fact_list_by_memory_record\<rparr>"

subsection \<open>Round trip of a fact through its row\<close>

definition norm_fact :: "fact \<Rightarrow> fact" where
  \<comment> \<open>the scope keeps the tenant and the principal id, and the principal is a user\<close>
  "norm_fact f = f\<lparr>
     fact_scope := Scope (fact_tenant_id f) (Some (opt_str (scope_principal_id (fact_scope f)))) (Some USER),
     fact_effective_from := as_utc (fact_effective_from f),
     fact_effective_to := map_option as_utc (fact_effective_to f),
     fact_recorded_at := as_utc (fact_recorded_at f),
     fact_supersedes := or_none (fact_supersedes f)\<rparr>"

definition storable_fact :: "fact \<Rightarrow> bool" where
  "storable_fact f \<longleftrightarrow> valid_datetime (fact_effective_from f) \<and> valid_datetime (fact_recorded_at f) \<and>
     (case fact_effective_to f of None \<Rightarrow> True | Some d \<Rightarrow> valid_datetime d)"

lemma dt_to_str_nonempty: "dt_to_str d \<noteq> []"
  by (simp add: dt_to_str_def isoformat_def)

lemma opt_str_to_dt_str:
  "valid_datetime d \<Longrightarrow> opt_str_to_dt (Some (dt_to_str d)) = Inr (Some (as_utc d))"
  by (simp add: opt_str_to_dt_def or_none_Some dt_to_str_nonempty str_to_dt_to_str)

lemma fact_row_roundtrip: "storable_fact f \<Longrightarrow> row_to_fact (fact_to_row f) = Inr (norm_fact f)"
  by (auto simp: storable_fact_def row_to_fact_def fact_to_row_def norm_fact_def Scope_def
      str_to_dt_to_str opt_str_to_dt_str split: option.splits)
    (simp_all add: opt_str_to_dt_def)

lemma row_to_fact_fields:
  "row_to_fact w = Inr f \<Longrightarrow> fact_id f = fw_id w \<and> fact_tenant_id f = fw_tenant_id w \<and>
     fact_subject_entity_id f = fw_subject_entity_id w \<and>
     fact_predicate_group f = fw_predicate_group w \<and>
     fw_lifecycle_state w = lifecycle_str (fact_lifecycle_state f) \<and>
     opt_str_to_dt (fw_effective_to w) = Inr (fact_effective_to f) \<and>
     str_to_dt (fw_recorded_at w) = Inr (fact_recorded_at f)"
  by (auto simp: row_to_fact_def bindE_Inr_iff lifecycle.of_Inr_iff)

lemma row_to_fact_update:
  assumes "row_to_fact w = Inr f"
  shows "valid_datetime d \<Longrightarrow> row_to_fact (w\<lparr>fw_effective_to := Some (dt_to_str d)\<rparr>) =
      Inr (f\<lparr>fact_effective_to := Some (as_utc d)\<rparr>)"
    and "row_to_fact (w\<lparr>fw_supersedes := Some i\<rparr>) = Inr (f\<lparr>fact_supersedes := or_none (Some i)\<rparr>)"
  using assms by (auto simp: row_to_fact_def bindE_Inr_iff opt_str_to_dt_str)

subsection \<open>The table invariant and the view\<close>

definition fact_row_ok :: "fact_row \<Rightarrow> bool" where
  "fact_row_ok w \<longleftrightarrow> (\<exists>f. row_to_fact w = Inr f) \<and> fw_effective_to w \<noteq> Some []"

definition facts_inv :: "db \<Rightarrow> bool" where
  \<comment> \<open>the primary key, readable rows, and the foreign key\<close>
  "facts_inv d \<longleftrightarrow> distinct (fact_ids d) \<and> (\<forall>w \<in> set (facts d). fact_row_ok w) \<and>
     (\<forall>w \<in> set (facts d). \<forall>i. fw_supersedes w = Some i \<longrightarrow> i \<in> set (fact_ids d))"

definition fact_lookup :: "db \<Rightarrow> fact_view" where
  "fact_lookup d i = (case find_fact i d of None \<Rightarrow> None
     | Some w \<Rightarrow> (case row_to_fact w of Inl _ \<Rightarrow> None | Inr f \<Rightarrow> Some f))"

lemma same_tables_facts:
  assumes "same_tables d d'"
  shows "fact_lookup d' = fact_lookup d" "facts_inv d' = facts_inv d"
  using same_tables_fields(2) [OF assms]
  by (simp_all add: fact_lookup_def find_fact_def facts_inv_def fact_ids_def fun_eq_iff)

lemma find_fact_in: "find_fact i d = Some w \<Longrightarrow> w \<in> set (facts d) \<and> fw_id w = i"
  by (auto simp: find_fact_def find_Some_iff)

lemma find_fact_unique:
  assumes "facts_inv d" "w \<in> set (facts d)"
  shows "find_fact (fw_id w) d = Some w"
proof -
  have "find (\<lambda>v. fw_id v = fw_id w) ws = Some w" if "distinct (map fw_id ws)" "w \<in> set ws" for ws
    using that by (induction ws) (auto simp: rev_image_eqI)
  then show ?thesis using assms by (simp add: find_fact_def facts_inv_def fact_ids_def)
qed

lemma fact_lookup_row:
  "facts_inv d \<Longrightarrow> w \<in> set (facts d) \<Longrightarrow> row_to_fact w = Inr f \<Longrightarrow> fact_lookup d (fw_id w) = Some f"
  by (simp add: fact_lookup_def find_fact_unique)

lemma fact_lookup_Some:
  "fact_lookup d i = Some f \<Longrightarrow> \<exists>w \<in> set (facts d). fw_id w = i \<and> row_to_fact w = Inr f"
  by (auto simp: fact_lookup_def dest: find_fact_in split: option.splits sum.splits)

subsection \<open>Saving\<close>

lemma fact_save_cases:
  assumes "fact_save f d = (x, d')"
  shows "(\<exists>e. x = Inl e) \<and> same_tables d d' \<or>
    x = Inr () \<and> (\<exists>c. d' = replace_fact_row (fact_to_row f) (d\<lparr>io_count := c\<rparr>)) \<and>
      check_foreign_key (fw_supersedes (fact_to_row f)) (fact_ids d') = Inr ()"
  using assms
  by (auto simp: fact_save_def Let_def db_transaction_def bindM_def statement_def monad_simps
      same_tables_def rollback_to_def split: if_splits sum.splits prod.splits)

lemma replace_fact_ids:
  "set (fact_ids (replace_fact_row w d)) = insert (fw_id w) (set (fact_ids d))"
  by (auto simp: fact_ids_def replace_fact_row_def)

lemma replace_facts_inv:
  assumes "facts_inv d" "fact_row_ok w"
    and "check_foreign_key (fw_supersedes w) (fact_ids (replace_fact_row w d)) = Inr ()"
  shows "facts_inv (replace_fact_row w d)"
proof -
  have "distinct (fact_ids (replace_fact_row w d))"
    using assms(1) by (auto simp: facts_inv_def fact_ids_def replace_fact_row_def distinct_map_filter)
  moreover have "i \<in> set (fact_ids (replace_fact_row w d))" if "fw_supersedes w = Some i" for i
    using assms(3) that by (simp add: check_foreign_key_def split: if_splits)
  moreover have "fact_row_ok v \<and> (\<forall>i. fw_supersedes v = Some i \<longrightarrow> i \<in> set (fact_ids (replace_fact_row w d)))"
    if "v \<in> set (facts d)" for v
    using assms(1) that replace_fact_ids by (auto simp: facts_inv_def)
  ultimately show ?thesis
    using assms(2) by (auto simp: facts_inv_def replace_fact_row_def)
qed

lemma fact_row_ok_save: "storable_fact f \<Longrightarrow> fact_row_ok (fact_to_row f)"
  using fact_row_roundtrip [of f] dt_to_str_nonempty
  by (auto simp: fact_row_ok_def fact_to_row_def storable_fact_def split: option.splits)

lemma facts_inv_count [simp]: "facts_inv (d\<lparr>io_count := c\<rparr>) = facts_inv d"
  by (simp add: facts_inv_def fact_ids_def)

lemma fact_lookup_count [simp]: "fact_lookup (d\<lparr>io_count := c\<rparr>) = fact_lookup d"
  by (simp add: fact_lookup_def find_fact_def fun_eq_iff)

lemma fact_save_inv: "storable_fact f \<Longrightarrow> keeps facts_inv (fact_save f)"
proof (rule keepsI)
  fix d assume ok: "storable_fact f" and inv: "facts_inv d"
  obtain x d' where s: "fact_save f d = (x, d')" by fastforce
  from fact_save_cases [OF s] show "facts_inv (snd (fact_save f d))"
    using inv fact_row_ok_save [OF ok] by (auto simp: s same_tables_facts replace_facts_inv)
qed

lemma fact_save_error: "fact_save f d = (Inl e, d') \<Longrightarrow> same_tables d d'"
  using fact_save_cases [of f d "Inl e" d'] by simp

lemma fact_save_lookup:
  assumes "storable_fact f" "fact_save f d = (Inr (), d')"
  shows "fact_lookup d' = (fact_lookup d)(fact_id f \<mapsto> norm_fact f)"
proof (rule ext)
  fix i
  obtain c where d': "d' = replace_fact_row (fact_to_row f) (d\<lparr>io_count := c\<rparr>)"
    using fact_save_cases [OF assms(2)] by auto
  have id: "fw_id (fact_to_row f) = fact_id f" by (simp add: fact_to_row_def)
  have "find (\<lambda>w. fw_id w = i) (filter (\<lambda>w. fw_id w \<noteq> k) ws @ [v]) =
      (if i = k then Some v else find (\<lambda>w. fw_id w = i) ws)" if "fw_id v = k" for v k ws
    using that by (induction ws) auto
  from this [OF id] have "find_fact i d' = (if i = fact_id f then Some (fact_to_row f) else find_fact i d)"
    by (simp add: find_fact_def d' replace_fact_row_def id)
  then show "fact_lookup d' i = ((fact_lookup d)(fact_id f \<mapsto> norm_fact f)) i"
    using assms(1) by (simp add: fact_lookup_def fact_row_roundtrip)
qed

subsection \<open>Closing\<close>

lemma update_facts_simps [simp]:
  "fact_rowcount i t (d\<lparr>io_count := c\<rparr>) = fact_rowcount i t d"
  "find_fact i (d\<lparr>io_count := c\<rparr>) = find_fact i d"
  "(update_facts i t f d)\<lparr>io_count := c\<rparr> = update_facts i t f (d\<lparr>io_count := c\<rparr>)"
  "io_count (update_facts i t f d) = io_count d"
  "io_fails (update_facts i t f d) = io_fails d"
  by (simp_all add: fact_rowcount_def find_fact_def update_facts_def)

definition keeps_key :: "(fact_row \<Rightarrow> fact_row) \<Rightarrow> bool" where
  "keeps_key f \<longleftrightarrow> (\<forall>w. fw_id (f w) = fw_id w \<and> fw_tenant_id (f w) = fw_tenant_id w)"

lemma keeps_key_close [simp]:
  "keeps_key (\<lambda>w. w\<lparr>fw_effective_to := x\<rparr>)" "keeps_key (\<lambda>w. w\<lparr>fw_supersedes := y\<rparr>)"
  by (simp_all add: keeps_key_def)

lemma fact_rowcount_update:
  assumes "keeps_key f"
  shows "fact_rowcount i t (update_facts j u f d) = fact_rowcount i t d"
proof -
  define h where "h = (\<lambda>w. if fw_id w = j \<and> fw_tenant_id w = u then f w else w)"
  have "length (filter (\<lambda>w. fw_id w = i \<and> fw_tenant_id w = t) (map h ws)) =
      length (filter (\<lambda>w. fw_id w = i \<and> fw_tenant_id w = t) ws)" for ws
    using assms by (induction ws) (auto simp: h_def keeps_key_def)
  then show ?thesis by (simp add: fact_rowcount_def update_facts_def flip: h_def)
qed

lemma find_fact_update:
  assumes "keeps_key f"
  shows "find_fact i (update_facts j u f d) =
    map_option (\<lambda>w. if fw_id w = j \<and> fw_tenant_id w = u then f w else w) (find_fact i d)"
proof -
  define h where "h = (\<lambda>w. if fw_id w = j \<and> fw_tenant_id w = u then f w else w)"
  have "find (\<lambda>w. fw_id w = i) (map h ws) = map_option h (find (\<lambda>w. fw_id w = i) ws)" for ws
    using assms by (induction ws) (auto simp: h_def keeps_key_def)
  then show ?thesis by (simp add: find_fact_def update_facts_def flip: h_def)
qed

definition closed :: "fact_id \<Rightarrow> tenant_id \<Rightarrow> string \<Rightarrow> fact_id \<Rightarrow> db \<Rightarrow> db" where
  \<comment> \<open>both updates of \<open>close_fact\<close>\<close>
  "closed old t eto new d = update_facts new t (\<lambda>w. w\<lparr>fw_supersedes := Some old\<rparr>)
     (update_facts old t (\<lambda>w. w\<lparr>fw_effective_to := Some eto\<rparr>) d)"

lemma close_updates_cases:
  assumes "close_updates old t eto new d = (x, d')"
  shows "(\<exists>e. x = Inl e) \<or> x = Inr () \<and> fact_rowcount new t d \<noteq> 0 \<and>
    (\<exists>c. d' = closed old t eto new (d\<lparr>io_count := c\<rparr>))"
  using assms
  by (auto simp: close_updates_def closed_def bindM_def statement_def monad_simps fact_rowcount_update
      split: if_splits)

lemma fact_close_cases:
  assumes "fact_close_fact old t effective_to new d = (x, d')"
  shows "(\<exists>e. x = Inl e) \<and> same_tables d d' \<or>
    x = Inr () \<and> (\<exists>w. find_fact old d = Some w \<and> fw_tenant_id w = t) \<and> fact_rowcount new t d \<noteq> 0 \<and>
      (\<exists>c. d' = closed old t (dt_to_str effective_to) new (d\<lparr>io_count := c\<rparr>))"
proof -
  obtain y d2 where u: "close_updates old t (dt_to_str effective_to) new
      (d\<lparr>io_count := Suc (Suc (io_count d))\<rparr>) = (y, d2)" by fastforce
  from close_updates_cases [OF this] consider e where "y = Inl e"
    | c where "y = Inr ()" "fact_rowcount new t d \<noteq> 0"
      "d2 = closed old t (dt_to_str effective_to) new (d\<lparr>io_count := c\<rparr>)" by auto
  then show ?thesis
  proof cases
    case 1
    with assms u show ?thesis
      by (auto simp: fact_close_fact_def Let_def tryM_def with_rollback_def bindM_def statement_def
          monad_simps reraise_close_def same_tables_def rollback_to_def
          split: if_splits option.splits prod.splits sum.splits)
  next
    case 2
    with assms u show ?thesis
      by (auto simp: fact_close_fact_def Let_def tryM_def with_rollback_def bindM_def statement_def
          monad_simps reraise_close_def same_tables_def rollback_to_def
          split: if_splits option.splits prod.splits sum.splits)
  qed
qed

lemma fact_close_error: "fact_close_fact old t eto new d = (Inl e, d') \<Longrightarrow> same_tables d d'"
  using fact_close_cases [of old t eto new d "Inl e" d'] by simp

lemma fact_rowcount_found:
  assumes "facts_inv d" "fact_rowcount i t d \<noteq> 0"
  shows "\<exists>w. find_fact i d = Some w \<and> fw_tenant_id w = t"
proof -
  from assms(2) obtain w where "w \<in> set (facts d)" "fw_id w = i" "fw_tenant_id w = t"
    by (auto simp: fact_rowcount_def filter_empty_conv)
  with find_fact_unique [OF assms(1)] show ?thesis by auto
qed

lemma update_facts_lookup:
  assumes "find_fact i d = Some w" "fw_tenant_id w = t" "keeps_key f"
    and "\<And>v x. row_to_fact v = Inr x \<Longrightarrow> row_to_fact (f v) = Inr (g x)" "row_to_fact w = Inr y"
  shows "fact_lookup (update_facts i t f d) = (fact_lookup d)(i := map_option g (fact_lookup d i))"
proof (rule ext)
  fix j
  show "fact_lookup (update_facts i t f d) j =
      ((fact_lookup d)(i := map_option g (fact_lookup d i))) j"
    using assms find_fact_in [of j d] find_fact_in [OF assms(1)]
    by (auto simp: fact_lookup_def find_fact_update split: option.splits)
qed

lemma update_facts_inv:
  assumes "facts_inv d" "keeps_key f"
    and "\<And>w. w \<in> set (facts d) \<Longrightarrow> fact_row_ok (f w)"
    and "\<And>w k. fw_supersedes (f w) = Some k \<Longrightarrow> fw_supersedes w = Some k \<or> k \<in> set (fact_ids d)"
  shows "facts_inv (update_facts i t f d)"
proof -
  have "fact_ids (update_facts i t f d) = fact_ids d"
    using assms(2) by (simp add: fact_ids_def update_facts_def keeps_key_def o_def)
  with assms(1-3) show ?thesis by (auto simp: facts_inv_def update_facts_def dest!: assms(4))
qed

lemma fact_row_ok_found:
  assumes "facts_inv d" "find_fact i d = Some w"
  obtains f where "row_to_fact w = Inr f" "fact_lookup d i = Some f" "fact_id f = i"
    "fact_tenant_id f = fw_tenant_id w"
  using assms find_fact_in [OF assms(2)] row_to_fact_fields
  by (auto simp: facts_inv_def fact_row_ok_def fact_lookup_def)

lemma close_old_inv:
  assumes "facts_inv d" "valid_datetime eto"
  shows "facts_inv (update_facts i t (\<lambda>w. w\<lparr>fw_effective_to := Some (dt_to_str eto)\<rparr>) d)"
proof (rule update_facts_inv [OF assms(1)])
  fix v assume "v \<in> set (facts d)"
  with assms(1) obtain f where "row_to_fact v = Inr f" by (auto simp: facts_inv_def fact_row_ok_def)
  from row_to_fact_update(1) [OF this assms(2)] dt_to_str_nonempty
  show "fact_row_ok (v\<lparr>fw_effective_to := Some (dt_to_str eto)\<rparr>)" by (simp add: fact_row_ok_def)
qed simp_all

lemma closed_inv:
  assumes "facts_inv d" "valid_datetime eto" "find_fact old d \<noteq> None"
  shows "facts_inv (closed old t (dt_to_str eto) new d)"
proof -
  let ?d = "update_facts old t (\<lambda>w. w\<lparr>fw_effective_to := Some (dt_to_str eto)\<rparr>) d"
  have inv: "facts_inv ?d" by (rule close_old_inv [OF assms(1,2)])
  moreover have "old \<in> set (fact_ids ?d)"
    using assms(3) find_fact_in by (fastforce simp: fact_ids_def update_facts_def)
  moreover have "fact_row_ok (w\<lparr>fw_supersedes := Some old\<rparr>)" if "w \<in> set (facts ?d)" for w
    using inv that row_to_fact_update(2) by (fastforce simp: facts_inv_def fact_row_ok_def)
  ultimately show ?thesis
    unfolding closed_def by - (rule update_facts_inv, auto)
qed

lemma closed_lookup:
  assumes inv: "facts_inv d" and eto: "valid_datetime eto"
    and old: "find_fact old d = Some w" "fw_tenant_id w = t" and new: "fact_rowcount new t d \<noteq> 0"
  shows "fact_lookup (closed old t (dt_to_str eto) new d) = v_close old eto new (fact_lookup d)"
proof -
  let ?f = "\<lambda>w. w\<lparr>fw_effective_to := Some (dt_to_str eto)\<rparr>"
  let ?d = "update_facts old t ?f d"
  have inv': "facts_inv ?d" by (rule close_old_inv [OF inv eto])
  obtain x where "row_to_fact w = Inr x" by (rule fact_row_ok_found [OF inv old(1)])
  then have 1: "fact_lookup ?d = (fact_lookup d)
      (old := map_option (fact_effective_to_update (\<lambda>_. Some (as_utc eto))) (fact_lookup d old))"
    using old row_to_fact_update(1) [OF _ eto] by (intro update_facts_lookup) auto
  obtain v where v: "find_fact new ?d = Some v" "fw_tenant_id v = t"
    using fact_rowcount_found [OF inv'] new by (auto simp: fact_rowcount_update)
  obtain y where "row_to_fact v = Inr y" by (rule fact_row_ok_found [OF inv' v(1)])
  then have "fact_lookup (closed old t (dt_to_str eto) new d) = (fact_lookup ?d)
      (new := map_option (fact_supersedes_update (\<lambda>_. or_none (Some old))) (fact_lookup ?d new))"
    unfolding closed_def using v row_to_fact_update(2) by (intro update_facts_lookup) auto
  with 1 show ?thesis by (simp add: v_close_def Let_def)
qed

lemma fact_close_inv:
  "valid_datetime eto \<Longrightarrow> keeps facts_inv (fact_close_fact old t eto new)"
proof (rule keepsI)
  fix d assume eto: "valid_datetime eto" and inv: "facts_inv d"
  obtain x d' where c: "fact_close_fact old t eto new d = (x, d')" by fastforce
  from fact_close_cases [OF c] show "facts_inv (snd (fact_close_fact old t eto new d))"
    using inv closed_inv [OF _ eto] by (auto simp: c same_tables_facts)
qed

lemma fact_close_lookup:
  assumes inv: "facts_inv d" and eto: "valid_datetime eto"
    and close: "fact_close_fact old t eto new d = (Inr (), d')"
  shows "map_option fact_tenant_id (fact_lookup d old) = Some t"
    "map_option fact_tenant_id (fact_lookup d new) = Some t"
    "fact_lookup d' = v_close old eto new (fact_lookup d)"
proof -
  from fact_close_cases [OF close] obtain w c where w: "find_fact old d = Some w" "fw_tenant_id w = t"
    and n: "fact_rowcount new t d \<noteq> 0" and d': "d' = closed old t (dt_to_str eto) new (d\<lparr>io_count := c\<rparr>)"
    by auto
  from fact_rowcount_found [OF inv n] obtain v where v: "find_fact new d = Some v" "fw_tenant_id v = t"
    by auto
  show "map_option fact_tenant_id (fact_lookup d old) = Some t"
    using fact_row_ok_found [OF inv w(1)] w(2) by force
  show "map_option fact_tenant_id (fact_lookup d new) = Some t"
    using fact_row_ok_found [OF inv v(1)] v(2) by force
  show "fact_lookup d' = v_close old eto new (fact_lookup d)"
    using closed_lookup [of "d\<lparr>io_count := c\<rparr>" eto old w t new] inv eto w n by (simp add: d')
qed

subsection \<open>Listing\<close>

lemma fact_active_tables: "same_tables d (snd (fact_get_active_facts en g t d))"
  by (simp add: fact_get_active_facts_def bindM_def query_cases monad_simps same_tables_def)

lemma row_current:
  assumes "fact_row_ok w" "row_to_fact w = Inr f"
  shows "(fw_tenant_id w = t \<and> fw_subject_entity_id w = en \<and> fw_predicate_group w = g \<and>
    fw_lifecycle_state w = ''ACTIVE'' \<and> fw_effective_to w = None) \<longleftrightarrow> is_current en g t f"
proof -
  note fields = row_to_fact_fields [OF assms(2)]
  have "fw_lifecycle_state w = ''ACTIVE'' \<longleftrightarrow> fact_lifecycle_state f = ACTIVE"
    using fields lifecycle.value_eq_iff [of "fact_lifecycle_state f" ACTIVE] by simp
  moreover have "fw_effective_to w = None \<longleftrightarrow> fact_effective_to f = None"
    using fields assms(1)
    by (cases "fact_effective_to f") (auto simp: fact_row_ok_def opt_str_to_dt_def or_none_def
        bindE_Inr_iff split: option.splits if_splits)
  ultimately show ?thesis using fields by (auto simp: is_current_def)
qed

lemma fact_active_ok:
  assumes inv: "facts_inv d" and get: "fact_get_active_facts en g t d = (Inr fs, d')"
  shows "set fs = {f. fact_lookup d (fact_id f) = Some f \<and> is_current en g t f}"
proof -
  let ?p = "\<lambda>w. fw_tenant_id w = t \<and> fw_subject_entity_id w = en \<and> fw_predicate_group w = g \<and>
    fw_lifecycle_state w = ''ACTIVE'' \<and> fw_effective_to w = None"
  have "list_all2 (\<lambda>w f. row_to_fact w = Inr f) (order_desc fw_recorded_at (filter ?p (facts d))) fs"
    using get by (auto simp: fact_get_active_facts_def bindM_def query_cases liftM_def mapE_Inr_iff
        split: if_splits)
  then have "set fs = {f. \<exists>w \<in> set (facts d). ?p w \<and> row_to_fact w = Inr f}"
    by (auto dest!: list_all2_Inr_set)
  also have "\<dots> = {f. fact_lookup d (fact_id f) = Some f \<and> is_current en g t f}"
  proof (rule Collect_cong, rule iffI)
    fix f assume "\<exists>w \<in> set (facts d). ?p w \<and> row_to_fact w = Inr f"
    then obtain w where w: "w \<in> set (facts d)" "?p w" "row_to_fact w = Inr f" by blast
    then have "fact_row_ok w" using inv by (simp add: facts_inv_def)
    from row_current [OF this w(3), of t en g] w(2) have "is_current en g t f" by blast
    with fact_lookup_row [OF inv w(1,3)] row_to_fact_fields [OF w(3)]
    show "fact_lookup d (fact_id f) = Some f \<and> is_current en g t f" by simp
  next
    fix f assume "fact_lookup d (fact_id f) = Some f \<and> is_current en g t f"
    then have f: "fact_lookup d (fact_id f) = Some f" "is_current en g t f" by auto
    from fact_lookup_Some [OF f(1)] obtain w where w: "w \<in> set (facts d)" "row_to_fact w = Inr f" by auto
    then have "fact_row_ok w" using inv by (simp add: facts_inv_def)
    from row_current [OF this w(2), of t en g] f(2) have "?p w" by blast
    with w show "\<exists>w \<in> set (facts d). ?p w \<and> row_to_fact w = Inr f" by blast
  qed
  finally show ?thesis .
qed

interpretation sqlite_facts: fact_repository
  sqlite_fact_repo facts_inv fact_lookup norm_fact storable_fact
proof (unfold_locales, unfold sqlite_fact_repo_def fact_repo.select_convs, goal_cases)
  case (1 f) then show ?case by (rule fact_save_inv)
next
  case (2 s f s') then show ?case by (simp add: fact_save_lookup)
next
  case (3 f s e s') then show ?case by (intro same_tables_facts fact_save_error)
next
  case 4 show ?case by (simp add: keeps_def same_tables_facts [OF fact_active_tables])
next
  case 5 show ?case by (simp add: same_tables_facts [OF fact_active_tables])
next
  case (6 s en g t fs s') then show ?case by (rule fact_active_ok)
next
  case (7 eto old t new) then show ?case by (rule fact_close_inv)
next
  case (8 s eto old t new s') then show ?case using fact_close_lookup by blast
next
  case (9 old t eto new s e s') then show ?case by (intro same_tables_facts fact_close_error)
qed

subsection \<open>The other tables\<close>

lemma facts_untouched:
  assumes "table g" "\<And>d xs. g (d\<lparr>facts := xs\<rparr>) = g d"
  shows "untouched g (fact_save f)" "untouched g (fact_get_active_facts en gr t)"
    "untouched g (fact_close_fact old u eto new)"
proof -
  have rollback: "untouched g m \<Longrightarrow> untouched g (with_rollback m)" for m :: "(db, unit) action"
    using assms(1) by (auto simp: undisturbed_def with_rollback_def table_def rollback_to_def
        split: prod.splits sum.splits) (metis snd_conv)
  have reraise: "untouched g (reraise_close msg e)" for msg e
    by (simp add: reraise_close_def)
  show "untouched g (fact_save f)"
    unfolding fact_save_def Let_def
    by (intro quiet_intro untouched_modifyM assms) (simp add: replace_fact_row_def assms)
  show "untouched g (fact_get_active_facts en gr t)"
    unfolding fact_get_active_facts_def by (intro quiet_intro assms)
  have "untouched g (close_updates old u x new)" for x
    unfolding close_updates_def
    by (intro quiet_intro untouched_modifyM assms) (simp_all add: update_facts_def assms)
  then show "untouched g (fact_close_fact old u eto new)"
    unfolding fact_close_fact_def Let_def by (intro quiet_intro rollback reraise assms)
qed

subsection \<open>Properties\<close>

definition two_facts :: db where
  "two_facts = (empty_db (\<lambda>_. False))\<lparr>facts := [fact_to_row fact_a, fact_to_row fact_b]\<rparr>"

lemma two_facts_inv: "facts_inv two_facts"
proof -
  have "storable_fact fact_a" "storable_fact fact_b"
    by (simp_all add: storable_fact_def fact_a_def fact_b_def)
  from this [THEN fact_row_ok_save] show ?thesis
    by (simp add: two_facts_def facts_inv_def fact_ids_def empty_db_def)
      (simp add: fact_to_row_def fact_a_def fact_b_def or_none_def)
qed

lemma two_facts_simps [simp]:
  "io_fails two_facts n = False" "io_count two_facts = 0"
  "find_fact ''f1'' two_facts = Some (fact_to_row fact_a)"
  "find_fact ''f2'' two_facts = Some (fact_to_row fact_b)"
  "fw_tenant_id (fact_to_row fact_a) = ''acme''" "fw_tenant_id (fact_to_row fact_b) = ''acme''"
  by (simp_all add: two_facts_def empty_db_def find_fact_def fact_to_row_def fact_a_def fact_b_def)

lemma two_facts_lookup:
  "fact_lookup two_facts ''f1'' = Some (norm_fact fact_a)"
  "fact_lookup two_facts ''f2'' = Some (norm_fact fact_b)"
proof -
  have "storable_fact fact_a" "storable_fact fact_b"
    by (simp_all add: storable_fact_def fact_a_def fact_b_def)
  then show "fact_lookup two_facts ''f1'' = Some (norm_fact fact_a)"
    "fact_lookup two_facts ''f2'' = Some (norm_fact fact_b)"
    by (simp_all add: fact_lookup_def fact_row_roundtrip)
qed

lemma close_two_facts: "\<exists>d. fact_close_fact ''f1'' ''acme'' t1 ''f2'' two_facts = (Inr (), d)"
proof -
  have "fact_rowcount ''f2'' ''acme'' two_facts = 1"
    by (simp add: fact_rowcount_def two_facts_def empty_db_def fact_to_row_def fact_a_def fact_b_def)
  then show ?thesis
    by (simp add: fact_close_fact_def Let_def tryM_def with_rollback_def bindM_def statement_def
        close_updates_def monad_simps fact_rowcount_update)
qed

text \<open>C10. \<open>close_fact\<close> is atomic: it either raises and leaves every table as it was, whichever of
  its statements fails, or it ends the old fact's validity and links the new fact to it, both
  facts being the caller's tenant's, and changes nothing else.\<close>

theorem fact_close_atomic:
  assumes "facts_inv d" "valid_datetime eto" "fact_close_fact old t eto new d = (x, d')"
  shows "case x of Inl _ \<Rightarrow> same_tables d d'
    | Inr _ \<Rightarrow> map_option fact_tenant_id (fact_lookup d old) = Some t \<and>
        map_option fact_tenant_id (fact_lookup d new) = Some t \<and>
        fact_lookup d' = v_close old eto new (fact_lookup d)"
  using assms fact_close_error fact_close_lookup by (cases x) auto

theorem fact_close_atomic_witness:
  "fact_lookup (snd (fact_close_fact ''f1'' ''acme'' t1 ''f2'' two_facts)) ''f2'' =
    Some ((norm_fact fact_b)\<lparr>fact_supersedes := Some ''f1''\<rparr>)"
proof -
  obtain d where "fact_close_fact ''f1'' ''acme'' t1 ''f2'' two_facts = (Inr (), d)"
    using close_two_facts by blast
  from fact_close_atomic [OF two_facts_inv _ this] this show ?thesis
    by (simp add: v_close_def Let_def two_facts_lookup or_none_def)
qed

text \<open>What \<open>close_fact\<close> raises, on a database whose statements succeed: \<open>FactNotFoundError\<close> on
  an unknown fact, \<open>TenantIsolationViolation\<close> on another tenant's, and \<open>StorageError\<close> when the
  tenant has no superseding fact of that id.\<close>

theorem fact_close_errors:
  assumes "\<And>n. \<not> io_fails d n"
  shows "fst (fact_close_fact old t eto new d) = (case find_fact old d of
      None \<Rightarrow> Inl (FactNotFoundError old)
    | Some w \<Rightarrow>
        if fw_tenant_id w \<noteq> t then Inl (TenantIsolationViolation t (fw_tenant_id w))
        else if fact_rowcount new t d = 0 then Inl (StorageError (''new_fact_id='' @ py_repr new @
          '' does not exist or belongs to a different tenant; rolling back close_fact''))
        else Inr ())"
  using assms
  by (simp add: fact_close_fact_def Let_def tryM_def with_rollback_def bindM_def statement_def
      close_updates_def monad_simps fact_rowcount_update reraise_close_def split: option.split)

theorem fact_close_errors_witness:
  "fst (fact_close_fact ''f9'' ''acme'' t1 ''f2'' two_facts) = Inl (FactNotFoundError ''f9'')"
  using fact_close_errors [of two_facts "''f9''" "''acme''" t1 "''f2''"]
  by (simp add: find_fact_def two_facts_def empty_db_def fact_to_row_def fact_a_def fact_b_def)

text \<open>Fact ids stay unique, rows stay readable and every \<open>supersedes\<close> refers to a stored fact,
  through all operations and all failures of the driver.\<close>

theorem facts_keep_invariant:
  "(storable_fact f \<longrightarrow> keeps facts_inv (fact_save f)) \<and>
   (valid_datetime eto \<longrightarrow> keeps facts_inv (fact_close_fact old t eto new)) \<and>
   keeps facts_inv (fact_get_active_facts en g t)"
  using fact_save_inv fact_close_inv sqlite_facts.active_inv
  by (simp add: sqlite_fact_repo_def)

theorem facts_keep_invariant_witness:
  "facts_inv (snd (fact_save fact_b (snd (fact_save fact_a (empty_db (\<lambda>_. False))))))"
proof -
  have "storable_fact fact_a" "storable_fact fact_b"
    by (simp_all add: storable_fact_def fact_a_def fact_b_def)
  then have "keeps facts_inv (fact_save fact_a)" "keeps facts_inv (fact_save fact_b)"
    using facts_keep_invariant [of fact_a] facts_keep_invariant [of fact_b] by blast+
  moreover have "facts_inv (empty_db (\<lambda>_. False))" by (simp add: facts_inv_def fact_ids_def empty_db_def)
  ultimately show ?thesis by (simp add: keepsD)
qed

text \<open>The current facts of an entity are exactly the active facts without an end of validity,
  and a fact that was closed is not among them.\<close>

theorem fact_current_after_close:
  assumes "facts_inv d" "valid_datetime eto" "fact_close_fact old t eto new d = (Inr (), d1)"
    and "fact_get_active_facts en g u d1 = (Inr fs, d2)"
  shows "set fs = {f. fact_lookup d1 (fact_id f) = Some f \<and> is_current en g u f} \<and> old \<notin> fact_id ` set fs"
proof -
  have "facts_inv d1" using keepsD_eq [OF fact_close_inv [OF assms(2)] assms(1,3)] .
  then show ?thesis
    using fact_active_ok [OF _ assms(4)] sqlite_facts.closed_not_active [of d eto old t new d1 en g u fs d2] assms
    by (simp add: sqlite_fact_repo_def)
qed

theorem fact_current_after_close_witness:
  "\<exists>d1 fs d2. fact_close_fact ''f1'' ''acme'' t1 ''f2'' two_facts = (Inr (), d1) \<and>
    (\<forall>f \<in> set fs. fact_id f \<noteq> ''f1'') \<and> fact_get_active_facts ''alice'' ''drink'' ''acme'' d1 = (Inr fs, d2)"
proof -
  obtain d1 where c: "fact_close_fact ''f1'' ''acme'' t1 ''f2'' two_facts = (Inr (), d1)"
    using close_two_facts by blast
  then have ok: "facts_inv d1" using keepsD_eq [OF fact_close_inv two_facts_inv c] by simp
  have fails: "io_fails d1 n = False" for n
    using fact_close_cases [OF c] by (auto simp: closed_def)
  let ?rows = "order_desc fw_recorded_at (filter (\<lambda>w. fw_tenant_id w = ''acme'' \<and> fw_subject_entity_id w = ''alice'' \<and>
    fw_predicate_group w = ''drink'' \<and> fw_lifecycle_state w = ''ACTIVE'' \<and> fw_effective_to w = None) (facts d1))"
  have "\<forall>w \<in> set ?rows. \<exists>f. row_to_fact w = Inr f"
    using ok by (auto simp: facts_inv_def fact_row_ok_def)
  then have "\<exists>fs. mapE row_to_fact ?rows = Inr fs"
    using mapE_map [of ?rows row_to_fact "\<lambda>w. projr (row_to_fact w)"] by fastforce
  then obtain fs d2 where g: "fact_get_active_facts ''alice'' ''drink'' ''acme'' d1 = (Inr fs, d2)"
    by (auto simp: fact_get_active_facts_def bindM_def query_cases liftM_def fails)
  from fact_current_after_close [OF two_facts_inv _ c g] have "\<forall>f \<in> set fs. fact_id f \<noteq> ''f1''"
    by (metis imageI valid_t0(2))
  with c g show ?thesis by blast
qed

end
