(* ===== verification/Sqlite_Audit.thy ===== *)
theory Sqlite_Audit
  imports Sqlite_Db Audit_Contract
begin

text \<open>
  \<^verbatim>\<open>storage/sqlite/audit_repo.py\<close>, \<open>SqliteAuditLog\<close>.  The table is in append order; a plain
  INSERT refuses an id that is already there.
\<close>

definition entry_to_row :: "audit_entry \<Rightarrow> audit_row" where
  "entry_to_row e =
     \<lparr>aw_id = ae_id e,
      aw_tenant_id = ae_tenant_id e,
      aw_principal_id = opt_str (scope_principal_id (ae_scope e)),
      aw_operation = operation_str (ae_operation e),
      aw_memory_id = or_none (ae_memory_id e),
      aw_actor = ae_actor e,
      aw_timestamp = dt_to_str (ae_timestamp e),
      aw_outcome = outcome_str (ae_outcome e),
      aw_detail = ae_detail e\<rparr>"

definition row_to_entry :: "audit_row \<Rightarrow> exn + audit_entry" where
  "row_to_entry w =
     bindE (operation_of (aw_operation w)) (\<lambda>op.
     bindE (str_to_dt (aw_timestamp w)) (\<lambda>ts.
     bindE (outcome_of (aw_outcome w)) (\<lambda>oc.
       Inr \<lparr>ae_id = aw_id w,
            ae_tenant_id = aw_tenant_id w,
            ae_scope = Scope (aw_tenant_id w) (Some (aw_principal_id w)) (Some USER),
            ae_operation = op,
            ae_memory_id = or_none (aw_memory_id w),
            ae_actor = aw_actor w,
            ae_timestamp = ts,
            ae_outcome = oc,
            ae_detail = aw_detail w\<rparr>)))"

definition insert_audit_row :: "audit_row \<Rightarrow> (db, unit) action" where
  "insert_audit_row w d =
     (if aw_id w \<in> aw_id ` set (audit_log d)
      then (Inl (DatabaseError ''UNIQUE constraint failed: audit_log.id''), d)
      else (Inr (), d\<lparr>audit_log := audit_log d @ [w]\<rparr>))"

fun audit_append :: "append_call \<Rightarrow> (db, unit) action" where
  "audit_append (Append_Entry e) = (let w = entry_to_row e in
     db_transaction (''append failed for audit_id='' @ ae_id e)
       (bindM statement (\<lambda>_. insert_audit_row w)))"
| "audit_append (Append_Kwargs _ _ _ _) =
     raiseM (TypeError
       (''SqliteAuditLog.append() got an unexpected keyword argument '' @ py_repr ''tenant_id''))"

declare audit_append.simps [simp del]

definition audit_rows_of :: "memory_id \<Rightarrow> db \<Rightarrow> audit_row list" where
  "audit_rows_of m d = order_asc aw_timestamp (filter (\<lambda>w. aw_memory_id w = Some m) (audit_log d))"

definition audit_get_by_memory_id :: "memory_id \<Rightarrow> tenant_id \<Rightarrow> (db, audit_entry list) action" where
  "audit_get_by_memory_id m t =
     bindM (query (''get_by_memory_id failed for memory_id='' @ m) (audit_rows_of m)) (\<lambda>rows.
       if rows = [] then returnM []
       else case find (\<lambda>w. aw_tenant_id w \<noteq> t) rows of
           Some w \<Rightarrow> raiseM (TenantIsolationViolation t (aw_tenant_id w))
         | None \<Rightarrow> liftM (mapE row_to_entry rows))"

definition sqlite_audit_log :: "db audit_log_port" where
  "sqlite_audit_log = \<lparr>al_append = audit_append, al_get_by_memory_id = audit_get_by_memory_id\<rparr>"

subsection \<open>Round trip, invariant and view\<close>

definition norm_entry :: "audit_entry \<Rightarrow> audit_entry" where
  "norm_entry e = e\<lparr>
     ae_scope := Scope (ae_tenant_id e) (Some (opt_str (scope_principal_id (ae_scope e)))) (Some USER),
     ae_memory_id := or_none (ae_memory_id e),
     ae_timestamp := as_utc (ae_timestamp e)\<rparr>"

definition storable_entry :: "audit_entry \<Rightarrow> bool" where
  "storable_entry e \<longleftrightarrow> valid_datetime (ae_timestamp e)"

lemma audit_row_roundtrip: "storable_entry e \<Longrightarrow> row_to_entry (entry_to_row e) = Inr (norm_entry e)"
  by (simp add: storable_entry_def row_to_entry_def entry_to_row_def norm_entry_def str_to_dt_to_str)

definition audit_row_ok :: "audit_row \<Rightarrow> bool" where
  "audit_row_ok w \<longleftrightarrow> (\<exists>e. storable_entry e \<and> w = entry_to_row e)"

definition audit_inv :: "db \<Rightarrow> bool" where
  "audit_inv d \<longleftrightarrow> distinct (map aw_id (audit_log d)) \<and> (\<forall>w \<in> set (audit_log d). audit_row_ok w)"

definition row_entry :: "audit_row \<Rightarrow> audit_entry option" where
  "row_entry w = (case row_to_entry w of Inl _ \<Rightarrow> None | Inr e \<Rightarrow> Some e)"

definition audit_entries :: "db \<Rightarrow> audit_entry list" where
  "audit_entries d = List.map_filter row_entry (audit_log d)"

lemma same_tables_audit:
  assumes "same_tables d d'"
  shows "audit_entries d' = audit_entries d" "audit_inv d' = audit_inv d"
  using same_tables_fields(3) [OF assms] by (simp_all add: audit_entries_def audit_inv_def)

subsection \<open>Appending\<close>

lemma audit_append_cases:
  assumes "audit_append (Append_Entry e) d = (x, d')"
  shows "(\<exists>er. x = Inl er) \<and> same_tables d d' \<or>
    x = Inr () \<and> ae_id e \<notin> aw_id ` set (audit_log d) \<and>
      (\<exists>c. d' = d\<lparr>io_count := c, audit_log := audit_log d @ [entry_to_row e]\<rparr>)"
  using assms
  by (auto simp: audit_append.simps Let_def db_transaction_def bindM_def statement_def insert_audit_row_def
      same_tables_def rollback_to_def entry_to_row_def split: if_splits sum.splits prod.splits)

lemma audit_append_inv: "storable_entry e \<Longrightarrow> keeps audit_inv (audit_append (Append_Entry e))"
proof (rule keepsI)
  fix d assume e: "storable_entry e" and inv: "audit_inv d"
  obtain x d' where a: "audit_append (Append_Entry e) d = (x, d')" by fastforce
  have id: "aw_id (entry_to_row e) = ae_id e" by (simp add: entry_to_row_def)
  from audit_append_cases [OF a] show "audit_inv (snd (audit_append (Append_Entry e) d))"
  proof (elim disjE conjE exE)
    assume "same_tables d d'"
    with inv show ?thesis by (simp add: a same_tables_audit)
  next
    fix c assume "ae_id e \<notin> aw_id ` set (audit_log d)"
      "d' = d\<lparr>io_count := c, audit_log := audit_log d @ [entry_to_row e]\<rparr>"
    with inv e id show ?thesis by (auto simp: a audit_inv_def audit_row_ok_def)
  qed
qed

lemma audit_append_entries:
  assumes "storable_entry e" "audit_append (Append_Entry e) d = (Inr (), d')"
  shows "audit_entries d' = audit_entries d @ [norm_entry e]"
  using audit_append_cases [OF assms(2)] audit_row_roundtrip [OF assms(1)]
  by (auto simp: audit_entries_def List.map_filter_def row_entry_def)

lemma audit_append_error: "audit_append c d = (Inl x, d') \<Longrightarrow> same_tables d d'"
proof (cases c)
  case (Append_Entry e)
  then show "audit_append c d = (Inl x, d') \<Longrightarrow> same_tables d d'"
    using audit_append_cases [of e d "Inl x" d'] by simp
qed (auto simp: audit_append.simps raiseM_def)

subsection \<open>Reading\<close>

lemma audit_get_tables: "same_tables d (snd (audit_get_by_memory_id m t d))"
  by (auto simp: audit_get_by_memory_id_def bindM_def query_cases monad_simps same_tables_def
      split: option.split)

lemma audit_rows_count: "audit_rows_of m (d\<lparr>io_count := c\<rparr>) = audit_rows_of m d"
  by (simp add: audit_rows_of_def)

lemma audit_get_rows:
  assumes "audit_get_by_memory_id m t d = (Inr es, d')"
  shows "list_all2 (\<lambda>w e. row_to_entry w = Inr e) (audit_rows_of m d) es"
    "\<forall>w \<in> set (audit_rows_of m d). aw_tenant_id w = t"
  using assms
  by (auto simp: audit_get_by_memory_id_def bindM_def query_cases monad_simps mapE_Inr_iff
      find_None_iff audit_rows_count split: if_splits option.splits)

lemma row_to_entry_fields:
  "row_to_entry w = Inr e \<Longrightarrow> ae_id e = aw_id w \<and> ae_tenant_id e = aw_tenant_id w \<and>
     ae_memory_id e = or_none (aw_memory_id w) \<and> str_to_dt (aw_timestamp w) = Inr (ae_timestamp e)"
  by (auto simp: row_to_entry_def bindE_Inr_iff)

lemma audit_get_ok:
  assumes inv: "audit_inv d" and get: "audit_get_by_memory_id m t d = (Inr es, d')"
  shows "set es = {e \<in> set (audit_entries d). ae_memory_id e = Some m} \<and>
    (\<forall>e \<in> set es. ae_tenant_id e = t)"
proof -
  have row: "row_entry w = Some e \<longleftrightarrow> row_to_entry w = Inr e" for w e
    by (simp add: row_entry_def split: sum.split)
  have entries: "set (audit_entries d) = {e. \<exists>w \<in> set (audit_log d). row_to_entry w = Inr e}"
    by (auto simp: audit_entries_def List.map_filter_def row intro!: rev_image_eqI)
      (metis option.sel row)+
  have "set es = {e. \<exists>w \<in> set (audit_rows_of m d). row_to_entry w = Inr e}"
    using audit_get_rows(1) [OF get] by (rule list_all2_Inr_set)
  moreover have "aw_memory_id w = Some m \<longleftrightarrow> ae_memory_id e = Some m"
    if "w \<in> set (audit_log d)" "row_to_entry w = Inr e" for w e
  proof -
    have "aw_memory_id w = or_none (aw_memory_id w)"
      using inv that(1) by (auto simp: audit_inv_def audit_row_ok_def entry_to_row_def)
    with row_to_entry_fields [OF that(2)] show ?thesis by simp
  qed
  ultimately show ?thesis
    using audit_get_rows(2) [OF get] row_to_entry_fields by (fastforce simp: entries audit_rows_of_def)
qed

interpretation sqlite_audit: audit_trail
  sqlite_audit_log audit_inv audit_entries norm_entry storable_entry
proof (unfold_locales, unfold sqlite_audit_log_def audit_log_port.select_convs, goal_cases)
  case (1 e) then show ?case by (rule audit_append_inv)
next
  case (2 s e s') then show ?case by (intro audit_append_entries)
next
  case (3 c s x s') then show ?case by (intro same_tables_audit audit_append_error)
next
  case 4 show ?case by (simp add: audit_append.simps raiseM_def)
next
  case 5 show ?case by (simp add: keeps_def same_tables_audit [OF audit_get_tables])
next
  case 6 show ?case by (simp add: same_tables_audit [OF audit_get_tables])
next
  case (7 s m t es s') then show ?case using audit_get_ok [of s m t es s'] by auto
qed

subsection \<open>The other tables\<close>

lemma audit_untouched:
  assumes "table g" "\<And>d xs. g (d\<lparr>audit_log := xs\<rparr>) = g d"
  shows "untouched g (audit_append c)" "untouched g (audit_get_by_memory_id m t)"
proof -
  have insert: "untouched g (insert_audit_row w)" for w
    by (simp add: undisturbed_def insert_audit_row_def assms)
  show "untouched g (audit_append c)"
    by (cases c) (auto simp: audit_append.simps Let_def intro!: quiet_intro insert assms)
  show "untouched g (audit_get_by_memory_id m t)"
    unfolding audit_get_by_memory_id_def by (intro quiet_intro assms)
qed

subsection \<open>Properties\<close>

text \<open>C12. The log is append-only: no operation ever changes or removes an entry, a successful
  append adds its own entry at the end, and a failed one, an id that is already in the log
  included, adds nothing.\<close>

theorem audit_append_only:
  assumes "audit_inv d" "storable_entry e" "audit_append (Append_Entry e) d = (x, d')"
  shows "audit_entries d' = audit_entries d @ (case x of Inl _ \<Rightarrow> [] | Inr _ \<Rightarrow> [norm_entry e]) \<and>
    audit_inv d' \<and> (ae_id e \<in> ae_id ` set (audit_entries d) \<longrightarrow> (\<exists>er. x = Inl er)) \<and>
    audit_entries (snd (audit_get_by_memory_id m t d)) = audit_entries d"
proof (intro conjI impI)
  show "audit_entries d' = audit_entries d @ (case x of Inl _ \<Rightarrow> [] | Inr _ \<Rightarrow> [norm_entry e])"
    using assms audit_append_entries same_tables_audit(1) [OF audit_append_error] by (cases x) auto
  show "audit_inv d'" using keepsD_eq [OF audit_append_inv [OF assms(2)] assms(1,3)] .
  show "audit_entries (snd (audit_get_by_memory_id m t d)) = audit_entries d"
    by (rule same_tables_audit(1) [OF audit_get_tables])
  assume "ae_id e \<in> ae_id ` set (audit_entries d)"
  then obtain w a where "w \<in> set (audit_log d)" "row_to_entry w = Inr a" "ae_id a = ae_id e"
    by (auto simp: audit_entries_def List.map_filter_def row_entry_def split: sum.splits)
  with row_to_entry_fields have "ae_id e \<in> aw_id ` set (audit_log d)" by (metis imageI)
  with audit_append_cases [OF assms(3)] show "\<exists>er. x = Inl er" by auto
qed

theorem audit_append_only_witness:
  "audit_entries (snd (audit_append (Append_Entry entry_a) (empty_db (\<lambda>_. False)))) = [norm_entry entry_a]"
proof -
  have "storable_entry entry_a" by (simp add: storable_entry_def entry_a_def)
  moreover have "audit_inv (empty_db (\<lambda>_. False))" by (simp add: audit_inv_def empty_db_def)
  moreover obtain d where "audit_append (Append_Entry entry_a) (empty_db (\<lambda>_. False)) = (Inr (), d)"
    by (simp add: audit_append.simps Let_def db_transaction_def bindM_def statement_def insert_audit_row_def
        empty_db_def)
  ultimately show ?thesis
    using audit_append_only [of "empty_db (\<lambda>_. False)" entry_a "Inr ()" d]
    by (simp add: audit_entries_def empty_db_def List.map_filter_def)
qed

lemma audit_rows_sorted: "sorted_wrt (\<lambda>a b. aw_timestamp a \<le> aw_timestamp b) (audit_rows_of m d)"
  using sorted_order_asc [of aw_timestamp] by (simp add: audit_rows_of_def sorted_map)

text \<open>\<open>get_by_memory_id\<close> returns every entry of the record and no other, all of the caller's
  tenant, the oldest first in the order of the stored timestamps; when some entry of the record is
  another tenant's it raises \<open>TenantIsolationViolation\<close>.\<close>

theorem audit_get_spec:
  assumes inv: "audit_inv d" and run: "audit_get_by_memory_id m t d = (x, d')"
    and io: "\<not> io_fails d (io_count d)"
  shows "(\<forall>es. x = Inr es \<longrightarrow> set es = {e \<in> set (audit_entries d). ae_memory_id e = Some m} \<and>
      (\<forall>e \<in> set es. ae_tenant_id e = t) \<and>
      sorted_wrt (\<lambda>a b. dt_to_str (ae_timestamp a) \<le> dt_to_str (ae_timestamp b)) es) \<and>
    ((\<exists>w \<in> set (audit_rows_of m d). aw_tenant_id w \<noteq> t) \<longrightarrow>
      (\<exists>u. u \<noteq> t \<and> x = Inl (TenantIsolationViolation t u)))"
proof (intro conjI allI impI)
  fix es assume x: "x = Inr es"
  note get = run [unfolded x]
  show "set es = {e \<in> set (audit_entries d). ae_memory_id e = Some m}" "\<forall>e \<in> set es. ae_tenant_id e = t"
    using audit_get_ok [OF inv get] by auto
  note all = audit_get_rows(1) [OF get]
  have len: "length es = length (audit_rows_of m d)" using list_all2_lengthD [OF all] by simp
  have stamp: "dt_to_str (ae_timestamp (es ! i)) = aw_timestamp (audit_rows_of m d ! i)"
    if "i < length es" for i
  proof -
    have "audit_rows_of m d ! i \<in> set (audit_log d)"
      using that nth_mem [of i "audit_rows_of m d"] by (simp add: len audit_rows_of_def)
    with inv obtain e where e: "storable_entry e" "audit_rows_of m d ! i = entry_to_row e"
      by (auto simp: audit_inv_def audit_row_ok_def)
    with list_all2_nthD [OF all, of i] that have "es ! i = norm_entry e"
      by (simp add: len audit_row_roundtrip)
    with e(2) show ?thesis by (simp add: norm_entry_def entry_to_row_def dt_to_str_def)
  qed
  show "sorted_wrt (\<lambda>a b. dt_to_str (ae_timestamp a) \<le> dt_to_str (ae_timestamp b)) es"
    using audit_rows_sorted [of m d] by (simp add: sorted_wrt_iff_nth_less stamp len)
next
  assume "\<exists>w \<in> set (audit_rows_of m d). aw_tenant_id w \<noteq> t"
  then have "find (\<lambda>w. aw_tenant_id w \<noteq> t) (audit_rows_of m d) \<noteq> None" "audit_rows_of m d \<noteq> []"
    by (auto simp: find_None_iff)
  then obtain w where "find (\<lambda>w. aw_tenant_id w \<noteq> t) (audit_rows_of m d) = Some w" "audit_rows_of m d \<noteq> []"
    by auto
  with run io show "\<exists>u. u \<noteq> t \<and> x = Inl (TenantIsolationViolation t u)"
    by (auto simp: audit_get_by_memory_id_def bindM_def query_cases monad_simps audit_rows_count find_Some_iff)
qed

theorem audit_get_spec_witness:
  "fst (audit_get_by_memory_id ''m1'' ''acme'' ((empty_db (\<lambda>_. False))\<lparr>audit_log := [entry_to_row entry_a]\<rparr>)) =
    Inr [norm_entry entry_a] \<and>
   audit_entries ((empty_db (\<lambda>_. False))\<lparr>audit_log := [entry_to_row entry_a]\<rparr>) = [norm_entry entry_a] \<and>
   ae_tenant_id (norm_entry entry_a) = ''acme''"
proof -
  let ?d = "(empty_db (\<lambda>_. False))\<lparr>audit_log := [entry_to_row entry_a]\<rparr>"
  have e: "storable_entry entry_a" by (simp add: storable_entry_def entry_a_def)
  then have inv: "audit_inv ?d" by (auto simp: audit_inv_def audit_row_ok_def)
  have row: "aw_memory_id (entry_to_row entry_a) = Some ''m1''" "aw_tenant_id (entry_to_row entry_a) = ''acme''"
    by (simp_all add: entry_to_row_def entry_a_def or_none_def)
  then have "audit_rows_of ''m1'' ?d = [entry_to_row entry_a]"
    by (simp add: audit_rows_of_def order_asc_def)
  then obtain d' where get: "audit_get_by_memory_id ''m1'' ''acme'' ?d = (Inr [norm_entry entry_a], d')"
    using audit_row_roundtrip [OF e] row
    by (simp add: audit_get_by_memory_id_def bindM_def query_cases monad_simps audit_rows_count empty_db_def
        audit_rows_of_def)
  moreover have "audit_entries ?d = [norm_entry entry_a]"
    using audit_row_roundtrip [OF e] by (simp add: audit_entries_def List.map_filter_def row_entry_def)
  ultimately show ?thesis using audit_get_spec [OF inv get] by (simp add: empty_db_def)
qed

end
