(* ===== verification/Sqlite_Policies.thy ===== *)
theory Sqlite_Policies
  imports Sqlite_Db Py_Values
begin

text \<open>
  \<^verbatim>\<open>storage/sqlite/policy_repo.py\<close>, \<open>SqliteTenantPolicyRepository\<close>: the JSON form of the
  policies, its loaders, and the two operations.  The loaders take the identifiers and the
  day counts as they come; a value of another JSON type, which \<open>save\<close> never writes, is
  refused here with \<open>TypeError\<close>, where Python would let it through untyped.
\<close>

subsection \<open>Serialisation\<close>

definition opt_int_json :: "int option \<Rightarrow> json" where
  "opt_int_json x = (case x of None \<Rightarrow> JNull | Some i \<Rightarrow> JInt i)"

definition consolidation_json :: "consolidation_policy \<Rightarrow> json" where
  "consolidation_json p = JObj
     [(''policy_id'', JStr (cp_policy_id p)),
      (''trigger'', JStr (trigger_str (cp_trigger p))),
      (''threshold_record_count'', JInt (cp_threshold_record_count p)),
      (''max_items_per_run'', JInt (cp_max_items_per_run p)),
      (''sectors'', JArr (map (JStr \<circ> sector_str) (cp_sectors p))),
      (''enabled'', JBool (cp_enabled p))]"

definition retention_json :: "retention_policy \<Rightarrow> json" where
  "retention_json p = JObj
     [(''policy_id'', JStr (rp_policy_id p)),
      (''decay_after_days'', opt_int_json (rp_decay_after_days p)),
      (''archive_after_days'', opt_int_json (rp_archive_after_days p)),
      (''delete_after_days'', opt_int_json (rp_delete_after_days p)),
      (''sector_decay_overrides'', JObj (rp_sector_decay_overrides p)),
      (''enabled'', JBool (rp_enabled p))]"

definition conflict_resolution_json :: "conflict_resolution_policy \<Rightarrow> json" where
  "conflict_resolution_json p = JObj
     [(''policy_id'', JStr (crp_policy_id p)),
      (''mode'', JStr (conflict_mode_str (crp_mode p))),
      (''low_confidence_threshold'', JFloat (crp_low_confidence_threshold p)),
      (''enabled'', JBool (crp_enabled p))]"

definition search_weights_json :: "search_weights_policy \<Rightarrow> json" where
  "search_weights_json p = JObj
     [(''policy_id'', JStr (sw_policy_id p)),
      (''semantic_weight'', JFloat (semantic_weight p)),
      (''keyword_weight'', JFloat (keyword_weight p)),
      (''entity_weight'', JFloat (entity_weight p)),
      (''recency_weight'', JFloat (recency_weight p)),
      (''salience_weight'', JFloat (salience_weight p)),
      (''enabled'', JBool (sw_enabled p))]"

definition policies_to_json :: "tenant_policies \<Rightarrow> json" where
  "policies_to_json p = JObj
     [(''consolidation'', consolidation_json (tp_consolidation p)),
      (''retention'', retention_json (tp_retention p)),
      (''conflict_resolution'', conflict_resolution_json (tp_conflict_resolution p)),
      (''search_weights'', search_weights_json (tp_search_weights p))]"

subsection \<open>Loading\<close>

definition as_str :: "json \<Rightarrow> exn + string" where
  "as_str j = (case j of JStr s \<Rightarrow> Inr s | _ \<Rightarrow> Inl (TypeError ''not a string''))"

definition as_opt_int :: "json \<Rightarrow> exn + int option" where
  "as_opt_int j = (case j of JNull \<Rightarrow> Inr None | JInt i \<Rightarrow> Inr (Some i)
     | _ \<Rightarrow> Inl (TypeError ''not an int''))"

definition as_dict :: "json \<Rightarrow> exn + json_dict" where
  "as_dict j = (case j of JObj d \<Rightarrow> Inr d
     | _ \<Rightarrow> Inl (AttributeError (py_repr (json_type j) @ '' object has no attribute '' @ py_repr ''get'')))"

definition as_list :: "json \<Rightarrow> exn + json list" where
  \<comment> \<open>what a \<open>for\<close> over the value iterates\<close>
  "as_list j = (case j of JArr xs \<Rightarrow> Inr xs | JObj d \<Rightarrow> Inr (map (JStr \<circ> fst) d)
     | JStr s \<Rightarrow> Inr (map (\<lambda>c. JStr [c]) s)
     | _ \<Rightarrow> Inl (TypeError (py_repr (json_type j) @ '' object is not iterable'')))"

definition enum_json :: "(string \<Rightarrow> exn + 'a) \<Rightarrow> json \<Rightarrow> exn + 'a" where
  \<comment> \<open>a StrEnum's constructor: only a text is a value of a member\<close>
  "enum_json of_str j = (case j of JStr s \<Rightarrow> of_str s | _ \<Rightarrow> Inl (ValueError ''not a valid value''))"

definition load_consolidation :: "json_dict \<Rightarrow> exn + consolidation_policy" where
  "load_consolidation d =
     bindE (bindE (subscript d ''policy_id'') as_str) (\<lambda>i.
     bindE (bindE (subscript d ''trigger'') (enum_json trigger_of)) (\<lambda>tr.
     bindE (bindE (subscript d ''threshold_record_count'') py_int) (\<lambda>th.
     bindE (bindE (subscript d ''max_items_per_run'') py_int) (\<lambda>mx.
     bindE (bindE (as_list (dict_get_or d ''sectors'' (JArr []))) (mapE (enum_json sector_of))) (\<lambda>ss.
     bindE (subscript d ''enabled'') (\<lambda>en.
       Inr \<lparr>cp_policy_id = i, cp_trigger = tr, cp_threshold_record_count = th,
            cp_max_items_per_run = mx, cp_sectors = ss, cp_enabled = py_bool en\<rparr>))))))"

definition load_retention :: "json_dict \<Rightarrow> exn + retention_policy" where
  "load_retention d =
     bindE (bindE (subscript d ''policy_id'') as_str) (\<lambda>i.
     bindE (as_opt_int (dict_get_or d ''decay_after_days'' JNull)) (\<lambda>de.
     bindE (as_opt_int (dict_get_or d ''archive_after_days'' JNull)) (\<lambda>ar.
     bindE (as_opt_int (dict_get_or d ''delete_after_days'' JNull)) (\<lambda>del.
     bindE (as_dict (dict_get_or d ''sector_decay_overrides'' (JObj []))) (\<lambda>ov.
     bindE (subscript d ''enabled'') (\<lambda>en.
       Inr \<lparr>rp_policy_id = i, rp_decay_after_days = de, rp_archive_after_days = ar,
            rp_delete_after_days = del, rp_sector_decay_overrides = ov,
            rp_enabled = py_bool en\<rparr>))))))"

definition load_conflict_resolution :: "json_dict \<Rightarrow> exn + conflict_resolution_policy" where
  "load_conflict_resolution d =
     bindE (bindE (subscript d ''policy_id'') as_str) (\<lambda>i.
     bindE (bindE (subscript d ''mode'') (enum_json conflict_mode_of)) (\<lambda>mo.
     bindE (bindE (subscript d ''low_confidence_threshold'') py_float) (\<lambda>th.
     bindE (subscript d ''enabled'') (\<lambda>en.
       Inr \<lparr>crp_policy_id = i, crp_mode = mo, crp_low_confidence_threshold = th,
            crp_enabled = py_bool en\<rparr>))))"

definition load_search_weights :: "json_dict \<Rightarrow> exn + search_weights_policy" where
  "load_search_weights d =
     bindE (bindE (subscript d ''policy_id'') as_str) (\<lambda>i.
     bindE (bindE (subscript d ''semantic_weight'') py_float) (\<lambda>se.
     bindE (bindE (subscript d ''keyword_weight'') py_float) (\<lambda>ke.
     bindE (bindE (subscript d ''entity_weight'') py_float) (\<lambda>et.
     bindE (bindE (subscript d ''recency_weight'') py_float) (\<lambda>rc.
     bindE (bindE (subscript d ''salience_weight'') py_float) (\<lambda>sa.
     bindE (subscript d ''enabled'') (\<lambda>en.
       Inr \<lparr>sw_policy_id = i, semantic_weight = se, keyword_weight = ke, entity_weight = et,
            recency_weight = rc, salience_weight = sa, sw_enabled = py_bool en\<rparr>)))))))"

definition policies_from_json :: "json \<Rightarrow> exn + tenant_policies" where
  "policies_from_json j =
     bindE (as_dict j) (\<lambda>data.
     bindE (bindE (as_dict (dict_get_or data ''consolidation'' (JObj []))) load_consolidation) (\<lambda>c.
     bindE (bindE (as_dict (dict_get_or data ''retention'' (JObj []))) load_retention) (\<lambda>r.
     bindE (bindE (as_dict (dict_get_or data ''conflict_resolution'' (JObj []))) load_conflict_resolution) (\<lambda>x.
     bindE (bindE (as_dict (dict_get_or data ''search_weights'' (JObj []))) load_search_weights) (\<lambda>w.
       Inr \<lparr>tp_consolidation = c, tp_retention = r, tp_conflict_resolution = x,
            tp_search_weights = w\<rparr>)))))"

subsection \<open>Operations\<close>

definition policy_select :: "tenant_id \<Rightarrow> (db, json option) action" where
  "policy_select t = query (''get failed for tenant_id='' @ t)
     (\<lambda>d. map_option pw_policies (find (\<lambda>w. pw_tenant_id w = t) (tenant_policies_tbl d)))"

text \<open>
  \<open>get\<close>, over the query and the source of fresh identifiers: \<open>TenantPolicies()\<close> draws one
  for each of its four policies.
\<close>

definition policy_get ::
  "(tenant_id \<Rightarrow> ('s, json option) action) \<Rightarrow> ('s, string) action \<Rightarrow> tenant_id \<Rightarrow> ('s, tenant_policies) action" where
  "policy_get select uuid4 t =
     bindM (select t) (\<lambda>row. case row of
       None \<Rightarrow>
         bindM uuid4 (\<lambda>i. bindM uuid4 (\<lambda>j. bindM uuid4 (\<lambda>k. bindM uuid4 (\<lambda>l.
           returnM (default_tenant_policies i j k l)))))
     | Some raw \<Rightarrow> liftM (policies_from_json raw))"

definition policy_save :: "tenant_id \<Rightarrow> tenant_policies \<Rightarrow> (db, unit) action" where
  "policy_save t p = exec_update (''save failed for tenant_id='' @ t)
     (\<lambda>d. d\<lparr>tenant_policies_tbl := filter (\<lambda>w. pw_tenant_id w \<noteq> t) (tenant_policies_tbl d)
        @ [\<lparr>pw_tenant_id = t, pw_policies = policies_to_json p\<rparr>]\<rparr>)"

subsection \<open>Round trip\<close>

lemma dict_simps [simp]:
  "subscript ((k, v) # d) l = (if k = l then Inr v else subscript d l)"
  "dict_get_or ((k, v) # d) l j = (if k = l then v else dict_get_or d l j)"
  by (simp_all add: subscript_def dict_get_or_def dict_get_def)

lemma loader_simps [simp]:
  "as_str (JStr s) = Inr s" "as_dict (JObj d) = Inr d" "as_list (JArr xs) = Inr xs"
  "as_opt_int (opt_int_json x) = Inr x" "enum_json of_str (JStr s) = of_str s"
  by (simp_all add: as_str_def as_dict_def as_list_def as_opt_int_def opt_int_json_def enum_json_def
      split: option.split)

lemma sectors_roundtrip: "mapE (enum_json sector_of) (map (JStr \<circ> sector_str) ss) = Inr ss"
  by (induction ss) simp_all

lemma load_json:
  "bindE (as_dict (consolidation_json c)) load_consolidation = Inr c"
  "bindE (as_dict (retention_json r)) load_retention = Inr r"
  "bindE (as_dict (conflict_resolution_json x)) load_conflict_resolution = Inr x"
  "bindE (as_dict (search_weights_json w)) load_search_weights = Inr w"
  by (simp_all add: consolidation_json_def load_consolidation_def retention_json_def load_retention_def
      conflict_resolution_json_def load_conflict_resolution_def search_weights_json_def
      load_search_weights_def sectors_roundtrip)

lemma policies_roundtrip: "policies_from_json (policies_to_json p) = Inr p"
  by (simp add: policies_from_json_def policies_to_json_def load_json)

lemma policy_saved:
  assumes "policy_save t p d = (Inr (), d1)" "policy_select u d1 = (Inr row, d2)"
  shows "row = (if u = t then Some (policies_to_json p)
    else map_option pw_policies (find (\<lambda>w. pw_tenant_id w = u) (tenant_policies_tbl d)))"
proof -
  define v where "v = \<lparr>pw_tenant_id = t, pw_policies = policies_to_json p\<rparr>"
  have new: "find (\<lambda>w. pw_tenant_id w = u) (filter (\<lambda>w. pw_tenant_id w \<noteq> t) ws @ [v]) =
      (if u = t then Some v else find (\<lambda>w. pw_tenant_id w = u) ws)" for ws
    by (induction ws) (auto simp: v_def)
  from assms have "tenant_policies_tbl d1 = filter (\<lambda>w. pw_tenant_id w \<noteq> t) (tenant_policies_tbl d) @ [v]"
    by (auto simp: policy_save_def exec_update_cases v_def split: if_splits)
  then have "find (\<lambda>w. pw_tenant_id w = u) (tenant_policies_tbl d1) =
      (if u = t then Some v else find (\<lambda>w. pw_tenant_id w = u) (tenant_policies_tbl d))"
    using new by simp
  moreover have "row = map_option pw_policies (find (\<lambda>w. pw_tenant_id w = u) (tenant_policies_tbl d1))"
    using assms(2) by (auto simp: policy_select_def query_cases split: if_splits)
  ultimately show ?thesis by (simp add: v_def)
qed

text \<open>A tenant's policies are read back as they were saved, identifiers included, and saving
  one tenant's leaves every other tenant's row as it was.\<close>

theorem policy_save_get_roundtrip:
  assumes "policy_save t p d = (Inr (), d1)" "policy_get policy_select uuid4 u d1 = (x, d2)"
    and "\<not> io_fails d1 (io_count d1)"
  shows "(u = t \<longrightarrow> x = Inr p) \<and>
    (u \<noteq> t \<longrightarrow> fst (policy_select u d1) =
      Inr (map_option pw_policies (find (\<lambda>w. pw_tenant_id w = u) (tenant_policies_tbl d))))"
proof -
  obtain row d' where sel: "policy_select u d1 = (Inr row, d')"
    using assms(3) by (simp add: policy_select_def query_cases)
  note row = policy_saved [OF assms(1) sel]
  show ?thesis
    using assms(2) sel row by (auto simp: policy_get_def bindM_def policies_roundtrip monad_simps)
qed

theorem policy_save_get_roundtrip_witness:
  "fst (policy_get policy_select (returnM ''i'') ''acme''
     (snd (policy_save ''acme'' (default_tenant_policies ''i'' ''j'' ''k'' ''l'') (empty_db (\<lambda>_. False))))) =
   Inr (default_tenant_policies ''i'' ''j'' ''k'' ''l'')"
proof -
  let ?p = "default_tenant_policies ''i'' ''j'' ''k'' ''l''"
  let ?d = "snd (policy_save ''acme'' ?p (empty_db (\<lambda>_. False)))"
  have "policy_save ''acme'' ?p (empty_db (\<lambda>_. False)) = (Inr (), ?d)"
    by (simp add: policy_save_def exec_update_cases empty_db_def)
  moreover have "\<not> io_fails ?d (io_count ?d)"
    by (simp add: policy_save_def exec_update_cases empty_db_def)
  ultimately show ?thesis
    using policy_save_get_roundtrip [of "''acme''" ?p _ ?d "returnM ''i''" "''acme''", OF _ surjective_pairing]
    by simp
qed

end
