(* ===== verification/Fact_Extraction.thy ===== *)
theory Fact_Extraction
  imports Fact_Contract Py_Values
begin

text \<open>
  \<^verbatim>\<open>engine/extraction.py\<close>, \<open>LLMExtractionService\<close>: candidates from the LLM's JSON, the
  resolution of contradictions, and the extraction itself.
\<close>

definition with_lifecycle :: "fact \<Rightarrow> lifecycle_state \<Rightarrow> fact" where
  "with_lifecycle f state = f\<lparr>fact_lifecycle_state := state\<rparr>"

definition with_supersedes :: "fact \<Rightarrow> fact_id \<Rightarrow> fact" where
  "with_supersedes f old = f\<lparr>fact_supersedes := Some old\<rparr>"

subsection \<open>Candidates\<close>

definition candidate_sector :: "json_dict \<Rightarrow> memory_sector" where
  "candidate_sector raw = (case dict_get_or raw ''sector'' (JStr (sector_str SEMANTIC)) of
     JStr s \<Rightarrow> (case sector_of s of Inr se \<Rightarrow> se | Inl _ \<Rightarrow> SEMANTIC)
   | _ \<Rightarrow> SEMANTIC)"

definition raw_text :: "'s runtime \<Rightarrow> json_dict \<Rightarrow> string \<Rightarrow> string" where
  \<comment> \<open>\<^verbatim>\<open>str(raw.get(key, ""))\<close>\<close>
  "raw_text rt raw key = py_str (run_float_str rt) (dict_get_or raw key (JStr []))"

definition build_candidate :: "'s runtime \<Rightarrow> json \<Rightarrow> memory_record \<Rightarrow> ('s, fact) action" where
  "build_candidate rt raw record = (case raw of
     JObj d \<Rightarrow>
       bindM (run_uuid4 rt) (\<lambda>i.
       bindM (liftM (py_float (dict_get_or d ''confidence'' (JFloat 1)))) (\<lambda>conf.
       bindM (run_utcnow rt) (\<lambda>now.
         returnM
           \<lparr>fact_id = i, fact_memory_record_id = mr_id record, fact_tenant_id = mr_tenant_id record,
            fact_scope = mr_scope record,
            fact_subject_entity_id = raw_text rt d ''subject_entity_id'',
            fact_predicate = raw_text rt d ''predicate'',
            fact_predicate_group = raw_text rt d ''predicate_group'',
            fact_object_value = raw_text rt d ''object_value'',
            fact_effective_from = mr_recorded_at record, fact_effective_to = None,
            fact_recorded_at = now, fact_supersedes = None, fact_confidence = conf,
            fact_sector = candidate_sector d, fact_lifecycle_state = ACTIVE\<rparr>)))
   | _ \<Rightarrow> raiseM (AttributeError
       (py_repr (json_type raw) @ '' object has no attribute '' @ py_repr ''get'')))"

subsection \<open>Contradictions\<close>

definition resolve_against ::
  "'s runtime \<Rightarrow> 's fact_repo \<Rightarrow> 's observer_port \<Rightarrow> conflict_resolution_policy \<Rightarrow> fact \<Rightarrow>
   fact list \<Rightarrow> ('s, fact) action" where
  \<comment> \<open>the rest of the method, once the active facts are known\<close>
  "resolve_against rt fact_repo observer policy candidate active_facts = (case active_facts of
       [] \<Rightarrow> returnM (with_lifecycle candidate ACTIVE)
     | existing # _ \<Rightarrow>
         if crp_low_confidence_threshold policy \<le> fact_confidence candidate then
           bindM (run_utcnow rt) (\<lambda>now.
           bindM (fr_close_fact fact_repo (fact_id existing) (fact_tenant_id existing) now
             (fact_id candidate)) (\<lambda>_.
           bindM (ob_emit observer (event (fact_tenant_id candidate)
             (ContradictionDetectedEvent (fact_id candidate) (fact_id existing)
               (fact_subject_entity_id candidate) (fact_predicate_group candidate)))) (\<lambda>_.
           returnM (with_lifecycle (with_supersedes candidate (fact_id existing)) ACTIVE))))
         else
           bindM (ob_emit observer (event (fact_tenant_id candidate)
             (ContradictionLowConfidenceEvent (fact_id candidate) (fact_subject_entity_id candidate)
               (fact_predicate_group candidate) (fact_confidence candidate)))) (\<lambda>_.
           returnM (with_lifecycle candidate PROPOSED)))"

definition resolve_contradiction ::
  "'s runtime \<Rightarrow> 's fact_repo \<Rightarrow> 's observer_port \<Rightarrow> conflict_resolution_policy \<Rightarrow> fact \<Rightarrow> ('s, fact) action" where
  "resolve_contradiction rt fact_repo observer policy candidate =
     bindM (fr_get_active_facts fact_repo (fact_subject_entity_id candidate)
         (fact_predicate_group candidate) (fact_tenant_id candidate))
       (resolve_against rt fact_repo observer policy candidate)"

subsection \<open>Extraction\<close>

definition extraction_system_prompt :: string where
  "extraction_system_prompt = join [char_of (10 :: nat)]
     ['''',
      ''You are a memory extraction assistant. Given a text, extract structured facts.'',
      ''Return a JSON array with fields:'',
      ''  subject_entity_id, predicate, predicate_group, object_value,'',
      ''  confidence (float 0-1), sector (str).'',
      ''Return [] if no facts. Return ONLY valid JSON.'',
      '''']"

definition user_prompt :: "memory_record \<Rightarrow> string" where
  "user_prompt record = ''Extract facts from the following text:'' @
     replicate 2 (char_of (10 :: nat)) @ mr_raw_payload record"

definition ask_llm :: "'s runtime \<Rightarrow> 's llm_client \<Rightarrow> memory_record \<Rightarrow> ('s, json list) action" where
  "ask_llm rt llm record =
     bindM (llm extraction_system_prompt (user_prompt record)) (\<lambda>raw_response.
     bindM (liftM (run_json_loads rt raw_response)) (\<lambda>j.
       case j of JArr raw_facts \<Rightarrow> returnM raw_facts
       | _ \<Rightarrow> raiseM (ValueError ''LLM response is not a JSON array'')))"

definition extract_one ::
  "'s runtime \<Rightarrow> 's fact_repo \<Rightarrow> 's observer_port \<Rightarrow> conflict_resolution_policy \<Rightarrow> memory_record \<Rightarrow>
   json \<Rightarrow> ('s, fact) action" where
  "extract_one rt fact_repo observer policy record raw =
     bindM (build_candidate rt raw record) (\<lambda>candidate.
     bindM (resolve_contradiction rt fact_repo observer policy candidate) (\<lambda>resolved.
     bindM (fr_save fact_repo resolved) (\<lambda>_.
       returnM resolved)))"

definition entities_of :: "fact list \<Rightarrow> entity_id list" where
  \<comment> \<open>each subject once, in the order they first occur\<close>
  "entities_of fs = foldl (\<lambda>es f. if fact_subject_entity_id f \<in> set es then es
     else es @ [fact_subject_entity_id f]) [] fs"

definition store_extracted ::
  "'s runtime \<Rightarrow> 's fact_repo \<Rightarrow> 's observer_port \<Rightarrow> conflict_resolution_policy \<Rightarrow> memory_record \<Rightarrow>
   string + json list \<Rightarrow> ('s, extraction_result) action" where
  \<comment> \<open>the rest of the method, once the LLM answered or its answer failed\<close>
  "store_extracted rt fact_repo observer policy record answer = (case answer of
       Inl err \<Rightarrow> returnM
         \<lparr>er_memory_record_id = mr_id record, er_facts = [], er_entities = [], er_error = Some err\<rparr>
     | Inr raws \<Rightarrow>
         bindM (forM raws (extract_one rt fact_repo observer policy record)) (\<lambda>saved.
         bindM (ob_emit observer (event (mr_tenant_id record)
           (FactsExtractedEvent (mr_id record) (map fact_id saved)))) (\<lambda>_.
         bindM (run_metric rt (Inc ''extraction_facts_total'' [(''tenant_id'', mr_tenant_id record),
           (''sector'', sector_str (mr_sector record))] (int (length saved)))) (\<lambda>_.
         returnM \<lparr>er_memory_record_id = mr_id record, er_facts = saved,
           er_entities = entities_of saved, er_error = None\<rparr>))))"

definition extract_facts ::
  "'s runtime \<Rightarrow> 's llm_client \<Rightarrow> 's fact_repo \<Rightarrow> 's observer_port \<Rightarrow> conflict_resolution_policy \<Rightarrow>
   's extraction_port" where
  "extract_facts rt llm fact_repo observer policy record =
     bindM (tryM (bindM (ask_llm rt llm record) (\<lambda>raws. returnM (Inr raws)))
        (\<lambda>e. returnM (Inl (exn_str e))))
       (store_extracted rt fact_repo observer policy record)"

subsection \<open>What is extracted\<close>

lemma entities_of_facts:
  "set (entities_of fs) = fact_subject_entity_id ` set fs" "distinct (entities_of fs)"
proof -
  let ?g = "\<lambda>es f. if fact_subject_entity_id f \<in> set es then es else es @ [fact_subject_entity_id f]"
  have "set (foldl ?g es fs) = set es \<union> fact_subject_entity_id ` set fs \<and>
      (distinct es \<longrightarrow> distinct (foldl ?g es fs))" for es
    by (induction fs arbitrary: es) (auto simp: insert_absorb)
  from this [of "[]"] show "set (entities_of fs) = fact_subject_entity_id ` set fs"
    "distinct (entities_of fs)" by (simp_all add: entities_of_def)
qed

lemma build_candidate_fields:
  assumes "build_candidate rt raw record s = (Inr c, s')"
  shows "fact_memory_record_id c = mr_id record \<and> fact_tenant_id c = mr_tenant_id record \<and>
    fact_scope c = mr_scope record \<and> fact_effective_from c = mr_recorded_at record \<and>
    fact_effective_to c = None \<and> fact_supersedes c = None \<and> fact_lifecycle_state c = ACTIVE"
  using assms by (auto simp: build_candidate_def result_iff monad_simps split: json.splits)

definition resolved_state :: "conflict_resolution_policy \<Rightarrow> fact \<Rightarrow> bool" where
  \<comment> \<open>an extracted fact is active, or merely proposed for want of confidence\<close>
  "resolved_state policy f \<longleftrightarrow> fact_lifecycle_state f = ACTIVE \<or>
     fact_lifecycle_state f = PROPOSED \<and> fact_confidence f < crp_low_confidence_threshold policy \<and>
     fact_supersedes f = None"

lemma resolve_fields:
  assumes "resolve_contradiction rt fr ob policy c s = (Inr f, s')"
  shows "fact_id f = fact_id c \<and> fact_memory_record_id f = fact_memory_record_id c \<and>
    fact_tenant_id f = fact_tenant_id c \<and>
    (fact_supersedes c = None \<longrightarrow> resolved_state policy f)"
proof -
  from assms obtain active s1 where "resolve_against rt fr ob policy c active s1 = (Inr f, s')"
    by (auto simp: resolve_contradiction_def bindM_Inr_iff)
  then show ?thesis
    by (cases active) (auto simp: resolve_against_def result_iff monad_simps resolved_state_def
        with_lifecycle_def with_supersedes_def not_le split: if_splits)
qed

lemma extracted_fact:
  assumes "extract_facts rt llm fr ob policy record s = (Inr r, s')" "f \<in> set (er_facts r)"
  shows "fact_memory_record_id f = mr_id record \<and> fact_tenant_id f = mr_tenant_id record \<and>
    resolved_state policy f"
proof -
  have one: "fact_memory_record_id y = mr_id record \<and> fact_tenant_id y = mr_tenant_id record \<and>
      resolved_state policy y" if "extract_one rt fr ob policy record raw s = (Inr y, t)" for raw s y t
    using that by (auto simp: extract_one_def result_iff monad_simps
        dest!: build_candidate_fields resolve_fields)
  from assms(1) obtain answer s0 where "store_extracted rt fr ob policy record answer s0 = (Inr r, s')"
    by (auto simp: extract_facts_def bindM_Inr_iff)
  then have "\<exists>raws s1 s2. er_facts r = [] \<or>
      forM raws (extract_one rt fr ob policy record) s1 = (Inr (er_facts r), s2)"
    by (cases answer) (auto simp: store_extracted_def result_iff monad_simps)
  then obtain raws s1 s2 where
    "er_facts r = [] \<or> forM raws (extract_one rt fr ob policy record) s1 = (Inr (er_facts r), s2)"
    by blast
  with assms(2) have "forM raws (extract_one rt fr ob policy record) s1 = (Inr (er_facts r), s2)" by auto
  then have "\<forall>y \<in> set (er_facts r). fact_memory_record_id y = mr_id record \<and>
      fact_tenant_id y = mr_tenant_id record \<and> resolved_state policy y"
    by (rule forM_Inr_Ball) (rule one)
  with assms(2) show ?thesis by blast
qed

lemma extract_llm_failure:
  assumes "ask_llm rt llm record s = (Inl e, s')"
  shows "extract_facts rt llm fr ob policy record s = (Inr \<lparr>er_memory_record_id = mr_id record,
    er_facts = [], er_entities = [], er_error = Some (exn_str e)\<rparr>, s')"
  using assms by (simp add: extract_facts_def store_extracted_def bindM_def tryM_def monad_simps)

text \<open>An extraction disturbs nothing its ports do not.\<close>

lemma extract_quiet:
  assumes "\<And>a b. undisturbed P view (llm a b)" "\<And>f. undisturbed P view (fr_save fr f)"
    and "\<And>e g t. undisturbed P view (fr_get_active_facts fr e g t)"
    and "\<And>i t d j. undisturbed P view (fr_close_fact fr i t d j)"
    and "\<And>e. undisturbed P view (ob_emit ob e)" "undisturbed P view (run_utcnow rt)"
    and "undisturbed P view (run_uuid4 rt)" "\<And>m. undisturbed P view (run_metric rt m)"
  shows "undisturbed P view (extract_facts rt llm fr ob policy record)"
proof -
  have resolve: "undisturbed P view (resolve_contradiction rt fr ob policy c)" for c
    unfolding resolve_contradiction_def resolve_against_def by (intro quiet_intro assms)
  have candidate: "undisturbed P view (build_candidate rt raw record)" for raw
    unfolding build_candidate_def by (cases raw) (simp_all add: quiet_intro assms)
  have one: "undisturbed P view (extract_one rt fr ob policy record raw)" for raw
    unfolding extract_one_def by (intro quiet_intro resolve candidate assms)
  have ask: "undisturbed P view (ask_llm rt llm record)"
  proof -
    have "undisturbed P view (case j of JArr raw_facts \<Rightarrow> returnM raw_facts
        | _ \<Rightarrow> raiseM (ValueError ''LLM response is not a JSON array''))" for j
      by (cases j) simp_all
    then show ?thesis unfolding ask_llm_def by (intro quiet_intro assms)
  qed
  show ?thesis
    unfolding extract_facts_def store_extracted_def by (intro quiet_intro one ask assms)
qed

subsection \<open>Contradictions against the contract of the repository\<close>

locale extraction_service = fact_repository +
  fixes rt :: "'s runtime"
    and observer :: "'s observer_port"
  assumes now_ok: "run_utcnow rt s = (x, s') \<Longrightarrow> inv s \<Longrightarrow>
      inv s' \<and> view s' = view s \<and> (\<exists>d. x = Inr d \<and> valid_datetime d)"
    and emit_ok: "ob_emit observer e s = (y, s') \<Longrightarrow> inv s \<Longrightarrow> inv s' \<and> view s' = view s"
begin

lemma no_contradiction:
  assumes "inv s" "fr_get_active_facts repo (fact_subject_entity_id c) (fact_predicate_group c)
    (fact_tenant_id c) s = (Inr fs, s1)"
    and "\<And>f. view s (fact_id f) = Some f \<Longrightarrow>
      \<not> is_current (fact_subject_entity_id c) (fact_predicate_group c) (fact_tenant_id c) f"
  shows "resolve_contradiction rt repo observer policy c s = (Inr (with_lifecycle c ACTIVE), s1)"
proof -
  have "f \<notin> set fs" for f using active_ok [OF assms(1,2)] assms(3) [of f] by simp
  then have "fs = []" by (cases fs) auto
  with assms(2) show ?thesis by (simp add: resolve_contradiction_def resolve_against_def bindM_def monad_simps)
qed

text \<open>
  A candidate is resolved before it is saved, so the repository cannot know its id: a
  contradiction at or above the threshold is never resolved.
\<close>

lemma contradiction_fails:
  assumes "inv s" and active: "fr_get_active_facts repo (fact_subject_entity_id c)
      (fact_predicate_group c) (fact_tenant_id c) s = (Inr fs, s1)" "fs \<noteq> []"
    and conf: "crp_low_confidence_threshold policy \<le> fact_confidence c"
    and unsaved: "view s (fact_id c) = None"
  shows "\<exists>e s'. resolve_contradiction rt repo observer policy c s = (Inl e, s') \<and> view s' = view s"
proof -
  have s1: "inv s1" "view s1 = view s"
    using keepsD_eq [OF active_inv assms(1) active(1)]
      active_view [of "fact_subject_entity_id c" "fact_predicate_group c" "fact_tenant_id c" s]
    by (simp_all add: active(1))
  obtain now s2 where now: "run_utcnow rt s1 = (Inr now, s2)" "inv s2" "view s2 = view s" "valid_datetime now"
    using now_ok [OF surjective_pairing s1(1)] s1(2) by (metis surjective_pairing)
  obtain f fs' where fs: "fs = f # fs'" using active(2) by (cases fs) auto
  obtain e s3 where "fr_close_fact repo (fact_id f) (fact_tenant_id f) now (fact_id c) s2 = (Inl e, s3)"
    "view s3 = view s2"
    using close_unknown [OF now(2,4), of "fact_id c" "fact_id f" "fact_tenant_id f"] unsaved now(3)
    by auto
  with active(1) now fs conf show ?thesis by (simp add: resolve_contradiction_def resolve_against_def bindM_def)
qed

lemma contradiction_proposed:
  assumes "inv s" and active: "fr_get_active_facts repo (fact_subject_entity_id c)
      (fact_predicate_group c) (fact_tenant_id c) s = (Inr fs, s1)" "fs \<noteq> []"
    and conf: "fact_confidence c < crp_low_confidence_threshold policy"
    and "resolve_contradiction rt repo observer policy c s = (x, s')"
  shows "view s' = view s \<and> (\<forall>f. x = Inr f \<longrightarrow> f = with_lifecycle c PROPOSED)"
proof -
  have s1: "inv s1" "view s1 = view s"
    using keepsD_eq [OF active_inv assms(1) active(1)]
      active_view [of "fact_subject_entity_id c" "fact_predicate_group c" "fact_tenant_id c" s]
    by (simp_all add: active(1))
  obtain f fs' where fs: "fs = f # fs'" using active(2) by (cases fs) auto
  let ?ev = "event (fact_tenant_id c) (ContradictionLowConfidenceEvent (fact_id c)
    (fact_subject_entity_id c) (fact_predicate_group c) (fact_confidence c))"
  obtain y s2 where em: "ob_emit observer ?ev s1 = (y, s2)" by fastforce
  from emit_ok [OF this s1(1)] s1(2) have "view s2 = view s" by simp
  with assms(5) active(1) fs conf em show ?thesis
    by (cases y) (auto simp: resolve_contradiction_def resolve_against_def bindM_def monad_simps)
qed

end

end
