(* ===== verification/Local_Mode.thy ===== *)
theory Local_Mode
  imports Sqlite_Records Sqlite_Facts Sqlite_Audit Sqlite_Policies Consolidation Fact_Extraction
begin

text \<open>
  One process in local mode: the adapters of \<open>LocalContainer\<close> over one database file
  (\<^verbatim>\<open>storage/container.py\<close>), with the clock, the identifiers, the observer, the pending
  enrichment tasks and the LLM around it.  The \<open>n\<close>-th identifier, the \<open>n\<close>-th reading of the
  clock and the \<open>n\<close>-th answer of the LLM are arbitrary functions of \<open>n\<close>.

  Every contract of the services is discharged here on these adapters.
\<close>

record world =
  w_db :: db
  w_events :: "memory_event list"
  w_tasks :: "memory_record list"
  w_metrics :: "metric list"
  w_ids :: "nat \<Rightarrow> string"
  w_next_id :: nat
  w_clock :: "nat \<Rightarrow> datetime"
  w_ticks :: nat
  w_llm :: "nat \<Rightarrow> exn + string"
  w_llm_calls :: nat

definition on_db :: "(db, 'a) action \<Rightarrow> (world, 'a) action" where
  "on_db m w = (case m (w_db w) of (x, d) \<Rightarrow> (x, w\<lparr>w_db := d\<rparr>))"

subsection \<open>Adapters\<close>

record library =
  lib_float_str :: "rat \<Rightarrow> string"
  lib_json_loads :: "string \<Rightarrow> exn + json"
  lib_sha256_hex :: "string \<Rightarrow> string"

definition local_uuid4 :: "(world, string) action" where
  "local_uuid4 w = (Inr (w_ids w (w_next_id w)), w\<lparr>w_next_id := Suc (w_next_id w)\<rparr>)"

definition local_utcnow :: "(world, datetime) action" where
  "local_utcnow w = (Inr (w_clock w (w_ticks w)), w\<lparr>w_ticks := Suc (w_ticks w)\<rparr>)"

definition local_runtime :: "library \<Rightarrow> world runtime" where
  "local_runtime lib = \<lparr>
     run_utcnow = local_utcnow,
     run_uuid4 = local_uuid4,
     run_metric = (\<lambda>x. modifyM (\<lambda>w. w\<lparr>w_metrics := w_metrics w @ [x]\<rparr>)),
     run_create_task = (\<lambda>r. modifyM (\<lambda>w. w\<lparr>w_tasks := w_tasks w @ [r]\<rparr>)),
     run_float_str = lib_float_str lib,
     run_json_loads = lib_json_loads lib,
     run_sha256_hex = lib_sha256_hex lib\<rparr>"

definition local_observer :: "world observer_port" where
  "local_observer = \<lparr>ob_emit = (\<lambda>e. modifyM (\<lambda>w. w\<lparr>w_events := w_events w @ [e]\<rparr>))\<rparr>"

definition local_llm :: "world llm_client" where
  "local_llm system prompt w =
     (w_llm w (w_llm_calls w), w\<lparr>w_llm_calls := Suc (w_llm_calls w)\<rparr>)"

definition local_records :: "world record_repo" where
  "local_records = \<lparr>
     rr_save = (\<lambda>r. on_db (record_save r)),
     rr_get_by_id = (\<lambda>m t. on_db (record_get_by_id m t)),
     rr_update_lifecycle = (\<lambda>m t ls a. on_db (record_update_lifecycle m t ls a)),
     rr_update_pipeline_status = (\<lambda>m t ps. on_db (record_update_pipeline_status m t ps)),
     rr_list_by_scope = (\<lambda>sc sts n. on_db (record_list_by_scope sc sts n)),
     rr_get_by_idempotency_key = (\<lambda>k t. on_db (record_get_by_idempotency_key k t)),
     rr_list_active_older_than = (\<lambda>t c. on_db (rr_list_active_older_than sqlite_record_repo t c)),
     rr_update_lifecycle_state = (\<lambda>m t ls. on_db (rr_update_lifecycle_state sqlite_record_repo m t ls))\<rparr>"

definition local_facts :: "world fact_repo" where
  "local_facts = \<lparr>
     fr_save = (\<lambda>f. on_db (fact_save f)),
     fr_get_by_id = (\<lambda>i t. on_db (fact_get_by_id i t)),
     fr_close_fact = (\<lambda>old t eto new. on_db (fact_close_fact old t eto new)),
     fr_get_active_facts = (\<lambda>en g t. on_db (fact_get_active_facts en g t)),
     fr_list_by_memory_record = (\<lambda>m t. on_db (fact_list_by_memory_record m t))\<rparr>"

definition local_audit :: "world audit_log_port" where
  "local_audit = \<lparr>al_append = (\<lambda>c. on_db (audit_append c)),
     al_get_by_memory_id = (\<lambda>m t. on_db (audit_get_by_memory_id m t))\<rparr>"

definition local_policies :: "world policy_repo" where
  "local_policies = \<lparr>pr_get = policy_get (\<lambda>t. on_db (policy_select t)) local_uuid4,
     pr_save = (\<lambda>t p. on_db (policy_save t p))\<rparr>"

text \<open>The two services of the write path, wired over the adapters.\<close>

definition local_extraction :: "library \<Rightarrow> conflict_resolution_policy \<Rightarrow> world extraction_port" where
  "local_extraction lib = extract_facts (local_runtime lib) local_llm local_facts local_observer"

definition local_write ::
  "library \<Rightarrow> conflict_resolution_policy option \<Rightarrow> write_request \<Rightarrow> (world, write_result) action" where
  \<comment> \<open>\<open>None\<close>: no extraction service configured\<close>
  "local_write lib policy = write_execute (local_runtime lib) local_records local_audit local_observer
     (map_option (local_extraction lib) policy)"

definition run_pending_task :: "library \<Rightarrow> conflict_resolution_policy \<Rightarrow> (world, unit) action" where
  \<comment> \<open>the event loop runs the oldest enrichment task; its exception is only logged\<close>
  "run_pending_task lib policy w = (case w_tasks w of
       [] \<Rightarrow> (Inr (), w)
     | r # rs \<Rightarrow>
         (Inr (), snd (enrich local_records local_observer (local_extraction lib policy) r
           (w\<lparr>w_tasks := rs\<rparr>))))"

subsection \<open>The contracts on the adapters\<close>

definition clock_ok :: "world \<Rightarrow> bool" where
  "clock_ok w \<longleftrightarrow> (\<forall>n. valid_datetime (w_clock w n))"

definition local_inv :: "(db \<Rightarrow> bool) \<Rightarrow> world \<Rightarrow> bool" where
  "local_inv p w \<longleftrightarrow> p (w_db w) \<and> clock_ok w"

abbreviation local_view :: "(db \<Rightarrow> 'v) \<Rightarrow> world \<Rightarrow> 'v" where
  "local_view v \<equiv> \<lambda>w. v (w_db w)"

lemma on_db_iff: "on_db m w = (x, w') \<longleftrightarrow> (\<exists>d. m (w_db w) = (x, d) \<and> w' = w\<lparr>w_db := d\<rparr>)"
  by (auto simp: on_db_def split: prod.split)

lemma snd_on_db: "snd (on_db m w) = w\<lparr>w_db := snd (m (w_db w))\<rparr>"
  by (simp add: on_db_def split: prod.split)

lemma clock_ok_db [simp]: "clock_ok (w\<lparr>w_db := d\<rparr>) = clock_ok w"
  by (simp add: clock_ok_def)

lemma keeps_on_db: "keeps p m \<Longrightarrow> keeps (local_inv p) (on_db m)"
  by (simp add: keeps_def local_inv_def snd_on_db)

lemma quiet_on_db:
  assumes "untouched g m" "\<And>d d'. g d' = g d \<Longrightarrow> v d' = v d" "\<And>d d'. g d' = g d \<Longrightarrow> p d' = p d"
  shows "undisturbed (local_inv p) (local_view v) (on_db m)"
  unfolding undisturbed_def
proof (intro allI impI)
  fix w assume inv: "local_inv p w"
  have "g (snd (m (w_db w))) = g (w_db w)" using assms(1) by (simp add: undisturbed_def)
  from assms(2,3) [OF this] inv
  show "local_inv p (snd (on_db m w)) \<and> v (w_db (snd (on_db m w))) = v (w_db w)"
    by (simp add: local_inv_def snd_on_db)
qed

lemma local_ports_quiet:
  "undisturbed (local_inv p) (local_view v) (run_utcnow (local_runtime lib))"
  "undisturbed (local_inv p) (local_view v) (run_uuid4 (local_runtime lib))"
  "undisturbed (local_inv p) (local_view v) (run_metric (local_runtime lib) x)"
  "undisturbed (local_inv p) (local_view v) (run_create_task (local_runtime lib) r)"
  "undisturbed (local_inv p) (local_view v) (ob_emit local_observer e)"
  "undisturbed (local_inv p) (local_view v) (local_llm a b)"
  by (simp_all add: undisturbed_def local_runtime_def local_observer_def local_llm_def local_utcnow_def
      local_uuid4_def modifyM_def local_inv_def clock_ok_def)

lemma local_now_valid:
  "local_inv p w \<Longrightarrow> run_utcnow (local_runtime lib) w = (Inr d, w') \<Longrightarrow> valid_datetime d"
  by (auto simp: local_runtime_def local_utcnow_def local_inv_def clock_ok_def)

lemma same_facts_view: "facts d' = facts d \<Longrightarrow> fact_lookup d' = fact_lookup d"
  "facts d' = facts d \<Longrightarrow> facts_inv d' = facts_inv d"
  by (simp_all add: fact_lookup_def find_fact_def facts_inv_def fact_ids_def fun_eq_iff)

lemma same_audit_view: "audit_log d' = audit_log d \<Longrightarrow> audit_entries d' = audit_entries d"
  "audit_log d' = audit_log d \<Longrightarrow> audit_inv d' = audit_inv d"
  by (simp_all add: audit_entries_def audit_inv_def)

lemmas records_quiet = quiet_on_db [where g = memory_records, OF _ same_records_view]
  and audit_quiet = quiet_on_db [where g = audit_log, OF _ same_audit_view]

lemma local_records_simps [simp]:
  "rr_save local_records = (\<lambda>r. on_db (record_save r))"
  "rr_get_by_id local_records = (\<lambda>m t. on_db (record_get_by_id m t))"
  "rr_update_lifecycle local_records = (\<lambda>m t ls a. on_db (record_update_lifecycle m t ls a))"
  "rr_update_pipeline_status local_records = (\<lambda>m t ps. on_db (record_update_pipeline_status m t ps))"
  "rr_list_by_scope local_records = (\<lambda>sc sts n. on_db (record_list_by_scope sc sts n))"
  "rr_get_by_idempotency_key local_records = (\<lambda>k t. on_db (record_get_by_idempotency_key k t))"
  by (simp_all add: local_records_def)

lemma local_facts_simps [simp]:
  "fr_save local_facts = (\<lambda>f. on_db (fact_save f))"
  "fr_close_fact local_facts = (\<lambda>old t eto new. on_db (fact_close_fact old t eto new))"
  "fr_get_active_facts local_facts = (\<lambda>en g t. on_db (fact_get_active_facts en g t))"
  by (simp_all add: local_facts_def)

lemma local_audit_simps [simp]:
  "al_append local_audit = (\<lambda>c. on_db (audit_append c))"
  "al_get_by_memory_id local_audit = (\<lambda>m t. on_db (audit_get_by_memory_id m t))"
  by (simp_all add: local_audit_def)

interpretation local_records: record_repository
  local_records "local_inv records_inv" "local_view sqlite_view" norm_record storable_record
proof (unfold_locales, unfold local_records_simps, goal_cases)
  case (1 r) then show ?case using sqlite_records.save_inv by (intro keeps_on_db) simp
next
  case (2 s r s')
  then show ?case using sqlite_records.save_ok by (auto simp: on_db_iff local_inv_def)
next
  case (3 r s e s')
  then show ?case using sqlite_records.save_error by (auto simp: on_db_iff)
next
  case (4 m t) show ?case using sqlite_records.get_by_id_inv by (intro keeps_on_db) simp
next
  case (5 m t s) show ?case using sqlite_records.get_by_id_view by (simp add: snd_on_db)
next
  case (6 s m t x s')
  then show ?case using sqlite_records.get_by_id_ok by (auto simp: on_db_iff local_inv_def)
next
  case (7 k t) show ?case using sqlite_records.get_by_key_inv by (intro keeps_on_db) simp
next
  case (8 k t s) show ?case using sqlite_records.get_by_key_view by (simp add: snd_on_db)
next
  case (9 s k t x s')
  then obtain d where "record_get_by_idempotency_key k t (w_db s) = (Inr x, d)" "records_inv (w_db s)"
    by (auto simp: on_db_iff local_inv_def)
  then show ?case using sqlite_records.get_by_key_ok [of "w_db s" k t x d] by simp
next
  case (10 m t st) show ?case using sqlite_records.status_inv by (intro keeps_on_db) simp
next
  case (11 s m t st s')
  then show ?case using sqlite_records.status_ok by (auto simp: on_db_iff local_inv_def)
next
  case (12 m t st s e s')
  then show ?case using sqlite_records.status_error by (auto simp: on_db_iff)
next
  case (13 m t ls a) show ?case using sqlite_records.lifecycle_inv by (intro keeps_on_db) simp
next
  case (14 s m t ls a s')
  then show ?case using sqlite_records.lifecycle_ok by (auto simp: on_db_iff local_inv_def)
next
  case (15 m t ls a s e s')
  then show ?case using sqlite_records.lifecycle_error by (auto simp: on_db_iff)
next
  case (16 sc sts n) show ?case using sqlite_records.list_inv by (intro keeps_on_db) simp
next
  case (17 sc sts n s) show ?case using sqlite_records.list_view by (simp add: snd_on_db)
next
  case (18 s sc sts n rs s' r)
  then obtain d where "record_list_by_scope sc sts n (w_db s) = (Inr rs, d)" "records_inv (w_db s)"
    by (auto simp: on_db_iff local_inv_def)
  then show ?case using sqlite_records.list_ok [of "w_db s" sc sts n rs d r] 18
    unfolding sqlite_record_repo_simps by blast
next
  case (19 s sc sts n rs s')
  then show ?case using sqlite_records.list_distinct by (auto simp: on_db_iff local_inv_def)
next
  case (20 n sc sts s rs s')
  then show ?case using sqlite_records.list_limit by (auto simp: on_db_iff)
qed

interpretation local_audit: audit_trail
  local_audit "local_inv audit_inv" "local_view audit_entries" norm_entry storable_entry
proof (unfold_locales, unfold local_audit_simps, goal_cases)
  case (1 e) then show ?case by (intro keeps_on_db audit_append_inv)
next
  case (2 s e s')
  then show ?case by (auto simp: on_db_iff audit_append_entries)
next
  case (3 c s x s')
  then show ?case using same_tables_audit(1) [OF audit_append_error] by (auto simp: on_db_iff)
next
  case (4 t ty m a s) show ?case by (simp add: on_db_def audit_append.simps raiseM_def)
next
  case 5 show ?case by (intro keeps_on_db) (simp add: keeps_def same_tables_audit [OF audit_get_tables])
next
  case 6 show ?case by (simp add: snd_on_db same_tables_audit [OF audit_get_tables])
next
  case (7 s m t es s')
  then obtain d where "audit_get_by_memory_id m t (w_db s) = (Inr es, d)" "audit_inv (w_db s)"
    by (auto simp: on_db_iff local_inv_def)
  then show ?case using audit_get_ok [of "w_db s" m t es d] by auto
qed

interpretation local_facts: fact_repository
  local_facts "local_inv facts_inv" "local_view fact_lookup" norm_fact storable_fact
proof (unfold_locales, unfold local_facts_simps, goal_cases)
  case (1 f) then show ?case by (intro keeps_on_db fact_save_inv)
next
  case (2 s f s') then show ?case by (auto simp: on_db_iff fact_save_lookup)
next
  case (3 f s e s')
  then show ?case using same_tables_facts(1) [OF fact_save_error] by (auto simp: on_db_iff)
next
  case 4 show ?case by (intro keeps_on_db) (simp add: keeps_def same_tables_facts [OF fact_active_tables])
next
  case 5 show ?case by (simp add: snd_on_db same_tables_facts [OF fact_active_tables])
next
  case (6 s en g t fs s')
  then obtain d where "fact_get_active_facts en g t (w_db s) = (Inr fs, d)" "facts_inv (w_db s)"
    by (auto simp: on_db_iff local_inv_def)
  then show ?case by (simp add: fact_active_ok)
next
  case (7 eto old t new) then show ?case by (intro keeps_on_db fact_close_inv)
next
  case (8 s eto old t new s')
  then obtain d where "fact_close_fact old t eto new (w_db s) = (Inr (), d)" "facts_inv (w_db s)"
      "s' = s\<lparr>w_db := d\<rparr>" by (auto simp: on_db_iff local_inv_def)
  then show ?case using fact_close_lookup [of "w_db s" eto old t new d] 8 by simp
next
  case (9 old t eto new s e s')
  then show ?case using same_tables_facts(1) [OF fact_close_error] by (auto simp: on_db_iff)
qed

interpretation local_resolution: extraction_service
  local_facts "local_inv facts_inv" "local_view fact_lookup" norm_fact storable_fact
  "local_runtime lib" local_observer for lib
proof (unfold_locales, goal_cases)
  case (1 s x s')
  then show ?case using undisturbedD [OF local_ports_quiet(1) 1] local_now_valid
    by (auto simp: local_runtime_def local_utcnow_def)
next
  case (2 e s y s') then show ?case using undisturbedD [OF local_ports_quiet(5)] by blast
qed

subsection \<open>The write service\<close>

lemma local_extraction_quiet:
  assumes "\<And>m :: (db, unit) action. untouched g m \<Longrightarrow> undisturbed (local_inv p) (local_view v) (on_db m)"
    and "\<And>m :: (db, fact list) action. untouched g m \<Longrightarrow> undisturbed (local_inv p) (local_view v) (on_db m)"
    and "table g" "\<And>d xs. g (d\<lparr>facts := xs\<rparr>) = g d"
  shows "undisturbed (local_inv p) (local_view v) (local_extraction lib policy r)"
  unfolding local_extraction_def
  by (rule extract_quiet; (unfold local_facts_simps)?)
    (intro local_ports_quiet assms facts_untouched)+

definition next_id_fresh :: "world \<Rightarrow> bool" where
  "next_id_fresh w \<longleftrightarrow> (\<forall>r \<in> set (memory_records (w_db w)). rw_id r \<noteq> w_ids w (w_next_id w))"

lemma next_id_fresh_lookup:
  "next_id_fresh w \<Longrightarrow> sqlite_lookup (w_db w) (t, w_ids w (w_next_id w)) = None"
  by (rule lookup_missing) (auto simp: next_id_fresh_def find_row_def find_None_iff)

interpretation local_writes: write_service
  local_records "local_inv records_inv" "local_view sqlite_view" norm_record storable_record
  "local_runtime lib" local_audit local_observer "map_option (local_extraction lib) policy" next_id_fresh
  for lib policy
proof (unfold_locales, goal_cases)
  case 1 show ?case by (rule local_ports_quiet)
next
  case (2 s d s') then show ?case by (rule local_now_valid)
next
  case 3 show ?case by (rule local_ports_quiet)
next
  case (4 s i s' t)
  then show ?case using next_id_fresh_lookup
    by (auto simp: local_runtime_def local_uuid4_def)
next
  case 5 show ?case by (rule local_ports_quiet)
next
  case 6 show ?case by (rule local_ports_quiet)
next
  case (7 c)
  show ?case unfolding local_audit_simps by (intro records_quiet audit_untouched) simp_all
next
  case 8 show ?case by (rule local_ports_quiet)
next
  case (9 f r)
  have "undisturbed (local_inv records_inv) (local_view sqlite_view) (local_extraction lib pol r)" for pol
    by (rule local_extraction_quiet [where g = memory_records]) (auto intro: records_quiet)
  with 9 show ?case by auto
next
  case (10 k t)
  have "memory_records (snd (record_get_by_idempotency_key k t d)) = memory_records d" for d
    using same_tables_fields(1) [OF get_by_key_tables] by simp
  then show ?case by (simp add: keeps_def snd_on_db next_id_fresh_def)
next
  case (11 r) then show ?case by (simp add: storable_record_def)
qed simp_all

interpretation local_audited: audited_write
  local_audit "local_inv audit_inv" "local_view audit_entries" norm_entry storable_entry
  "local_runtime lib" local_records local_observer "map_option (local_extraction lib) policy"
  for lib policy
proof (unfold_locales, goal_cases)
  case 1 show ?case by (rule local_ports_quiet)
next
  case (2 s d s') then show ?case by (rule local_now_valid)
next
  case 3 show ?case by (rule local_ports_quiet)
next
  case 4 show ?case by (rule local_ports_quiet)
next
  case 5 show ?case by (rule local_ports_quiet)
next
  case 6 show ?case by (rule local_ports_quiet)
next
  case 7
  show ?case unfolding local_records_simps by (intro audit_quiet records_untouched) simp_all
next
  case 8
  show ?case unfolding local_records_simps by (intro audit_quiet records_untouched) simp_all
next
  case 9
  show ?case unfolding local_records_simps by (intro audit_quiet records_untouched) simp_all
next
  case (10 f r)
  have "undisturbed (local_inv audit_inv) (local_view audit_entries) (local_extraction lib pol r)" for pol
    by (rule local_extraction_quiet [where g = audit_log]) (auto intro: audit_quiet)
  with 10 show ?case by auto
next
  case (11 en) then show ?case by (simp add: storable_entry_def)
qed

end
