(* ===== verification/Local_Services.thy ===== *)
theory Local_Services
  imports Local_Mode Lifecycle_Services
begin

text \<open>
  The services over the local adapters: what the contracts give for one process in local mode,
  and where the adapters fall short of what a service calls.
\<close>

subsection \<open>The consolidation service\<close>

lemma listed_typed:
  assumes "record_list_by_scope sc sts n d = (Inr rs, d')" "x \<in> set rs"
  shows "scope_principal_type (mr_scope x) \<noteq> None"
proof -
  have "sts \<noteq> []" using assms by (auto simp: record_list_by_scope_def returnM_def)
  from list_all2_Inr_set [OF list_by_scope_rows [OF assms(1) this]] assms(2)
  show ?thesis by (auto simp: row_to_record_def bindE_Inr_iff)
qed

lemma list_memory_records: "memory_records (snd (record_list_by_scope sc sts n d)) = memory_records d"
  by (simp add: record_list_by_scope_def bindM_def query_cases monad_simps)

interpretation local_consolidations: consolidation_service
  local_records "local_inv records_inv" "local_view sqlite_view" norm_record storable_record
  "local_runtime lib" local_audit local_observer "map_option (local_extraction lib) policy" next_id_fresh
  for lib policy
proof (unfold_locales, goal_cases)
  case (1 sc sts n)
  show ?case by (simp add: keeps_def snd_on_db next_id_fresh_def list_memory_records)
next
  case (2 e)
  show ?case by (simp add: keeps_def local_observer_def modifyM_def next_id_fresh_def)
next
  case (3 sc sts n s rs s' x)
  then show ?case using listed_typed by (auto simp: on_db_iff)
qed

definition local_consolidation ::
  "library \<Rightarrow> (string \<Rightarrow> (world, string) action) option \<Rightarrow> tenant_id \<Rightarrow> scope option \<Rightarrow> (world, int) action" where
  "local_consolidation lib llm = consolidation_execute (local_runtime lib) local_records local_audit
     local_observer local_policies llm"

definition local_session_end ::
  "library \<Rightarrow> (string \<Rightarrow> (world, string) action) option \<Rightarrow> tenant_id \<Rightarrow> session_id \<Rightarrow> scope \<Rightarrow> (world, unit) action" where
  "local_session_end lib llm = session_end local_records local_policies local_observer
     (local_consolidation lib llm)"

subsection \<open>Fixtures\<close>

text \<open>A process with an empty database, whose LLM is out of order.\<close>

definition library_a :: library where
  "library_a = \<lparr>lib_float_str = (\<lambda>_. ''1.0''),
     lib_json_loads = (\<lambda>s. if s = ''[]'' then Inr (JArr []) else Inl (ValueError ''Expecting value'')),
     lib_sha256_hex = (\<lambda>s. s)\<rparr>"

definition policy_a :: conflict_resolution_policy where
  "policy_a = default_conflict_resolution_policy ''p''"

definition world_a :: world where
  "world_a = \<lparr>w_db = empty_db (\<lambda>_. False), w_events = [], w_tasks = [], w_metrics = [],
     w_ids = nat_str, w_next_id = 0, w_clock = (\<lambda>_. t0), w_ticks = 0,
     w_llm = (\<lambda>_. Inl (ServiceError ''unavailable'')), w_llm_calls = 0\<rparr>"

lemma world_a_inv: "local_inv records_inv world_a" "local_inv audit_inv world_a" "local_inv facts_inv world_a"
  "next_id_fresh world_a"
  by (simp_all add: local_inv_def clock_ok_def world_a_def records_inv_def audit_inv_def facts_inv_def
      fact_ids_def next_id_fresh_def empty_db_def)

lemma write_a_simps [simp]:
  "wr_tenant_id write_a = ''acme''" "wr_scope write_a = alice" "wr_idempotency_key write_a = Some ''k''"
  "wr_raw_payload write_a = ''likes tea''" "wr_extract write_a" "\<not> wr_wait_for_enrichment write_a"
  "wr_sector write_a = None" "wr_payload_type write_a = CONVERSATION_TURN"
  by (simp_all add: write_a_def)

lemma empty_db_simps [simp]:
  "io_fails (empty_db f) = f" "memory_records (empty_db f) = []" "facts (empty_db f) = []"
  "audit_log (empty_db f) = []" "tenant_policies_tbl (empty_db f) = []"
  by (simp_all add: empty_db_def)

lemma world_a_simps [simp]:
  "w_db world_a = empty_db (\<lambda>_. False)" "w_tasks world_a = []"
  by (simp_all add: world_a_def)

lemma local_ports [simp]:
  "run_uuid4 (local_runtime lib) = local_uuid4" "run_utcnow (local_runtime lib) = local_utcnow"
  "run_metric (local_runtime lib) x = modifyM (\<lambda>w. w\<lparr>w_metrics := w_metrics w @ [x]\<rparr>)"
  "run_create_task (local_runtime lib) r = modifyM (\<lambda>w. w\<lparr>w_tasks := w_tasks w @ [r]\<rparr>)"
  "ob_emit local_observer e = modifyM (\<lambda>w. w\<lparr>w_events := w_events w @ [e]\<rparr>)"
  by (simp_all add: local_runtime_def local_observer_def)

lemmas evaluate = bindM_def on_db_def monad_simps local_uuid4_def local_utcnow_def

lemma local_write_a:
  "\<exists>res w. local_write library_a (Some policy_a) write_a world_a = (Inr res, w) \<and> \<not> res_idempotent res"
proof -
  have "\<exists>w. rr_get_by_idempotency_key local_records ''k'' ''acme'' world_a = (Inr None, w) \<and>
      io_fails (w_db w) = (\<lambda>_. False) \<and> audit_log (w_db w) = []"
    by (simp add: record_get_by_idempotency_key_def query_cases key_row_def evaluate)
  then obtain w where key: "rr_get_by_idempotency_key local_records ''k'' ''acme'' world_a = (Inr None, w)"
    and w: "io_fails (w_db w) = (\<lambda>_. False)" "audit_log (w_db w) = []" by blast
  have "\<exists>res w'. write_new (local_runtime library_a) local_records local_audit local_observer
      (Some (local_extraction library_a policy_a)) write_a w = (Inr res, w') \<and> \<not> res_idempotent res"
    using w by (simp add: write_new_def Let_def record_save_def exec_update_cases replace_record_row_def
        audit_append.simps db_transaction_def statement_def insert_audit_row_def start_enrichment_def evaluate)
  with key show ?thesis by (simp add: local_write_def write_execute_def bindM_def)
qed

subsection \<open>Properties of a write\<close>

lemma write_stored:
  assumes "local_inv records_inv w" "next_id_fresh w" "scope_principal_type (wr_scope request) \<noteq> None"
    and "local_write lib policy request w = (Inr res, w')" "\<not> res_idempotent res"
  shows "(\<exists>r. sqlite_lookup (w_db w') (wr_tenant_id request, res_memory_id res) = Some r \<and>
      mr_raw_payload r = wr_raw_payload request \<and> mr_lifecycle_state r = ACTIVE \<and>
      mr_sector r = infer_sector request \<and> mr_id r = res_memory_id res) \<and>
    (\<forall>t. sqlite_lookup (w_db w) (t, res_memory_id res) = None) \<and>
    (\<forall>p. p \<noteq> (wr_tenant_id request, res_memory_id res) \<longrightarrow>
      sqlite_lookup (w_db w') p = sqlite_lookup (w_db w) p) \<and> local_inv records_inv w'"
proof -
  let ?t = "wr_tenant_id request" and ?m = "res_memory_id res"
  from local_writes.write_execute_view [OF assms(1-3) assms(4) [unfolded local_write_def] assms(5)]
  obtain r where r: "r = new_record request (initial_status request (map_option (local_extraction lib) policy)) ?m (res_accepted_at res)"
    and inv: "local_inv records_inv w'" and fresh: "v_fresh r (sqlite_view (w_db w))"
    and ch: "status_changed ?t ?m (v_save r (norm_record r) (sqlite_view (w_db w))) (sqlite_view (w_db w'))"
    by auto
  have id: "mr_tenant_id r = ?t" "mr_id r = ?m" by (simp_all add: r new_record_def)
  have "v_records (v_save r (norm_record r) (sqlite_view (w_db w))) (?t, ?m) = Some (norm_record r)"
    using v_save_simps(1) [of r "norm_record r" "sqlite_view (w_db w)"] id by simp
  with ch obtain st where "sqlite_lookup (w_db w') (?t, ?m) = Some (set_status st (norm_record r))"
    by (auto elim: status_changed_record)
  moreover have "mr_raw_payload (set_status st (norm_record r)) = wr_raw_payload request \<and>
      mr_lifecycle_state (set_status st (norm_record r)) = ACTIVE \<and>
      mr_sector (set_status st (norm_record r)) = infer_sector request \<and>
      mr_id (set_status st (norm_record r)) = ?m"
    by (simp add: r norm_record_def new_record_def set_status_def)
  moreover have "sqlite_lookup (w_db w') p = sqlite_lookup (w_db w) p" if "p \<noteq> (?t, ?m)" for p
    using status_changed_keeps(3) [OF ch that] v_save_simps(2) [of p r "norm_record r"] that id by simp
  moreover have "\<forall>t. sqlite_lookup (w_db w) (t, ?m) = None" using fresh id by (simp add: v_fresh_def)
  ultimately show ?thesis using inv by blast
qed

text \<open>A write that returns a new id has stored exactly one record: under that id, which no
  tenant had used, there is now an ACTIVE record with the request's payload and the inferred sector,
  and every other record of every tenant is what it was, whatever the enrichment did.\<close>

theorem local_write_stores_one:
  assumes "local_inv records_inv w" "next_id_fresh w" "scope_principal_type (wr_scope request) \<noteq> None"
    and "local_write lib policy request w = (Inr res, w')" "\<not> res_idempotent res"
  shows "(\<exists>r. sqlite_lookup (w_db w') (wr_tenant_id request, res_memory_id res) = Some r \<and>
      mr_raw_payload r = wr_raw_payload request \<and> mr_lifecycle_state r = ACTIVE \<and>
      mr_sector r = infer_sector request \<and> mr_id r = res_memory_id res) \<and>
    (\<forall>t. sqlite_lookup (w_db w) (t, res_memory_id res) = None) \<and>
    (\<forall>p. p \<noteq> (wr_tenant_id request, res_memory_id res) \<longrightarrow>
      sqlite_lookup (w_db w') p = sqlite_lookup (w_db w) p) \<and> local_inv records_inv w'"
  by (rule write_stored [OF assms])

theorem local_write_stores_one_witness:
  "\<exists>res w r. local_write library_a (Some policy_a) write_a world_a = (Inr res, w) \<and>
    sqlite_lookup (w_db w) (''acme'', res_memory_id res) = Some r \<and> mr_raw_payload r = ''likes tea'' \<and>
    mr_sector r = EPISODIC"
proof -
  obtain res w where run: "local_write library_a (Some policy_a) write_a world_a = (Inr res, w)" "\<not> res_idempotent res"
    using local_write_a by blast
  from local_write_stores_one [OF world_a_inv(1,4) _ run] run(1) show ?thesis
    by (auto simp: infer_sector_def)
qed

lemma write_replayed:
  assumes "local_inv records_inv w" "next_id_fresh w" "scope_principal_type (wr_scope request) \<noteq> None"
    and "local_write lib policy request w = (Inr res, w1)"
    and "wr_idempotency_key request = Some k" "wr_idempotency_key again = Some k"
    and "wr_tenant_id again = wr_tenant_id request"
    and "local_inv records_inv u" "v_keys (sqlite_view (w_db u)) = v_keys (sqlite_view (w_db w1))"
    and "local_write lib' policy' again u = (Inr res', u')"
  shows "res_memory_id res' = res_memory_id res \<and> res_idempotent res' \<and>
    sqlite_view (w_db u') = sqlite_view (w_db u)"
proof -
  have "v_keys (sqlite_view (w_db w1)) (wr_tenant_id request, k) = Some (res_memory_id res)"
    using local_writes.written_key [OF assms(1-3) assms(4) [unfolded local_write_def] assms(5)] by blast
  with assms(7,9) have "v_keys (sqlite_view (w_db u)) (wr_tenant_id again, k) = Some (res_memory_id res)"
    by simp
  from local_writes.write_idempotent [OF assms(8) assms(10) [unfolded local_write_def] assms(6) this]
  show ?thesis by blast
qed

text \<open>Writes are idempotent: once a write under an idempotency key has returned, every later
  write of the tenant under the key that returns returns the first one's id, marked idempotent, and
  changes no record, as long as no other operation changed the keys in between.\<close>

theorem local_write_idempotent:
  assumes "local_inv records_inv w" "next_id_fresh w" "scope_principal_type (wr_scope request) \<noteq> None"
    and "local_write lib policy request w = (Inr res, w1)"
    and "wr_idempotency_key request = Some k" "wr_idempotency_key again = Some k"
    and "wr_tenant_id again = wr_tenant_id request"
    and "local_inv records_inv u" "v_keys (sqlite_view (w_db u)) = v_keys (sqlite_view (w_db w1))"
    and "local_write lib' policy' again u = (Inr res', u')"
  shows "res_memory_id res' = res_memory_id res \<and> res_idempotent res' \<and>
    sqlite_view (w_db u') = sqlite_view (w_db u)"
  by (rule write_replayed [OF assms])

lemma row_time_valid: "row_to_record row = Inr r \<Longrightarrow> valid_datetime (mr_recorded_at r)"
  by (auto simp: row_to_record_def result_iff str_to_dt_def fromisoformat_def split: option.splits if_splits)

lemma local_write_twice:
  "\<exists>res w res' w'. local_write library_a None write_a world_a = (Inr res, w) \<and> local_inv records_inv w \<and>
    local_write library_a None write_a w = (Inr res', w') \<and> \<not> res_idempotent res \<and>
    valid_datetime (res_accepted_at res) \<and> valid_datetime (res_accepted_at res')"
proof -
  have "\<exists>w. rr_get_by_idempotency_key local_records ''k'' ''acme'' world_a = (Inr None, w) \<and>
      io_fails (w_db w) = (\<lambda>_. False) \<and> audit_log (w_db w) = [] \<and> valid_datetime (w_clock w (w_ticks w))"
    by (simp add: record_get_by_idempotency_key_def query_cases key_row_def evaluate) (simp add: world_a_def)
  then obtain w where key: "rr_get_by_idempotency_key local_records ''k'' ''acme'' world_a = (Inr None, w)"
    and w: "io_fails (w_db w) = (\<lambda>_. False)" "audit_log (w_db w) = []" "valid_datetime (w_clock w (w_ticks w))"
    by blast
  have "\<exists>res w'. write_new (local_runtime library_a) local_records local_audit local_observer
      None write_a w = (Inr res, w') \<and> \<not> res_idempotent res \<and> io_fails (w_db w') = (\<lambda>_. False) \<and>
      valid_datetime (res_accepted_at res)"
    using w by (simp add: write_new_def Let_def record_save_def exec_update_cases replace_record_row_def
        audit_append.simps db_transaction_def statement_def insert_audit_row_def start_enrichment_def evaluate)
  then obtain res w1 where new: "local_write library_a None write_a world_a = (Inr res, w1)"
    and io: "io_fails (w_db w1) = (\<lambda>_. False)" "\<not> res_idempotent res" "valid_datetime (res_accepted_at res)"
    using key by (auto simp: local_write_def write_execute_def bindM_def)
  have inv: "local_inv records_inv w1"
    and k: "v_keys (sqlite_view (w_db w1)) (''acme'', ''k'') = Some (res_memory_id res)"
    using local_writes.written_key [OF world_a_inv(1,4) _ new [unfolded local_write_def]] by simp_all
  then obtain row r where "key_row ''k'' ''acme'' (w_db w1) = Some row" and read: "row_to_record row = Inr r"
    by (auto simp: local_inv_def records_inv_def row_ok_def row_roundtrip key_row_def find_Some_iff)
      (metis nth_mem row_roundtrip)
  then have "\<exists>u. rr_get_by_idempotency_key local_records ''k'' ''acme'' w1 = (Inr (Some r), u)"
    by (simp add: record_get_by_idempotency_key_def query_cases io evaluate key_row_def)
  then have "\<exists>res' u. local_write library_a None write_a w1 = (Inr res', u) \<and> res_accepted_at res' = mr_recorded_at r"
    by (auto simp: local_write_def write_execute_def bindM_def monad_simps)
  with new inv io row_time_valid [OF read] show ?thesis by metis
qed

theorem local_write_idempotent_witness:
  "\<exists>res w res' w'. local_write library_a None write_a world_a = (Inr res, w) \<and>
    local_write library_a None write_a w = (Inr res', w') \<and> res_memory_id res' = res_memory_id res \<and> res_idempotent res'"
proof -
  obtain res w res' w' where run: "local_write library_a None write_a world_a = (Inr res, w)"
    "local_inv records_inv w" "local_write library_a None write_a w = (Inr res', w')"
    using local_write_twice by blast
  have "res_memory_id res' = res_memory_id res \<and> res_idempotent res'"
    using local_write_idempotent [OF world_a_inv(1,4) _ run(1) _ _ _ run(2) _ run(3), of "''k''"] by simp
  with run show ?thesis by blast
qed

text \<open>C11. Every accepted write is audited: one entry is appended, a SUCCESS of operation WRITE on
  the returned id by the request's tenant at the returned time, and no entry for a replay.\<close>

theorem local_write_audited:
  assumes "local_inv audit_inv w" "local_write lib policy request w = (Inr res, w')"
  shows "if res_idempotent res then audit_entries (w_db w') = audit_entries (w_db w)
    else \<exists>e. audit_entries (w_db w') = audit_entries (w_db w) @ [e] \<and> ae_operation e = WRITE \<and>
      ae_outcome e = SUCCESS \<and> ae_memory_id e = or_none (Some (res_memory_id res)) \<and>
      ae_tenant_id e = wr_tenant_id request \<and> ae_timestamp e = as_utc (res_accepted_at res)"
  using local_audited.write_audited [OF assms(1) assms(2) [unfolded local_write_def]]
  by (auto simp: norm_entry_def write_entry_def split: if_splits)

theorem local_write_audited_witness:
  "\<exists>res w e. local_write library_a (Some policy_a) write_a world_a = (Inr res, w) \<and>
    audit_entries (w_db w) = [e] \<and> ae_operation e = WRITE"
proof -
  obtain res w where run: "local_write library_a (Some policy_a) write_a world_a = (Inr res, w)" "\<not> res_idempotent res"
    using local_write_a by blast
  from local_write_audited [OF world_a_inv(2) run(1)] run show ?thesis
    by (auto simp: audit_entries_def)
qed

subsection \<open>Properties of the enrichment\<close>

text \<open>C13. An enrichment, run by the event loop after the write has returned, touches nothing but the
  pipeline status of its own record: no lifecycle state, no payload, no idempotency key and no other
  record changes, however it ends.\<close>

theorem enrichment_changes_status_only:
  assumes "local_inv records_inv w" "w_tasks w = r # rs" "run_pending_task lib policy w = (x, w')"
  shows "lifecycles (sqlite_view (w_db w')) = lifecycles (sqlite_view (w_db w)) \<and>
    v_keys (sqlite_view (w_db w')) = v_keys (sqlite_view (w_db w)) \<and>
    (\<forall>p. p \<noteq> (mr_tenant_id r, mr_id r) \<longrightarrow> sqlite_lookup (w_db w') p = sqlite_lookup (w_db w) p) \<and>
    (\<forall>q. sqlite_lookup (w_db w) (mr_tenant_id r, mr_id r) = Some q \<longrightarrow>
      (\<exists>st. sqlite_lookup (w_db w') (mr_tenant_id r, mr_id r) = Some (set_status st q))) \<and>
    local_inv records_inv w'"
proof -
  have inv: "local_inv records_inv (w\<lparr>w_tasks := rs\<rparr>)" using assms(1) by (simp add: local_inv_def clock_ok_def)
  have quiet: "undisturbed (local_inv records_inv) (local_view sqlite_view) (local_extraction lib policy r)"
    using local_writes.extraction_quiet [where policy = "Some policy"] by simp
  obtain y where "enrich local_records local_observer (local_extraction lib policy) r (w\<lparr>w_tasks := rs\<rparr>) = (y, w')"
    using assms(2,3) by (simp add: run_pending_task_def) (metis prod.collapse)
  from local_writes.enrich_status [OF inv quiet this] have w': "local_inv records_inv w'"
    and ch: "status_changed (mr_tenant_id r) (mr_id r) (sqlite_view (w_db w)) (sqlite_view (w_db w'))" by simp_all
  have "\<exists>st. sqlite_lookup (w_db w') (mr_tenant_id r, mr_id r) = Some (set_status st q)"
    if "sqlite_lookup (w_db w) (mr_tenant_id r, mr_id r) = Some q" for q
    using status_changed_record [OF ch, of q] that by auto
  with w' status_changed_keeps(1-3) [OF ch] show ?thesis by simp
qed

definition enriching :: world where
  \<comment> \<open>a stored record whose enrichment is pending\<close>
  "enriching = world_a\<lparr>w_db := (empty_db (\<lambda>_. False))\<lparr>memory_records := [record_to_row record_a]\<rparr>,
     w_tasks := [record_a]\<rparr>"

lemma record_a_ok [simp]: "storable_record record_a" "mr_id record_a = ''m1''" "mr_tenant_id record_a = ''acme''"
  "mr_scope record_a = alice" "mr_sector record_a = EPISODIC"
  by (simp_all add: storable_record_def record_a_def)

lemma enriching_simps [simp]:
  "w_tasks enriching = [record_a]" "memory_records (w_db enriching) = [record_to_row record_a]"
  "io_fails (w_db enriching) = (\<lambda>_. False)" "w_llm enriching n = Inl (ServiceError ''unavailable'')"
  by (simp_all add: enriching_def world_a_def)

lemma enriching_inv: "local_inv records_inv enriching"
proof -
  have "row_ok (record_to_row record_a)" unfolding row_ok_def using record_a_ok(1) by blast
  then show ?thesis by (simp add: local_inv_def clock_ok_def records_inv_def enriching_def world_a_def)
qed

lemma enriching_lookup: "sqlite_lookup (w_db enriching) (''acme'', ''m1'') = Some (norm_record record_a)"
proof -
  have "rw_id (record_to_row record_a) = ''m1''" "rw_tenant_id (record_to_row record_a) = ''acme''"
    by (simp_all add: record_to_row_def Let_def)
  then show ?thesis using row_roundtrip [OF record_a_ok(1)]
    by (simp add: sqlite_lookup_def find_row_def)
qed

theorem enrichment_changes_status_only_witness:
  "lifecycles (sqlite_view (w_db (snd (run_pending_task library_a policy_a enriching)))) (''acme'', ''m1'') = Some ACTIVE"
proof -
  have "lifecycles (sqlite_view (w_db (snd (run_pending_task library_a policy_a enriching)))) =
      lifecycles (sqlite_view (w_db enriching))"
    using enrichment_changes_status_only [OF enriching_inv _ surjective_pairing] by simp
  then show ?thesis by (simp add: lifecycles_def enriching_lookup norm_record_def) (simp add: record_a_def)
qed

lemma update_status_succeeds:
  assumes "sqlite_lookup d (t, m) = Some q" "\<And>n. \<not> io_fails d n"
  shows "fst (record_update_pipeline_status m t st d) = Inr ()"
proof -
  from assms(1) obtain w where "find_row m d = Some w" "rw_tenant_id w = t"
    by (auto simp: sqlite_lookup_def split: option.splits if_splits)
  with assms(2) show ?thesis
    by (simp add: record_update_pipeline_status_def assert_belongs_to_tenant_def query_cases exec_update_cases
        bindM_def monad_simps find_row_def)
qed

text \<open>A failed extraction counts as a success: when the LLM raises, the extraction service reports
  the error in its result, the enrichment does not look at it, and the record becomes ENRICHED with
  an event for zero facts and zero entities (the documentation promises PARTIAL_ENRICHMENT_FAILED).\<close>

theorem llm_failure_marks_enriched:
  assumes "local_inv records_inv w" "w_tasks w = r # rs" "w_llm w (w_llm_calls w) = Inl e"
    and "sqlite_lookup (w_db w) (mr_tenant_id r, mr_id r) = Some q" "\<And>n. \<not> io_fails (w_db w) n"
    and "run_pending_task lib policy w = (x, w')"
  shows "sqlite_lookup (w_db w') (mr_tenant_id r, mr_id r) = Some (set_status ENRICHED q) \<and>
    w_events w' = w_events w @ [event (mr_tenant_id r) (MemoryEnrichedEvent (mr_id r) (mr_scope r) 0 0)]"
proof -
  let ?u = "w\<lparr>w_tasks := rs, w_llm_calls := Suc (w_llm_calls w)\<rparr>"
  have inv: "local_inv records_inv ?u" using assms(1) by (simp add: local_inv_def clock_ok_def)
  have "ask_llm (local_runtime lib) local_llm r (w\<lparr>w_tasks := rs\<rparr>) = (Inl e, ?u)"
    using assms(3) by (simp add: ask_llm_def local_llm_def bindM_def)
  from extract_llm_failure [OF this, of local_facts local_observer policy]
  have ext: "local_extraction lib policy r (w\<lparr>w_tasks := rs\<rparr>) = (Inr \<lparr>er_memory_record_id = mr_id r,
      er_facts = [], er_entities = [], er_error = Some (exn_str e)\<rparr>, ?u)"
    by (simp add: local_extraction_def)
  obtain d where upd: "record_update_pipeline_status (mr_id r) (mr_tenant_id r) ENRICHED (w_db w) = (Inr (), d)"
    using update_status_succeeds [OF assms(4,5), of ENRICHED] by (metis prod.collapse)
  have run: "rr_update_pipeline_status local_records (mr_id r) (mr_tenant_id r) ENRICHED ?u =
      (Inr (), ?u\<lparr>w_db := d\<rparr>)"
    using upd by (simp add: on_db_def)
  have "w' = snd (enrich local_records local_observer (local_extraction lib policy) r (w\<lparr>w_tasks := rs\<rparr>))"
    using assms(2,6) by (auto simp: run_pending_task_def)
  then have "w' = (?u\<lparr>w_db := d\<rparr>)\<lparr>w_events := w_events w @
      [event (mr_tenant_id r) (MemoryEnrichedEvent (mr_id r) (mr_scope r) 0 0)]\<rparr>"
    using ext run by (simp add: enrich_def tryM_def bindM_def modifyM_def)
  moreover have "sqlite_view d = v_update (mr_tenant_id r) (mr_id r) (set_status ENRICHED) (sqlite_view (w_db w))"
    using local_records.status_ok [OF inv run] by simp
  then have "sqlite_lookup d (mr_tenant_id r, mr_id r) = Some (set_status ENRICHED q)"
    using assms(4) by (simp flip: sqlite_view_simps(1))
  ultimately show ?thesis by simp
qed

theorem llm_failure_marks_enriched_witness:
  "map_option mr_pipeline_status (sqlite_lookup (w_db (snd (run_pending_task library_a policy_a enriching))) (''acme'', ''m1''))
    = Some ENRICHED"
  using llm_failure_marks_enriched [OF enriching_inv _ _ _ _ surjective_pairing, of record_a "[]"] enriching_lookup
  by (simp add: set_status_def)

subsection \<open>Properties of the extraction\<close>

lemma two_facts_active:
  "\<exists>fs d. fact_get_active_facts ''alice'' ''drink'' ''acme'' two_facts = (Inr fs, d) \<and> fs \<noteq> []"
proof -
  have ok: "storable_fact fact_a" "storable_fact fact_b"
    by (simp_all add: storable_fact_def fact_a_def fact_b_def)
  let ?p = "\<lambda>w. fw_tenant_id w = ''acme'' \<and> fw_subject_entity_id w = ''alice'' \<and>
    fw_predicate_group w = ''drink'' \<and> fw_lifecycle_state w = ''ACTIVE'' \<and> fw_effective_to w = None"
  have "filter ?p (facts two_facts) = [fact_to_row fact_a, fact_to_row fact_b]"
    by (simp add: two_facts_def) (simp add: fact_to_row_def fact_a_def fact_b_def)
  then have rows: "set (order_desc fw_recorded_at (filter ?p (facts two_facts))) = {fact_to_row fact_a, fact_to_row fact_b}"
    by (auto simp: order_desc_def)
  then have "mapE row_to_fact (order_desc fw_recorded_at (filter ?p (facts two_facts))) =
      Inr (map (\<lambda>w. projr (row_to_fact w)) (order_desc fw_recorded_at (filter ?p (facts two_facts))))"
    by (intro mapE_map) (auto simp: fact_row_roundtrip ok)
  moreover have "set (order_desc fw_recorded_at (filter ?p (facts two_facts))) \<noteq> {}" unfolding rows by simp
  then have "order_desc fw_recorded_at (filter ?p (facts two_facts)) \<noteq> []" by (metis set_empty)
  ultimately show ?thesis
    by (simp add: fact_get_active_facts_def query_cases bindM_def liftM_def)
qed

text \<open>C23. In local mode no contradiction is ever resolved: a candidate whose confidence reaches the
  threshold, against an active fact, makes the service close that fact in favour of the candidate
  before the candidate is stored, which the repository refuses; the extraction raises, and no fact
  changes.\<close>

theorem local_contradiction_fails:
  assumes "local_inv facts_inv w"
    and "fr_get_active_facts local_facts (fact_subject_entity_id c) (fact_predicate_group c) (fact_tenant_id c) w =
      (Inr fs, w1)" "fs \<noteq> []"
    and "crp_low_confidence_threshold policy \<le> fact_confidence c"
    and "fact_lookup (w_db w) (fact_id c) = None"
  shows "\<exists>e w'. resolve_contradiction (local_runtime lib) local_facts local_observer policy c w = (Inl e, w') \<and>
    fact_lookup (w_db w') = fact_lookup (w_db w)"
  using local_resolution.contradiction_fails [OF assms] by blast

theorem local_contradiction_fails_witness:
  "\<exists>e w'. resolve_contradiction (local_runtime library_a) local_facts local_observer policy_a
      (fact_a\<lparr>fact_id := ''f3''\<rparr>) (world_a\<lparr>w_db := two_facts\<rparr>) = (Inl e, w') \<and>
    fact_lookup (w_db w') ''f1'' = Some (norm_fact fact_a)"
proof -
  let ?w = "world_a\<lparr>w_db := two_facts\<rparr>"
  obtain fs d where get: "fact_get_active_facts ''alice'' ''drink'' ''acme'' two_facts = (Inr fs, d)" "fs \<noteq> []"
    using two_facts_active by blast
  have c: "fact_subject_entity_id (fact_a\<lparr>fact_id := ''f3''\<rparr>) = ''alice''"
    "fact_predicate_group (fact_a\<lparr>fact_id := ''f3''\<rparr>) = ''drink''"
    "fact_tenant_id (fact_a\<lparr>fact_id := ''f3''\<rparr>) = ''acme''"
    "fact_confidence (fact_a\<lparr>fact_id := ''f3''\<rparr>) = 1" by (simp_all add: fact_a_def)
  have "fact_lookup two_facts ''f3'' = None"
    by (simp add: fact_lookup_def find_fact_def two_facts_def) (simp add: fact_to_row_def fact_a_def fact_b_def)
  moreover have "local_inv facts_inv ?w"
    using two_facts_inv by (simp add: local_inv_def clock_ok_def world_a_def)
  moreover have "crp_low_confidence_threshold policy_a \<le> 1"
    by (simp add: policy_a_def default_conflict_resolution_policy_def)
  ultimately have "\<exists>e w'. resolve_contradiction (local_runtime library_a) local_facts local_observer policy_a
      (fact_a\<lparr>fact_id := ''f3''\<rparr>) ?w = (Inl e, w') \<and> fact_lookup (w_db w') = fact_lookup (w_db ?w)"
    using get c by (intro local_contradiction_fails [of _ _ fs "?w\<lparr>w_db := d\<rparr>"]) (simp_all add: on_db_def)
  then show ?thesis using two_facts_lookup(1) by auto
qed

text \<open>What an extraction returns are facts of its record and its tenant, each of them active or,
  where its confidence is below the threshold, proposed and superseding nothing; whichever facts and
  ports, the returned entities are the subjects of the facts, each once.\<close>

theorem extraction_result_spec:
  assumes "extract_facts rt llm fr ob policy record s = (Inr r, s')"
  shows "(\<forall>f \<in> set (er_facts r). fact_memory_record_id f = mr_id record \<and>
      fact_tenant_id f = mr_tenant_id record \<and> resolved_state policy f) \<and>
    set (er_entities r) = fact_subject_entity_id ` set (er_facts r) \<and> distinct (er_entities r) \<and>
    (er_error r \<noteq> None \<longrightarrow> er_facts r = [])"
proof -
  from assms obtain answer s0 where "store_extracted rt fr ob policy record answer s0 = (Inr r, s')"
    by (auto simp: extract_facts_def bindM_Inr_iff)
  then have "er_entities r = entities_of (er_facts r) \<and> (er_error r \<noteq> None \<longrightarrow> er_facts r = [])"
    by (cases answer) (auto simp: store_extracted_def result_iff monad_simps entities_of_def)
  with extracted_fact [OF assms] entities_of_facts show ?thesis by metis
qed

definition fact_json :: json where
  "fact_json = JObj [(''subject_entity_id'', JStr ''alice''), (''predicate'', JStr ''drinks''),
     (''predicate_group'', JStr ''drink''), (''object_value'', JStr ''tea''), (''confidence'', JFloat 1)]"

definition library_b :: library where
  "library_b = library_a\<lparr>lib_json_loads := (\<lambda>_. Inr (JArr [fact_json]))\<rparr>"

theorem extraction_result_spec_witness:
  "\<exists>r w. local_extraction library_b policy_a record_a (world_a\<lparr>w_llm := (\<lambda>_. Inr ''json'')\<rparr>) = (Inr r, w) \<and>
    length (er_facts r) = 1 \<and> (\<forall>f \<in> set (er_facts r). fact_memory_record_id f = ''m1'') \<and>
    set (er_entities r) = fact_subject_entity_id ` set (er_facts r)"
proof -
  have "\<exists>r w. local_extraction library_b policy_a record_a (world_a\<lparr>w_llm := (\<lambda>_. Inr ''json'')\<rparr>) = (Inr r, w) \<and>
      length (er_facts r) = 1"
    by (simp add: local_extraction_def extract_facts_def ask_llm_def tryM_def local_llm_def evaluate
        local_runtime_def library_b_def store_extracted_def extract_one_def build_candidate_def fact_json_def
        dict_get_or_def dict_get_def resolve_contradiction_def resolve_against_def fact_get_active_facts_def
        query_cases order_desc_def fact_save_def Let_def db_transaction_def statement_def replace_fact_row_def
        check_foreign_key_def fact_to_row_def with_lifecycle_def fact_ids_def local_observer_def)
  then obtain r w where run: "local_extraction library_b policy_a record_a (world_a\<lparr>w_llm := (\<lambda>_. Inr ''json'')\<rparr>) = (Inr r, w)"
    "length (er_facts r) = 1" by blast
  from extraction_result_spec [OF run(1) [unfolded local_extraction_def]] run show ?thesis by simp
qed

subsection \<open>Properties of the consolidation\<close>

text \<open>C22. A consolidation pass over a sector only ever turns ACTIVE records of its tenant into
  CONSOLIDATED ones and adds CONSOLIDATED ones of its tenant: whatever fails on the way, no record
  disappears and no other lifecycle state changes.\<close>

theorem local_sector_consolidates:
  assumes "local_inv records_inv w" "next_id_fresh w" "scope_tenant_id (run_scope t sc) = t"
    and "\<And>ask p. llm = Some ask \<Longrightarrow>
      undisturbed (local_inv records_inv) (local_view sqlite_view) (ask p) \<and> keeps next_id_fresh (ask p)"
    and "run_sector (local_runtime lib) local_records local_audit local_observer llm t sc policy se w = (x, w')"
  shows "(\<forall>p. lifecycles (sqlite_view (w_db w')) p = lifecycles (sqlite_view (w_db w)) p \<or>
      fst p = t \<and> lifecycles (sqlite_view (w_db w')) p = Some CONSOLIDATED \<and>
      (lifecycles (sqlite_view (w_db w)) p = Some ACTIVE \<or> lifecycles (sqlite_view (w_db w)) p = None)) \<and>
    local_inv records_inv w'"
proof -
  have "local_inv records_inv w' \<and> consolidates t (sqlite_view (w_db w)) (sqlite_view (w_db w'))"
    by (rule local_consolidations.sector_consolidates [OF assms(1-3) _ assms(5)]) (use assms(4) in blast)
  then show ?thesis by (simp add: consolidates_def)
qed

theorem local_sector_consolidates_witness:
  "lifecycles (sqlite_view (w_db (snd (run_sector (local_runtime library_a) local_records local_audit local_observer None
      ''acme'' (Some alice) ((default_consolidation_policy ''p'')\<lparr>cp_threshold_record_count := 1\<rparr>) EPISODIC enriching))))
    (''acme'', ''m1'') \<in> {Some ACTIVE, Some CONSOLIDATED}"
proof -
  have fresh: "next_id_fresh enriching"
    by (simp add: next_id_fresh_def)
      (simp add: enriching_def world_a_def record_to_row_def Let_def nat_str.simps digit_char_def)
  let ?run = "run_sector (local_runtime library_a) local_records local_audit local_observer None
      ''acme'' (Some alice) ((default_consolidation_policy ''p'')\<lparr>cp_threshold_record_count := 1\<rparr>) EPISODIC enriching"
  have "lifecycles (sqlite_view (w_db enriching)) (''acme'', ''m1'') = Some ACTIVE"
    by (simp add: lifecycles_def enriching_lookup norm_record_def) (simp add: record_a_def)
  moreover have "\<forall>p. lifecycles (sqlite_view (w_db (snd ?run))) p = lifecycles (sqlite_view (w_db enriching)) p \<or>
      fst p = ''acme'' \<and> lifecycles (sqlite_view (w_db (snd ?run))) p = Some CONSOLIDATED \<and>
      (lifecycles (sqlite_view (w_db enriching)) p = Some ACTIVE \<or> lifecycles (sqlite_view (w_db enriching)) p = None)"
    by (rule conjunct1 [OF local_sector_consolidates [OF enriching_inv fresh _ _ surjective_pairing]])
      (simp_all add: run_scope_def)
  ultimately show ?thesis by (metis insertCI)
qed

text \<open>In local mode no batch is ever completed: the service passes the audit log keyword
  arguments that its \<open>append\<close> does not have, so a batch raises after the consolidated record was
  saved, and a pass that returns has processed nothing.\<close>

theorem local_consolidation_completes_none:
  assumes "local_consolidation lib llm t sc w = (Inr n, w')"
  shows "n = 0 \<and> consolidate_batch (local_runtime lib) local_records local_audit local_observer llm t se batch u
    \<noteq> (Inr k, u')"
  using local_audit.consolidation_processes_none assms local_audit.batch_raises
  unfolding local_consolidation_def by metis

theorem local_consolidation_completes_none_witness:
  "\<exists>w'. local_consolidation library_a None ''acme'' None world_a = (Inr 0, w')"
proof -
  have sector: "run_sector (local_runtime library_a) local_records local_audit local_observer None ''acme'' None
      policy se w = (Inr 0, w\<lparr>w_db := (w_db w)\<lparr>io_count := Suc (io_count (w_db w))\<rparr>\<rparr>)"
    if "memory_records (w_db w) = []" "io_fails (w_db w) = (\<lambda>_. False)" "0 < cp_threshold_record_count policy"
    for policy se w
    using that by (simp add: run_sector_def record_list_by_scope_def query_cases select_by_scope_def
        sql_limit_def order_desc_def Let_def evaluate)
  have "\<exists>n w'. local_consolidation library_a None ''acme'' None world_a = (Inr n, w')"
    by (simp add: local_consolidation_def consolidation_execute_def local_policies_def policy_get_def
        policy_select_def query_cases default_tenant_policies_def default_consolidation_policy_def
        sector_members_def sector Let_def evaluate)
  then obtain n w' where run: "local_consolidation library_a None ''acme'' None world_a = (Inr n, w')" by blast
  with local_consolidation_completes_none [OF run] show ?thesis by blast
qed

definition no_policy :: "tenant_id \<Rightarrow> db \<Rightarrow> bool" where
  "no_policy t d \<longleftrightarrow> find (\<lambda>w. pw_tenant_id w = t) (tenant_policies_tbl d) = None"

definition inert :: "tenant_id \<Rightarrow> world \<Rightarrow> bool" where
  "inert t w \<longleftrightarrow> local_inv records_inv w \<and> no_policy t (w_db w)"

abbreviation inert_quiet :: "tenant_id \<Rightarrow> (world, 'a) action \<Rightarrow> bool" where
  "inert_quiet t m \<equiv> undisturbed (inert t) (local_view sqlite_view) m"

lemma inert_on_db:
  assumes "untouched memory_records m" "untouched tenant_policies_tbl m"
  shows "inert_quiet t (on_db m)"
proof -
  have "undisturbed (local_inv records_inv) (local_view sqlite_view) (on_db m)"
    by (rule records_quiet [OF assms(1)]) simp_all
  moreover have "no_policy t (w_db (snd (on_db m w))) = no_policy t (w_db w)" for w
    using assms(2) by (simp add: undisturbed_def snd_on_db no_policy_def)
  ultimately show ?thesis by (auto simp: undisturbed_def inert_def)
qed

lemma inert_ports:
  "inert_quiet t (run_metric (local_runtime lib) x)" "inert_quiet t (ob_emit local_observer e)"
  "inert_quiet t local_uuid4"
  by (simp_all add: undisturbed_def inert_def local_inv_def clock_ok_def modifyM_def local_uuid4_def no_policy_def)

lemma inert_list: "inert_quiet t (rr_list_by_scope local_records sc sts n)"
  unfolding local_records_simps record_list_by_scope_def
  by (intro inert_on_db; intro quiet_intro) simp_all

lemma default_policies:
  assumes "pr_get local_policies t w = (Inr pol, w')" "inert t w"
  shows "\<exists>i. tp_consolidation pol = default_consolidation_policy i"
  using assms by (auto simp: local_policies_def policy_get_def policy_select_def result_iff on_db_iff query_cases
      inert_def no_policy_def monad_simps default_tenant_policies_def split: if_splits)

lemma inert_policies: "inert_quiet t (pr_get local_policies u)"
proof -
  have "inert_quiet t (on_db (policy_select u))"
    unfolding policy_select_def by (intro inert_on_db; intro quiet_intro) simp_all
  then show ?thesis
    unfolding local_policies_def policy_repo.select_convs policy_get_def by (intro quiet_intro inert_ports)
qed

lemma inert_sector:
  assumes "default_limit < cp_threshold_record_count policy"
  shows "inert_quiet t (run_sector (local_runtime lib) local_records local_audit local_observer llm t sc policy se)"
  unfolding undisturbed_def
proof (intro allI impI)
  fix w assume w: "inert t w"
  obtain x w' where run: "run_sector (local_runtime lib) local_records local_audit local_observer llm t sc policy se w = (x, w')"
    by fastforce
  with local_records.sector_below_threshold [OF assms run]
    undisturbedD [OF inert_list surjective_pairing w, of "run_scope t sc" "[ACTIVE]" default_limit]
  show "inert t (snd (run_sector (local_runtime lib) local_records local_audit local_observer llm t sc policy se w)) \<and>
    sqlite_view (w_db (snd (run_sector (local_runtime lib) local_records local_audit local_observer llm t sc policy se w))) =
      sqlite_view (w_db w)"
    by simp
qed

lemma inert_consolidation: "inert_quiet t (local_consolidation lib llm t sc)"
  unfolding undisturbed_def
proof (intro allI impI)
  fix w assume w: "inert t w"
  obtain pol w1 where get: "pr_get local_policies t w = (pol, w1)" by fastforce
  from undisturbedD [OF inert_policies get w] have w1: "inert t w1" "sqlite_view (w_db w1) = sqlite_view (w_db w)" by auto
  show "inert t (snd (local_consolidation lib llm t sc w)) \<and>
    sqlite_view (w_db (snd (local_consolidation lib llm t sc w))) = sqlite_view (w_db w)"
  proof (cases pol)
    case (Inl e)
    with get w1 show ?thesis by (simp add: local_consolidation_def consolidation_execute_def bindM_def)
  next
    case (Inr p)
    from default_policies [OF get [unfolded Inr] w]
    have thr: "default_limit < cp_threshold_record_count (tp_consolidation p)"
      by (auto simp: default_consolidation_policy_def default_limit_def)
    let ?rest = "let policy = tp_consolidation p in if \<not> cp_enabled policy then returnM 0 else
      bindM (forM (cp_sectors policy) (run_sector (local_runtime lib) local_records local_audit local_observer llm t sc policy))
        (\<lambda>counts. bindM (run_metric (local_runtime lib) (Inc ''memory_consolidations_total'' [(''tenant_id'', t)] (sum_list counts))) (\<lambda>_.
        returnM (sum_list counts)))"
    have "inert_quiet t ?rest" unfolding Let_def by (intro quiet_intro inert_sector thr inert_ports)
    from undisturbedD [OF this surjective_pairing w1(1)] w1(2) get Inr show ?thesis
      by (simp add: local_consolidation_def consolidation_execute_def bindM_def)
  qed
qed

text \<open>C24. Under the default policies consolidation does nothing: the listing it counts is limited to a
  hundred records, the default threshold is five hundred, so neither a pass nor the end of a session
  ever changes a record of the tenant.\<close>

theorem default_consolidation_inert:
  assumes "local_inv records_inv w" "no_policy t (w_db w)"
  shows "sqlite_view (w_db (snd (local_consolidation lib llm t sc w))) = sqlite_view (w_db w) \<and>
    sqlite_view (w_db (snd (local_session_end lib llm t session_id sc' w))) = sqlite_view (w_db w)"
proof -
  have w: "inert t w" using assms by (simp add: inert_def)
  have "inert_quiet t (local_session_end lib llm t session_id sc')"
    unfolding local_session_end_def session_end_def Let_def
    by (intro quiet_intro inert_list inert_ports inert_policies inert_consolidation)
  from undisturbedD [OF this surjective_pairing w] undisturbedD [OF inert_consolidation surjective_pairing w]
  show ?thesis by blast
qed

theorem default_consolidation_inert_witness:
  "sqlite_view (w_db (snd (local_session_end library_a None ''acme'' ''s'' alice enriching))) =
    sqlite_view (w_db enriching)"
  using default_consolidation_inert [OF enriching_inv, of "''acme''"]
  by (simp add: no_policy_def enriching_def)

subsection \<open>Properties of decay and of explaining\<close>

text \<open>A decay pass that returns has transitioned exactly the records the repository listed as
  active and older than the cutoff, and the cutoff is exactly \<open>decay_days\<close> calendar days before
  the clock's reading, across months, years and leap days; it raises nothing when the list is empty.\<close>

theorem decay_spec:
  assumes "decay_execute rt repo audit days t s = (Inr n, s')" "0 \<le> days"
    and "\<forall>d s1. run_utcnow rt s = (Inr d, s1) \<longrightarrow> valid_datetime d"
  shows "\<exists>now s1 cutoff records s2. run_utcnow rt s = (Inr now, s1) \<and>
    rr_list_active_older_than repo t cutoff s1 = (Inr records, s2) \<and> n = int (length records) \<and>
    valid_datetime cutoff \<and> int (ordinal (year cutoff, month cutoff, day cutoff)) =
      int (ordinal (year now, month now, day now)) - days"
proof (rule decay_Inr [OF assms(1)])
  fix now s1 cutoff records s2
  assume now: "run_utcnow rt s = (Inr now, s1)" and cut: "sub_days now days = Inr cutoff"
    and "rr_list_active_older_than repo t cutoff s1 = (Inr records, s2)" "n = int (length records)"
  with sub_days_ordinal [OF assms(3) [rule_format, OF now] assms(2) cut] show ?thesis by blast
qed

theorem decay_spec_witness:
  "\<exists>s' (cutoff :: datetime). decay_execute still_runtime (sqlite_record_repo\<lparr>rr_list_active_older_than := (\<lambda>_ _. returnM [record_a]),
      rr_update_lifecycle_state := (\<lambda>_ _ _. returnM ())\<rparr>) sqlite_audit_log 1 ''acme'' (empty_db (\<lambda>_. False)) = (Inr 1, s') \<and>
    int (ordinal (year cutoff, month cutoff, day cutoff)) = int (ordinal (2024, 2, 29)) - 1"
proof -
  let ?repo = "sqlite_record_repo\<lparr>rr_list_active_older_than := (\<lambda>_ _. returnM [record_a]),
      rr_update_lifecycle_state := (\<lambda>_ _ _. returnM ())\<rparr>"
  have cut: "sub_days t0 1 = Inr (t0\<lparr>day := 28\<rparr>)"
    by (simp add: sub_days_def t0_def eval_nat_numeral)
  have "\<exists>s'. decay_execute still_runtime ?repo sqlite_audit_log 1 ''acme'' (empty_db (\<lambda>_. False)) = (Inr 1, s')"
    by (simp add: decay_execute_def decay_one_def cut sqlite_audit_log_def audit_append.simps Let_def
        db_transaction_def statement_def insert_audit_row_def bindM_def monad_simps)
  then obtain s' where run: "decay_execute still_runtime ?repo sqlite_audit_log 1 ''acme'' (empty_db (\<lambda>_. False)) = (Inr 1, s')" ..
  have now: "(year t0, month t0, day t0) = (2024, 2, 29)" by (simp add: t0_def)
  have valid: "\<forall>d s1. run_utcnow still_runtime (empty_db (\<lambda>_. False)) = (Inr d, s1) \<longrightarrow> valid_datetime d"
    by (simp add: returnM_def)
  obtain now s1 and cutoff :: datetime where "run_utcnow still_runtime (empty_db (\<lambda>_. False)) = (Inr now, s1)"
    "int (ordinal (year cutoff, month cutoff, day cutoff)) = int (ordinal (year now, month now, day now)) - 1"
    using decay_spec [OF run zero_le_one valid] by blast
  with now have "int (ordinal (year cutoff, month cutoff, day cutoff)) = int (ordinal (2024, 2, 29)) - 1"
    by (simp add: returnM_def del: ordinal.simps)
  with run show ?thesis by blast
qed

text \<open>In local mode a decay pass never decays anything: the SQLite repository has no
  \<open>list_active_older_than\<close>, so the pass raises (\<open>AttributeError\<close>, or \<open>OverflowError\<close> for a cutoff
  before the year one) and leaves the database as it was.\<close>

theorem local_decay_raises:
  "(\<exists>e. fst (decay_execute (local_runtime lib) local_records local_audit days t w) = Inl e \<and>
     (e = AttributeError ''list_active_older_than'' \<or> e = OverflowError ''date value out of range'')) \<and>
   w_db (snd (decay_execute (local_runtime lib) local_records local_audit days t w)) = w_db w"
proof (cases "sub_days (w_clock w (w_ticks w)) days")
  case (Inl e)
  then have "e = OverflowError ''date value out of range''"
    by (auto simp: sub_days_def split: option.splits)
  with Inl show ?thesis by (simp add: decay_execute_def local_utcnow_def bindM_def liftM_def)
next
  case (Inr c)
  then show ?thesis
    by (simp add: decay_execute_def local_utcnow_def bindM_def liftM_def local_records_def on_db_def
        sqlite_record_repo_def raiseM_def)
qed

lemma explain_steps:
  assumes "local_inv records_inv w" "forM steps (explain_step local_records t) w = (Inr out, w')"
  shows "out = map (\<lambda>st. st\<lparr>ts_record_available := (sqlite_lookup (w_db w) (t, ts_memory_id st) \<noteq> None)\<rparr>) steps"
  using assms
proof (induction steps arbitrary: w out)
  case Nil
  then show ?case by simp
next
  case (Cons st steps)
  then obtain y w1 rest where step: "explain_step local_records t st w = (Inr y, w1)"
    and rest: "forM steps (explain_step local_records t) w1 = (Inr rest, w')" and out: "out = y # rest"
    by (auto simp: result_iff monad_simps simp del: local_records_simps)
  from step obtain x where get: "rr_get_by_id local_records (ts_memory_id st) t w = (Inr x, w1)"
    and y: "y = st\<lparr>ts_record_available := (x \<noteq> None)\<rparr>"
    by (auto simp: explain_step_def result_iff monad_simps simp del: local_records_simps)
  have "local_inv records_inv w1" "sqlite_view (w_db w1) = sqlite_view (w_db w)"
    using keepsD_eq [OF local_records.get_by_id_inv Cons.prems(1) get] local_records.view_read(2) [OF get] by auto
  with Cons.IH [OF _ rest] local_records.get_by_id_ok [OF Cons.prems(1) get] out y show ?case
    by (simp flip: sqlite_view_simps(1))
qed

text \<open>An explanation is the stored trace with each step marked available exactly when its record
  is still stored for the tenant; an unknown trace raises \<open>MemoryNotFoundError\<close>.\<close>

theorem local_explain_spec:
  assumes "tr_get_by_trace_id traces trace_id t w = (Inr found, u)" "local_inv records_inv u"
    and "explain_execute traces local_records trace_id t w = (x, w')"
  shows "case found of None \<Rightarrow> x = Inl (MemoryNotFoundError (''Trace '' @ trace_id @ '' not found''))
    | Some trace \<Rightarrow> (\<forall>r. x = Inr r \<longrightarrow> r = trace\<lparr>rt_steps := map (\<lambda>st. st\<lparr>ts_record_available :=
        (sqlite_lookup (w_db u) (t, ts_memory_id st) \<noteq> None)\<rparr>) (rt_steps trace)\<rparr>)"
proof (cases found)
  case None
  with assms show ?thesis by (simp add: explain_execute_def bindM_def monad_simps)
next
  case (Some trace)
  have "r = trace\<lparr>rt_steps := map (\<lambda>st. st\<lparr>ts_record_available :=
        (sqlite_lookup (w_db u) (t, ts_memory_id st) \<noteq> None)\<rparr>) (rt_steps trace)\<rparr>" if "x = Inr r" for r
    using assms(1,3) Some that explain_steps [OF assms(2)]
    by (auto simp: explain_execute_def bindM_def monad_simps split: prod.splits sum.splits)
  with Some show ?thesis by simp
qed

theorem local_explain_spec_witness:
  "fst (explain_execute \<lparr>tr_save = (\<lambda>_. returnM ()), tr_get_by_trace_id = (\<lambda>_ _. returnM None)\<rparr>
      local_records ''x'' ''acme'' enriching) = Inl (MemoryNotFoundError ''Trace x not found'')"
  using local_explain_spec [where traces = "\<lparr>tr_save = (\<lambda>_. returnM ()), tr_get_by_trace_id = (\<lambda>_ _. returnM None)\<rparr>"
      and trace_id = "''x''" and t = "''acme''" and w = enriching and u = enriching and found = None,
      OF _ enriching_inv surjective_pairing]
  by (simp add: monad_simps)

end
