(* ===== verification/Sdk_Local.thy ===== *)
theory Sdk_Local
  imports Sdk_Server Local_Services
begin

text \<open>
  The whole path of a write: the SDK client, the HTTP application with its tenant middleware, the
  ingestion service, and the SQLite adapters of local mode.
\<close>

definition documented_server :: "call_framework \<Rightarrow> (json \<Rightarrow> json + write_model) \<Rightarrow> printer \<Rightarrow> bool" where
  \<comment> \<open>a framework that routes, validates, looks up handlers and prints as documented\<close>
  "documented_server fw parse printed \<longleftrightarrow> routes_writes fw parse \<and> validates_writes parse \<and>
     prints_writes printed \<and> prints_errors printed \<and>
     (\<forall>meth path params body. first_by_mro (fw_lookup (fw meth path params body)))"

definition local_client ::
  "call_framework \<Rightarrow> printer \<Rightarrow> string \<Rightarrow> library \<Rightarrow> conflict_resolution_policy option \<Rightarrow> string \<Rightarrow> world sdk_client" where
  "local_client fw printed key lib policy tenant =
     new_client (server_send fw printed key (no_use_cases\<lparr>uc_write := Some (local_write lib policy)\<rparr>)) tenant"

lemma local_client_write:
  assumes "documented_server fw parse printed" "py_strip tenant = t" "t \<noteq> []"
    and "sdk_write (local_client fw printed key lib policy tenant) (sdk_request_for m) w = (Inr a, w')"
  shows "\<exists>res. local_write lib policy (write_request_for m t) w = (Inr res, w') \<and>
    ow_memory_id a = JStr (res_memory_id res) \<and> ow_idempotent a = JBool (res_idempotent res)"
  using assms by (intro sdk_write_accepted [where fw = fw and parse = parse and printed = printed and tenant = tenant
        and ucs = "no_use_cases\<lparr>uc_write := Some (local_write lib policy)\<rparr>" and key = key])
    (simp_all add: documented_server_def local_client_def)

lemma write_request_for_simps [simp]:
  "wr_tenant_id (write_request_for m t) = t" "wr_raw_payload (write_request_for m t) = wm_raw_payload m"
  "wr_idempotency_key (write_request_for m t) = wm_idempotency_key m"
  "scope_principal_type (wr_scope (write_request_for m t)) \<noteq> None"
  by (simp_all add: write_request_for_def)

text \<open>C2. What the SDK caller is told was written is in the database: a write that returns and is not
  marked idempotent has stored one ACTIVE record, under the returned id and the tenant of the
  client's header with its blanks stripped, with the request's payload; no tenant had a record of
  that id, and no other record changed.\<close>

theorem sdk_local_write_stored:
  assumes "documented_server fw parse printed" "py_strip tenant = t" "t \<noteq> []"
    and "local_inv records_inv w" "next_id_fresh w"
    and "sdk_write (local_client fw printed key lib policy tenant) (sdk_request_for m) w = (Inr a, w')"
    and "ow_idempotent a = JBool False"
  shows "\<exists>i r. ow_memory_id a = JStr i \<and> sqlite_lookup (w_db w') (t, i) = Some r \<and>
    mr_raw_payload r = wm_raw_payload m \<and> mr_lifecycle_state r = ACTIVE \<and>
    (\<forall>t'. sqlite_lookup (w_db w) (t', i) = None) \<and>
    (\<forall>p. p \<noteq> (t, i) \<longrightarrow> sqlite_lookup (w_db w') p = sqlite_lookup (w_db w) p)"
proof -
  from local_client_write [OF assms(1-3,6)] assms(7) obtain res where
    run: "local_write lib policy (write_request_for m t) w = (Inr res, w')" "\<not> res_idempotent res"
    and id: "ow_memory_id a = JStr (res_memory_id res)" by auto
  from write_stored [OF assms(4,5) _ run] id show ?thesis by auto
qed

text \<open>C3. Retrying a write is safe from end to end: when two writes of clients of one tenant carry the
  same idempotency key and both return, the second returns the first one's id, is marked idempotent
  and changes no record, as long as nothing else changed the keys in between.\<close>

theorem sdk_local_write_idempotent:
  assumes "documented_server fw parse printed" "py_strip tenant = t" "t \<noteq> []" "py_strip tenant' = t"
    and "local_inv records_inv w" "next_id_fresh w"
    and "sdk_write (local_client fw printed key lib policy tenant) (sdk_request_for m) w = (Inr a, w1)"
    and "wm_idempotency_key m = Some k" "wm_idempotency_key m' = Some k"
    and "local_inv records_inv u" "v_keys (sqlite_view (w_db u)) = v_keys (sqlite_view (w_db w1))"
    and "sdk_write (local_client fw printed key lib' policy' tenant') (sdk_request_for m') u = (Inr b, u')"
  shows "ow_memory_id b = ow_memory_id a \<and> ow_idempotent b = JBool True \<and>
    sqlite_view (w_db u') = sqlite_view (w_db u)"
proof -
  from local_client_write [OF assms(1-3,7)] obtain res where
    first: "local_write lib policy (write_request_for m t) w = (Inr res, w1)" "ow_memory_id a = JStr (res_memory_id res)"
    by blast
  from local_client_write [OF assms(1,4,3,12)] obtain res' where
    later: "local_write lib' policy' (write_request_for m' t) u = (Inr res', u')"
      "ow_memory_id b = JStr (res_memory_id res')" "ow_idempotent b = JBool (res_idempotent res')" by blast
  from write_replayed [OF assms(5,6) _ first(1) _ _ _ assms(10,11) later(1), of k] assms(8,9) first(2) later(2,3)
  show ?thesis by simp
qed

subsection \<open>Examples\<close>

lemma documented_write_framework: "documented_server write_framework strict_parse print_body"
  by (simp add: documented_server_def write_framework_ok)

lemma write_request_for_a: "write_request_for write_model_a ''acme'' = write_a"
  by (simp add: write_request_for_def write_model_a_def default_write_model_def default_scope_model_def write_a_def
      alice_def Scope_def)

lemma local_client_returns:
  assumes "local_write lib policy write_a w = (Inr res, w')" "valid_datetime (res_accepted_at res)"
  shows "\<exists>a. sdk_write (local_client write_framework print_body [] lib policy '' acme'') (sdk_request_for write_model_a) w =
      (Inr a, w') \<and> ow_memory_id a = JStr (res_memory_id res) \<and> ow_idempotent a = JBool (res_idempotent res)"
  unfolding local_client_def
  by (subst sdk_write_returned [OF write_framework_ok(1-3) strip_acme, where use_case = "local_write lib policy"
        and result = res and s' = w']) (simp_all add: assms write_request_for_a)

lemma sdk_local_write_stored_witness:
  "\<exists>a w i r. sdk_write (local_client write_framework print_body [] library_a None '' acme'')
      (sdk_request_for write_model_a) world_a = (Inr a, w) \<and>
    ow_memory_id a = JStr i \<and> sqlite_lookup (w_db w) (''acme'', i) = Some r \<and> mr_raw_payload r = ''likes tea''"
proof -
  obtain res w where run: "local_write library_a None write_a world_a = (Inr res, w)" "\<not> res_idempotent res"
    "valid_datetime (res_accepted_at res)" using local_write_twice by blast
  from local_client_returns [OF run(1,3)] run(2) obtain a where
    a: "sdk_write (local_client write_framework print_body [] library_a None '' acme'')
      (sdk_request_for write_model_a) world_a = (Inr a, w)" "ow_idempotent a = JBool False" by auto
  have "wm_raw_payload write_model_a = ''likes tea''"
    by (simp add: write_model_a_def default_write_model_def)
  with sdk_local_write_stored [OF documented_write_framework strip_acme _ world_a_inv(1,4) a] a show ?thesis by auto
qed

lemma sdk_local_write_idempotent_witness:
  "\<exists>a w b w'. sdk_write (local_client write_framework print_body [] library_a None '' acme'')
      (sdk_request_for write_model_a) world_a = (Inr a, w) \<and>
    sdk_write (local_client write_framework print_body [] library_a None '' acme'')
      (sdk_request_for write_model_a) w = (Inr b, w') \<and>
    ow_memory_id b = ow_memory_id a \<and> ow_idempotent b = JBool True"
proof -
  obtain res w res' w' where run: "local_write library_a None write_a world_a = (Inr res, w)" "local_inv records_inv w"
    "local_write library_a None write_a w = (Inr res', w')"
    "valid_datetime (res_accepted_at res)" "valid_datetime (res_accepted_at res')" using local_write_twice by blast
  from local_client_returns [OF run(1,4)] obtain a where
    a: "sdk_write (local_client write_framework print_body [] library_a None '' acme'')
      (sdk_request_for write_model_a) world_a = (Inr a, w)" by blast
  from local_client_returns [OF run(3,5)] obtain b where
    b: "sdk_write (local_client write_framework print_body [] library_a None '' acme'')
      (sdk_request_for write_model_a) w = (Inr b, w')" by blast
  have "wm_idempotency_key write_model_a = Some ''k''" by (simp add: write_model_a_def)
  from sdk_local_write_idempotent [OF documented_write_framework strip_acme _ strip_acme world_a_inv(1,4) a
      this this run(2) refl b] a b
  show ?thesis by auto
qed

end
