(* ===== verification/Local_Returns.thy ===== *)
theory Local_Returns
  imports Sdk_Local
begin

text \<open>
  A write returns.  The other properties say what holds when an operation of local mode has
  returned; here it is proved that, over a database whose statements do not fail, a write whose
  enrichment is left to the background does return, and so does the SDK call that asked for it.
\<close>

definition healthy :: "world \<Rightarrow> bool" where
  \<comment> \<open>no statement fails, and no uuid of the process names an audit entry\<close>
  "healthy w \<longleftrightarrow> io_fails (w_db w) = (\<lambda>_. False) \<and> (\<forall>n. w_ids w n \<notin> aw_id ` set (audit_log (w_db w)))"

definition in_background :: "'s extraction_port option \<Rightarrow> write_request \<Rightarrow> bool" where
  "in_background extraction request \<longleftrightarrow> extraction = None \<or> \<not> wr_extract request \<or> \<not> wr_wait_for_enrichment request"

lemma get_by_key_returns:
  assumes "local_inv records_inv w" "healthy w"
  shows "\<exists>x d. rr_get_by_idempotency_key local_records k t w = (Inr x, w\<lparr>w_db := d\<rparr>) \<and>
    io_fails d = (\<lambda>_. False) \<and> audit_log d = audit_log (w_db w) \<and>
    (\<forall>r. x = Some r \<longrightarrow> valid_datetime (mr_recorded_at r))"
proof -
  let ?d = "(w_db w)\<lparr>io_count := Suc (io_count (w_db w))\<rparr>"
  have io: "io_fails (w_db w) = (\<lambda>_. False)" using assms(2) by (simp add: healthy_def)
  show ?thesis
  proof (cases "key_row k t ?d")
    case None
    with io show ?thesis
      by (intro exI [of _ None] exI [of _ ?d])
        (simp add: record_get_by_idempotency_key_def query_cases evaluate)
  next
    case (Some row)
    then have "row \<in> set (memory_records (w_db w))" by (auto simp: key_row_def dest!: find_in)
    with assms(1) obtain r where r: "row_to_record row = Inr r"
      by (auto simp: local_inv_def records_inv_def row_ok_def row_roundtrip)
    with io Some row_time_valid [OF r] show ?thesis
      by (intro exI [of _ "Some r"] exI [of _ ?d])
        (simp add: record_get_by_idempotency_key_def query_cases evaluate)
  qed
qed

lemma write_new_returns:
  assumes "io_fails (w_db w) = (\<lambda>_. False)" "\<forall>n. w_ids w n \<notin> aw_id ` set (audit_log (w_db w))" "clock_ok w"
    and "in_background extraction request"
  shows "\<exists>res w'. write_new (local_runtime lib) local_records local_audit local_observer extraction request w = (Inr res, w') \<and>
    valid_datetime (res_accepted_at res)"
proof -
  have start: "start_enrichment (local_runtime lib) local_records local_observer extraction request r =
      (if extraction = None \<or> \<not> wr_extract request then returnM () else run_create_task (local_runtime lib) r)" for r
    using assms(4) by (auto simp: start_enrichment_def in_background_def split: option.split)
  show ?thesis
    using assms(1-3)
    by (simp add: write_new_def Let_def start record_save_def exec_update_cases replace_record_row_def
        audit_append.simps db_transaction_def statement_def insert_audit_row_def write_entry_def entry_to_row_def
        clock_ok_def evaluate)
qed

lemma write_returns:
  assumes "local_inv records_inv w" "healthy w" "in_background (map_option (local_extraction lib) policy) request"
  shows "\<exists>res w'. local_write lib policy request w = (Inr res, w') \<and> valid_datetime (res_accepted_at res)"
proof (cases "wr_idempotency_key request")
  case None
  from assms(1,2) have "clock_ok w" "io_fails (w_db w) = (\<lambda>_. False)" "\<forall>n. w_ids w n \<notin> aw_id ` set (audit_log (w_db w))"
    by (simp_all add: local_inv_def healthy_def)
  from write_new_returns [OF this(2,3,1) assms(3), of lib] None show ?thesis
    by (simp add: local_write_def write_execute_def bindM_def monad_simps)
next
  case (Some k)
  from get_by_key_returns [OF assms(1,2)] obtain x d where
    key: "rr_get_by_idempotency_key local_records k (wr_tenant_id request) w = (Inr x, w\<lparr>w_db := d\<rparr>)"
    and d: "io_fails d = (\<lambda>_. False)" "audit_log d = audit_log (w_db w)"
      "\<forall>r. x = Some r \<longrightarrow> valid_datetime (mr_recorded_at r)" by blast
  show ?thesis
  proof (cases x)
    case None
    have "clock_ok (w\<lparr>w_db := d\<rparr>)" "\<forall>n. w_ids (w\<lparr>w_db := d\<rparr>) n \<notin> aw_id ` set (audit_log (w_db (w\<lparr>w_db := d\<rparr>)))"
      using assms(1,2) d(2) by (simp_all add: local_inv_def healthy_def)
    from write_new_returns [OF _ this(2,1) assms(3), of lib] d(1) None key Some show ?thesis
      by (simp add: local_write_def write_execute_def bindM_def)
  next
    case (Some r)
    with key d(3) \<open>wr_idempotency_key request = Some k\<close> show ?thesis
      by (simp add: local_write_def write_execute_def bindM_def monad_simps)
  qed
qed

text \<open>C1. A write returns: over a documented server and a database none of whose statements fails, the
  SDK call for a write whose enrichment does not have to be waited for ends with a result, never with
  an exception and never without an answer, whatever the tenant, the payload and the stored records are.\<close>

theorem sdk_local_write_returns:
  assumes "documented_server fw parse printed" "py_strip tenant \<noteq> []" "local_inv records_inv w" "healthy w"
    and "policy = None \<or> \<not> wm_extract m \<or> \<not> wm_wait_for_enrichment m"
  shows "\<exists>a w'. sdk_write (local_client fw printed key lib policy tenant) (sdk_request_for m) w = (Inr a, w')"
proof -
  let ?q = "write_request_for m (py_strip tenant)"
  have "in_background (map_option (local_extraction lib) policy) ?q"
    using assms(5) by (auto simp: in_background_def write_request_for_def)
  from write_returns [OF assms(3,4) this] obtain res w' where
    "local_write lib policy ?q w = (Inr res, w')" "valid_datetime (res_accepted_at res)" by blast
  with assms(1,2) show ?thesis
    unfolding local_client_def documented_server_def
    by (subst sdk_write_returned [where fw = fw and parse = parse and printed = printed and tenant = tenant
          and use_case = "local_write lib policy" and result = res and s' = w']) simp_all
qed

lemma sdk_local_write_returns_witness:
  "\<exists>a w'. sdk_write (local_client write_framework print_body [] library_a (Some policy_a) '' acme'')
     (sdk_request_for write_model_a) world_a = (Inr a, w')"
  by (rule sdk_local_write_returns [OF documented_write_framework])
    (simp_all add: world_a_inv healthy_def write_model_a_def default_write_model_def)

end
