(* ===== verification/Sdk_Tools.thy ===== *)
theory Sdk_Tools
  imports Sdk_Server
begin

text \<open>
  Two users of the SDK: the MCP tools of \<^verbatim>\<open>mcp/server.py\<close> and the graph nodes of
  \<^verbatim>\<open>integrations/langgraph.py\<close>.  A tool makes a client of its own for its tenant; \<open>send_to url\<close>
  is httpx against a base URL.  Closing the client after a tool is left out.  FastMCP has checked
  the types of a tool's arguments; the state of a graph is a dictionary of unchecked values.
\<close>

subsection \<open>MCP tools\<close>

definition default_base_url :: string where
  "default_base_url = ''http://localhost:8000''"

definition base_url :: "string option \<Rightarrow> string" where
  "base_url env = (case env of None \<Rightarrow> default_base_url | Some url \<Rightarrow> url)"

definition build_client :: "string option \<Rightarrow> (string \<Rightarrow> 's http_send) \<Rightarrow> string \<Rightarrow> 's sdk_client" where
  \<comment> \<open>\<open>env\<close>: the value of \<open>MEMORY_LAYER_BASE_URL\<close>\<close>
  "build_client env send_to tenant_id =
     new_client (send_to (base_url env)) tenant_id"

definition opt_strs :: "string list option \<Rightarrow> json" where
  "opt_strs v = (case v of None \<Rightarrow> JNull | Some xs \<Rightarrow> JArr (map JStr xs))"

definition mcp_write_memory ::
  "(string \<Rightarrow> 's sdk_client) \<Rightarrow> string \<Rightarrow> string \<Rightarrow> string \<Rightarrow> string \<Rightarrow> string option \<Rightarrow> string option \<Rightarrow>
   json_dict option \<Rightarrow> ('s, json_dict) sdk_action" where
  "mcp_write_memory client tenant_id principal_id raw_payload payload_type sector idempotency_key metadata =
     bindM (sdk_write (client tenant_id)
       ((new_write_request (JStr principal_id) (JStr raw_payload) (JStr payload_type))
         \<lparr>qw_sector := opt_json sector, qw_idempotency_key := opt_json idempotency_key,
          qw_metadata := JObj (case metadata of None \<Rightarrow> [] | Some d \<Rightarrow> d)\<rparr>)) (\<lambda>result.
     returnM [(''memory_id'', ow_memory_id result), (''pipeline_status'', ow_pipeline_status result),
       (''accepted_at'', JStr (isoformat (ow_accepted_at result))), (''idempotent'', ow_idempotent result)])"

definition mcp_search_memory ::
  "(string \<Rightarrow> 's sdk_client) \<Rightarrow> string \<Rightarrow> string \<Rightarrow> string \<Rightarrow> string \<Rightarrow> int \<Rightarrow> string list option \<Rightarrow>
   ('s, json_dict) sdk_action" where
  "mcp_search_memory client tenant_id principal_id query mode k sectors =
     bindM (sdk_search (client tenant_id) ((new_search_request (JStr principal_id) (JStr query))
         \<lparr>qs_mode := JStr mode, qs_k := JInt k, qs_sectors := opt_strs sectors\<rparr>)) (\<lambda>result.
     returnM [(''items'', JArr (map (\<lambda>i. JObj [(''memory_id'', as_memory_id i), (''content'', as_content i),
         (''sector'', as_sector i), (''score'', as_score i), (''pipeline_status'', as_pipeline_status i),
         (''lifecycle_state'', as_lifecycle_state i)]) (as_items result))),
       (''total'', as_total result), (''searched_at'', JStr (isoformat (as_searched_at result)))])"

definition mcp_recall_memory ::
  "(string \<Rightarrow> 's sdk_client) \<Rightarrow> string \<Rightarrow> string \<Rightarrow> string \<Rightarrow> int \<Rightarrow> int \<Rightarrow> string \<Rightarrow> string list option \<Rightarrow>
   ('s, json_dict) sdk_action" where
  "mcp_recall_memory client tenant_id principal_id query max_tokens max_items mode sectors =
     bindM (sdk_recall (client tenant_id) ((new_recall_request (JStr principal_id) (JStr query))
         \<lparr>ql_max_tokens := JInt max_tokens, ql_max_items := JInt max_items, ql_mode := JStr mode,
          ql_sectors := opt_strs sectors\<rparr>)) (\<lambda>result.
     returnM [(''status'', al_status result), (''items'', JArr (map (\<lambda>i. JObj [(''memory_id'', al_memory_id i),
         (''content'', al_content i), (''sector'', al_sector i), (''explanation'', al_explanation i)]) (al_items result))),
       (''total_tokens_estimate'', al_total_tokens_estimate result),
       (''recall_strategy'', al_recall_strategy result),
       (''recalled_at'', JStr (isoformat (al_recalled_at result))), (''no_match_reason'', al_no_match_reason result)])"

definition mcp_explain_trace :: "(string \<Rightarrow> 's sdk_client) \<Rightarrow> string \<Rightarrow> string \<Rightarrow> ('s, json_dict) sdk_action" where
  "mcp_explain_trace client tenant_id trace_id =
     bindM (sdk_explain (client tenant_id) trace_id) (\<lambda>trace.
     returnM [(''trace_id'', at_trace_id trace), (''tenant_id'', at_tenant_id trace), (''query'', at_query trace),
       (''mode'', at_mode trace), (''steps'', JArr (map (\<lambda>x. JObj [(''memory_id'', at_memory_id x),
         (''rank'', at_rank x), (''score'', at_score x), (''explanation'', at_explanation x)]) (at_steps trace))),
       (''created_at'', JStr (isoformat (at_created_at trace)))])"

definition mcp_get_memory :: "(string \<Rightarrow> 's sdk_client) \<Rightarrow> string \<Rightarrow> string \<Rightarrow> ('s, json_dict) sdk_action" where
  "mcp_get_memory client tenant_id memory_id = sdk_get_memory (client tenant_id) memory_id"

definition mcp_delete_memory :: "(string \<Rightarrow> 's sdk_client) \<Rightarrow> string \<Rightarrow> string \<Rightarrow> string \<Rightarrow> ('s, json_dict) sdk_action" where
  "mcp_delete_memory client tenant_id memory_id actor =
     bindM (sdk_delete_memory (client tenant_id) memory_id actor) (\<lambda>_.
     returnM [(''deleted'', JBool True), (''memory_id'', JStr memory_id)])"

definition mcp_end_session :: "(string \<Rightarrow> 's sdk_client) \<Rightarrow> string \<Rightarrow> string \<Rightarrow> string \<Rightarrow> string \<Rightarrow> ('s, json_dict) sdk_action" where
  "mcp_end_session client tenant_id session_id principal_id principal_type =
     bindM (sdk_end_session (client tenant_id) session_id
       [(''principal_id'', JStr principal_id), (''principal_type'', JStr principal_type)]) (\<lambda>_.
     returnM [(''accepted'', JBool True), (''session_id'', JStr session_id)])"

subsection \<open>LangGraph nodes\<close>

definition quote_char :: char where
  "quote_char = CHR 0x27"

definition require_key :: "json_dict \<Rightarrow> string \<Rightarrow> exn + json" where
  "require_key st key = (let v = dict_get_or st key JNull in
     if v = JNull then Inl (ValueError (''Memory node requires state key '' @ [quote_char] @ key @ [quote_char] @
       '' but it is missing or None. Present keys: '' @ json_repr (\<lambda>_. []) (JArr (map (JStr \<circ> fst) st))))
     else Inr v)"

definition write_node :: "'s sdk_client \<Rightarrow> json_dict \<Rightarrow> ('s, sdk_write_response) sdk_action" where
  \<comment> \<open>the value under the one key of the returned dictionary, here and in the other nodes\<close>
  "write_node client st =
     bindM (pureM (require_key st ''principal_id'')) (\<lambda>principal_id.
     bindM (pureM (require_key st ''raw_payload'')) (\<lambda>raw_payload.
     bindM (pureM (require_key st ''payload_type'')) (\<lambda>payload_type.
     let metadata = dict_get_or st ''metadata'' JNull in
     sdk_write client ((new_write_request principal_id raw_payload payload_type)
       \<lparr>qw_sector := dict_get_or st ''sector'' JNull,
        qw_metadata := (if py_bool metadata then metadata else JObj [])\<rparr>))))"

definition search_node :: "'s sdk_client \<Rightarrow> json_dict \<Rightarrow> ('s, sdk_search_response) sdk_action" where
  "search_node client st =
     bindM (pureM (require_key st ''principal_id'')) (\<lambda>principal_id.
     bindM (pureM (require_key st ''search_query'')) (\<lambda>search_query.
     sdk_search client ((new_search_request principal_id search_query)
       \<lparr>qs_mode := dict_get_or st ''search_mode'' (JStr ''HYBRID''), qs_k := dict_get_or st ''search_k'' (JInt 10)\<rparr>)))"

definition recall_node :: "'s sdk_client \<Rightarrow> json_dict \<Rightarrow> ('s, sdk_recall_response) sdk_action" where
  "recall_node client st =
     bindM (pureM (require_key st ''principal_id'')) (\<lambda>principal_id.
     bindM (pureM (require_key st ''recall_query'')) (\<lambda>recall_query.
     sdk_recall client ((new_recall_request principal_id recall_query)
       \<lparr>ql_max_tokens := dict_get_or st ''max_tokens'' (JInt 4000), ql_max_items := dict_get_or st ''max_items'' (JInt 10)\<rparr>)))"

subsection \<open>Properties\<close>

text \<open>What the operations do is a function of what is sent for the client's tenant.\<close>

definition sends_alike :: "string \<Rightarrow> 's sdk_client \<Rightarrow> 's sdk_client \<Rightarrow> bool" where
  "sends_alike t c d \<longleftrightarrow> cl_tenant_id c = t \<and> cl_tenant_id d = t \<and> cl_send c t = cl_send d t"

lemma sends_alike_request: "sends_alike t c d \<Longrightarrow> sdk_request c = sdk_request d"
  by (simp add: sends_alike_def sdk_request_def fun_eq_iff)

lemma sends_alike_build:
  "send (base_url env) t = send' (base_url env) t \<Longrightarrow> sends_alike t (build_client env send t) (build_client env send' t)"
  by (simp add: sends_alike_def build_client_def new_client_def)

lemmas sdk_operations = sdk_write_def sdk_search_def sdk_recall_def sdk_get_memory_def sdk_delete_memory_def
  sdk_explain_def sdk_end_session_def sdk_json_def

lemmas mcp_tools = mcp_write_memory_def mcp_search_memory_def mcp_recall_memory_def mcp_explain_trace_def
  mcp_get_memory_def mcp_delete_memory_def mcp_end_session_def

text \<open>C33. A tool acts only as its tenant: what each MCP tool does depends on the network only through
  the requests that carry the tenant header of its argument, sent to the configured base URL; whatever
  would be answered to any other tenant or elsewhere makes no difference.\<close>

theorem mcp_tenant_isolation:
  assumes "send (base_url env) t = send' (base_url env) t"
  shows "mcp_write_memory (build_client env send) t = mcp_write_memory (build_client env send') t \<and>
    mcp_search_memory (build_client env send) t = mcp_search_memory (build_client env send') t \<and>
    mcp_recall_memory (build_client env send) t = mcp_recall_memory (build_client env send') t \<and>
    mcp_explain_trace (build_client env send) t = mcp_explain_trace (build_client env send') t \<and>
    mcp_get_memory (build_client env send) t = mcp_get_memory (build_client env send') t \<and>
    mcp_delete_memory (build_client env send) t = mcp_delete_memory (build_client env send') t \<and>
    mcp_end_session (build_client env send) t = mcp_end_session (build_client env send') t"
  using sends_alike_request [OF sends_alike_build [where send = send and send' = send', OF assms]]
  by (intro conjI ext) (simp_all only: mcp_tools sdk_operations)

definition answering :: "string \<Rightarrow> string list http_send" where
  \<comment> \<open>a network that serves one tenant and records whom it served\<close>
  "answering tenant t meth path params body s =
     (if t = tenant then (Inr \<lparr>hs_status = 204, hs_text = [], hs_json = Inl (ValueError ''Expecting value'')\<rparr>, s @ [t])
      else (Inl (HTTP_Error ''connection refused''), s))"

lemma mcp_tenant_isolation_witness:
  "mcp_delete_memory (build_client None (\<lambda>_. answering ''acme'')) ''acme'' ''m1'' ''mcp'' [] =
   mcp_delete_memory (build_client None (\<lambda>u t. if u = default_base_url \<and> t = ''acme'' then answering ''acme'' t
      else answering ''globex'' t)) ''acme'' ''m1'' ''mcp'' []"
  using mcp_tenant_isolation [where env = None and t = "''acme''" and send = "\<lambda>_. answering ''acme''"
      and send' = "\<lambda>u t. if u = default_base_url \<and> t = ''acme'' then answering ''acme'' t else answering ''globex'' t"]
  by (simp add: base_url_def)

text \<open>A graph node asks before it sends: when the state lacks a required key, or has None there,
  the write node raises a \<open>ValueError\<close> and no request is made, whatever the network is; with
  the three of them it is the client's write of the given values, an absent sector left out and absent
  metadata empty.\<close>

theorem write_node_spec:
  "(dict_get_or st ''principal_id'' JNull = JNull \<or> dict_get_or st ''raw_payload'' JNull = JNull \<or>
      dict_get_or st ''payload_type'' JNull = JNull \<longrightarrow>
      (\<exists>msg. write_node client st s = (Inl (Sdk_Raised (ValueError msg)), s))) \<and>
   (map_of st ''principal_id'' = Some p \<and> map_of st ''raw_payload'' = Some r \<and> map_of st ''payload_type'' = Some y \<and>
      JNull \<notin> {p, r, y} \<and> map_of st ''sector'' = None \<and> map_of st ''metadata'' = None \<longrightarrow>
      write_node client st s = sdk_write client (new_write_request p r y) s)"
  by (auto simp: write_node_def pureM_def require_key_def Let_def dict_get_or_def dict_get_def monad_simps
      new_write_request_def py_bool_def split: option.splits)

lemma write_node_spec_witness:
  "\<exists>msg. write_node (new_client (answering ''acme'') ''acme'') [(''principal_id'', JStr ''alice''), (''raw_payload'', JNull)] [] =
     (Inl (Sdk_Raised (ValueError msg)), [])"
  using write_node_spec [of "[(''principal_id'', JStr ''alice''), (''raw_payload'', JNull)]"
      "new_client (answering ''acme'') ''acme''" "[]"]
  by (simp add: dict_get_or_def dict_get_def)

end
