(* ===== verification/Sdk_Queries.thy ===== *)
theory Sdk_Queries
  imports Sdk_Server
begin

text \<open>
  Searches and recalls of the SDK client against the HTTP application, as \<open>Sdk_Server\<close> has it for
  writes: the declared types of the two request schemas, the JSON of the two response schemas, and
  what the caller gets back.  The time text of the serialiser (\<open>shown\<close>) is an argument.
\<close>

subsection \<open>The declared types\<close>

fun json_int :: "json \<Rightarrow> int option" where
  "json_int (JInt i) = Some i"
| "json_int _ = None"

fun json_array :: "(json \<Rightarrow> 'a option) \<Rightarrow> json \<Rightarrow> 'a list option" where
  "json_array f (JArr js) = those (map f js)"
| "json_array f _ = None"

definition search_model_of :: "json \<Rightarrow> search_model option" where
  \<comment> \<open>an object without a temporal filter, which the client never sends\<close>
  "search_model_of j =
     Option.bind (json_object j) (\<lambda>d.
     Option.bind (only_keys d [''scope'', ''query'', ''mode'', ''sectors'', ''lifecycle_states'', ''k'']) (\<lambda>_.
     Option.bind (field d ''scope'' scope_model_of) (\<lambda>sc.
     Option.bind (field d ''query'' json_str) (\<lambda>query.
     Option.bind (field_or d ''mode'' (json_enum (enum_of ''SearchMode'' mode_str mode_members)) MODE_HYBRID) (\<lambda>mode.
     Option.bind (field_or d ''sectors'' (nullable (json_array (json_enum sector_of))) None) (\<lambda>sectors.
     Option.bind (field_or d ''lifecycle_states'' (json_array (json_enum lifecycle_of)) [ACTIVE]) (\<lambda>states.
     Option.bind (field_or d ''k'' json_int 10) (\<lambda>k.
     Some \<lparr>hm_scope = sc, hm_query = query, hm_mode = mode, hm_sectors = sectors,
       hm_lifecycle_states = states, hm_temporal_filter = None, hm_k = k\<rparr>))))))))"

definition recall_model_of :: "json \<Rightarrow> recall_model option" where
  "recall_model_of j =
     Option.bind (json_object j) (\<lambda>d.
     Option.bind (only_keys d [''scope'', ''query'', ''max_tokens'', ''max_items'', ''sectors'', ''include_facts'',
       ''include_verbatim'', ''mode'']) (\<lambda>_.
     Option.bind (field d ''scope'' scope_model_of) (\<lambda>sc.
     Option.bind (field d ''query'' json_str) (\<lambda>query.
     Option.bind (field_or d ''max_tokens'' (nullable json_int) (Some 4000)) (\<lambda>max_tokens.
     Option.bind (field_or d ''max_items'' json_int 10) (\<lambda>max_items.
     Option.bind (field_or d ''sectors'' (nullable (json_array (json_enum sector_of))) None) (\<lambda>sectors.
     Option.bind (field_or d ''include_facts'' json_bool True) (\<lambda>include_facts.
     Option.bind (field_or d ''include_verbatim'' json_bool True) (\<lambda>include_verbatim.
     Option.bind (field_or d ''mode'' (json_enum (enum_of ''SearchMode'' mode_str mode_members)) MODE_HYBRID) (\<lambda>mode.
     Some \<lparr>lm_scope = sc, lm_query = query, lm_max_tokens = max_tokens, lm_max_items = max_items,
       lm_sectors = sectors, lm_include_facts = include_facts, lm_include_verbatim = include_verbatim,
       lm_mode = mode\<rparr>))))))))))"

text \<open>The SDK requests with the values of a model.\<close>

definition opt_array :: "('a \<Rightarrow> string) \<Rightarrow> 'a list option \<Rightarrow> json" where
  "opt_array f v = (case v of None \<Rightarrow> JNull | Some xs \<Rightarrow> JArr (map (JStr \<circ> f) xs))"

definition sdk_search_for :: "search_model \<Rightarrow> sdk_search_request" where
  "sdk_search_for m = (let sc = hm_scope m in
     \<lparr>sq_principal_id = JStr (sm_principal_id sc), sq_principal_type = JStr (principal_str (sm_principal_type sc)),
      sq_workspace_id = opt_json (sm_workspace_id sc), sq_session_id = opt_json (sm_session_id sc),
      sq_run_id = opt_json (sm_run_id sc), qs_query = JStr (hm_query m), qs_mode = JStr (mode_str (hm_mode m)),
      qs_sectors = opt_array sector_str (hm_sectors m),
      qs_lifecycle_states = JArr (map (JStr \<circ> lifecycle_str) (hm_lifecycle_states m)), qs_k = JInt (hm_k m)\<rparr>)"

definition sdk_recall_for :: "recall_model \<Rightarrow> sdk_recall_request" where
  "sdk_recall_for m = (let sc = lm_scope m in
     \<lparr>sq_principal_id = JStr (sm_principal_id sc), sq_principal_type = JStr (principal_str (sm_principal_type sc)),
      sq_workspace_id = opt_json (sm_workspace_id sc), sq_session_id = opt_json (sm_session_id sc),
      sq_run_id = opt_json (sm_run_id sc), ql_query = JStr (lm_query m),
      ql_max_tokens = (case lm_max_tokens m of None \<Rightarrow> JNull | Some b \<Rightarrow> JInt b),
      ql_max_items = JInt (lm_max_items m), ql_sectors = opt_array sector_str (lm_sectors m),
      ql_include_facts = JBool (lm_include_facts m), ql_include_verbatim = JBool (lm_include_verbatim m),
      ql_mode = JStr (mode_str (lm_mode m))\<rparr>)"

lemma those_members: "(\<And>x. x \<in> set xs \<Longrightarrow> f (g x) = Some x) \<Longrightarrow> those (map f (map g xs)) = Some xs"
  by (induction xs) simp_all

lemma enum_array [simp]:
  "json_array (json_enum sector_of) (JArr (map (JStr \<circ> sector_str) ss)) = Some ss"
  "json_array (json_enum lifecycle_of) (JArr (map (JStr \<circ> lifecycle_str) ls)) = Some ls"
  by (simp_all add: json_enum_def those_members del: map_map)

lemma scope_model_of_fields:
  assumes "sq_principal_id req = JStr (sm_principal_id sc)"
    "sq_principal_type req = JStr (principal_str (sm_principal_type sc))"
    "sq_workspace_id req = opt_json (sm_workspace_id sc)" "sq_session_id req = opt_json (sm_session_id sc)"
    "sq_run_id req = opt_json (sm_run_id sc)"
  shows "scope_model_of (scope_payload req) = Some sc"
proof -
  obtain p pt ws ses run where sc: "sc = \<lparr>sm_principal_id = p, sm_principal_type = pt,
     sm_workspace_id = ws, sm_session_id = ses, sm_run_id = run\<rparr>"
    by (metis scope_model.surjective old.unit.exhaust)
  show ?thesis using assms
    by (cases ws; cases ses; cases run) (simp_all add: scope_model_of_def scope_payload_def opt_json_def sc field_readers)
qed

lemma search_model_of_payload:
  assumes "hm_temporal_filter m = None"
  shows "search_model_of (search_payload (sdk_search_for m)) = Some m"
proof -
  have sc: "scope_model_of (scope_payload (sdk_search_for m)) = Some (hm_scope m)"
    by (rule scope_model_of_fields) (simp_all add: sdk_search_for_def Let_def)
  have fields: "qs_query (sdk_search_for m) = JStr (hm_query m)"
    "qs_mode (sdk_search_for m) = JStr (mode_str (hm_mode m))"
    "qs_sectors (sdk_search_for m) = opt_array sector_str (hm_sectors m)"
    "qs_lifecycle_states (sdk_search_for m) = JArr (map (JStr \<circ> lifecycle_str) (hm_lifecycle_states m))"
    "qs_k (sdk_search_for m) = JInt (hm_k m)"
    by (simp_all add: sdk_search_for_def Let_def)
  show ?thesis using assms
    by (cases "hm_sectors m")
      (simp_all add: search_model_of_def search_payload_def opt_entry_def opt_array_def fields field_readers sc
        del: json_array.simps)
qed

lemma recall_model_of_payload: "recall_model_of (recall_payload (sdk_recall_for m)) = Some m"
proof -
  have sc: "scope_model_of (scope_payload (sdk_recall_for m)) = Some (lm_scope m)"
    by (rule scope_model_of_fields) (simp_all add: sdk_recall_for_def Let_def)
  have fields: "ql_query (sdk_recall_for m) = JStr (lm_query m)"
    "ql_max_tokens (sdk_recall_for m) = (case lm_max_tokens m of None \<Rightarrow> JNull | Some b \<Rightarrow> JInt b)"
    "ql_max_items (sdk_recall_for m) = JInt (lm_max_items m)"
    "ql_sectors (sdk_recall_for m) = opt_array sector_str (lm_sectors m)"
    "ql_include_facts (sdk_recall_for m) = JBool (lm_include_facts m)"
    "ql_include_verbatim (sdk_recall_for m) = JBool (lm_include_verbatim m)"
    "ql_mode (sdk_recall_for m) = JStr (mode_str (lm_mode m))"
    by (simp_all add: sdk_recall_for_def Let_def)
  show ?thesis
    by (cases "lm_sectors m"; cases "lm_max_tokens m")
      (simp_all add: recall_model_of_def recall_payload_def opt_entry_def opt_array_def fields field_readers sc
        del: json_array.simps)
qed

subsection \<open>The JSON of the responses\<close>

fun recall_status_str :: "recall_status \<Rightarrow> string" where
  "recall_status_str MATCH = ''MATCH''"
| "recall_status_str PARTIAL_MATCH = ''PARTIAL_MATCH''"
| "recall_status_str NO_MATCH = ''NO_MATCH''"

definition opt_time :: "(datetime \<Rightarrow> string) \<Rightarrow> datetime option \<Rightarrow> json" where
  "opt_time shown d = opt_json (map_option shown d)"

definition search_item_json :: "(datetime \<Rightarrow> string) \<Rightarrow> search_item_model \<Rightarrow> json" where
  "search_item_json shown i = JObj
     [(''memory_id'', JStr (im_memory_id i)), (''content'', JStr (im_content i)),
      (''sector'', JStr (sector_str (im_sector i))), (''score'', JFloat (im_score i)),
      (''pipeline_status'', JStr (pipeline_str (im_pipeline_status i))),
      (''lifecycle_state'', JStr (lifecycle_str (im_lifecycle_state i))),
      (''signals'', JObj (im_signals i)), (''effective_from'', opt_time shown (im_effective_from i))]"

definition search_json :: "(datetime \<Rightarrow> string) \<Rightarrow> search_response \<Rightarrow> json" where
  "search_json shown w = JObj
     [(''items'', JArr (map (search_item_json shown) (sp_items w))), (''total'', JInt (sp_total w)),
      (''searched_at'', JStr (shown (sp_searched_at w)))]"

definition recall_item_json :: "(datetime \<Rightarrow> string) \<Rightarrow> recall_item_model \<Rightarrow> json" where
  "recall_item_json shown i = JObj
     [(''memory_id'', JStr (rm_memory_id i)), (''content'', JStr (rm_content i)),
      (''sector'', JStr (sector_str (rm_sector i))), (''lifecycle_state'', JStr (lifecycle_str (rm_lifecycle_state i))),
      (''pipeline_status'', JStr (pipeline_str (rm_pipeline_status i))),
      (''effective_from'', opt_time shown (rm_effective_from i)), (''signals'', JObj (rm_signals i)),
      (''explanation'', JStr (rm_explanation i)), (''trace_id'', opt_json (rm_trace_id i))]"

definition recall_json :: "(datetime \<Rightarrow> string) \<Rightarrow> recall_response \<Rightarrow> json" where
  "recall_json shown w = JObj
     [(''status'', JStr (recall_status_str (rp_status w))), (''no_match_reason'', opt_json (rp_no_match_reason w)),
      (''items'', JArr (map (recall_item_json shown) (rp_items w))),
      (''total_tokens_estimate'', JInt (rp_total_tokens_estimate w)),
      (''recall_strategy'', JStr (rp_recall_strategy w)), (''recalled_at'', JStr (shown (rp_recalled_at w)))]"

text \<open>What the two documented halves of pydantic have to do with it: the declared types are accepted
  as they are, the response models are printed field by field, and a time is read back.\<close>

definition routes_queries ::
  "call_framework \<Rightarrow> (json \<Rightarrow> json + search_model) \<Rightarrow> (json \<Rightarrow> json + recall_model) \<Rightarrow> bool" where
  "routes_queries fw parse_search parse_recall \<longleftrightarrow>
     (\<forall>j r. req_path r = ''/v1/memories:search'' \<longrightarrow>
        fw_router (fw ''POST'' ''/v1/memories:search'' [] (Some j)) r = Inr (Search_Memories (parse_search j))) \<and>
     (\<forall>j r. req_path r = ''/v1/memories:recall'' \<longrightarrow>
        fw_router (fw ''POST'' ''/v1/memories:recall'' [] (Some j)) r = Inr (Recall_Memories (parse_recall j)))"

definition validates_queries :: "(json \<Rightarrow> json + search_model) \<Rightarrow> (json \<Rightarrow> json + recall_model) \<Rightarrow> bool" where
  "validates_queries parse_search parse_recall \<longleftrightarrow>
     (\<forall>j m. search_model_of j = Some m \<longrightarrow> parse_search j = Inr m) \<and>
     (\<forall>j m. recall_model_of j = Some m \<longrightarrow> parse_recall j = Inr m)"

definition prints_queries :: "printer \<Rightarrow> (datetime \<Rightarrow> string) \<Rightarrow> bool" where
  "prints_queries printed shown \<longleftrightarrow>
     (\<forall>w. snd (printed (Search_Body w)) = Inr (search_json shown w)) \<and>
     (\<forall>w. snd (printed (Recall_Body w)) = Inr (recall_json shown w)) \<and>
     (\<forall>d. valid_datetime d \<longrightarrow> fromisoformat (shown d) = Inr d)"

subsection \<open>What the caller gets\<close>

definition search_request_for :: "search_model \<Rightarrow> tenant_id \<Rightarrow> search_request" where
  "search_request_for m t = \<lparr>sr_tenant_id = t, sr_scope = scope_from_model t (hm_scope m), sr_query = hm_query m,
     sr_mode = hm_mode m, sr_sectors = hm_sectors m, sr_lifecycle_states = hm_lifecycle_states m,
     sr_temporal_filter = map_option (\<lambda>tf. \<lparr>as_of = tm_as_of tf, from_dt = tm_from_dt tf,
       until_dt = tm_until_dt tf\<rparr>) (hm_temporal_filter m), sr_k = hm_k m\<rparr>"

definition recall_request_for :: "recall_model \<Rightarrow> tenant_id \<Rightarrow> recall_request" where
  "recall_request_for m t = \<lparr>rq_tenant_id = t, rq_scope = scope_from_model t (lm_scope m), rq_query = lm_query m,
     rq_max_tokens = lm_max_tokens m, rq_max_items = lm_max_items m, rq_sectors = lm_sectors m,
     rq_include_facts = lm_include_facts m, rq_include_verbatim = lm_include_verbatim m, rq_mode = lm_mode m\<rparr>"

definition search_answer_item :: "search_result_item \<Rightarrow> sdk_search_item" where
  "search_answer_item i = \<lparr>as_memory_id = JStr (si_memory_id i), as_content = JStr (si_content i),
     as_sector = JStr (sector_str (si_sector i)), as_score = JFloat (si_score i),
     as_pipeline_status = JStr (pipeline_str (si_pipeline_status i)),
     as_lifecycle_state = JStr (lifecycle_str (si_lifecycle_state i)), as_signals = JObj (si_signals i),
     as_effective_from = si_effective_from i\<rparr>"

definition search_answer :: "search_result \<Rightarrow> sdk_search_response" where
  "search_answer r = \<lparr>as_items = map search_answer_item (ss_items r), as_total = JInt (ss_total r),
     as_searched_at = ss_searched_at r\<rparr>"

definition recall_answer_item :: "recall_item \<Rightarrow> sdk_recall_item" where
  "recall_answer_item i = \<lparr>al_memory_id = JStr (ri_memory_id i), al_content = JStr (ri_content i),
     al_sector = JStr (sector_str (ri_sector i)), al_lifecycle_state = JStr (lifecycle_str (ri_lifecycle_state i)),
     al_pipeline_status = JStr (pipeline_str (ri_pipeline_status i)), al_effective_from = ri_effective_from i,
     al_signals = JObj (ri_signals i), al_explanation = JStr (ri_explanation i),
     al_trace_id = opt_json (or_none (ri_trace_id i))\<rparr>"

definition recall_answer :: "recall_result \<Rightarrow> sdk_recall_response" where
  "recall_answer r = \<lparr>al_status = JStr (recall_status_str (rl_status r)),
     al_items = map recall_answer_item (rl_items r), al_total_tokens_estimate = JInt (rl_total_tokens_estimate r),
     al_recall_strategy = JStr (rl_recall_strategy r), al_recalled_at = rl_recalled_at r,
     al_no_match_reason = opt_json (rl_no_match_reason r)\<rparr>"

text \<open>An endpoint behind the tenant middleware, called with the client's header.\<close>

lemma tenant_call:
  assumes "py_strip tenant = t" "t \<noteq> []" "\<not> bypasses_tenant path"
    and "fw_router fw ((http_request path tenant)\<lparr>state_tenant_id := Some t\<rparr>) = Inr call"
    and "run_endpoint key ucs ((http_request path tenant)\<lparr>state_tenant_id := Some t\<rparr>) call s = (r, s')"
  shows "app fw key ucs (http_request path tenant) s =
    (case r of Inl e \<Rightarrow> handle (fw_lookup fw) (fw_http_exception fw) e | Inr resp \<Rightarrow> resp, s')"
proof -
  have "resolve_tenant_id (http_request path tenant) = Inr t"
    using assms(1,2) by (auto simp: resolve_Inr_iff http_request_def)
  moreover have "\<not> bypasses_tenant (req_path (http_request path tenant))"
    using assms(3) by (simp add: http_request_def)
  ultimately show ?thesis using assms(4,5) by (cases r) (simp_all add: app_tenant endpoints_def del: run_endpoint.simps)
qed

lemma tenant_paths [simp]:
  "\<not> bypasses_tenant ''/v1/memories:search''" "\<not> bypasses_tenant ''/v1/memories:recall''"
  by (simp_all add: bypasses_tenant_def)

lemma search_call:
  assumes "routes_queries fw ps pr" "validates_queries ps pr" "hm_temporal_filter m = None"
    and "py_strip tenant = t" "t \<noteq> []" "uc_search ucs = Some use_case"
    and call: "use_case (search_request_for m t) s = (r, s')"
    and fw: "fw' = fw ''POST'' ''/v1/memories:search'' [] (Some (search_payload (sdk_search_for m)))"
  shows "app fw' key ucs (http_request ''/v1/memories:search'' tenant) s =
    (case r of
       Inl e \<Rightarrow> handle (fw_lookup fw') (fw_http_exception fw') (Raised e)
     | Inr result \<Rightarrow> ok 200 (Search_Body \<lparr>sp_items = map search_item (ss_items result),
         sp_total = ss_total result, sp_searched_at = ss_searched_at result\<rparr>), s')"
proof -
  let ?req = "(http_request ''/v1/memories:search'' tenant)\<lparr>state_tenant_id := Some t\<rparr>"
  have route: "fw_router fw' ?req = Inr (Search_Memories (Inr m))"
    using assms(1,2) search_model_of_payload [OF assms(3)]
    by (simp add: routes_queries_def validates_queries_def http_request_def fw)
  have "run_endpoint key ucs ?req (Search_Memories (Inr m)) s =
      (case r of Inl e \<Rightarrow> Inl (Raised e) | Inr result \<Rightarrow> Inr (ok 200 (Search_Body
        \<lparr>sp_items = map search_item (ss_items result), sp_total = ss_total result,
         sp_searched_at = ss_searched_at result\<rparr>)), s')"
    using call assms(6) by (cases r)
      (simp_all add: search_memories_def with_tenant_def get_request_tenant_id_def provider_def validated_def
        search_request_for_def bindM_def runM_def monad_simps)
  from tenant_call [OF assms(4,5) tenant_paths(1) route this] show ?thesis by (cases r) simp_all
qed

lemma recall_call:
  assumes "routes_queries fw ps pr" "validates_queries ps pr"
    and "py_strip tenant = t" "t \<noteq> []" "uc_recall ucs = Some use_case"
    and call: "use_case (recall_request_for m t) s = (r, s')"
    and fw: "fw' = fw ''POST'' ''/v1/memories:recall'' [] (Some (recall_payload (sdk_recall_for m)))"
  shows "app fw' key ucs (http_request ''/v1/memories:recall'' tenant) s =
    (case r of
       Inl e \<Rightarrow> handle (fw_lookup fw') (fw_http_exception fw') (Raised e)
     | Inr result \<Rightarrow> ok 200 (Recall_Body \<lparr>rp_status = rl_status result,
         rp_no_match_reason = rl_no_match_reason result, rp_items = map recall_item_of (rl_items result),
         rp_total_tokens_estimate = rl_total_tokens_estimate result,
         rp_recall_strategy = rl_recall_strategy result, rp_recalled_at = rl_recalled_at result\<rparr>), s')"
proof -
  let ?req = "(http_request ''/v1/memories:recall'' tenant)\<lparr>state_tenant_id := Some t\<rparr>"
  have route: "fw_router fw' ?req = Inr (Recall_Memories (Inr m))"
    using assms(1,2) recall_model_of_payload [of m]
    by (simp add: routes_queries_def validates_queries_def http_request_def fw)
  have "run_endpoint key ucs ?req (Recall_Memories (Inr m)) s =
      (case r of Inl e \<Rightarrow> Inl (Raised e) | Inr result \<Rightarrow> Inr (ok 200 (Recall_Body \<lparr>rp_status = rl_status result,
         rp_no_match_reason = rl_no_match_reason result, rp_items = map recall_item_of (rl_items result),
         rp_total_tokens_estimate = rl_total_tokens_estimate result,
         rp_recall_strategy = rl_recall_strategy result, rp_recalled_at = rl_recalled_at result\<rparr>)), s')"
    using call assms(5) by (cases r)
      (simp_all add: recall_memories_def with_tenant_def get_request_tenant_id_def provider_def validated_def
        recall_request_for_def bindM_def runM_def monad_simps)
  from tenant_call [OF assms(3,4) tenant_paths(2) route this] show ?thesis by (cases r) simp_all
qed

subsection \<open>Reading the answer\<close>

lemmas answer_readers = json_item_def json_get_def subscript_def dict_get_def dict_get_or_def require_dt_def
  parse_dt_def opt_time_def opt_json_def json_iter_def

lemma read_search_item_json:
  assumes "\<And>d. valid_datetime d \<Longrightarrow> fromisoformat (shown d) = Inr d" "\<forall>d \<in> set_option (si_effective_from i). valid_datetime d"
  shows "read_search_item (search_item_json shown (search_item i)) = Inr (search_answer_item i)"
  using assms by (cases "si_effective_from i")
    (simp_all add: read_search_item_def search_item_json_def search_item_def search_answer_item_def answer_readers)

lemma read_search_json:
  assumes "\<And>d. valid_datetime d \<Longrightarrow> fromisoformat (shown d) = Inr d" "valid_datetime (ss_searched_at result)"
    and "\<forall>i \<in> set (ss_items result). \<forall>d \<in> set_option (si_effective_from i). valid_datetime d"
  shows "read_search_response (search_json shown \<lparr>sp_items = map search_item (ss_items result),
    sp_total = ss_total result, sp_searched_at = ss_searched_at result\<rparr>) = Inr (search_answer result)"
proof -
  have "mapE read_search_item (map (search_item_json shown \<circ> search_item) (ss_items result)) =
      Inr (map search_answer_item (ss_items result))"
    using assms by (simp add: mapE_Inr_iff list_all2_map1 list_all2_map2 list_all2_same read_search_item_json)
  then show ?thesis using assms
    by (simp add: read_search_response_def search_json_def search_answer_def answer_readers)
qed

lemma read_recall_item_json:
  assumes "\<And>d. valid_datetime d \<Longrightarrow> fromisoformat (shown d) = Inr d" "\<forall>d \<in> set_option (ri_effective_from i). valid_datetime d"
  shows "read_recall_item (recall_item_json shown (recall_item_of i)) = Inr (recall_answer_item i)"
  using assms by (cases "ri_effective_from i")
    (simp_all add: read_recall_item_def recall_item_json_def recall_item_of_def recall_answer_item_def answer_readers)

lemma read_recall_json:
  assumes "\<And>d. valid_datetime d \<Longrightarrow> fromisoformat (shown d) = Inr d" "valid_datetime (rl_recalled_at result)"
    and "\<forall>i \<in> set (rl_items result). \<forall>d \<in> set_option (ri_effective_from i). valid_datetime d"
  shows "read_recall_response (recall_json shown \<lparr>rp_status = rl_status result,
      rp_no_match_reason = rl_no_match_reason result, rp_items = map recall_item_of (rl_items result),
      rp_total_tokens_estimate = rl_total_tokens_estimate result,
      rp_recall_strategy = rl_recall_strategy result, rp_recalled_at = rl_recalled_at result\<rparr>) =
    Inr (recall_answer result)"
proof -
  have "mapE read_recall_item (map (recall_item_json shown \<circ> recall_item_of) (rl_items result)) =
      Inr (map recall_answer_item (rl_items result))"
    using assms by (simp add: mapE_Inr_iff list_all2_map1 list_all2_map2 list_all2_same read_recall_item_json)
  then show ?thesis using assms
    by (simp add: read_recall_response_def recall_json_def recall_answer_def answer_readers)
qed

lemma sent_response:
  assumes "app fw' key ucs (http_request path tenant) s = (ok 200 b, s')"
    and "fw' = fw meth path [] (Some j)" "snd (printed b) = Inr data"
  shows "sdk_json (new_client (server_send fw printed key ucs) tenant) meth path (Some j) s = (Inr data, s')"
  using assms by (simp add: sdk_json_def sdk_request_def server_send_def new_client_def bindM_def pureM_def ok_def monad_simps)

lemma sent_error:
  assumes "app fw' key ucs (http_request path tenant) s = (handle (fw_lookup fw') (fw_http_exception fw') (Raised e), s')"
    and "fw' = fw meth path [] (Some j)" "prints_errors printed" "first_by_mro (fw_lookup fw')"
  shows "sdk_json (new_client (server_send fw printed key ucs) tenant) meth path (Some j) s = (Inl (sdk_error_of e), s')"
  using assms raised_response [OF assms(3,4), where e = e and http = "fw_http_exception fw'"]
  by (auto simp: sdk_json_def sdk_request_def server_send_def new_client_def bindM_def)

lemma search_returned:
  assumes "routes_queries fw ps pr" "validates_queries ps pr" "prints_queries printed shown" "hm_temporal_filter m = None"
    and "py_strip tenant = t" "t \<noteq> []" "uc_search ucs = Some use_case"
    and "use_case (search_request_for m t) s = (Inr result, s')" "valid_datetime (ss_searched_at result)"
    and "\<forall>i \<in> set (ss_items result). \<forall>d \<in> set_option (si_effective_from i). valid_datetime d"
  shows "sdk_search (new_client (server_send fw printed key ucs) tenant) (sdk_search_for m) s =
    (Inr (search_answer result), s')"
proof -
  note call = search_call [OF assms(1,2,4-8) refl, of key, unfolded sum.case]
  have "sdk_json (new_client (server_send fw printed key ucs) tenant) ''POST'' ''/v1/memories:search''
      (Some (search_payload (sdk_search_for m))) s = (Inr (search_json shown \<lparr>sp_items = map search_item (ss_items result),
    sp_total = ss_total result, sp_searched_at = ss_searched_at result\<rparr>), s')"
    using assms(3) by (intro sent_response [OF call]) (simp_all add: prints_queries_def)
  then show ?thesis
    using assms(3) read_search_json [OF _ assms(9,10), of shown]
    by (simp add: sdk_search_def bindM_def pureM_def prints_queries_def monad_simps)
qed

lemma recall_returned:
  assumes "routes_queries fw ps pr" "validates_queries ps pr" "prints_queries printed shown"
    and "py_strip tenant = t" "t \<noteq> []" "uc_recall ucs = Some use_case"
    and "use_case (recall_request_for m t) s = (Inr result, s')" "valid_datetime (rl_recalled_at result)"
    and "\<forall>i \<in> set (rl_items result). \<forall>d \<in> set_option (ri_effective_from i). valid_datetime d"
  shows "sdk_recall (new_client (server_send fw printed key ucs) tenant) (sdk_recall_for m) s =
    (Inr (recall_answer result), s')"
proof -
  note call = recall_call [OF assms(1,2,4-7) refl, of key, unfolded sum.case]
  have "sdk_json (new_client (server_send fw printed key ucs) tenant) ''POST'' ''/v1/memories:recall''
      (Some (recall_payload (sdk_recall_for m))) s = (Inr (recall_json shown \<lparr>rp_status = rl_status result,
      rp_no_match_reason = rl_no_match_reason result, rp_items = map recall_item_of (rl_items result),
      rp_total_tokens_estimate = rl_total_tokens_estimate result,
      rp_recall_strategy = rl_recall_strategy result, rp_recalled_at = rl_recalled_at result\<rparr>), s')"
    using assms(3) by (intro sent_response [OF call]) (simp_all add: prints_queries_def)
  then show ?thesis
    using assms(3) read_recall_json [OF _ assms(8,9), of shown]
    by (simp add: sdk_recall_def bindM_def pureM_def prints_queries_def monad_simps)
qed

text \<open>A recall that returned to the caller is one the use case answered.\<close>

lemma read_recall_item_fields:
  assumes "read_recall_item (recall_item_json shown (recall_item_of i)) = Inr a"
  shows "al_memory_id a = JStr (ri_memory_id i) \<and> al_content a = JStr (ri_content i) \<and>
    al_trace_id a = opt_json (or_none (ri_trace_id i))"
  using assms by (auto simp: read_recall_item_def recall_item_json_def recall_item_of_def json_item_def json_get_def
      subscript_def dict_get_def dict_get_or_def bindE_Inr_iff)

lemma read_recall_fields:
  assumes "read_recall_response (recall_json shown \<lparr>rp_status = rl_status result,
      rp_no_match_reason = rl_no_match_reason result, rp_items = map recall_item_of (rl_items result),
      rp_total_tokens_estimate = rl_total_tokens_estimate result,
      rp_recall_strategy = rl_recall_strategy result, rp_recalled_at = rl_recalled_at result\<rparr>) = Inr a"
  shows "al_status a = JStr (recall_status_str (rl_status result)) \<and>
    al_total_tokens_estimate a = JInt (rl_total_tokens_estimate result) \<and>
    map al_memory_id (al_items a) = map (JStr \<circ> ri_memory_id) (rl_items result) \<and>
    map al_content (al_items a) = map (JStr \<circ> ri_content) (rl_items result)"
proof -
  from assms have items: "list_all2 (\<lambda>i x. read_recall_item (recall_item_json shown (recall_item_of i)) = Inr x)
      (rl_items result) (al_items a)"
    and rest: "al_status a = JStr (recall_status_str (rl_status result))"
      "al_total_tokens_estimate a = JInt (rl_total_tokens_estimate result)"
    by (auto simp: read_recall_response_def recall_json_def json_item_def json_get_def json_iter_def
        subscript_def dict_get_def dict_get_or_def bindE_Inr_iff mapE_Inr_iff list_all2_map1)
  from items have "map al_memory_id (al_items a) = map (JStr \<circ> ri_memory_id) (rl_items result) \<and>
      map al_content (al_items a) = map (JStr \<circ> ri_content) (rl_items result)"
    by (induction rule: list_all2_induct) (auto dest: read_recall_item_fields)
  with rest show ?thesis by blast
qed

lemma recall_answered:
  assumes "routes_queries fw ps pr" "validates_queries ps pr" "prints_queries printed shown" "prints_errors printed"
    and "\<forall>meth path params body. first_by_mro (fw_lookup (fw meth path params body))"
    and "py_strip tenant = t" "t \<noteq> []" "uc_recall ucs = Some use_case"
    and run: "sdk_recall (new_client (server_send fw printed key ucs) tenant) (sdk_recall_for m) s = (Inr a, s')"
  obtains result where "use_case (recall_request_for m t) s = (Inr result, s')"
    "al_status a = JStr (recall_status_str (rl_status result))"
    "al_total_tokens_estimate a = JInt (rl_total_tokens_estimate result)"
    "map al_memory_id (al_items a) = map (JStr \<circ> ri_memory_id) (rl_items result)"
    "map al_content (al_items a) = map (JStr \<circ> ri_content) (rl_items result)"
proof -
  obtain r s1 where u: "use_case (recall_request_for m t) s = (r, s1)" by fastforce
  note call = recall_call [OF assms(1,2,6-8) u refl, of key]
  show ?thesis
  proof (cases r)
    case (Inl e)
    have "sdk_json (new_client (server_send fw printed key ucs) tenant) ''POST'' ''/v1/memories:recall''
        (Some (recall_payload (sdk_recall_for m))) s = (Inl (sdk_error_of e), s1)"
      using assms(4,5) by (intro sent_error [OF call [unfolded Inl sum.case]]) simp_all
    with run show ?thesis by (simp add: sdk_recall_def bindM_def)
  next
    case (Inr result)
    let ?w = "\<lparr>rp_status = rl_status result, rp_no_match_reason = rl_no_match_reason result,
      rp_items = map recall_item_of (rl_items result),
      rp_total_tokens_estimate = rl_total_tokens_estimate result,
      rp_recall_strategy = rl_recall_strategy result, rp_recalled_at = rl_recalled_at result\<rparr>"
    have "sdk_json (new_client (server_send fw printed key ucs) tenant) ''POST'' ''/v1/memories:recall''
        (Some (recall_payload (sdk_recall_for m))) s = (Inr (recall_json shown ?w), s1)"
      using assms(3) by (intro sent_response [OF call [unfolded Inr sum.case]]) (simp_all add: prints_queries_def)
    with run have "read_recall_response (recall_json shown ?w) = Inr a" "s1 = s'"
      by (auto simp: sdk_recall_def bindM_def pureM_def monad_simps split: sum.splits)
    with read_recall_fields [OF this(1)] u Inr that show ?thesis by blast
  qed
qed

subsection \<open>Properties\<close>

text \<open>C5. A search of the SDK client reaches the search use case as it was asked for and its result
  reaches the caller: over the HTTP application and a framework that routes, validates and prints as
  documented, the use case is called with the client's tenant, a scope of that tenant and the
  request's own fields, and the caller gets every item, the total and the time it answered.\<close>

theorem sdk_search_end_to_end:
  assumes "routes_queries fw ps pr" "validates_queries ps pr" "prints_queries printed shown" "hm_temporal_filter m = None"
    and "py_strip tenant = t" "t \<noteq> []" "uc_search ucs = Some use_case"
    and "use_case (search_request_for m t) s = (Inr result, s')" "valid_datetime (ss_searched_at result)"
    and "\<forall>i \<in> set (ss_items result). \<forall>d \<in> set_option (si_effective_from i). valid_datetime d"
  shows "sdk_search (new_client (server_send fw printed key ucs) tenant) (sdk_search_for m) s =
    (Inr (search_answer result), s')"
  by (rule search_returned [OF assms])

text \<open>C6. What an SDK recall gets from the engine's recall service fits the request: over the HTTP
  application and a framework that routes, validates, looks up handlers and prints as documented,
  the items are, in order, a prefix of what the search found for the client's own tenant cut at
  \<open>max_items\<close>, the reported tokens are the estimates of exactly these items and within
  \<open>max_tokens\<close>, and the status is NO_MATCH exactly when there are none.\<close>

theorem sdk_recall_within_budget:
  assumes "routes_queries fw ps pr" "validates_queries ps pr" "prints_queries printed shown" "prints_errors printed"
    and "\<forall>meth path params body. first_by_mro (fw_lookup (fw meth path params body))"
    and "py_strip tenant = t" "t \<noteq> []" "uc_recall ucs = Some (recall_execute rt search ob)"
    and "sdk_recall (new_client (server_send fw printed key ucs) tenant) (sdk_recall_for m) s = (Inr a, s')"
  shows "\<exists>found s1 kept. search (recall_search_request (recall_request_for m t)) s = (Inr found, s1) \<and>
    kept = take (length kept) (py_take (lm_max_items m) (ss_items found)) \<and>
    map al_memory_id (al_items a) = map (JStr \<circ> si_memory_id) kept \<and>
    map al_content (al_items a) = map (JStr \<circ> si_content) kept \<and>
    al_total_tokens_estimate a = JInt (tokens kept) \<and>
    (\<forall>b. lm_max_tokens m = Some b \<longrightarrow> kept \<noteq> [] \<longrightarrow> tokens kept \<le> b) \<and>
    (al_status a = JStr ''NO_MATCH'' \<longleftrightarrow> al_items a = [])"
proof (rule recall_answered [OF assms])
  fix result
  assume run: "recall_execute rt search ob (recall_request_for m t) s = (Inr result, s')"
    and a: "al_status a = JStr (recall_status_str (rl_status result))"
      "al_total_tokens_estimate a = JInt (rl_total_tokens_estimate result)"
      "map al_memory_id (al_items a) = map (JStr \<circ> ri_memory_id) (rl_items result)"
      "map al_content (al_items a) = map (JStr \<circ> ri_content) (rl_items result)"
  have q: "rq_max_tokens (recall_request_for m t) = lm_max_tokens m"
    "rq_max_items (recall_request_for m t) = lm_max_items m"
    by (simp_all add: recall_request_for_def)
  show ?thesis
  proof (rule recall_Inr [OF run, unfolded q])
    fix found s1 kept spent ex
    assume found: "search (recall_search_request (recall_request_for m t)) s = (Inr found, s1)"
      and w: "within_budget (lm_max_tokens m) 0 (py_take (lm_max_items m) (ss_items found)) = (kept, spent, ex)"
      and r: "map ri_content (rl_items result) = map si_content kept"
        "map ri_memory_id (rl_items result) = map si_memory_id kept" "rl_total_tokens_estimate result = spent"
        "rl_status result = (if kept = [] then NO_MATCH else if ex then PARTIAL_MATCH else MATCH)"
    have ids: "map al_memory_id (al_items a) = map (JStr \<circ> si_memory_id) kept"
      "map al_content (al_items a) = map (JStr \<circ> si_content) kept"
      using a(3,4) arg_cong [OF r(2), of "map JStr"] arg_cong [OF r(1), of "map JStr"] by (simp_all add: o_def)
    then have "al_items a = [] \<longleftrightarrow> kept = []" by (metis map_is_Nil_conv)
    with found within_budget_prefix [OF w] ids a(1,2) r(3,4) show ?thesis
      by (intro exI [of _ found] exI [of _ s1] exI [of _ kept]) auto
  qed
qed

subsection \<open>A server for the examples\<close>

definition strict :: "(json \<Rightarrow> 'm option) \<Rightarrow> json \<Rightarrow> json + 'm" where
  "strict read j = (case read j of None \<Rightarrow> Inl (JArr []) | Some m \<Rightarrow> Inr m)"

definition query_framework :: call_framework where
  "query_framework meth path params body = (let j = (case body of None \<Rightarrow> JNull | Some j \<Rightarrow> j) in
     one_route (if path = ''/v1/memories:search'' then Search_Memories (strict search_model_of j)
       else Recall_Memories (strict recall_model_of j)))"

fun print_query :: printer where
  "print_query (Search_Body w) = ([], Inr (search_json isoformat w))"
| "print_query (Recall_Body w) = ([], Inr (recall_json isoformat w))"
| "print_query b = print_body b"

lemma query_framework_ok:
  "routes_queries query_framework (strict search_model_of) (strict recall_model_of)"
  "validates_queries (strict search_model_of) (strict recall_model_of)" "prints_queries print_query isoformat"
  "prints_errors print_query" "first_by_mro (fw_lookup (query_framework meth path params body))"
  by (simp_all add: routes_queries_def query_framework_def Let_def validates_queries_def strict_def prints_queries_def
      prints_errors_def first_by_mro_lookup fromisoformat_isoformat)

definition found_a :: search_result where
  "found_a = \<lparr>ss_items = [item_a, item_a], ss_total = 2, ss_query_plan = None, ss_searched_at = t0\<rparr>"

definition finding :: "search_request \<Rightarrow> (tenant_id list, search_result) action" where
  \<comment> \<open>a use case that records the tenant it is called for\<close>
  "finding q s = (Inr found_a, sr_tenant_id q # s)"

lemma sdk_search_end_to_end_witness:
  "sdk_search (new_client (server_send query_framework print_query [] (no_use_cases\<lparr>uc_search := Some finding\<rparr>)) '' acme'')
     (sdk_search_for (default_search_model (default_scope_model ''alice'') ''tea'')) [] =
   (Inr (search_answer found_a), [''acme''])"
  by (subst sdk_search_end_to_end [OF query_framework_ok(1-3) _ strip_acme, where use_case = finding
        and result = found_a and s' = "[''acme'']"])
    (simp_all add: finding_def search_request_for_def found_a_def item_a_def default_search_model_def)

definition recall_model_a :: recall_model where
  "recall_model_a = (default_recall_model (default_scope_model ''alice'') ''tea'')\<lparr>lm_max_tokens := Some 5\<rparr>"

lemma recall_model_a_runs:
  "\<exists>r. recall_execute still_runtime (\<lambda>_. returnM found_a) silent_observer (recall_request_for recall_model_a ''acme'') () =
     (Inr r, ()) \<and> rl_recalled_at r = t0 \<and> length (rl_items r) = 1 \<and> (\<forall>i \<in> set (rl_items r). ri_effective_from i = None)"
proof -
  have n: "estimate_tokens (si_content item_a) = 3" by (simp add: estimate_tokens_def item_a_def)
  show ?thesis
    by (simp add: recall_execute_def recall_request_for_def recall_model_a_def default_recall_model_def found_a_def
        py_take_def n Let_def)
      (simp add: monad_simps to_recall_item_def)
qed

lemma sdk_recall_within_budget_witness:
  "\<exists>a. sdk_recall (new_client (server_send query_framework print_query []
       (no_use_cases\<lparr>uc_recall := Some (recall_execute still_runtime (\<lambda>_. returnM found_a) silent_observer)\<rparr>)) '' acme'')
     (sdk_recall_for recall_model_a) () = (Inr a, ()) \<and>
   map al_content (al_items a) = [JStr ''likes green tea''] \<and> al_total_tokens_estimate a = JInt 3"
proof -
  let ?search = "\<lambda>_. returnM found_a"
  let ?ucs = "no_use_cases\<lparr>uc_recall := Some (recall_execute still_runtime ?search silent_observer)\<rparr>"
  let ?c = "new_client (server_send query_framework print_query [] ?ucs) '' acme''"
  obtain r where r: "recall_execute still_runtime ?search silent_observer (recall_request_for recall_model_a ''acme'') () = (Inr r, ())"
    "rl_recalled_at r = t0" "length (rl_items r) = 1" "\<forall>i \<in> set (rl_items r). ri_effective_from i = None"
    using recall_model_a_runs by blast
  have run: "sdk_recall ?c (sdk_recall_for recall_model_a) () = (Inr (recall_answer r), ())"
    by (rule recall_returned [OF query_framework_ok(1-3) strip_acme, where result = r
          and use_case = "recall_execute still_runtime ?search silent_observer"]) (simp_all add: r(1,2,4))
  have first: "\<forall>meth path params body. first_by_mro (fw_lookup (query_framework meth path params body))"
    using query_framework_ok(5) by blast
  have uc: "uc_recall ?ucs = Some (recall_execute still_runtime ?search silent_observer)" "''acme'' \<noteq> []" by simp_all
  from sdk_recall_within_budget [where rt = still_runtime and search = ?search and ob = silent_observer,
      OF query_framework_ok(1-4) first strip_acme uc(2,1) run] obtain found s1 kept where
    k: "returnM found_a () = (Inr found :: exn + search_result, s1 :: unit)"
    "kept = take (length kept) (py_take (lm_max_items recall_model_a) (ss_items found))"
    "map al_content (al_items (recall_answer r)) = map (JStr \<circ> si_content) kept"
    "al_total_tokens_estimate (recall_answer r) = JInt (tokens kept)"
    by (elim exE conjE) (rule that; assumption)
  have "length kept = 1" using r(3) arg_cong [OF k(3), of length] by (simp only: recall_answer_def length_map) simp
  moreover have "py_take (lm_max_items recall_model_a) (ss_items found) = [item_a, item_a]"
    using k(1) by (auto simp: returnM_def found_a_def recall_model_a_def default_recall_model_def py_take_def)
  ultimately have "kept = [item_a]" using k(2) by simp
  then show ?thesis using run k(3,4) by (simp add: estimate_tokens_def item_a_def)
qed

end
