(* ===== verification/Sdk_Deployment.thy ===== *)
theory Sdk_Deployment
  imports Sdk_Tools Sdk_Queries
begin

text \<open>
  Two ends of the SDK: the state fragments of \<^verbatim>\<open>integrations/state_models.py\<close> that a graph hands to the
  nodes, and the server the command line starts, \<^verbatim>\<open>adapters/rest/app.py\<close>.  What FastAPI answers to a
  request that no route matches is an argument (\<open>fallback\<close>).
\<close>

subsection \<open>State fragments\<close>

record memory_write_state =
  gw_principal_id :: string
  gw_raw_payload :: string
  gw_payload_type :: string
  gw_sector :: "string option"
  gw_metadata :: json_dict

record memory_search_state =
  gs_principal_id :: string
  gs_search_query :: string
  gs_search_mode :: string
  gs_search_k :: int

record memory_recall_state =
  gr_principal_id :: string
  gr_recall_query :: string
  gr_max_tokens :: "int option"
  gr_max_items :: int

definition new_write_state :: "string \<Rightarrow> string \<Rightarrow> string \<Rightarrow> memory_write_state" where
  "new_write_state principal_id raw_payload payload_type = \<lparr>gw_principal_id = principal_id,
     gw_raw_payload = raw_payload, gw_payload_type = payload_type, gw_sector = None, gw_metadata = []\<rparr>"

definition new_search_state :: "string \<Rightarrow> string \<Rightarrow> memory_search_state" where
  "new_search_state principal_id search_query = \<lparr>gs_principal_id = principal_id,
     gs_search_query = search_query, gs_search_mode = ''HYBRID'', gs_search_k = 10\<rparr>"

definition new_recall_state :: "string \<Rightarrow> string \<Rightarrow> memory_recall_state" where
  "new_recall_state principal_id recall_query = \<lparr>gr_principal_id = principal_id,
     gr_recall_query = recall_query, gr_max_tokens = Some 4000, gr_max_items = 10\<rparr>"

text \<open>The dictionary of a fragment's fields.\<close>

definition opt_int :: "int option \<Rightarrow> json" where
  "opt_int v = (case v of None \<Rightarrow> JNull | Some b \<Rightarrow> JInt b)"

definition write_state_dict :: "memory_write_state \<Rightarrow> json_dict" where
  "write_state_dict f = [(''principal_id'', JStr (gw_principal_id f)), (''raw_payload'', JStr (gw_raw_payload f)),
     (''payload_type'', JStr (gw_payload_type f)), (''sector'', opt_json (gw_sector f)),
     (''metadata'', JObj (gw_metadata f))]"

definition search_state_dict :: "memory_search_state \<Rightarrow> json_dict" where
  "search_state_dict f = [(''principal_id'', JStr (gs_principal_id f)), (''search_query'', JStr (gs_search_query f)),
     (''search_mode'', JStr (gs_search_mode f)), (''search_k'', JInt (gs_search_k f))]"

definition recall_state_dict :: "memory_recall_state \<Rightarrow> json_dict" where
  "recall_state_dict f = [(''principal_id'', JStr (gr_principal_id f)), (''recall_query'', JStr (gr_recall_query f)),
     (''max_tokens'', opt_int (gr_max_tokens f)), (''max_items'', JInt (gr_max_items f))]"

lemma node_on_fragment:
  "write_node client (write_state_dict w) = sdk_write client ((new_write_request (JStr (gw_principal_id w))
     (JStr (gw_raw_payload w)) (JStr (gw_payload_type w)))
     \<lparr>qw_sector := opt_json (gw_sector w), qw_metadata := JObj (gw_metadata w)\<rparr>)"
  "search_node client (search_state_dict q) = sdk_search client ((new_search_request (JStr (gs_principal_id q))
     (JStr (gs_search_query q))) \<lparr>qs_mode := JStr (gs_search_mode q), qs_k := JInt (gs_search_k q)\<rparr>)"
  "recall_node client (recall_state_dict r) = sdk_recall client ((new_recall_request (JStr (gr_principal_id r))
     (JStr (gr_recall_query r))) \<lparr>ql_max_tokens := opt_int (gr_max_tokens r), ql_max_items := JInt (gr_max_items r)\<rparr>)"
  by (auto intro!: ext simp: write_node_def search_node_def recall_node_def require_key_def pureM_def Let_def monad_simps
      dict_get_or_def dict_get_def write_state_dict_def search_state_dict_def recall_state_dict_def py_bool_def)

lemma node_on_required:
  "search_node client [(''principal_id'', JStr p), (''search_query'', JStr q)] = sdk_search client (new_search_request (JStr p) (JStr q))"
  "recall_node client [(''principal_id'', JStr p), (''recall_query'', JStr q)] = sdk_recall client (new_recall_request (JStr p) (JStr q))"
  "write_node client [(''principal_id'', JStr p), (''raw_payload'', JStr q), (''payload_type'', JStr y)] =
     sdk_write client (new_write_request (JStr p) (JStr q) (JStr y))"
  by (auto intro!: ext simp: write_node_def search_node_def recall_node_def require_key_def pureM_def Let_def monad_simps
      dict_get_or_def dict_get_def py_bool_def new_search_request_def new_recall_request_def new_write_request_def)

text \<open>The defaults of the fragments are those of the nodes: a state with the required keys alone is
  treated as the fragment made of them.\<close>

theorem fragment_defaults:
  "search_node client [(''principal_id'', JStr p), (''search_query'', JStr q)] =
     search_node client (search_state_dict (new_search_state p q)) \<and>
   recall_node client [(''principal_id'', JStr p), (''recall_query'', JStr q)] =
     recall_node client (recall_state_dict (new_recall_state p q)) \<and>
   write_node client [(''principal_id'', JStr p), (''raw_payload'', JStr q), (''payload_type'', JStr y)] =
     write_node client (write_state_dict (new_write_state p q y))"
  unfolding node_on_fragment node_on_required
  by (simp add: new_search_state_def new_recall_state_def new_write_state_def opt_int_def opt_json_def
      new_search_request_def new_recall_request_def new_write_request_def)

text \<open>A search node between a graph and the server: on a fragment whose mode is one of the schema it is
  the search of the principal's user scope in the client's tenant, with the fragment's query, mode and
  number, and it returns what the use case found.\<close>

definition fragment_search :: "memory_search_state \<Rightarrow> search_mode \<Rightarrow> search_model" where
  "fragment_search f md = (default_search_model (default_scope_model (gs_principal_id f)) (gs_search_query f))
     \<lparr>hm_mode := md, hm_k := gs_search_k f\<rparr>"

theorem search_node_end_to_end:
  assumes "routes_queries fw ps pr" "validates_queries ps pr" "prints_queries printed shown"
    and "py_strip tenant = t" "t \<noteq> []" "uc_search ucs = Some use_case" "gs_search_mode f = mode_str md"
    and "use_case (search_request_for (fragment_search f md) t) s = (Inr result, s')" "valid_datetime (ss_searched_at result)"
    and "\<forall>i \<in> set (ss_items result). \<forall>d \<in> set_option (si_effective_from i). valid_datetime d"
  shows "search_node (new_client (server_send fw printed key ucs) tenant) (search_state_dict f) s =
    (Inr (search_answer result), s')"
proof -
  have "sdk_search_for (fragment_search f md) = (new_search_request (JStr (gs_principal_id f))
      (JStr (gs_search_query f))) \<lparr>qs_mode := JStr (gs_search_mode f), qs_k := JInt (gs_search_k f)\<rparr>"
    using assms(7) by (simp add: sdk_search_for_def fragment_search_def default_search_model_def default_scope_model_def
        new_search_request_def opt_json_def opt_array_def)
  moreover have "hm_temporal_filter (fragment_search f md) = None"
    by (simp add: fragment_search_def default_search_model_def)
  ultimately show ?thesis
    using search_returned [OF assms(1-3) _ assms(4-6,8-10)] by (simp add: node_on_fragment(2))
qed

subsection \<open>The server of the command line\<close>

record serve_options =
  so_host :: string
  so_port :: int
  so_reload :: bool

definition default_serve :: serve_options where
  "default_serve = \<lparr>so_host = ''0.0.0.0'', so_port = 8000, so_reload = False\<rparr>"

definition serve :: "(string \<Rightarrow> bool \<Rightarrow> string \<Rightarrow> int \<Rightarrow> bool \<Rightarrow> ('s, unit) action) \<Rightarrow> serve_options \<Rightarrow> ('s, unit) action" where
  \<comment> \<open>\<open>uvicorn.run\<close> of an application named by a text, here the factory below\<close>
  "serve uvicorn_run opts =
     uvicorn_run ''memory_layer.adapters.rest.app:create_app'' True (so_host opts) (so_port opts) (so_reload opts)"

definition rest_create_app :: "(string \<Rightarrow> string \<Rightarrow> response) \<Rightarrow> string \<Rightarrow> string \<Rightarrow> response" where
  "rest_create_app fallback meth path =
     (if meth = ''GET'' \<and> path = ''/healthz''
      then ok 200 (Json_Body (JObj [(''status'', JStr ''ok''), (''version'', JStr ''0.1.0'')]))
      else fallback meth path)"

definition rest_send :: "(string \<Rightarrow> string \<Rightarrow> response) \<Rightarrow> printer \<Rightarrow> 's http_send" where
  "rest_send fallback printed tenant_id meth path params body s =
     (let r = rest_create_app fallback meth path in
      (Inr \<lparr>hs_status = status_code r, hs_text = fst (printed (content r)), hs_json = snd (printed (content r))\<rparr>, s))"

definition not_found :: response where
  "not_found = ok 404 (Json_Body (JObj [(''detail'', JStr ''Not Found'')]))"

definition rest_client :: "(string \<Rightarrow> string \<Rightarrow> response) \<Rightarrow> printer \<Rightarrow> string \<Rightarrow> 's sdk_client" where
  "rest_client fallback printed tenant = new_client (rest_send fallback printed) tenant"

definition no_route :: "printer \<Rightarrow> sdk_exn" where
  \<comment> \<open>what the client makes of \<open>not_found\<close>\<close>
  "no_route printed = MemoryLayerHTTPError 404 (JStr ''UNKNOWN'') (JStr (fst (printed (content not_found)))) (JObj [])"

text \<open>The server that \<open>memory-layer serve\<close> starts serves none of the API: a client of it passes the
  health check, and each of its operations raises the 404 of a missing route and reaches nothing.\<close>

theorem served_api_missing:
  assumes "\<forall>meth path. prefix ''/v1/'' path \<longrightarrow> fallback meth path = not_found"
    and "\<forall>j. snd (printed (Json_Body j)) = Inr j"
  shows "sdk_healthz (rest_client fallback printed tenant) s = (Inr [(''status'', JStr ''ok''), (''version'', JStr ''0.1.0'')], s) \<and>
    sdk_write (rest_client fallback printed tenant) w s = (Inl (no_route printed), s) \<and>
    sdk_search (rest_client fallback printed tenant) q s = (Inl (no_route printed), s) \<and>
    sdk_recall (rest_client fallback printed tenant) r s = (Inl (no_route printed), s) \<and>
    sdk_get_memory (rest_client fallback printed tenant) m s = (Inl (no_route printed), s) \<and>
    sdk_delete_memory (rest_client fallback printed tenant) m actor s = (Inl (no_route printed), s) \<and>
    sdk_explain (rest_client fallback printed tenant) i s = (Inl (no_route printed), s) \<and>
    sdk_end_session (rest_client fallback printed tenant) m sc s = (Inl (no_route printed), s)"
proof -
  have refused: "sdk_request (rest_client fallback printed tenant) meth path params body s = (Inl (no_route printed), s)"
    if "prefix ''/v1/'' path" for meth path params body
  proof -
    have "rest_create_app fallback meth path = not_found" using that assms(1) by (auto simp: rest_create_app_def)
    then show ?thesis using assms(2)
      by (simp add: rest_client_def new_client_def sdk_request_def rest_send_def not_found_def ok_def raise_http_error_def
          dict_get_or_def dict_get_def sdk_http_error_def py_bool_def no_route_def)
  qed
  have "sdk_healthz (rest_client fallback printed tenant) s = (Inr [(''status'', JStr ''ok''), (''version'', JStr ''0.1.0'')], s)"
    using assms(2) by (simp add: rest_client_def new_client_def sdk_healthz_def sdk_json_def sdk_request_def rest_send_def
        rest_create_app_def ok_def bindM_def pureM_def json_dict_of_def monad_simps)
  then show ?thesis by (simp add: sdk_operations bindM_def refused)
qed

lemma served_api_missing_witness:
  "sdk_write (rest_client (\<lambda>_ _. not_found) print_body ''acme'') (sdk_request_for write_model_a) () =
    (Inl (MemoryLayerHTTPError 404 (JStr ''UNKNOWN'') (JStr []) (JObj [])), ())"
  using served_api_missing [where fallback = "\<lambda>_ _. not_found" and printed = print_body and s = "()"]
  by (simp add: no_route_def not_found_def ok_def)

end
