(* ===== verification/Observability.thy ===== *)
theory Observability
  imports Ports
begin

text \<open>
  \<^verbatim>\<open>config/settings.py\<close>, \<^verbatim>\<open>config/loader.py\<close>, and of \<^verbatim>\<open>observability/\<close> the metrics and the tracing.
  Reading the environment and the \<^verbatim>\<open>.env\<close> file is \<open>Settings()\<close> of pydantic-settings, a computation
  that may raise.  The Prometheus registry is the list of the names registered with it; registering
  a name twice raises \<open>ValueError\<close>.
\<close>

subsection \<open>Settings\<close>

datatype storage_backend = Backend_Sqlite | Backend_Postgres
datatype vector_backend = Vector_Chroma | Vector_Qdrant | Vector_Pgvector
datatype embedding_provider = Emb_OpenAI | Emb_Ollama | Emb_Sentence_Transformers
datatype llm_provider = Llm_OpenAI | Llm_Anthropic | Llm_Ollama

record server_settings =
  srv_host :: string
  srv_port :: int
  srv_workers :: int
  srv_log_level :: string
  srv_reload :: bool

record storage_settings =
  sto_backend :: storage_backend
  sto_sqlite_path :: string
  sto_postgres_dsn :: "string option"
  sto_vector_backend :: vector_backend
  sto_chroma_path :: string
  sto_qdrant_url :: "string option"
  sto_qdrant_api_key :: "string option"

record embedding_settings =
  emb_provider :: embedding_provider
  emb_model_id :: string
  emb_dimensions :: int
  emb_api_key :: "string option"
  emb_base_url :: "string option"

record llm_settings =
  llm_provider :: llm_provider
  llm_model_id :: string
  llm_api_key :: "string option"
  llm_base_url :: "string option"
  llm_max_tokens :: int
  llm_temperature :: rat

record scheduler_settings =
  sch_decay_interval_seconds :: int
  sch_consolidation_interval_seconds :: int
  sch_enabled :: bool

record observability_settings =
  obs_metrics_enabled :: bool
  obs_tracing_enabled :: bool
  obs_otlp_endpoint :: "string option"
  obs_service_name :: string
  obs_log_json :: bool

record settings =
  set_server :: server_settings
  set_storage :: storage_settings
  set_embedding :: embedding_settings
  set_llm :: llm_settings
  set_scheduler :: scheduler_settings
  set_observability :: observability_settings

definition default_server :: server_settings where
  "default_server = \<lparr>srv_host = ''0.0.0.0'', srv_port = 8000, srv_workers = 1, srv_log_level = ''INFO'', srv_reload = False\<rparr>"

definition default_storage :: storage_settings where
  "default_storage = \<lparr>sto_backend = Backend_Sqlite, sto_sqlite_path = ''./data/memory_layer.db'',
     sto_postgres_dsn = None, sto_vector_backend = Vector_Chroma, sto_chroma_path = ''./data/chroma'',
     sto_qdrant_url = None, sto_qdrant_api_key = None\<rparr>"

definition default_embedding :: embedding_settings where
  "default_embedding = \<lparr>emb_provider = Emb_OpenAI, emb_model_id = ''text-embedding-3-small'', emb_dimensions = 1536,
     emb_api_key = None, emb_base_url = None\<rparr>"

definition default_llm :: llm_settings where
  "default_llm = \<lparr>llm_provider = Llm_OpenAI, llm_model_id = ''gpt-4o-mini'', llm_api_key = None, llm_base_url = None,
     llm_max_tokens = 2048, llm_temperature = 0\<rparr>"

definition default_scheduler :: scheduler_settings where
  "default_scheduler = \<lparr>sch_decay_interval_seconds = 3600, sch_consolidation_interval_seconds = 1800, sch_enabled = True\<rparr>"

definition default_observability :: observability_settings where
  "default_observability = \<lparr>obs_metrics_enabled = True, obs_tracing_enabled = False, obs_otlp_endpoint = None,
     obs_service_name = ''memory-layer'', obs_log_json = False\<rparr>"

definition default_settings :: settings where
  "default_settings = \<lparr>set_server = default_server, set_storage = default_storage, set_embedding = default_embedding,
     set_llm = default_llm, set_scheduler = default_scheduler, set_observability = default_observability\<rparr>"

subsection \<open>The singleton\<close>

text \<open>The state: the module's \<open>_settings\<close> and the state of the environment \<open>Settings()\<close> reads.\<close>

type_synonym 's config_state = "settings option \<times> 's"

definition get_settings :: "('s, settings) action \<Rightarrow> ('s config_state, settings) action" where
  "get_settings load s = (case fst s of
     Some x \<Rightarrow> (Inr x, s)
   | None \<Rightarrow> (case load (snd s) of (Inl e, env) \<Rightarrow> (Inl e, (None, env)) | (Inr x, env) \<Rightarrow> (Inr x, (Some x, env))))"

definition override_settings :: "settings \<Rightarrow> ('s config_state, unit) action" where
  "override_settings x = modifyM (\<lambda>s. (Some x, snd s))"

definition reset_settings :: "('s config_state, unit) action" where
  "reset_settings = modifyM (\<lambda>s. (None, snd s))"

subsection \<open>Metrics\<close>

datatype instrument = Counter "string list" | Histogram "string list" | Gauge "string list"

record metrics_state =
  ms_enabled :: bool
  ms_bound :: "(string \<times> instrument) list"
  ms_registry :: "string list"

definition new_metrics :: metrics_state where
  \<comment> \<open>after the import: disabled, every name bound to the no-op metric\<close>
  "new_metrics = \<lparr>ms_enabled = False, ms_bound = [], ms_registry = []\<rparr>"

definition instruments :: "(string \<times> instrument) list" where
  "instruments =
     [(''memory_writes_total'', Counter [''tenant_id'', ''sector'', ''status'']),
      (''memory_searches_total'', Counter [''tenant_id'', ''mode'', ''status'']),
      (''memory_recalls_total'', Counter [''tenant_id'', ''mode'', ''status'']),
      (''memory_decays_total'', Counter [''tenant_id'']),
      (''memory_consolidations_total'', Counter [''tenant_id'']),
      (''extraction_facts_total'', Counter [''tenant_id'', ''sector'']),
      (''contradictions_detected_total'', Counter [''tenant_id'', ''resolution'']),
      (''write_latency_seconds'', Histogram [''tenant_id'']),
      (''search_latency_seconds'', Histogram [''tenant_id'', ''mode'']),
      (''recall_latency_seconds'', Histogram [''tenant_id'']),
      (''extraction_latency_seconds'', Histogram [''tenant_id'']),
      (''memory_active_records'', Gauge [''tenant_id''])]"

definition make_instrument :: "string \<times> instrument \<Rightarrow> (metrics_state, unit) action" where
  \<comment> \<open>\<open>_make_counter\<close> and its companions, where Prometheus is installed, and the assignment\<close>
  "make_instrument x s = (if fst x \<in> set (ms_registry s)
     then (Inl (ValueError ''Duplicated timeseries in CollectorRegistry''), s)
     else (Inr (), s\<lparr>ms_registry := ms_registry s @ [fst x], ms_bound := x # ms_bound s\<rparr>))"

definition configure_metrics :: "bool \<Rightarrow> observability_settings \<Rightarrow> (metrics_state, unit) action" where
  \<comment> \<open>\<open>available\<close>: whether \<open>prometheus_client\<close> could be imported\<close>
  "configure_metrics available st =
     bindM (modifyM (\<lambda>s. s\<lparr>ms_enabled := obs_metrics_enabled st\<rparr>)) (\<lambda>_.
     if \<not> obs_metrics_enabled st \<or> \<not> available then returnM ()
     else bindM (forM instruments make_instrument) (\<lambda>_. returnM ()))"

definition finallyM :: "('s, 'a) action \<Rightarrow> ('s, unit) action \<Rightarrow> ('s, 'a) action" where
  \<comment> \<open>\<^verbatim>\<open>try: m finally: f\<close>\<close>
  "finallyM m f s = (case m s of (r, s1) \<Rightarrow> (case f s1 of (Inl e, s2) \<Rightarrow> (Inl e, s2) | (Inr _, s2) \<Rightarrow> (r, s2)))"

definition track_latency :: "('s, rat) action \<Rightarrow> bool \<Rightarrow> (rat \<Rightarrow> ('s, unit) action) \<Rightarrow> ('s, 'a) action \<Rightarrow> ('s, 'a) action" where
  "track_latency perf_counter enabled observe body =
     bindM perf_counter (\<lambda>start. finallyM body
       (bindM perf_counter (\<lambda>now.
          if enabled then tryM (observe (now - start)) (\<lambda>_. returnM ()) else returnM ())))"

definition metrics_response :: "bool \<Rightarrow> (metrics_state \<Rightarrow> string) \<Rightarrow> metrics_state \<Rightarrow> string" where
  "metrics_response available generate_latest s = (if \<not> available \<or> \<not> ms_enabled s then [] else generate_latest s)"

text \<open>Whether the application registers the metrics endpoint, for the settings as they loaded.\<close>

definition metrics_endpoint :: "exn + settings \<Rightarrow> bool" where
  "metrics_endpoint loaded = (case loaded of Inl _ \<Rightarrow> False | Inr st \<Rightarrow> obs_metrics_enabled (set_observability st))"

text \<open>By default the endpoint is registered, and answers nothing until the metrics are configured.\<close>

lemma metrics_endpoint_empty:
  "metrics_endpoint (Inr default_settings) \<and> metrics_response available generate_latest new_metrics = []"
  by (simp add: metrics_endpoint_def default_settings_def default_observability_def metrics_response_def new_metrics_def)

text \<open>What a call does with the names as they are bound: nothing on the no-op metric; on an instrument of
  Prometheus it raises when the labels are not those declared, when a counter is to be decreased, or
  when the instrument has no such method, and is otherwise recorded (\<open>record\<close>).\<close>

fun labels_of :: "instrument \<Rightarrow> string list" where
  "labels_of (Counter ls) = ls"
| "labels_of (Histogram ls) = ls"
| "labels_of (Gauge ls) = ls"

definition labels_fit :: "instrument \<Rightarrow> (string \<times> string) list \<Rightarrow> bool" where
  "labels_fit i labels \<longleftrightarrow> set (map fst labels) = set (labels_of i) \<and> length labels = length (labels_of i)"

fun use_metric :: "metrics_state \<Rightarrow> (metric \<Rightarrow> ('s, unit) action) \<Rightarrow> metric \<Rightarrow> ('s, unit) action" where
  "use_metric ms record (Inc name labels n) = (case map_of (ms_bound ms) name of
       None \<Rightarrow> returnM ()
     | Some i \<Rightarrow>
         if \<not> labels_fit i labels then raiseM (ValueError ''Incorrect label names'')
         else (case i of
             Counter _ \<Rightarrow> if n < 0 then raiseM (ValueError ''Counters can only be incremented by non-negative amounts.'')
               else record (Inc name labels n)
           | Gauge _ \<Rightarrow> record (Inc name labels n)
           | Histogram _ \<Rightarrow> raiseM (AttributeError ''inc'')))"
| "use_metric ms record (Observe name labels x) = (case map_of (ms_bound ms) name of
       None \<Rightarrow> returnM ()
     | Some i \<Rightarrow>
         if \<not> labels_fit i labels then raiseM (ValueError ''Incorrect label names'')
         else (case i of Histogram _ \<Rightarrow> record (Observe name labels x) | _ \<Rightarrow> raiseM (AttributeError ''observe'')))"

subsection \<open>Tracing\<close>

text \<open>The provider slot of the module: empty, the module's own stub, OpenTelemetry's no-op, or a real
  provider with or without an OTLP exporter.\<close>

datatype provider_slot = No_Provider | Stub_Provider | NoOp_Provider | Real_Provider string "string option"

definition configure_tracing :: "bool \<Rightarrow> bool \<Rightarrow> observability_settings \<Rightarrow> provider_slot" where
  \<comment> \<open>\<open>available\<close>, \<open>exporter\<close>: whether OpenTelemetry and its OTLP exporter could be imported\<close>
  "configure_tracing available exporter st =
     (if \<not> available then Stub_Provider
      else if \<not> obs_tracing_enabled st then NoOp_Provider
      else Real_Provider (obs_service_name st) (if exporter then or_none (obs_otlp_endpoint st) else None))"

record 's span_ops =
  sp_start :: "string \<Rightarrow> ('s, unit) action"
  sp_set_attribute :: "string \<Rightarrow> string \<Rightarrow> ('s, unit) action"
  sp_set_error :: "string \<Rightarrow> ('s, unit) action"
  sp_end :: "('s, unit) action"

definition engine_span ::
  "bool \<Rightarrow> provider_slot \<Rightarrow> 's span_ops \<Rightarrow> string \<Rightarrow> string \<Rightarrow> (string \<times> string) list \<Rightarrow> ('s, 'a) action \<Rightarrow> ('s, 'a) action" where
  "engine_span available slot sp operation tenant_id attrs body =
     (if \<not> available \<or> slot \<in> {No_Provider, Stub_Provider} then body
      else bindM (sp_start sp operation) (\<lambda>_. finallyM
        (bindM (sp_set_attribute sp ''tenant_id'' tenant_id) (\<lambda>_.
         bindM (forM attrs (\<lambda>(key, v). sp_set_attribute sp key v)) (\<lambda>_.
         tryM body (\<lambda>exc. bindM (sp_set_error sp (exn_str exc)) (\<lambda>_. raiseM exc)))))
        (sp_end sp)))"

text \<open>What \<open>get_tracer\<close> hands out: the module's stub, the tracer of OpenTelemetry's global provider, or
  that of the provider in the slot.\<close>

datatype tracer = Stub_Tracer | Global_Tracer string | Slot_Tracer provider_slot string

definition get_tracer :: "bool \<Rightarrow> provider_slot \<Rightarrow> string \<Rightarrow> tracer" where
  "get_tracer available slot name =
     (if slot = No_Provider then Stub_Tracer
      else if available then Global_Tracer name
      else if slot = Stub_Provider then Stub_Tracer else Slot_Tracer slot name)"

text \<open>Whatever is installed and configured, a tracer can be had and is the stub exactly where spans are
  not recorded.\<close>

lemma tracer_configured:
  "get_tracer available (configure_tracing available exporter st) name =
     (if available then Global_Tracer name else Stub_Tracer)"
  by (simp add: get_tracer_def configure_tracing_def)

subsection \<open>The connection pool\<close>

text \<open>\<^verbatim>\<open>adapters/postgres/connection.py\<close>: the settings have no attribute for the pool sizes, so that
  the defaults of \<open>getattr\<close> apply.\<close>

definition create_pool :: "(string \<Rightarrow> int \<Rightarrow> int \<Rightarrow> ('s, 'p) action) \<Rightarrow> storage_settings \<Rightarrow> ('s, 'p) action" where
  "create_pool connect st = (case or_none (sto_postgres_dsn st) of
     None \<Rightarrow> raiseM (ValueError ''StorageSettings.postgres_dsn must be set to use the PostgreSQL adapter.'')
   | Some dsn \<Rightarrow> connect dsn 2 10)"

definition close_pool :: "('p \<Rightarrow> ('s, unit) action) \<Rightarrow> 'p \<Rightarrow> ('s, unit) action" where
  "close_pool close pool = close pool"

subsection \<open>Properties\<close>

text \<open>The singleton: a loaded or overridden configuration is returned as it is until a reset, without
  reading the environment again.\<close>

lemma settings_cached:
  "get_settings load s = (Inr x, s1) \<Longrightarrow> get_settings load' s1 = (Inr x, s1)"
  by (auto simp: get_settings_def split: option.splits sum.splits prod.splits)

lemma settings_overridden: "get_settings load (snd (override_settings x s)) = (Inr x, (Some x, snd s))"
  by (simp add: get_settings_def override_settings_def monad_simps)

lemma settings_reset: "get_settings load (snd (reset_settings s)) =
    (case load (snd s) of (Inl e, env) \<Rightarrow> (Inl e, (None, env)) | (Inr x, env) \<Rightarrow> (Inr x, (Some x, env)))"
  by (simp add: get_settings_def reset_settings_def monad_simps)

lemma make_instruments:
  assumes "distinct (map fst xs)" "set (map fst xs) \<inter> set (ms_registry s) = {}"
  shows "\<exists>ys. forM xs make_instrument s =
    (Inr ys, s\<lparr>ms_registry := ms_registry s @ map fst xs, ms_bound := rev xs @ ms_bound s\<rparr>)"
  using assms
proof (induction xs arbitrary: s)
  case Nil
  then show ?case by simp
next
  case (Cons x xs)
  let ?s = "s\<lparr>ms_registry := ms_registry s @ [fst x], ms_bound := x # ms_bound s\<rparr>"
  have "make_instrument x s = (Inr (), ?s)" using Cons.prems by (auto simp: make_instrument_def)
  moreover from Cons.IH [of ?s] Cons.prems obtain ys where "forM xs make_instrument ?s =
    (Inr ys, ?s\<lparr>ms_registry := ms_registry ?s @ map fst xs, ms_bound := rev xs @ ms_bound ?s\<rparr>)" by auto
  ultimately show ?case by (simp add: bindM_def monad_simps)
qed

lemma distinct_instruments: "distinct (map fst instruments)"
  by (simp add: instruments_def)

text \<open>The state of the metrics after \<open>configure_metrics\<close> in a fresh process with Prometheus installed; a
  second call raises and leaves every binding as it was.\<close>

lemma metrics_configured:
  assumes "obs_metrics_enabled st"
  shows "configure_metrics True st new_metrics =
      (Inr (), \<lparr>ms_enabled = True, ms_bound = rev instruments, ms_registry = map fst instruments\<rparr>)"
proof -
  let ?n = "new_metrics\<lparr>ms_enabled := True\<rparr>"
  from make_instruments [OF distinct_instruments, of ?n] obtain ys where
    "forM instruments make_instrument ?n =
      (Inr ys, ?n\<lparr>ms_registry := map fst instruments, ms_bound := rev instruments\<rparr>)"
    by (auto simp: new_metrics_def)
  with assms show ?thesis by (simp add: configure_metrics_def bindM_def monad_simps new_metrics_def)
qed

lemma metrics_configured_twice:
  assumes "obs_metrics_enabled st" "configure_metrics True st new_metrics = (x, ms)"
  shows "\<exists>e. configure_metrics True st ms = (Inl (ValueError e), ms)"
  using assms metrics_configured [OF assms(1)]
  by (auto simp: configure_metrics_def instruments_def bindM_def monad_simps make_instrument_def)

text \<open>Measuring changes nothing: whatever the histogram does, and whether or not metrics are
  enabled, a body run under the latency tracker with a clock that can be read has the outcome it has
  alone, the exception it raises included; so has a body run in a span of a tracer that does not raise.\<close>

theorem observability_transparent:
  assumes "\<forall>s. \<exists>x. perf_counter s = (Inr x, s)"
    and "\<forall>a b s. sp_start sp a s = (Inr (), s) \<and> sp_set_attribute sp a b s = (Inr (), s) \<and>
      sp_set_error sp a s = (Inr (), s) \<and> sp_end sp s = (Inr (), s)"
  shows "fst (track_latency perf_counter enabled observe body s) = fst (body s) \<and>
    (engine_span available slot sp operation tenant attrs body s) = body s"
proof -
  obtain t where t: "perf_counter s = (Inr t, s)" using assms(1) by blast
  obtain r s1 where b: "body s = (r, s1)" by fastforce
  obtain t1 where t1: "perf_counter s1 = (Inr t1, s1)" using assms(1) by blast
  have "fst (track_latency perf_counter enabled observe body s) = r"
    by (simp add: track_latency_def finallyM_def bindM_def t b t1 tryM_def monad_simps split: prod.split sum.split)
  moreover have attrs: "\<exists>ys. forM attrs (\<lambda>(key, v). sp_set_attribute sp key v) u = (Inr ys, u)" for u
    using assms(2) by (induction attrs) (auto simp: bindM_def monad_simps)
  have "engine_span available slot sp operation tenant attrs body s = (r, s1)"
  proof (cases r)
    case (Inl e)
    from attrs [of s] show ?thesis using assms(2)
      by (auto simp: engine_span_def finallyM_def bindM_def tryM_def monad_simps b Inl)
  next
    case (Inr x)
    from attrs [of s] show ?thesis using assms(2)
      by (auto simp: engine_span_def finallyM_def bindM_def tryM_def monad_simps b Inr)
  qed
  ultimately show ?thesis using b by simp
qed

definition quiet_span :: "'s span_ops" where
  "quiet_span = \<lparr>sp_start = (\<lambda>_. returnM ()), sp_set_attribute = (\<lambda>_ _. returnM ()), sp_set_error = (\<lambda>_. returnM ()),
     sp_end = returnM ()\<rparr>"

lemma observability_transparent_witness:
  "fst (track_latency (returnM 0) True (\<lambda>_. raiseM (ValueError ''labels'')) (raiseM (StorageError ''full'') :: (nat, unit) action) 3) =
     Inl (StorageError ''full'') \<and>
   engine_span True NoOp_Provider quiet_span ''write'' ''acme'' [(''k'', ''v'')] (raiseM (StorageError ''full'') :: (nat, unit) action) 3 =
     (Inl (StorageError ''full''), 3)"
  using observability_transparent [where perf_counter = "returnM 0" and sp = quiet_span and s = "3 :: nat"
      and body = "raiseM (StorageError ''full'') :: (nat, unit) action" and enabled = True and available = True
      and observe = "\<lambda>_. raiseM (ValueError ''labels'')" and slot = NoOp_Provider and operation = "''write''"
      and tenant = "''acme''" and attrs = "[(''k'', ''v'')]"]
  by (simp add: quiet_span_def monad_simps)

end
