(* ===== verification/Logging.thy ===== *)
theory Logging
  imports Observability Py_Values "HOL-Library.AList"
begin

text \<open>
  \<^verbatim>\<open>observability/logging.py\<close> over the standard library's \<^verbatim>\<open>logging\<close>: the root logger with its level
  and handlers, a record as the dictionary of its attributes, and what reached the stream.  Loggers
  are below the root and have no level or handlers of their own.  Rendering a value in a text is
  left out: a line is the list of the attributes its format names.
\<close>

subsection \<open>The standard library\<close>

record log_handler =
  lh_json :: bool
  lh_filtered :: bool

record log_state =
  root_level :: int
  root_handlers :: "log_handler list"
  log_lines :: "(bool \<times> json list) list"

text \<open>Attributes every record has before its extra ones.\<close>

definition record_attributes :: "string list" where
  "record_attributes = [''name'', ''msg'', ''args'', ''levelname'', ''levelno'', ''pathname'', ''filename'', ''module'',
     ''exc_info'', ''exc_text'', ''stack_info'', ''lineno'', ''funcName'', ''created'', ''msecs'', ''relativeCreated'',
     ''thread'', ''threadName'', ''processName'', ''process'', ''taskName'']"

definition make_record :: "json_dict \<Rightarrow> json_dict \<Rightarrow> exn + json_dict" where
  \<comment> \<open>\<open>Logger.makeRecord\<close>: \<open>base\<close> holds the values of the standard attributes\<close>
  "make_record base extra = (case filter (\<lambda>k. k \<in> {''message'', ''asctime''} \<or> k \<in> set (map fst base)) (map fst extra) of
       k # _ \<Rightarrow> Inl (KeyError (''Attempt to overwrite '' @ py_repr k @ '' in LogRecord''))
     | [] \<Rightarrow> Inr (base @ extra))"

text \<open>Formatting sets \<open>message\<close> and \<open>asctime\<close> and then looks up the fields of the format; a missing
  field raises.\<close>

definition format_record :: "string list \<Rightarrow> json_dict \<Rightarrow> exn + json list" where
  "format_record keys r = mapE (subscript (r @ [(''message'', dict_get_or r ''msg'' JNull), (''asctime'', JStr [])])) keys"

subsection \<open>Configuration\<close>

definition context_fields :: "string list" where
  "context_fields = [''tenant_id'', ''trace_id'', ''component'']"

definition context_filter :: "json_dict \<Rightarrow> json_dict" where
  "context_filter r = foldl (\<lambda>r field. if dict_get r field = None then r @ [(field, JStr [])] else r) r context_fields"

definition line_fields :: "bool \<Rightarrow> string list" where
  \<comment> \<open>the fields of the JSON and of the plain format\<close>
  "line_fields js = (if js then [''asctime'', ''levelname'', ''name'', ''message'', ''tenant_id'', ''trace_id'', ''component'']
     else [''asctime'', ''levelname'', ''name'', ''message'', ''tenant_id'', ''trace_id'', ''component''])"

definition upper_char :: "char \<Rightarrow> char" where
  "upper_char c = (let n = (of_char c :: nat) in if 97 \<le> n \<and> n \<le> 122 then char_of (n - 32) else c)"

definition level_of :: "string \<Rightarrow> exn + int" where
  \<comment> \<open>\<^verbatim>\<open>root.setLevel(getattr(logging, name, logging.INFO))\<close>: two upper-case attributes of the module
      are no levels\<close>
  "level_of name = (case map_of [(''CRITICAL'', 50), (''FATAL'', 50), (''ERROR'', 40), (''WARNING'', 30), (''WARN'', 30),
       (''INFO'', 20), (''DEBUG'', 10), (''NOTSET'', 0)] name of
     Some n \<Rightarrow> Inr n
   | None \<Rightarrow> if name = ''BASIC_FORMAT'' then Inl (ValueError ''Unknown level'')
       else if name = ''_STYLES'' then Inl (TypeError ''Level not an integer or a valid string'')
       else Inr 20)"

definition configure_logging :: "(exn + unit) \<Rightarrow> observability_settings \<Rightarrow> string \<Rightarrow> (log_state, unit) action" where
  \<comment> \<open>\<open>formatter\<close>: importing the JSON formatter, under either of its names\<close>
  "configure_logging formatter st log_level =
     bindM (liftM (level_of (map upper_char log_level))) (\<lambda>level.
     bindM (modifyM (\<lambda>s. s\<lparr>root_level := level, root_handlers := []\<rparr>)) (\<lambda>_.
     bindM (if obs_log_json st then liftM formatter else returnM ()) (\<lambda>_.
     modifyM (\<lambda>s. s\<lparr>root_handlers := root_handlers s @ [\<lparr>lh_json = obs_log_json st, lh_filtered = True\<rparr>]\<rparr>))))"

subsection \<open>Logging\<close>

definition log_extra :: "string \<Rightarrow> json_dict \<Rightarrow> json_dict" where
  \<comment> \<open>\<open>_extra\<close>\<close>
  "log_extra component kwargs =
     foldl (\<lambda>d kv. AList.update (fst kv) (snd kv) d) [(''component'', JStr component)] kwargs"

definition handle_record :: "json_dict \<Rightarrow> log_handler \<Rightarrow> (log_state, unit) action" where
  \<comment> \<open>what a format misses is reported on stderr by the handler, not raised\<close>
  "handle_record r h = (case format_record (line_fields (lh_json h)) (if lh_filtered h then context_filter r else r) of
       Inl _ \<Rightarrow> returnM ()
     | Inr line \<Rightarrow> modifyM (\<lambda>s. s\<lparr>log_lines := log_lines s @ [(lh_json h, line)]\<rparr>))"

definition log_at :: "int \<Rightarrow> json_dict \<Rightarrow> json_dict \<Rightarrow> (log_state, unit) action" where
  \<comment> \<open>a logger's call with its extra attributes\<close>
  "log_at level base extra = bindM (getM id) (\<lambda>s.
     if level < root_level s then returnM ()
     else bindM (liftM (make_record base extra)) (\<lambda>r. bindM (forM (root_handlers s) (handle_record r)) (\<lambda>_. returnM ())))"

datatype log_method = Log_Debug | Log_Info | Log_Warning | Log_Error

fun method_level :: "log_method \<Rightarrow> int" where
  "method_level Log_Debug = 10"
| "method_level Log_Info = 20"
| "method_level Log_Warning = 30"
| "method_level Log_Error = 40"

definition logger_call :: "string \<Rightarrow> log_method \<Rightarrow> json_dict \<Rightarrow> json_dict \<Rightarrow> (log_state, unit) action" where
  \<comment> \<open>a method of \<open>MemoryLayerLogger\<close> with the keyword arguments \<open>kwargs\<close>\<close>
  "logger_call component m base kwargs =
     (if \<exists>k \<in> {''self'', ''msg''}. k \<in> set (map fst kwargs)
      then raiseM (TypeError ''got multiple values for argument'')
      else log_at (method_level m) base (log_extra component kwargs))"

subsection \<open>Properties\<close>

lemma configured:
  "configure_logging formatter st log_level s = (Inr (), s') \<Longrightarrow>
     root_handlers s' = [\<lparr>lh_json = obs_log_json st, lh_filtered = True\<rparr>] \<and>
     level_of (map upper_char log_level) = Inr (root_level s') \<and> log_lines s' = log_lines s"
  by (auto simp: configure_logging_def result_iff monad_simps split: if_splits sum.splits)

lemma filled_get: "dict_get (foldl (\<lambda>r field. if dict_get r field = None then r @ [(field, JStr [])] else r) r fs) k =
    (case dict_get r k of None \<Rightarrow> if k \<in> set fs then Some (JStr []) else None | Some v \<Rightarrow> Some v)"
proof (induction fs arbitrary: r)
  case (Cons f fs)
  have "dict_get (if dict_get r f = None then r @ [(f, JStr [])] else r) k =
      (case dict_get r k of None \<Rightarrow> if k = f then Some (JStr []) else None | Some v \<Rightarrow> Some v)"
    by (auto simp: dict_get_def map_add_def split: option.split)
  with Cons show ?case by (simp split: option.split)
qed (simp split: option.split)

lemma filter_get: "dict_get (context_filter r) k =
    (case dict_get r k of None \<Rightarrow> if k \<in> set context_fields then Some (JStr []) else None | Some v \<Rightarrow> Some v)"
  by (simp add: context_filter_def filled_get)

lemma updated_get: "distinct (map fst kwargs) \<Longrightarrow>
    map_of (foldl (\<lambda>d kv. AList.update (fst kv) (snd kv) d) d kwargs) k =
      (case map_of kwargs k of Some v \<Rightarrow> Some v | None \<Rightarrow> map_of d k)"
proof (induction kwargs arbitrary: d)
  case (Cons x xs)
  then have "map_of xs (fst x) = None" by (simp add: map_of_eq_None_iff)
  with Cons show ?case by (cases x) (auto simp: AList.update_conv' split: option.splits)
qed simp

lemma extra_get: "distinct (map fst kwargs) \<Longrightarrow> dict_get (log_extra component kwargs) k =
    (case map_of kwargs k of Some v \<Rightarrow> Some v | None \<Rightarrow> if k = ''component'' then Some (JStr component) else None)"
  by (simp add: log_extra_def dict_get_def updated_get split: option.split)

lemma extra_keys: "set (map fst (log_extra component kwargs)) = insert ''component'' (set (map fst kwargs))"
proof -
  have "fst ` set (foldl (\<lambda>d kv. AList.update (fst kv) (snd kv) d) d kwargs) = fst ` set d \<union> fst ` set kwargs" for d
    by (induction kwargs arbitrary: d) (auto simp: AList.dom_update)
  then show ?thesis by (simp add: log_extra_def)
qed

definition overwrites :: "json_dict \<Rightarrow> json_dict \<Rightarrow> bool" where
  "overwrites base extra \<longleftrightarrow> (\<exists>k \<in> set (map fst extra). k \<in> {''message'', ''asctime''} \<or> k \<in> set (map fst base))"

lemma make_record_error: "overwrites base extra \<Longrightarrow> \<exists>m. make_record base extra = Inl (KeyError m)"
proof -
  assume "overwrites base extra"
  then have "filter (\<lambda>k. k \<in> {''message'', ''asctime''} \<or> k \<in> set (map fst base)) (map fst extra) \<noteq> []"
    unfolding overwrites_def filter_empty_conv by blast
  then show ?thesis by (auto simp: make_record_def neq_Nil_conv)
qed

lemma make_record_ok: "\<not> overwrites base extra \<Longrightarrow> make_record base extra = Inr (base @ extra)"
proof -
  assume "\<not> overwrites base extra"
  then have "filter (\<lambda>k. k \<in> {''message'', ''asctime''} \<or> k \<in> set (map fst base)) (map fst extra) = []"
    unfolding overwrites_def filter_empty_conv by blast
  then show ?thesis by (simp add: make_record_def)
qed

text \<open>What a line shows of a record.\<close>

definition field_shown :: "json_dict \<Rightarrow> string \<Rightarrow> json" where
  "field_shown r k = (case map_of (r @ [(''message'', dict_get_or r ''msg'' JNull), (''asctime'', JStr [])]) k of
     Some v \<Rightarrow> v | None \<Rightarrow> JNull)"

lemma in_extended: "k \<in> S \<or> k = a \<or> k = b \<Longrightarrow> (k \<in> S \<Longrightarrow> k \<in> T) \<Longrightarrow> U = insert a (insert b T) \<Longrightarrow> k \<in> U"
  by auto

lemma format_filtered:
  assumes "set [''name'', ''levelname''] \<subseteq> set (map fst r)"
  shows "format_record (line_fields js) (context_filter r) = Inr (map (field_shown (context_filter r)) (line_fields js))"
proof -
  have std: "dict_get r ''name'' \<noteq> None" "dict_get r ''levelname'' \<noteq> None"
    using assms by (auto simp: dict_get_def map_of_eq_None_iff)
  have "dict_get (context_filter r) k \<noteq> None" if "k \<in> {''levelname'', ''name'', ''tenant_id'', ''trace_id'', ''component''}" for k
  proof (cases "k \<in> set context_fields")
    case True
    then show ?thesis by (simp add: filter_get split: option.split)
  next
    case False
    with that have "k = ''name'' \<or> k = ''levelname''" by (auto simp: context_fields_def)
    with std show ?thesis by (auto simp: filter_get)
  qed
  then have there: "k \<in> fst ` set (context_filter r)" if "k \<in> {''levelname'', ''name'', ''tenant_id'', ''trace_id'', ''component''}" for k
    using that by (metis dict_get_def map_of_eq_None_iff)
  let ?r = "context_filter r @ [(''message'', dict_get_or (context_filter r) ''msg'' JNull), (''asctime'', JStr [])]"
  have "subscript ?r k = Inr (field_shown (context_filter r) k)" if "k \<in> set (line_fields js)" for k
  proof -
    have "k \<in> {''levelname'', ''name'', ''tenant_id'', ''trace_id'', ''component''} \<or> k = ''message'' \<or> k = ''asctime''"
      using that by (auto simp: line_fields_def)
    from this there have "k \<in> fst ` set ?r" by (rule in_extended) simp_all
    then obtain v where v: "map_of ?r k = Some v" by (metis map_of_eq_None_iff not_None_eq)
    show ?thesis unfolding subscript_def field_shown_def dict_get_def v [unfolded dict_get_def] by simp
  qed
  then show ?thesis unfolding format_record_def by (rule mapE_map)
qed


text \<open>Once the logging is configured the root has exactly the one handler, whatever it had before; a
  call of the module's logger below the level does nothing, one whose context repeats an attribute
  of the record raises \<open>KeyError\<close> and prints nothing, and any other prints one line, with the tenant
  and the trace of the context or empty texts, and the logger's component unless the context has its own.\<close>

theorem logging_spec:
  assumes conf: "configure_logging formatter st log_level s = (Inr (), s0)"
    and "distinct (map fst kwargs)" "set (map fst kwargs) \<inter> {''self'', ''msg''} = {}" "set (map fst base) = set record_attributes"
  shows "length (root_handlers s0) = 1 \<and>
    (if method_level m < root_level s0 then logger_call component m base kwargs s0 = (Inr (), s0)
     else if overwrites base kwargs then \<exists>e. logger_call component m base kwargs s0 = (Inl (KeyError e), s0)
     else \<exists>line. logger_call component m base kwargs s0 = (Inr (), s0\<lparr>log_lines := log_lines s0 @ [(obs_log_json st, line)]\<rparr>) \<and>
       drop 4 line = map (\<lambda>(k, dflt). dict_get_or kwargs k dflt)
         [(''tenant_id'', JStr []), (''trace_id'', JStr []), (''component'', JStr component)])"
proof (intro conjI)
  note c = configured [OF conf]
  then show "length (root_handlers s0) = 1" by simp
  let ?extra = "log_extra component kwargs"
  have call: "logger_call component m base kwargs s0 = log_at (method_level m) base ?extra s0"
    using assms(3) by (auto simp: logger_call_def)
  have std: "''component'' \<notin> set (map fst base)" "''message'' \<notin> set (map fst base)" "''asctime'' \<notin> set (map fst base)"
    "''tenant_id'' \<notin> set (map fst base)" "''trace_id'' \<notin> set (map fst base)"
    "set [''name'', ''levelname''] \<subseteq> set (map fst base)"
    unfolding assms(4) by (simp_all add: record_attributes_def)
  have over: "overwrites base ?extra = overwrites base kwargs"
    unfolding overwrites_def extra_keys using std(1) by auto
  show "if method_level m < root_level s0 then logger_call component m base kwargs s0 = (Inr (), s0)
     else if overwrites base kwargs then \<exists>e. logger_call component m base kwargs s0 = (Inl (KeyError e), s0)
     else \<exists>line. logger_call component m base kwargs s0 = (Inr (), s0\<lparr>log_lines := log_lines s0 @ [(obs_log_json st, line)]\<rparr>) \<and>
       drop 4 line = map (\<lambda>(k, dflt). dict_get_or kwargs k dflt)
         [(''tenant_id'', JStr []), (''trace_id'', JStr []), (''component'', JStr component)]"
  proof (cases "method_level m < root_level s0")
    case True
    then show ?thesis by (simp add: call log_at_def bindM_def monad_simps)
  next
    case enabled: False
    show ?thesis
    proof (cases "overwrites base kwargs")
      case True
      then obtain e where "make_record base ?extra = Inl (KeyError e)" using make_record_error over by metis
      with enabled True show ?thesis by (simp add: call log_at_def bindM_def monad_simps)
    next
      case False
      let ?r = "base @ ?extra"
      let ?line = "map (field_shown (context_filter ?r)) (line_fields (obs_log_json st))"
      have made: "make_record base ?extra = Inr ?r" using make_record_ok False over by metis
      have "format_record (line_fields (obs_log_json st)) (context_filter ?r) = Inr ?line"
        by (rule format_filtered) (use std(6) in auto)
      then have "logger_call component m base kwargs s0 = (Inr (), s0\<lparr>log_lines := log_lines s0 @ [(obs_log_json st, ?line)]\<rparr>)"
        using enabled made c by (simp add: call log_at_def handle_record_def bindM_def monad_simps)
      moreover have own: "field_shown (context_filter ?r) k = (case dict_get (context_filter ?r) k of Some v \<Rightarrow> v | None \<Rightarrow> JNull)"
        if "k \<in> set context_fields" for k
        using that by (auto simp: field_shown_def dict_get_def context_fields_def map_add_def split: option.splits)
      have "dict_get ?r k = dict_get ?extra k" if "k \<in> set context_fields" for k
      proof -
        have "k \<notin> set (map fst base)" unfolding assms(4) using that by (auto simp: record_attributes_def context_fields_def)
        then have "map_of base k = None" by (simp add: map_of_eq_None_iff)
        then show ?thesis by (simp add: dict_get_def map_add_def split: option.split)
      qed
      then have "field_shown (context_filter ?r) k = (case dict_get ?extra k of Some v \<Rightarrow> v | None \<Rightarrow> JStr [])"
        if "k \<in> set context_fields" for k
        using that own by (auto simp: filter_get split: option.splits)
      then have "drop 4 ?line = map (\<lambda>(k, dflt). dict_get_or kwargs k dflt)
         [(''tenant_id'', JStr []), (''trace_id'', JStr []), (''component'', JStr component)]"
        using extra_get [OF assms(2), of component]
        by (simp add: line_fields_def context_fields_def dict_get_or_def dict_get_def split: option.splits)
      ultimately show ?thesis using enabled False by auto
    qed
  qed
qed

lemma logging_spec_witness:
  "\<exists>s0 line. configure_logging (Inr ()) default_observability ''info'' \<lparr>root_level = 30, root_handlers = [], log_lines = []\<rparr> = (Inr (), s0) \<and>
    logger_call ''pipeline'' Log_Info (map (\<lambda>k. (k, JNull)) record_attributes) [(''tenant_id'', JStr ''acme'')] s0 =
      (Inr (), s0\<lparr>log_lines := [(False, line)]\<rparr>) \<and>
    drop 4 line = [JStr ''acme'', JStr [], JStr ''pipeline'']"
proof -
  let ?base = "map (\<lambda>k. (k, JNull)) record_attributes"
  let ?s0 = "\<lparr>root_level = 20, root_handlers = [\<lparr>lh_json = False, lh_filtered = True\<rparr>], log_lines = []\<rparr>"
  have up: "map upper_char ''info'' = ''INFO''" by code_simp
  have conf: "configure_logging (Inr ()) default_observability ''info'' \<lparr>root_level = 30, root_handlers = [], log_lines = []\<rparr> = (Inr (), ?s0)"
    unfolding configure_logging_def up by (simp add: level_of_def default_observability_def bindM_def monad_simps)
  have free: "\<not> overwrites ?base [(''tenant_id'', JStr ''acme'')]"
    by (simp add: overwrites_def record_attributes_def)
  have "set (map fst ?base) = set record_attributes" by (simp add: o_def)
  with logging_spec [OF conf, of "[(''tenant_id'', JStr ''acme'')]" ?base Log_Info "''pipeline''"] free show ?thesis
    using conf by (intro exI [of _ ?s0]) (auto simp: default_observability_def dict_get_or_def dict_get_def)
qed

end
