(* ===== verification/Service_Metrics.thy ===== *)
theory Service_Metrics
  imports Observability Lifecycle_Services Fact_Extraction Fixtures
begin

text \<open>
  The services with their metrics: the latency trackers around \<open>WriteMemoryService.execute\<close> and
  \<open>LLMExtractionService.extract\<close>, and that every call a service makes on a metric fits the instrument
  that \<open>configure_metrics\<close> binds to the name.
\<close>

subsection \<open>The tracked services\<close>

text \<open>A tracker of the module: the histogram and the labels it is given, and whether metrics are
  enabled.\<close>

definition tracked ::
  "('s, rat) action \<Rightarrow> bool \<Rightarrow> 's runtime \<Rightarrow> string \<Rightarrow> (string \<times> string) list \<Rightarrow> ('s, 'a) action \<Rightarrow> ('s, 'a) action" where
  "tracked perf_counter enabled rt histogram labels body =
     track_latency perf_counter enabled (\<lambda>duration. run_metric rt (Observe histogram labels duration)) body"

definition write_tracked ::
  "('s, rat) action \<Rightarrow> bool \<Rightarrow> 's runtime \<Rightarrow> 's record_repo \<Rightarrow> 's audit_log_port \<Rightarrow> 's observer_port \<Rightarrow>
   's extraction_port option \<Rightarrow> write_request \<Rightarrow> ('s, write_result) action" where
  "write_tracked perf_counter enabled rt repo audit observer extraction request =
     tracked perf_counter enabled rt ''write_latency_seconds'' [(''tenant_id'', wr_tenant_id request)]
       (write_execute rt repo audit observer extraction request)"

text \<open>The block of \<open>extract\<close> under the tracker, which may return early, and what follows it.\<close>

definition extract_block ::
  "'s runtime \<Rightarrow> 's llm_client \<Rightarrow> 's fact_repo \<Rightarrow> 's observer_port \<Rightarrow> conflict_resolution_policy \<Rightarrow>
   memory_record \<Rightarrow> ('s, extraction_result + fact list) action" where
  "extract_block rt llm fact_repo observer policy record =
     bindM (tryM (bindM (ask_llm rt llm record) (\<lambda>raws. returnM (Inr raws)))
        (\<lambda>e. returnM (Inl (exn_str e)))) (\<lambda>answer. case answer of
       Inl err \<Rightarrow> returnM (Inl
         \<lparr>er_memory_record_id = mr_id record, er_facts = [], er_entities = [], er_error = Some err\<rparr>)
     | Inr raws \<Rightarrow>
         bindM (forM raws (extract_one rt fact_repo observer policy record)) (\<lambda>saved.
         bindM (ob_emit observer (event (mr_tenant_id record)
           (FactsExtractedEvent (mr_id record) (map fact_id saved)))) (\<lambda>_.
         returnM (Inr saved))))"

definition count_extracted ::
  "'s runtime \<Rightarrow> memory_record \<Rightarrow> extraction_result + fact list \<Rightarrow> ('s, extraction_result) action" where
  "count_extracted rt record result = (case result of
       Inl early \<Rightarrow> returnM early
     | Inr saved \<Rightarrow>
         bindM (run_metric rt (Inc ''extraction_facts_total'' [(''tenant_id'', mr_tenant_id record),
           (''sector'', sector_str (mr_sector record))] (int (length saved)))) (\<lambda>_.
         returnM \<lparr>er_memory_record_id = mr_id record, er_facts = saved,
           er_entities = entities_of saved, er_error = None\<rparr>))"

definition extract_tracked ::
  "('s, rat) action \<Rightarrow> bool \<Rightarrow> 's runtime \<Rightarrow> 's llm_client \<Rightarrow> 's fact_repo \<Rightarrow> 's observer_port \<Rightarrow>
   conflict_resolution_policy \<Rightarrow> memory_record \<Rightarrow> ('s, extraction_result) action" where
  "extract_tracked perf_counter enabled rt llm fact_repo observer policy record =
     bindM (tracked perf_counter enabled rt ''extraction_latency_seconds'' [(''tenant_id'', mr_tenant_id record)]
         (extract_block rt llm fact_repo observer policy record))
       (count_extracted rt record)"

text \<open>Without metrics, and with a clock that can be read, the trackers leave the services as they are
  modelled.\<close>

lemma tracked_off:
  assumes "\<And>s. \<exists>x. perf_counter s = (Inr x, s)"
  shows "tracked perf_counter False rt histogram labels body = body"
proof
  fix s
  obtain r s1 where b: "body s = (r, s1)" using prod.exhaust by blast
  obtain t t1 where "perf_counter s = (Inr t, s)" "perf_counter s1 = (Inr t1, s1)" using assms by blast
  with b show "tracked perf_counter False rt histogram labels body s = body s"
    by (simp add: tracked_def track_latency_def finallyM_def bindM_def monad_simps)
qed

lemma extract_split:
  "bindM (extract_block rt llm fact_repo observer policy record) (count_extracted rt record) =
   extract_facts rt llm fact_repo observer policy record"
  by (rule ext) (auto simp: extract_block_def count_extracted_def extract_facts_def store_extracted_def bindM_def
      monad_simps split: prod.splits sum.splits)

theorem services_untracked:
  assumes "\<And>s. \<exists>x. perf_counter s = (Inr x, s)"
  shows "write_tracked perf_counter False rt repo audit observer extraction request =
      write_execute rt repo audit observer extraction request"
    "extract_tracked perf_counter False rt llm fact_repo observer policy record =
      extract_facts rt llm fact_repo observer policy record"
  by (simp_all add: write_tracked_def extract_tracked_def tracked_off [OF assms] extract_split)

subsection \<open>The registry in use\<close>

text \<open>The runtime whose metric calls go through the bound instruments.\<close>

definition strict :: "metrics_state \<Rightarrow> 's runtime \<Rightarrow> 's runtime" where
  "strict ms rt = rt\<lparr>run_metric := use_metric ms (run_metric rt)\<rparr>"

definition configured :: metrics_state where
  "configured = \<lparr>ms_enabled = True, ms_bound = rev instruments, ms_registry = map fst instruments\<rparr>"

lemma strict_simps [simp]:
  "run_utcnow (strict ms rt) = run_utcnow rt" "run_uuid4 (strict ms rt) = run_uuid4 rt"
  "run_create_task (strict ms rt) = run_create_task rt" "run_float_str (strict ms rt) = run_float_str rt"
  "run_json_loads (strict ms rt) = run_json_loads rt" "run_sha256_hex (strict ms rt) = run_sha256_hex rt"
  "run_metric (strict ms rt) = use_metric ms (run_metric rt)"
  by (simp_all add: strict_def)

lemma bound_instruments:
  "map_of (ms_bound configured) ''memory_writes_total'' = Some (Counter [''tenant_id'', ''sector'', ''status''])"
  "map_of (ms_bound configured) ''memory_decays_total'' = Some (Counter [''tenant_id''])"
  "map_of (ms_bound configured) ''memory_consolidations_total'' = Some (Counter [''tenant_id''])"
  "map_of (ms_bound configured) ''extraction_facts_total'' = Some (Counter [''tenant_id'', ''sector''])"
  "map_of (ms_bound configured) ''write_latency_seconds'' = Some (Histogram [''tenant_id''])"
  "map_of (ms_bound configured) ''extraction_latency_seconds'' = Some (Histogram [''tenant_id''])"
  by (simp_all add: configured_def instruments_def)

lemma unmetered [simp]:
  "raw_text (strict ms rt) = raw_text rt" "build_candidate (strict ms rt) = build_candidate rt"
  "resolve_against (strict ms rt) = resolve_against rt" "ask_llm (strict ms rt) = ask_llm rt"
  "start_enrichment (strict ms rt) = start_enrichment rt" "decay_one (strict ms rt) = decay_one rt"
  "consolidate_batch (strict ms rt) = consolidate_batch rt"
proof -
  show raw: "raw_text (strict ms rt) = raw_text rt" by (intro ext) (simp add: raw_text_def)
  show "build_candidate (strict ms rt) = build_candidate rt"
    by (intro ext) (simp add: build_candidate_def raw split: json.split)
  show "resolve_against (strict ms rt) = resolve_against rt"
    by (intro ext) (simp add: resolve_against_def split: list.split)
  show "ask_llm (strict ms rt) = ask_llm rt" by (intro ext) (simp add: ask_llm_def)
  show "start_enrichment (strict ms rt) = start_enrichment rt"
    by (intro ext) (simp add: start_enrichment_def split: option.split)
  show "decay_one (strict ms rt) = decay_one rt" by (intro ext) (simp add: decay_one_def)
  show "consolidate_batch (strict ms rt) = consolidate_batch rt"
    by (intro ext) (simp add: consolidate_batch_def cong: list.case_cong)
qed

lemma resolve_unmetered [simp]: "resolve_contradiction (strict ms rt) = resolve_contradiction rt"
  by (intro ext) (simp add: resolve_contradiction_def)

lemma extract_one_unmetered [simp]: "extract_one (strict ms rt) = extract_one rt"
  by (intro ext) (simp add: extract_one_def)

lemma run_sector_unmetered [simp]: "run_sector (strict ms rt) = run_sector rt"
  by (intro ext) (simp add: run_sector_def Let_def cong: if_cong)

lemma write_new_strict [simp]: "write_new (strict configured rt) = write_new rt"
  by (intro ext) (simp add: write_new_def Let_def bound_instruments labels_fit_def insert_commute)

lemma write_execute_strict [simp]: "write_execute (strict configured rt) = write_execute rt"
  by (intro ext) (simp add: write_execute_def bound_instruments labels_fit_def insert_commute cong: option.case_cong)

lemma decay_strict: "decay_execute (strict configured rt) = decay_execute rt"
  by (intro ext) (simp add: decay_execute_def bound_instruments labels_fit_def)

text \<open>The number a consolidation counts is never negative.\<close>

lemma batch_count:
  "consolidate_batch rt repo audit observer llm t sector batch s = (Inr n, s') \<Longrightarrow> 0 \<le> n"
  by (cases batch) (auto simp: consolidate_batch_def result_iff monad_simps)

lemma run_sector_count:
  "run_sector rt repo audit observer llm t sc policy sector s = (Inr n, s') \<Longrightarrow> 0 \<le> n"
  using batch_count by (fastforce simp: run_sector_def Let_def result_iff monad_simps split: if_splits)

lemma bindM_cong:
  "(\<And>x s'. m s = (Inr x, s') \<Longrightarrow> f x s' = g x s') \<Longrightarrow> bindM m f s = bindM m g s"
  by (auto simp: bindM_def split: prod.splits sum.splits)

lemma consolidation_strict: "consolidation_execute (strict configured rt) = consolidation_execute rt"
proof (intro ext)
  fix repo audit observer policies llm t sc s
  have "bindM (forM (cp_sectors p) (run_sector rt repo audit observer llm t sc p)) (\<lambda>counts.
      bindM (use_metric configured (run_metric rt) (Inc ''memory_consolidations_total'' [(''tenant_id'', t)] (sum_list counts)))
        (\<lambda>_. returnM (sum_list counts))) u =
    bindM (forM (cp_sectors p) (run_sector rt repo audit observer llm t sc p)) (\<lambda>counts.
      bindM (run_metric rt (Inc ''memory_consolidations_total'' [(''tenant_id'', t)] (sum_list counts)))
        (\<lambda>_. returnM (sum_list counts))) u" for p u
  proof (rule bindM_cong)
    fix counts u'
    assume "forM (cp_sectors p) (run_sector rt repo audit observer llm t sc p) u = (Inr counts, u')"
    then have "\<forall>n \<in> set counts. 0 \<le> n" by (rule forM_Inr_Ball) (rule run_sector_count)
    then have "0 \<le> sum_list counts" by (simp add: sum_list_nonneg)
    then show "bindM (use_metric configured (run_metric rt) (Inc ''memory_consolidations_total'' [(''tenant_id'', t)] (sum_list counts)))
        (\<lambda>_. returnM (sum_list counts)) u' =
      bindM (run_metric rt (Inc ''memory_consolidations_total'' [(''tenant_id'', t)] (sum_list counts)))
        (\<lambda>_. returnM (sum_list counts)) u'"
      by (simp add: bound_instruments labels_fit_def)
  qed
  then show "consolidation_execute (strict configured rt) repo audit observer policies llm t sc s =
      consolidation_execute rt repo audit observer policies llm t sc s"
    unfolding consolidation_execute_def by (intro bindM_cong) (simp add: Let_def)
qed

lemma tracked_strict:
  "map_of (ms_bound configured) histogram = Some (Histogram [l]) \<Longrightarrow>
   tracked perf_counter enabled (strict configured rt) histogram [(l, v)] body = tracked perf_counter enabled rt histogram [(l, v)] body"
  by (simp add: tracked_def labels_fit_def)

lemma extract_block_strict: "extract_block (strict ms rt) = extract_block rt"
  by (intro ext) (simp add: extract_block_def cong: sum.case_cong)

lemma count_extracted_strict: "count_extracted (strict configured rt) = count_extracted rt"
  by (intro ext) (simp add: count_extracted_def bound_instruments labels_fit_def insert_commute cong: sum.case_cong)

subsection \<open>Properties\<close>

text \<open>C40. The metric calls of the services fit the instruments: once the metrics are configured in a fresh
  process with Prometheus installed, every call of a write, an extraction, a decay or a consolidation,
  its latency tracker included, names a bound instrument of its kind, passes exactly the declared
  labels and never decreases a counter.  So, whatever the ports do, the services behave over the checking
  registry as they do over one that records every call.  Configuring a second time raises and leaves
  the bindings as they were.\<close>

theorem metrics_spec:
  assumes "obs_metrics_enabled st" "configure_metrics True st new_metrics = (x, ms)"
  shows "x = Inr () \<and>
    write_tracked perf_counter enabled (strict ms rt) repo audit observer extraction request =
      write_tracked perf_counter enabled rt repo audit observer extraction request \<and>
    extract_tracked perf_counter enabled (strict ms rt) llm fact_repo observer policy record =
      extract_tracked perf_counter enabled rt llm fact_repo observer policy record \<and>
    decay_execute (strict ms rt) repo audit days t = decay_execute rt repo audit days t \<and>
    consolidation_execute (strict ms rt) repo audit observer policies summariser t sc =
      consolidation_execute rt repo audit observer policies summariser t sc \<and>
    (\<exists>e. configure_metrics True st ms = (Inl (ValueError e), ms))"
proof -
  have ms: "x = Inr ()" "ms = configured"
    using assms metrics_configured [OF assms(1)] by (simp_all add: configured_def)
  show ?thesis
    using ms(1) metrics_configured_twice [OF assms]
    by (simp add: ms(2) write_tracked_def extract_tracked_def tracked_strict bound_instruments extract_block_strict
        count_extracted_strict decay_strict consolidation_strict)
qed

text \<open>A registry of its own, which counts the calls it records: a write reaches it twice,
  once for the counter and once for the histogram.\<close>

definition counting :: "nat runtime" where
  "counting = still_runtime\<lparr>run_metric := (\<lambda>_. modifyM Suc)\<rparr>"

definition quiet_repo :: "'s record_repo" where
  "quiet_repo = \<lparr>rr_save = (\<lambda>_. returnM ()), rr_get_by_id = (\<lambda>_ _. returnM None),
     rr_update_lifecycle = (\<lambda>_ _ _ _. returnM ()), rr_update_pipeline_status = (\<lambda>_ _ _. returnM ()),
     rr_list_by_scope = (\<lambda>_ _ _. returnM []), rr_get_by_idempotency_key = (\<lambda>_ _. returnM None),
     rr_list_active_older_than = (\<lambda>_ _. returnM []), rr_update_lifecycle_state = (\<lambda>_ _ _. returnM ())\<rparr>"

definition quiet_audit :: "'s audit_log_port" where
  "quiet_audit = \<lparr>al_append = (\<lambda>_. returnM ()), al_get_by_memory_id = (\<lambda>_ _. returnM [])\<rparr>"

theorem metrics_spec_witness:
  "\<exists>ms res. configure_metrics True default_observability new_metrics = (Inr (), ms) \<and>
     write_tracked (returnM 0) True (strict ms counting) quiet_repo quiet_audit silent_observer None write_a 0 = (Inr res, 2)"
proof -
  obtain x ms where c: "configure_metrics True default_observability new_metrics = (x, ms)" using prod.exhaust by blast
  have "\<exists>res. write_tracked (returnM 0) True counting quiet_repo quiet_audit silent_observer None write_a 0 = (Inr res, 2)"
    by (simp add: write_tracked_def tracked_def track_latency_def finallyM_def tryM_def write_execute_def write_new_def
        start_enrichment_def Let_def bindM_def monad_simps counting_def quiet_repo_def quiet_audit_def write_a_def)
  moreover have "obs_metrics_enabled default_observability" by (simp add: default_observability_def)
  ultimately show ?thesis using metrics_spec [OF _ c] c by metis
qed

end
