(* ===== verification/Spec2Isabelle.thy ===== *)
theory Spec2Isabelle
  imports Recall Scheduler Local_Vector Migrations Postgres_Records Postgres_Facts Postgres_Logs Postgres_Ddl
    Vector_Retrieval Api_Health Local_Returns Sdk_Deployment Logging Service_Metrics
begin

text \<open>
  A verification library for AILooM, the memory layer for agents under
  \<^verbatim>\<open>src/src/memory_layer\<close>.

  \<^bold>\<open>The program.\<close>  A memory layer stores what agents say and do as records of a tenant, extracts
  facts from them with an LLM, and answers searches and recalls over vector and full-text
  indexes.  It is built as ports and adapters: the services of \<^verbatim>\<open>engine/\<close> are given repositories,
  indexes, an audit log and an event observer; \<^verbatim>\<open>storage/\<close> implements them over SQLite and a local
  vector store, \<^verbatim>\<open>adapters/\<close> over Postgres and Qdrant; \<^verbatim>\<open>api/\<close> serves the services over HTTP,
  \<^verbatim>\<open>sdk/\<close> is its client, and \<^verbatim>\<open>mcp/\<close> and \<^verbatim>\<open>integrations/\<close> offer the client to agents.

  \<^bold>\<open>How code becomes definitions.\<close>  A method is a computation \<open>('s, 'a) action\<close> of theory Prelude: it
  takes the state and returns the raised exception or the result, and the state it leaves; effects
  made before an exception stay.  A dataclass is a record, an enum a datatype with the table of
  its texts, an exception class a constructor of \<open>exn\<close>.  A port is a record of operations
  over the state type, which a service takes as argument, as its constructor does.  Python
  integers are \<open>int\<close>, floats the rationals they denote, strings lists of characters (code
  points up to 255).

  \<^bold>\<open>Theories and the code they model.\<close>
  \<^item> Prelude, Py_Values, Py_Datetime: exceptions with state, loops, the parts of Python's strings,
    numbers and \<open>datetime\<close> the code uses.
  \<^item> Domain_Types, Domain_Records, Domain_Policies, Domain_Events: \<^verbatim>\<open>domain/\<close>.  Ports: \<^verbatim>\<open>ports/\<close>.
  \<^item> Sqlite_Db, Sqlite_Records, Sqlite_Facts, Sqlite_Audit, Sqlite_Policies: the repositories of
    \<^verbatim>\<open>storage/sqlite/\<close> over tables of rows with their constraints, a table a list of row
    records; the failure of the driver is the predicate \<open>io_fails\<close> of the database state.
  \<^item> Migrations: \<^verbatim>\<open>storage/sqlite/migration_runner.py\<close> and \<^verbatim>\<open>adapters/postgres/migrator.py\<close>.
    Postgres_Ddl: the DDL texts of the Postgres adapters as statements over a catalogue of tables,
    indexes, functions and triggers, under the migrator and under the Alembic revision of
    \<^verbatim>\<open>adapters/postgres/migrations/\<close>, with the URL its environment sets.
  \<^item> Local_Vector: \<^verbatim>\<open>storage/vector/local_vector.py\<close> over a client for the vector store, which is a
    parameter, and an in-memory instance of it.
  \<^item> Planner, Retrieval, Recall: \<^verbatim>\<open>engine/planner.py\<close>, \<^verbatim>\<open>retrieval.py\<close>, \<^verbatim>\<open>recall.py\<close>.
    Ingestion, Fact_Extraction: \<^verbatim>\<open>ingestion.py\<close>, \<^verbatim>\<open>extraction.py\<close>.  Consolidation,
    Lifecycle_Services: \<^verbatim>\<open>consolidation.py\<close>, \<^verbatim>\<open>decay.py\<close>, \<^verbatim>\<open>session.py\<close>, \<^verbatim>\<open>explain.py\<close>.
    Scheduler: \<^verbatim>\<open>scheduler.py\<close>, with the tasks of the event loop as explicit states.
  \<^item> Local_Mode, Local_Services: \<^verbatim>\<open>storage/container.py\<close>, the services wired over one database
    file; enrichment is a pending task that a step of the event loop runs.
  \<^item> Api_Schemas, Api_Errors, Api_App, Api_Health: \<^verbatim>\<open>api/\<close>, from the tenant middleware to the
    endpoints and the health checks; what FastAPI does is a parameter with its documented
    behaviour as a hypothesis.
  \<^item> Postgres_Db, Postgres_Records, Postgres_Facts, Postgres_Logs, Postgres_Vector:
    \<^verbatim>\<open>adapters/postgres/\<close> over the tables of its DDL texts, each statement a transaction that may
    fail; what the driver makes of a timestamp, the vector distance and the order in which an
    index scan visits the rows are parameters.  Qdrant_Vector: \<^verbatim>\<open>adapters/qdrant/vector_index.py\<close>
    over the client of the vector database.  Vector_Retrieval runs the retrieval service over them.
  \<^item> Sdk_Client: \<^verbatim>\<open>sdk/\<close> over the function that sends a request.  Sdk_Server connects it to the HTTP
    application, Sdk_Local to local mode below it, Local_Returns shows that such a call ends.
    Sdk_Queries does for searches and recalls what Sdk_Server does for writes.
    Sdk_Tools: \<^verbatim>\<open>mcp/server.py\<close> and \<^verbatim>\<open>integrations/langgraph.py\<close>.  Sdk_Deployment: the state fragments of
    \<^verbatim>\<open>integrations/state_models.py\<close> and the server the command line starts, \<^verbatim>\<open>adapters/rest/app.py\<close>.
  \<^item> Observability: \<^verbatim>\<open>config/\<close>, the metrics and the tracing of \<^verbatim>\<open>observability/\<close>, and the connection
    pool.  Service_Metrics: the services under their latency trackers.
    Logging: \<^verbatim>\<open>observability/logging.py\<close> over the standard library's loggers and handlers.

  \<^bold>\<open>Contracts.\<close>  Record_Contract, Fact_Contract and Audit_Contract state as locales what a
  repository promises (what a lookup returns after a save, what every operation leaves alone)
  against an abstract store; Ingestion, Fact_Extraction and Consolidation prove the services'
  lemmas from those laws, and Local_Mode and Local_Services interpret them on the SQLite
  definitions, so that the properties of the local services rest on the code of both sides.
  Postgres_Records and Postgres_Logs interpret the record and audit contracts on the Postgres
  adapters.  Vector_Contract states the vector index, and as \<open>vector_store\<close> one whose acknowledged
  deletions have been done; Postgres_Vector provides both for every ordered scan of the table,
  Qdrant_Vector only the first, for every server that keeps the points it is given: it acknowledges
  deletions the server refused.

  \<^bold>\<open>What is shown.\<close>  From end to end, from the SDK call through HTTP and the middleware to the
  SQLite tables: a write reaches its use case unchanged, returns when the database works, has stored
  exactly its record when it says so, can be retried under its key, and an exception reaches the
  caller as the error of its class; a search returns every item its use case found, and a recall the
  prefix that fits the token budget of the request.  Tenant isolation of the repositories, of the
  vector indexes, of the HTTP API and of the MCP tools; exactly what a listing returns; that a write is audited and that the audit logs only grow; that
  closing a fact is atomic; round trips of what is stored; the fused ranking against its formula;
  the token budget of a recall; the state machine of the scheduler and its shutdown; the versions the
  migrations record and the schema they make, which the Alembic revision makes as well and can undo;
  what the health endpoints report of every port; that the metric calls of the services fit their
  instruments.  Several theorems
  show what the code does where it differs from its documents; the manifest lists them as findings.

  \<^bold>\<open>Bounds and termination.\<close>  No definition needs fuel: the loops of the code run over lists, and
  the endless loops of the scheduler are given by their first \<open>n\<close> turns, for every \<open>n\<close>, its tasks by
  the steps of a relation.  An operation that raises or returns is a total function, so that to
  return is to have a result of the form \<open>Inr\<close>.

  \<^bold>\<open>Not modelled.\<close>  The database engines below the tables, HTTP and JSON parsing (FastAPI,
  pydantic, httpx), LLM and embedding services, the rendering of log lines, what uvicorn and Alembic do
  with the application and the revision they are given, the stub modules that only hold a docstring, and timing.
  Concurrency is modelled where the code depends on it, in the scheduler and for pending enrichments;
  elsewhere a method runs without interleaving.
\<close>

end
